(* ===== verification/Codec_Laws.thy ===== *)
theory Codec_Laws
  imports Cri_Prelude
begin

text \<open>
  The two interfaces of the wire formats.  A \<open>codec\<close> promises that decoding undoes
  encoding on well-formed values; its clients may rely on the encoding being injective.
  A \<open>framed\<close> format is self-delimiting: a parser finds the frame at the front of a
  buffer whatever follows it, reports how many bytes it used, and asks for more on every
  proper prefix.  Its client is the read loop that reassembles frames from network chunks.
\<close>

locale codec =
  fixes enc :: "'a \<Rightarrow> 'b"
    and dec :: "'b \<Rightarrow> 'a option"
    and ok :: "'a \<Rightarrow> bool"
  assumes dec_enc: "ok x \<Longrightarrow> dec (enc x) = Some x"
begin

lemma enc_inject: "ok x \<Longrightarrow> ok y \<Longrightarrow> enc x = enc y \<longleftrightarrow> x = y"
  by (metis dec_enc option.inject)

lemma inj_on_enc: "inj_on enc {x. ok x}"
  by (rule inj_onI) (simp add: enc_inject)

lemma list_roundtrip: "list_all ok xs \<Longrightarrow> map dec (map enc xs) = map Some xs"
  by (induction xs) (simp_all add: dec_enc)

end

text \<open>
  The read loop: parse the buffer, and on an incomplete frame append the next chunk.  The
  result is the frame, the rest of the buffer and the chunks not read yet; \<open>None\<close> when the
  chunks end first.
\<close>

fun read_one :: "('b list \<Rightarrow> ('f \<times> nat) option) \<Rightarrow> 'b list list \<Rightarrow> 'b list
    \<Rightarrow> ('f \<times> 'b list \<times> 'b list list) option" where
  "read_one parse cs buf =
     (case parse buf of
        Some (f, n) \<Rightarrow> Some (f, drop n buf, cs)
      | None \<Rightarrow> (case cs of [] \<Rightarrow> None | c # cs' \<Rightarrow> read_one parse cs' (buf @ c)))"

fun read_n :: "nat \<Rightarrow> ('b list \<Rightarrow> ('f \<times> nat) option) \<Rightarrow> 'b list list \<Rightarrow> 'b list
    \<Rightarrow> 'f list option" where
  "read_n 0 parse cs buf = Some []"
| "read_n (Suc k) parse cs buf =
     (case read_one parse cs buf of
        None \<Rightarrow> None
      | Some (f, buf', cs') \<Rightarrow> map_option ((#) f) (read_n k parse cs' buf'))"

declare read_one.simps [simp del]

locale framed =
  fixes ser :: "'f \<Rightarrow> 'b list"
    and parse :: "'b list \<Rightarrow> ('f \<times> nat) option"
    and ok :: "'f \<Rightarrow> bool"
  assumes parse_ser: "ok f \<Longrightarrow> parse (ser f @ rest) = Some (f, length (ser f))"
    and parse_short: "ok f \<Longrightarrow> n < length (ser f) \<Longrightarrow> parse (take n (ser f)) = None"
begin

text \<open>One frame is found however the bytes are cut into chunks.\<close>

lemma read_one_ser:
  assumes "ok f" and "buf @ concat cs = ser f @ rest"
  shows "\<exists>buf' cs'. read_one parse cs buf = Some (f, buf', cs') \<and> buf' @ concat cs' = rest"
  using assms
proof (induction cs arbitrary: buf)
  case Nil
  then show ?case by (simp add: read_one.simps [of parse "[]"] parse_ser)
next
  case (Cons c cs)
  show ?case
  proof (cases "length (ser f) \<le> length buf")
    case True
    with Cons.prems obtain more where "buf = ser f @ more"
      by (metis append_eq_append_conv_if append_take_drop_id)
    with Cons.prems show ?thesis
      by (simp add: read_one.simps [of parse "c # cs"] parse_ser)
  next
    case False
    with Cons.prems have "buf = take (length buf) (ser f)"
      by (metis append_eq_append_conv_if linorder_le_cases)
    with False Cons.prems parse_short have "parse buf = None"
      by (metis not_le_imp_less)
    moreover have "\<exists>buf' cs'. read_one parse cs (buf @ c) = Some (f, buf', cs')
        \<and> buf' @ concat cs' = rest"
      using Cons.IH [of "buf @ c"] Cons.prems by simp
    ultimately show ?thesis
      by (simp add: read_one.simps [of parse "c # cs"])
  qed
qed

text \<open>A whole conversation is recovered frame by frame, whatever the segmentation.\<close>

lemma read_n_ser:
  assumes "list_all ok fs" and "buf @ concat cs = concat (map ser fs) @ rest"
  shows "read_n (length fs) parse cs buf = Some fs"
  using assms
proof (induction fs arbitrary: buf cs)
  case Nil
  then show ?case by simp
next
  case (Cons f fs)
  then obtain buf' cs' where "read_one parse cs buf = Some (f, buf', cs')"
    and "buf' @ concat cs' = concat (map ser fs) @ rest"
    using read_one_ser [of f buf cs "concat (map ser fs) @ rest"] by auto
  with Cons show ?case by simp
qed

end

text \<open>A framed format is a codec of single frames.\<close>

sublocale framed \<subseteq> whole: codec ser "\<lambda>bs. map_option fst (parse bs)" ok
proof
  fix f
  assume "ok f"
  then show "map_option fst (parse (ser f)) = Some f"
    using parse_ser [of f "[]"] by simp
qed

end
