(* ===== verification/Base64.thy ===== *)
theory Base64
  imports Codec_Laws
begin

text \<open>
  \<open>crates/lightr-cri-stream/src/b64.rs\<close>: the hand-written base64.  The URL alphabet without
  padding spells the streaming tokens; the standard alphabet with padding carries the
  \<open>base64.channel.k8s.io\<close> frames.  The decoder keeps a 32-bit accumulator whose high bits are
  never cleared, so the round trip is proved for an accumulator with any contents.
\<close>

definition STD_ALPHABET :: string where
  "STD_ALPHABET = ''ABCDEFGHIJKLMNOPQRSTUVWXYZabcdefghijklmnopqrstuvwxyz0123456789+/''"

definition URL_ALPHABET :: string where
  "URL_ALPHABET = ''ABCDEFGHIJKLMNOPQRSTUVWXYZabcdefghijklmnopqrstuvwxyz0123456789-_''"

text \<open>The symbol for the six bits of \<open>n\<close> that start at bit \<open>k\<close>.\<close>

definition sextet :: "nat \<Rightarrow> u32 \<Rightarrow> u32" where
  "sextet k n = drop_bit k n AND 63"

definition symbol :: "string \<Rightarrow> nat \<Rightarrow> u32 \<Rightarrow> char" where
  "symbol al k n = al ! unat (sextet k n)"

fun encode_with :: "string \<Rightarrow> bool \<Rightarrow> bytes \<Rightarrow> string" where
  "encode_with al pad (a # b # c # rest) =
     (let n = push_bit 16 (ucast a) OR push_bit 8 (ucast b) OR ucast c
      in [symbol al 18 n, symbol al 12 n, symbol al 6 n, symbol al 0 n] @ encode_with al pad rest)"
| "encode_with al pad [a, b] =
     (let n = push_bit 16 (ucast a) OR push_bit 8 (ucast b)
      in [symbol al 18 n, symbol al 12 n, symbol al 6 n] @ (if pad then ''='' else []))"
| "encode_with al pad [a] =
     (let n = push_bit 16 (ucast a)
      in [symbol al 18 n, symbol al 12 n] @ (if pad then ''=='' else []))"
| "encode_with al pad [] = []"

definition encode_url_nopad :: "bytes \<Rightarrow> string" where
  "encode_url_nopad input = encode_with URL_ALPHABET False input"

definition encode_std :: "bytes \<Rightarrow> string" where
  "encode_std input = encode_with STD_ALPHABET True input"

fun position :: "'a \<Rightarrow> 'a list \<Rightarrow> nat option" where
  "position x [] = None"
| "position x (y # ys) = (if y = x then Some 0 else map_option Suc (position x ys))"

definition decode_value :: "string \<Rightarrow> u8 \<Rightarrow> u8 option" where
  "decode_value al b = map_option of_nat (position b (as_bytes al))"

fun decode_loop :: "u32 \<Rightarrow> nat \<Rightarrow> bytes \<Rightarrow> bytes \<Rightarrow> bytes option" where
  "decode_loop acc nbits out [] = Some out"
| "decode_loop acc nbits out (b # bs) =
     (if b = of_char (CHR ''='') \<or> b = 13 \<or> b = 10 then decode_loop acc nbits out bs
      else (case decode_value STD_ALPHABET b of
              None \<Rightarrow> None
            | Some v \<Rightarrow>
                (let acc' = push_bit 6 acc OR ucast v; n' = nbits + 6
                 in if 8 \<le> n'
                    then decode_loop acc' (n' - 8) (out @ [ucast (drop_bit (n' - 8) acc')]) bs
                    else decode_loop acc' n' out bs)))"

definition decode_std :: "bytes \<Rightarrow> bytes option" where
  "decode_std input = decode_loop 0 0 [] input"

section \<open>Alphabets\<close>

lemma length_alphabets [simp]: "length STD_ALPHABET = 64" "length URL_ALPHABET = 64"
  by (simp_all add: STD_ALPHABET_def URL_ALPHABET_def)

lemma distinct_STD: "distinct STD_ALPHABET"
  by (simp add: STD_ALPHABET_def)

lemma STD_no_skip:
  "c \<in> set STD_ALPHABET \<Longrightarrow> (of_char c :: u8) \<noteq> of_char (CHR ''='') \<and> (of_char c :: u8) \<noteq> 13 \<and> (of_char c :: u8) \<noteq> 10"
  by (auto simp: STD_ALPHABET_def)

lemma position_nth: "distinct xs \<Longrightarrow> i < length xs \<Longrightarrow> position (xs ! i) xs = Some i"
  by (induction xs arbitrary: i) (auto simp: nth_Cons split: nat.splits)

lemma sextet_bound [simp]: "unat (sextet k n) < 64"
proof -
  have "unat (drop_bit k n AND mask 6) < 64"
    by (simp flip: take_bit_eq_mask add: take_bit_eq_mod unat_mod)
  then show ?thesis
    by (simp add: sextet_def mask_eq_exp_minus_1)
qed

lemma symbol_in_alphabet: "length al = 64 \<Longrightarrow> symbol al k n \<in> set al"
  by (simp add: symbol_def)

lemma decode_value_symbol:
  "decode_value STD_ALPHABET (of_char (symbol STD_ALPHABET k n)) = Some (ucast (sextet k n))"
proof -
  have "of_char (symbol STD_ALPHABET k n) = as_bytes STD_ALPHABET ! unat (sextet k n)"
    by (simp add: symbol_def as_bytes_def)
  moreover have "distinct (as_bytes STD_ALPHABET)"
    using distinct_STD by (simp add: as_bytes_def distinct_map inj_on_def)
  ultimately show ?thesis
    by (simp add: decode_value_def position_nth)
qed

lemma sextet_mask: "sextet k n = drop_bit k n AND mask 6"
  by (simp add: sextet_def mask_eq_exp_minus_1)

lemma ucast_sextet [simp]: "(ucast (ucast (sextet k n) :: u8) :: u32) = sextet k n"
  unfolding sextet_mask by (rule bit_word_eqI) (auto simp: bit_simps)

section \<open>One decoder step on a symbol\<close>

lemma decode_symbol_low:
  "nbits < 2 \<Longrightarrow> decode_loop acc nbits out (of_char (symbol STD_ALPHABET k n) # bs) =
     decode_loop (push_bit 6 acc OR sextet k n) (nbits + 6) out bs"
  using STD_no_skip [OF symbol_in_alphabet [of STD_ALPHABET k n]]
  by (simp add: decode_value_symbol)

lemma decode_symbol_high:
  "2 \<le> nbits \<Longrightarrow> decode_loop acc nbits out (of_char (symbol STD_ALPHABET k n) # bs) =
     decode_loop (push_bit 6 acc OR sextet k n) (nbits - 2)
       (out @ [ucast (drop_bit (nbits - 2) (push_bit 6 acc OR sextet k n))]) bs"
  using STD_no_skip [OF symbol_in_alphabet [of STD_ALPHABET k n]]
  by (simp add: decode_value_symbol)

lemma decode_pad [simp]: "decode_loop acc nbits out (61 # bs) = decode_loop acc nbits out bs"
  by simp

declare decode_loop.simps(2) [simp del]

text \<open>
  Three bytes become four symbols and come back, whatever the accumulator held: after \<open>j\<close>
  symbols the low \<open>6 j\<close> bits of the accumulator are the top ones of the 24-bit group.
\<close>

definition shift_in :: "u32 \<Rightarrow> u32 \<Rightarrow> u32" where
  "shift_in acc v = push_bit 6 acc OR v"

lemma bit_shift_in_sextet:
  "m < 26 \<Longrightarrow> bit (shift_in acc (sextet k n)) m =
     (if m < 6 then bit n (k + m) else bit acc (m - 6))"
  by (auto simp: shift_in_def sextet_mask bit_simps)

lemma shift_in_aligned:
  assumes "\<And>m. m < w \<Longrightarrow> bit acc m = bit n (k + 6 + m)" and "m < w + 6" and "w \<le> 18"
  shows "bit (shift_in acc (sextet k n)) m = bit n (k + m)"
proof (cases "m < 6")
  case True
  then show ?thesis by (simp add: bit_shift_in_sextet)
next
  case False
  with assms show ?thesis
    by (simp add: bit_shift_in_sextet)
qed

lemma group_bits:
  fixes acc :: u32 and n :: u32
  defines "acc1 \<equiv> shift_in acc (sextet 18 n)"
  defines "acc2 \<equiv> shift_in acc1 (sextet 12 n)"
  defines "acc3 \<equiv> shift_in acc2 (sextet 6 n)"
  defines "acc4 \<equiv> shift_in acc3 (sextet 0 n)"
  shows "m < 12 \<Longrightarrow> bit acc2 m = bit n (12 + m)"
    and "m < 18 \<Longrightarrow> bit acc3 m = bit n (6 + m)"
    and "m < 24 \<Longrightarrow> bit acc4 m = bit n m"
proof -
  have 1: "bit acc1 m = bit n (18 + m)" if "m < 6" for m
    unfolding acc1_def using shift_in_aligned [of 0 acc n 18 m] that by simp
  have 2: "bit acc2 m = bit n (12 + m)" if "m < 12" for m
    unfolding acc2_def using shift_in_aligned [of 6 acc1 n 12 m] that 1 by simp
  have 3: "bit acc3 m = bit n (6 + m)" if "m < 18" for m
    unfolding acc3_def using shift_in_aligned [of 12 acc2 n 6 m] that 2 by simp
  have 4: "bit acc4 m = bit n m" if "m < 24" for m
    unfolding acc4_def using shift_in_aligned [of 18 acc3 n 0 m] that 3 by simp
  show "m < 12 \<Longrightarrow> bit acc2 m = bit n (12 + m)" and "m < 18 \<Longrightarrow> bit acc3 m = bit n (6 + m)"
    and "m < 24 \<Longrightarrow> bit acc4 m = bit n m"
    using 2 3 4 by simp_all
qed

definition join3 :: "u8 \<Rightarrow> u8 \<Rightarrow> u8 \<Rightarrow> u32" where
  "join3 a b c = push_bit 16 (ucast a) OR push_bit 8 (ucast b) OR ucast c"

lemma bit_join3:
  "m < 8 \<Longrightarrow> bit (join3 a b c) (16 + m) = bit a m"
  "m < 8 \<Longrightarrow> bit (join3 a b c) (8 + m) = bit b m"
  "m < 8 \<Longrightarrow> bit (join3 a b c) m = bit c m"
  by (auto simp: join3_def bit_simps dest: bit_imp_le_length)

lemma group_bytes:
  fixes a b c :: u8
  fixes acc :: u32
  defines "n \<equiv> join3 a b c"
  defines "acc2 \<equiv> shift_in (shift_in acc (sextet 18 n)) (sextet 12 n)"
  defines "acc3 \<equiv> shift_in acc2 (sextet 6 n)"
  defines "acc4 \<equiv> shift_in acc3 (sextet 0 n)"
  shows "ucast (drop_bit 4 acc2) = a" and "ucast (drop_bit 2 acc3) = b" and "ucast acc4 = c"
proof -
  note bits = group_bits [of _ acc n, folded acc2_def, folded acc3_def, folded acc4_def]
  show "ucast (drop_bit 4 acc2) = a"
  proof (rule bit_word_eqI)
    fix m
    assume m: "m < LENGTH(8)"
    then have "bit (ucast (drop_bit 4 acc2) :: u8) m = bit acc2 (4 + m)"
      by (simp add: bit_simps)
    also have "\<dots> = bit n (16 + m)"
      using bits(1) [of "4 + m"] m by simp
    finally show "bit (ucast (drop_bit 4 acc2) :: u8) m = bit a m"
      using m by (simp add: n_def bit_join3)
  qed
  show "ucast (drop_bit 2 acc3) = b"
  proof (rule bit_word_eqI)
    fix m
    assume m: "m < LENGTH(8)"
    then have "bit (ucast (drop_bit 2 acc3) :: u8) m = bit acc3 (2 + m)"
      by (simp add: bit_simps)
    also have "\<dots> = bit n (8 + m)"
      using bits(2) [of "2 + m"] m by simp
    finally show "bit (ucast (drop_bit 2 acc3) :: u8) m = bit b m"
      using m by (simp add: n_def bit_join3)
  qed
  show "ucast acc4 = c"
  proof (rule bit_word_eqI)
    fix m
    assume m: "m < LENGTH(8)"
    then have "bit (ucast acc4 :: u8) m = bit acc4 m"
      by (simp add: bit_simps)
    then show "bit (ucast acc4 :: u8) m = bit c m"
      using bits(3) [of m] m by (simp add: n_def bit_join3)
  qed
qed

section \<open>Round trip\<close>

lemmas decode_steps =
  decode_symbol_low [folded shift_in_def] decode_symbol_high [folded shift_in_def]

lemma join3_zero:
  "push_bit 16 (ucast a) OR push_bit 8 (ucast b) = join3 a b 0"
  "push_bit 16 (ucast a) = join3 a 0 0"
  by (simp_all add: join3_def)

lemma decode_encode:
  "decode_loop acc 0 out (as_bytes (encode_with STD_ALPHABET pad bs)) = Some (out @ bs)"
proof (induction STD_ALPHABET pad bs arbitrary: acc out rule: encode_with.induct)
  case (1 pad a b c rest)
  then show ?case
    by (simp add: Let_def as_bytes_def decode_steps group_bytes flip: join3_def)
next
  case (2 pad a b)
  then show ?case
    by (simp add: Let_def as_bytes_def decode_steps group_bytes join3_zero(1))
next
  case (3 pad a)
  then show ?case
    by (simp add: Let_def as_bytes_def decode_steps group_bytes join3_zero(2))
next
  case (4 pad)
  then show ?case by (simp add: as_bytes_def)
qed

lemma decode_encode_std: "decode_std (as_bytes (encode_std bs)) = Some bs"
  by (simp add: decode_std_def encode_std_def decode_encode)

interpretation b64: codec "\<lambda>bs. as_bytes (encode_std bs)" decode_std "\<lambda>_. True"
  by unfold_locales (rule decode_encode_std)

text \<open>Lengths, and the alphabet of a token.\<close>

lemma div3_step: "(5 + n) div 3 = Suc (Suc (Suc n) div 3)" for n :: nat
  using div_add_self1 [of 3 "2 + n"] by simp

lemma length_encode_std: "length (encode_std bs) = 4 * ((length bs + 2) div 3)"
proof -
  have "length (encode_with al True bs) = 4 * ((length bs + 2) div 3)" for al
    by (induction al True bs rule: encode_with.induct) (simp_all add: Let_def div3_step)
  then show ?thesis by (simp add: encode_std_def)
qed

lemma length_encode_url: "length (encode_url_nopad bs) = (4 * length bs + 2) div 3"
proof -
  have "length (encode_with al False bs) = (4 * length bs + 2) div 3" for al
    by (induction al False bs rule: encode_with.induct) (simp_all add: Let_def)
  then show ?thesis by (simp add: encode_url_nopad_def)
qed

lemma set_encode_url: "set (encode_url_nopad bs) \<subseteq> set URL_ALPHABET"
proof -
  have "set (encode_with al False bs) \<subseteq> set al" if "length al = 64" for al
    using that
    by (induction al False bs rule: encode_with.induct)
      (simp_all add: Let_def symbol_in_alphabet)
  then show ?thesis by (simp add: encode_url_nopad_def)
qed

end
