(* ===== verification/Channel_Framing.thy ===== *)
theory Channel_Framing
  imports Base64
begin

text \<open>
  \<open>crates/lightr-cri-stream/src/channel.rs\<close>: the channel numbers of exec and attach sessions,
  the binary frame \<open>[channel | payload]\<close>, the base64 text frame (channel digit, then base64 of
  the payload), and the resize payload.  JSON is \<open>serde_json\<close>'s: \<open>parse_resize\<close> takes the
  sequence of results the streaming deserialiser yields on the payload.
\<close>

definition STDIN :: u8 where "STDIN = 0"
definition STDOUT :: u8 where "STDOUT = 1"
definition STDERR :: u8 where "STDERR = 2"
definition ERROR_CH :: u8 where "ERROR_CH = 3"
definition RESIZE :: u8 where "RESIZE = 4"

lemmas channel_defs = STDIN_def STDOUT_def STDERR_def ERROR_CH_def RESIZE_def

record TerminalSize =
  ts_width :: u16
  ts_height :: u16

text \<open>\<open>while let Some(Ok(sz)) = de.next()\<close>: the last size before the first error or the end.\<close>

fun resize_loop :: "TerminalSize option \<Rightarrow> TerminalSize option list \<Rightarrow> TerminalSize option" where
  "resize_loop lst [] = lst"
| "resize_loop lst (Some sz # rs) = resize_loop (Some sz) rs"
| "resize_loop lst (None # rs) = lst"

definition parse_resize :: "(bytes \<Rightarrow> TerminalSize option list) \<Rightarrow> bytes \<Rightarrow> TerminalSize option" where
  "parse_resize de payload = resize_loop None (de payload)"

definition encode_binary :: "u8 \<Rightarrow> bytes \<Rightarrow> bytes" where
  "encode_binary channel payload = channel # payload"

fun decode_binary :: "bytes \<Rightarrow> (u8 \<times> bytes) option" where
  "decode_binary [] = None"
| "decode_binary (c # rest) = Some (c, rest)"

definition encode_base64 :: "u8 \<Rightarrow> bytes \<Rightarrow> string" where
  "encode_base64 channel payload = char_of (unat (48 + channel)) # encode_std payload"

fun decode_base64 :: "bytes \<Rightarrow> (u8 \<times> bytes) option" where
  "decode_base64 [] = None"
| "decode_base64 (first # rest) =
     (if \<not> (48 \<le> first \<and> first \<le> 57) then None
      else (case decode_std rest of None \<Rightarrow> None | Some payload \<Rightarrow> Some (first - 48, payload)))"

interpretation chan_binary: codec "\<lambda>(c, p). encode_binary c p" decode_binary "\<lambda>_. True"
  by unfold_locales (auto simp: encode_binary_def)

lemma channel_digit: "c \<le> 9 \<Longrightarrow> 48 \<le> 48 + c \<and> 48 + c \<le> (57 :: u8)"
  by (simp add: word_le_nat_alt unat_word_ariths unat_arith_simps)

lemma decode_encode_base64:
  assumes "c \<le> 9"
  shows "decode_base64 (as_bytes (encode_base64 c p)) = Some (c, p)"
proof -
  have "as_bytes (encode_base64 c p) = as_bytes (of_bytes [48 + c]) @ as_bytes (encode_std p)"
    by (simp add: encode_base64_def as_bytes_def of_bytes_def)
  then have "as_bytes (encode_base64 c p) = (48 + c) # as_bytes (encode_std p)"
    by simp
  then show ?thesis
    using channel_digit [OF assms] by (simp add: decode_encode_std)
qed

interpretation chan_base64: codec "\<lambda>(c, p). as_bytes (encode_base64 c p)" decode_base64
  "\<lambda>(c, p). c \<le> 9"
  by unfold_locales (auto simp: decode_encode_base64)

lemma resize_loop_all_ok: "resize_loop lst (map Some szs) = (if szs = [] then lst else Some (List.last szs))"
  by (induction szs arbitrary: lst) auto

lemma resize_loop_stops: "resize_loop lst (map Some szs @ None # rs) = resize_loop lst (map Some szs)"
  by (induction szs arbitrary: lst) auto

end
