(* ===== verification/Ordered_Map.thy ===== *)
theory Ordered_Map
  imports Cri_Prelude
begin

text \<open>
  Rust's \<open>BTreeMap\<close>: an association list kept sorted by its keys, so that iteration
  (\<open>values\<close>) visits the keys in increasing order.  \<open>get\<close> is \<open>map_of\<close>.  The laws the
  rest of the development uses are stated against the partial function \<open>map_of m\<close>.
\<close>

type_synonym ('k, 'v) btree = "('k \<times> 'v) list"

fun bt_insert :: "'k::linorder \<Rightarrow> 'v \<Rightarrow> ('k, 'v) btree \<Rightarrow> ('k, 'v) btree" where
  "bt_insert k v [] = [(k, v)]"
| "bt_insert k v ((k', v') # m) =
     (if k < k' then (k, v) # (k', v') # m
      else if k = k' then (k, v) # m
      else (k', v') # bt_insert k v m)"

definition bt_remove :: "'k \<Rightarrow> ('k, 'v) btree \<Rightarrow> ('k, 'v) btree" where
  "bt_remove k m = filter (\<lambda>(k', _). k' \<noteq> k) m"

definition bt_values :: "('k, 'v) btree \<Rightarrow> 'v list" where
  "bt_values m = map snd m"

definition bt_ok :: "('k::linorder, 'v) btree \<Rightarrow> bool" where
  "bt_ok m \<longleftrightarrow> sorted_wrt (<) (map fst m)"

lemma bt_ok_Nil [simp]: "bt_ok []"
  by (simp add: bt_ok_def)

lemma map_of_bt_insert [simp]: "map_of (bt_insert k v m) = (map_of m)(k \<mapsto> v)"
  by (induction k v m rule: bt_insert.induct) auto

lemma map_of_bt_remove [simp]: "map_of (bt_remove k m) = (map_of m)(k := None)"
  by (induction m) (auto simp: bt_remove_def)

lemma keys_bt_insert: "fst ` set (bt_insert k v m) = insert k (fst ` set m)"
  by (induction k v m rule: bt_insert.induct) auto

lemma bt_ok_insert [simp]: "bt_ok m \<Longrightarrow> bt_ok (bt_insert k v m)"
proof (induction k v m rule: bt_insert.induct)
  case (2 k v k' v' m)
  have "\<forall>x \<in> set (map fst (bt_insert k v m)). k' < x" if "k' < k" "\<forall>x \<in> set (map fst m). k' < x"
    using that keys_bt_insert [of k v m] by auto
  with 2 show ?case by (auto simp: bt_ok_def)
qed (simp add: bt_ok_def)

lemma bt_ok_remove [simp]: "bt_ok m \<Longrightarrow> bt_ok (bt_remove k m)"
  by (induction m) (auto simp: bt_ok_def bt_remove_def)

lemma bt_ok_distinct: "bt_ok m \<Longrightarrow> distinct (map fst m)"
  by (auto simp: bt_ok_def strict_sorted_iff)

lemma bt_values_iff:
  "bt_ok m \<Longrightarrow> v \<in> set (bt_values m) \<longleftrightarrow> (\<exists>k. map_of m k = Some v)"
  by (force simp: bt_values_def image_iff dest: map_of_SomeD
      intro: map_of_is_SomeI [OF bt_ok_distinct])

lemma bt_remove_absent: "map_of m k = None \<Longrightarrow> bt_remove k m = m"
  by (induction m) (auto simp: bt_remove_def split: if_splits)

text \<open>A sorted map is determined by its lookups.\<close>

lemma bt_ext:
  assumes "bt_ok m" and "bt_ok n" and "map_of m = map_of n"
  shows "m = n"
proof (rule map_sorted_distinct_set_unique)
  show "inj_on fst (set m \<union> set n)"
  proof (rule inj_onI)
    fix x y
    assume "x \<in> set m \<union> set n" "y \<in> set m \<union> set n" "fst x = fst y"
    then show "x = y"
      using assms by (metis (no_types) Un_iff bt_ok_distinct map_of_is_SomeI option.inject
          prod.collapse)
  qed
  show "sorted (map fst m)" "sorted (map fst n)"
    using assms by (simp_all add: bt_ok_def strict_sorted_iff)
  show "distinct (map fst m)" "distinct (map fst n)"
    using assms by (simp_all add: bt_ok_distinct)
  show "set m = set n"
    using assms by (metis bt_ok_distinct map_of_eqI set_map_of_compr)
qed

end
