(* ===== verification/Json_Value.thy ===== *)
theory Json_Value
  imports Ordered_Map
begin

text \<open>
  \<open>serde_json::Value\<close> as the sources use it.  An object is a \<open>BTreeMap\<close> (the crate's default),
  so inserting a key replaces its value and iteration is sorted.  Text is read and written by
  the crate; the theories that need it take the reader and the writer as parameters.
\<close>

datatype json =
    JNull
  | JBool bool
  | JNum int
  | JStr string
  | JArr "json list"
  | JObj "(string \<times> json) list"

fun as_str :: "json \<Rightarrow> string option" where
  "as_str (JStr s) = Some s"
| "as_str _ = None"

fun as_bool :: "json \<Rightarrow> bool option" where
  "as_bool (JBool b) = Some b"
| "as_bool _ = None"

fun as_array :: "json \<Rightarrow> json list option" where
  "as_array (JArr vs) = Some vs"
| "as_array _ = None"

fun as_object :: "json \<Rightarrow> (string, json) btree option" where
  "as_object (JObj m) = Some m"
| "as_object _ = None"

text \<open>\<open>v.get(key)\<close> is \<open>None\<close> on anything that is not an object.\<close>

fun json_get :: "json \<Rightarrow> string \<Rightarrow> json option" where
  "json_get (JObj m) k = map_of m k"
| "json_get _ k = None"

lemma json_get_as_object: "as_object v = Some m \<Longrightarrow> json_get v k = map_of m k"
  by (cases v) auto

end
