(* ===== verification/Exit_Status.thy ===== *)
theory Exit_Status
  imports Json_Value
begin

text \<open>
  \<open>crates/lightr-cri-stream/src/status.rs\<close>: the v4 \<open>metav1.Status\<close> that ends an exec or attach
  session.  The derived serialiser writes the fields in declaration order and skips the ones
  that are \<open>None\<close>; turning the resulting object into text is \<open>serde_json\<close>'s.
\<close>

record Cause =
  ca_typ :: string
  ca_message :: string

record Details =
  de_causes :: "Cause list"

record Status =
  sta_status :: string
  sta_message :: "string option"
  sta_reason :: "string option"
  sta_details :: "Details option"

definition exit_status :: "i32 \<Rightarrow> Status" where
  "exit_status exit_code =
     (if exit_code = 0 then
        \<lparr>sta_status = ''Success'', sta_message = None, sta_reason = None, sta_details = None\<rparr>
      else
        \<lparr>sta_status = ''Failure'',
         sta_message = Some (''command terminated with non-zero exit code: error executing command, exit status ''
           @ int_str (sint exit_code)),
         sta_reason = Some ''NonZeroExitCode'',
         sta_details = Some \<lparr>de_causes =
           [\<lparr>ca_typ = ''ExitCode'', ca_message = int_str (sint exit_code)\<rparr>]\<rparr>\<rparr>)"

text \<open>The fields the derived serialiser emits, in order.\<close>

definition cause_json :: "Cause \<Rightarrow> json" where
  "cause_json c = JObj [(''type'', JStr (ca_typ c)), (''message'', JStr (ca_message c))]"

definition opt_field :: "string \<Rightarrow> json option \<Rightarrow> (string \<times> json) list" where
  "opt_field k v = (case v of None \<Rightarrow> [] | Some j \<Rightarrow> [(k, j)])"

definition status_json :: "Status \<Rightarrow> json" where
  "status_json s =
     JObj ([(''metadata'', JObj []), (''status'', JStr (sta_status s))]
       @ opt_field ''message'' (map_option JStr (sta_message s))
       @ opt_field ''reason'' (map_option JStr (sta_reason s))
       @ opt_field ''details''
           (map_option (\<lambda>d. JObj [(''causes'', JArr (map cause_json (de_causes d)))]) (sta_details s)))"

definition exit_status_json :: "(json \<Rightarrow> bytes) \<Rightarrow> i32 \<Rightarrow> bytes" where
  "exit_status_json to_vec exit_code = to_vec (status_json (exit_status exit_code))"

section \<open>What the client reads back\<close>

text \<open>
  The remotecommand v4 client: \<open>Success\<close> is exit code 0; \<open>Failure\<close> with reason
  \<open>NonZeroExitCode\<close> carries the code as the decimal message of the \<open>ExitCode\<close> cause.
\<close>

definition causes_of :: "json \<Rightarrow> json list" where
  "causes_of v =
     (case Option.bind (json_get v ''details'') (\<lambda>d. Option.bind (json_get d ''causes'') as_array) of
        None \<Rightarrow> [] | Some cs \<Rightarrow> cs)"

definition client_exit_code :: "json \<Rightarrow> int option" where
  "client_exit_code v =
     (if Option.bind (json_get v ''status'') as_str = Some ''Success'' then Some 0
      else if Option.bind (json_get v ''reason'') as_str = Some ''NonZeroExitCode'' then
        (case List.find (\<lambda>c. Option.bind (json_get c ''type'') as_str = Some ''ExitCode'') (causes_of v) of
           None \<Rightarrow> None
         | Some c \<Rightarrow> Option.bind (Option.bind (json_get c ''message'') as_str) parse_int)
      else None)"

lemma client_reads_exit_code: "client_exit_code (status_json (exit_status code)) = Some (sint code)"
  by (simp add: client_exit_code_def status_json_def exit_status_def opt_field_def causes_of_def
      cause_json_def parse_int_int_str)

end
