(* ===== verification/Protocol_Negotiation.thy ===== *)
theory Protocol_Negotiation
  imports Cri_Prelude
begin

text \<open>
  Choosing a stream protocol from what the client offers: \<open>negotiate_exec_protocol\<close> of
  \<open>spdy/mod.rs\<close> (comma or space separated, highest version wins), \<open>negotiate\<close> of \<open>ws.rs\<close>
  (comma separated, server preference) and \<open>pick_pf_protocol\<close> of \<open>server.rs\<close>.  Header values
  that reach this code are visible ASCII, so ASCII trimming is what \<open>str::trim\<close> does on them.
\<close>

definition SPDY_EXEC_PROTOCOLS :: "string list" where
  "SPDY_EXEC_PROTOCOLS =
     [''channel.k8s.io'', ''v2.channel.k8s.io'', ''v3.channel.k8s.io'', ''v4.channel.k8s.io'',
      ''v5.channel.k8s.io'']"

definition SPDY_PROTOCOL_V4 :: string where "SPDY_PROTOCOL_V4 = ''v4.channel.k8s.io''"
definition SPDY_PORTFORWARD :: string where "SPDY_PORTFORWARD = ''portforward.k8s.io''"

definition offered_spdy :: "string \<Rightarrow> string list" where
  "offered_spdy header =
     filter (\<lambda>s. s \<noteq> [])
       (map trim (concat (map (split_on (CHR '' '')) (split_on (CHR '','') header))))"

definition negotiate_exec_protocol :: "string \<Rightarrow> string option" where
  "negotiate_exec_protocol header =
     List.find (\<lambda>sv. sv \<in> set (offered_spdy header)) (rev SPDY_EXEC_PROTOCOLS)"

definition ALLOWED_PROTOCOLS :: "string list" where
  "ALLOWED_PROTOCOLS =
     [''v5.channel.k8s.io'', ''v5.base64.channel.k8s.io'', ''v4.channel.k8s.io'',
      ''v4.base64.channel.k8s.io'', ''channel.k8s.io'', ''base64.channel.k8s.io'']"

definition offered_ws :: "string \<Rightarrow> string list" where
  "offered_ws offered = map trim (split_on (CHR '','') offered)"

text \<open>The \<open>for cand in ALLOWED\<close> loop: the first candidate offered, else the empty string.\<close>

fun first_offered :: "string list \<Rightarrow> string \<Rightarrow> string" where
  "first_offered [] offered = []"
| "first_offered (cand # cs) offered =
     (if cand \<in> set (offered_ws offered) then cand else first_offered cs offered)"

definition negotiate :: "string option \<Rightarrow> string" where
  "negotiate offered = (case offered of None \<Rightarrow> [] | Some o' \<Rightarrow> first_offered ALLOWED_PROTOCOLS o')"

definition PF_ALLOWED :: "string list" where
  "PF_ALLOWED = [''v4.portforward.k8s.io'', ''portforward.k8s.io'']"

definition pick_pf_protocol :: "string \<Rightarrow> string" where
  "pick_pf_protocol offered = first_offered PF_ALLOWED offered"

text \<open>\<open>proto.contains("base64")\<close>.\<close>

fun contains :: "string \<Rightarrow> string \<Rightarrow> bool" where
  "contains p [] \<longleftrightarrow> p = []"
| "contains p (c # cs) \<longleftrightarrow> starts_with p (c # cs) \<or> contains p cs"

definition is_base64 :: "string \<Rightarrow> bool" where
  "is_base64 proto = contains ''base64'' proto"

section \<open>Preference\<close>

text \<open>\<open>find\<close> returns the first match: nothing before it matches.\<close>

lemma find_first:
  "List.find P xs = Some x \<longleftrightarrow> (\<exists>ys zs. xs = ys @ x # zs \<and> P x \<and> (\<forall>y \<in> set ys. \<not> P y))"
proof (induction xs)
  case Nil
  then show ?case by simp
next
  case (Cons a xs)
  show ?case
  proof (cases "P a")
    case True
    then show ?thesis by (auto simp: Cons_eq_append_conv)
  next
    case False
    with Cons show ?thesis
      by (auto simp: Cons_eq_append_conv) (metis set_ConsD)
  qed
qed

lemma first_offered_find:
  "first_offered cs offered =
     (case List.find (\<lambda>c. c \<in> set (offered_ws offered)) cs of None \<Rightarrow> [] | Some c \<Rightarrow> c)"
  by (induction cs) auto

lemma first_offered_Some:
  assumes "first_offered cs offered = p" and "p \<noteq> []"
  shows "\<exists>ys zs. cs = ys @ p # zs \<and> p \<in> set (offered_ws offered) \<and> (\<forall>y \<in> set ys. y \<notin> set (offered_ws offered))"
  using assms by (auto simp: first_offered_find find_first split: option.splits)

lemma first_offered_Nil:
  assumes "[] \<notin> set cs"
  shows "first_offered cs offered = [] \<longleftrightarrow> set cs \<inter> set (offered_ws offered) = {}"
proof (cases "List.find (\<lambda>c. c \<in> set (offered_ws offered)) cs")
  case None
  then have "set cs \<inter> set (offered_ws offered) = {}"
    by (auto simp: find_None_iff)
  with None show ?thesis
    by (simp only: first_offered_find option.case simp_thms)
next
  case (Some c)
  then have "c \<in> set cs" and "c \<in> set (offered_ws offered)"
    by (auto simp: find_first)
  with Some assms show ?thesis
    by (auto simp: first_offered_find)
qed

lemma allowed_nonempty: "[] \<notin> set ALLOWED_PROTOCOLS" "[] \<notin> set PF_ALLOWED"
  by (simp_all add: ALLOWED_PROTOCOLS_def PF_ALLOWED_def)

text \<open>The offers of a comma-separated list of plain protocol names are exactly those names.\<close>

definition plain_token :: "string \<Rightarrow> bool" where
  "plain_token s \<longleftrightarrow> s \<noteq> [] \<and> CHR '','' \<notin> set s \<and> (\<forall>c \<in> set s. \<not> is_ws c)"

lemma offered_ws_join:
  assumes "ps \<noteq> []" and "list_all plain_token ps"
  shows "offered_ws (join '','' ps) = ps"
  using assms
  by (simp add: offered_ws_def split_on_join list_all_iff plain_token_def trim_no_ws map_idI)

lemma offered_spdy_join:
  assumes "ps \<noteq> []" and "list_all plain_token ps"
  shows "offered_spdy (join '','' ps) = ps"
proof -
  have "CHR '' '' \<notin> set p" if "p \<in> set ps" for p
    using that assms by (auto simp: list_all_iff plain_token_def is_ws_def)
  then have "concat (map (split_on (CHR '' '')) ps) = concat (map (\<lambda>p. [p]) ps)"
    by (intro arg_cong [where f = concat] map_cong) (simp_all add: split_on_absent)
  with assms show ?thesis
    by (simp add: offered_spdy_def split_on_join list_all_iff plain_token_def trim_no_ws map_idI
        filter_id_conv)
qed

end
