(* ===== verification/Cri_Vocab.thy ===== *)
theory Cri_Vocab
  imports Ordered_Map Codec_Laws
begin

text \<open>
  The seam crate \<open>lightr-cri-backend\<close>: the vocabulary types of the contract between the CRI
  shell and a backend (\<open>src/lib.rs\<close>), the error vocabulary with its \<open>Display\<close> form, and the
  content address \<open>Digest\<close> with its hexadecimal form (\<open>src/vocab.rs\<close>).
\<close>

section \<open>Identifiers\<close>

text \<open>The newtypes are ordered by the string they wrap, as the derived \<open>Ord\<close> does.\<close>

datatype SandboxId = SandboxId (sid_0: string)
datatype ContainerId = ContainerId (cid_0: string)

instantiation SandboxId :: linorder
begin

definition less_eq_SandboxId :: "SandboxId \<Rightarrow> SandboxId \<Rightarrow> bool" where
  "less_eq_SandboxId a b \<longleftrightarrow> sid_0 a \<le> sid_0 b"

definition less_SandboxId :: "SandboxId \<Rightarrow> SandboxId \<Rightarrow> bool" where
  "less_SandboxId a b \<longleftrightarrow> sid_0 a < sid_0 b"

instance
  by standard (auto simp: less_eq_SandboxId_def less_SandboxId_def intro: SandboxId.expand)

end

instantiation ContainerId :: linorder
begin

definition less_eq_ContainerId :: "ContainerId \<Rightarrow> ContainerId \<Rightarrow> bool" where
  "less_eq_ContainerId a b \<longleftrightarrow> cid_0 a \<le> cid_0 b"

definition less_ContainerId :: "ContainerId \<Rightarrow> ContainerId \<Rightarrow> bool" where
  "less_ContainerId a b \<longleftrightarrow> cid_0 a < cid_0 b"

instance
  by standard (auto simp: less_eq_ContainerId_def less_ContainerId_def intro: ContainerId.expand)

end

section \<open>Configuration and status records\<close>

record DnsConfig =
  dns_servers :: "string list"
  dns_searches :: "string list"
  dns_options :: "string list"

datatype Protocol = Tcp | Udp | Sctp

record PortMapping =
  pm_protocol :: Protocol
  pm_container_port :: i32
  pm_host_port :: i32
  pm_host_ip :: string

datatype SandboxState = Ready | NotReady
datatype ContainerState = Created | Running | Exited | Unknown

record SandboxConfig =
  sc_name :: string
  sc_uid :: string
  sc_namespace :: string
  sc_attempt :: u32
  sc_labels :: "(string, string) btree"
  sc_annotations :: "(string, string) btree"
  sc_log_directory :: string
  sc_hostname :: string
  sc_host_network :: bool
  sc_dns :: "DnsConfig option"
  sc_port_mappings :: "PortMapping list"

record SandboxStatus =
  ss_id :: SandboxId
  ss_config :: SandboxConfig
  ss_state :: SandboxState
  ss_created_at :: i64
  ss_ip :: "string option"
  ss_netns_path :: "string option"

record Mount =
  mt_container_path :: string
  mt_host_path :: string
  mt_readonly :: bool

record ContainerConfig =
  cc_name :: string
  cc_attempt :: u32
  cc_image_ref :: string
  cc_command :: "string list"
  cc_args :: "string list"
  cc_working_dir :: string
  cc_envs :: "(string \<times> string) list"
  cc_mounts :: "Mount list"
  cc_labels :: "(string, string) btree"
  cc_annotations :: "(string, string) btree"
  cc_log_path :: string
  cc_tty :: bool
  cc_stdin :: bool

record ContainerStatus =
  cs_id :: ContainerId
  cs_sandbox :: SandboxId
  cs_config :: ContainerConfig
  cs_state :: ContainerState
  cs_created_at :: i64
  cs_started_at :: i64
  cs_finished_at :: i64
  cs_exit_code :: i32
  cs_reason :: string
  cs_message :: string

record ExecResult =
  er_exit_code :: i32
  er_stdout :: bytes
  er_stderr :: bytes

record ContainerStatsRec =
  st_id :: ContainerId
  st_timestamp :: i64
  st_cpu_usage :: u64
  st_memory_working_set :: u64

record PulledImage =
  pi_ref_name :: string
  pi_root_hex :: string
  pi_total_size :: u64

record ImageRecord =
  im_id :: string
  im_ref_name :: string
  im_size :: u64

record FsInfo =
  fi_timestamp :: i64
  fi_mountpoint :: string
  fi_used_bytes :: u64
  fi_inodes_used :: u64

section \<open>Errors\<close>

text \<open>An I/O error is what its \<open>Display\<close> prints.\<close>

datatype BackendError =
    NotFound string
  | AlreadyExists string
  | InvalidArgument string
  | FailedPrecondition string
  | InUse string
  | Internal string
  | Io string

type_synonym 'a result = "BackendError + 'a"

fun error_to_string :: "BackendError \<Rightarrow> string" where
  "error_to_string (NotFound m) = ''not found: '' @ m"
| "error_to_string (AlreadyExists m) = ''already exists: '' @ m"
| "error_to_string (InvalidArgument m) = ''invalid argument: '' @ m"
| "error_to_string (FailedPrecondition m) = ''failed precondition: '' @ m"
| "error_to_string (InUse m) = ''in use: '' @ m"
| "error_to_string (Internal m) = ''internal: '' @ m"
| "error_to_string (Io m) = ''io: '' @ m"

section \<open>Filters\<close>

record SandboxFilter =
  sf_id :: "SandboxId option"
  sf_state :: "SandboxState option"
  sf_label_selector :: "(string, string) btree"

record ContainerFilter =
  cf_id :: "ContainerId option"
  cf_sandbox :: "SandboxId option"
  cf_state :: "ContainerState option"
  cf_label_selector :: "(string, string) btree"

definition default_sandbox_filter :: SandboxFilter where
  "default_sandbox_filter = \<lparr>sf_id = None, sf_state = None, sf_label_selector = []\<rparr>"

definition default_container_filter :: ContainerFilter where
  "default_container_filter =
     \<lparr>cf_id = None, cf_sandbox = None, cf_state = None, cf_label_selector = []\<rparr>"

section \<open>Content addresses\<close>

text \<open>\<open>char::from_digit(d, 16)\<close> (lower case) and \<open>char::to_digit(16)\<close> (either case).\<close>

definition from_digit16 :: "nat \<Rightarrow> char" where
  "from_digit16 d = (if d < 10 then char_of (48 + d) else char_of (87 + d))"

definition to_digit16 :: "char \<Rightarrow> nat option" where
  "to_digit16 c =
     (let n = of_char c :: nat
      in if 48 \<le> n \<and> n \<le> 57 then Some (n - 48)
         else if 97 \<le> n \<and> n \<le> 102 then Some (n - 87)
         else if 65 \<le> n \<and> n \<le> 70 then Some (n - 55)
         else None)"

text \<open>A digest is 32 bytes.\<close>

fun to_hex :: "bytes \<Rightarrow> string" where
  "to_hex [] = []"
| "to_hex (b # bs) =
     from_digit16 (unat (drop_bit 4 b)) # from_digit16 (unat (b AND 15)) # to_hex bs"

fun hex_chunks :: "string \<Rightarrow> bytes option" where
  "hex_chunks (h # l # cs) =
     (case to_digit16 h of
        None \<Rightarrow> None
      | Some hi \<Rightarrow>
          (case to_digit16 l of
             None \<Rightarrow> None
           | Some lo \<Rightarrow> map_option ((#) (push_bit 4 (of_nat hi) OR of_nat lo)) (hex_chunks cs)))"
| "hex_chunks _ = Some []"

definition from_hex :: "string \<Rightarrow> bytes option" where
  "from_hex s = (if length s \<noteq> 64 then None else hex_chunks s)"

lemma nibble_bounds: "unat (drop_bit 4 (b :: u8)) < 16" "unat (b AND 15) < 16"
proof -
  show "unat (drop_bit 4 b) < 16"
    using unsigned_less [of b, where 'a = nat]
    by (simp add: unsigned_drop_bit_eq drop_bit_eq_div take_bit_eq_mod unat_div)
  have "unat (b AND mask 4) < 16"
    by (simp flip: take_bit_eq_mask add: take_bit_eq_mod unat_mod)
  then show "unat (b AND 15) < 16"
    by (simp add: mask_eq_exp_minus_1)
qed

lemma to_digit16_from_digit16: "d < 16 \<Longrightarrow> to_digit16 (from_digit16 d) = Some d"
  by (auto simp: to_digit16_def from_digit16_def)

lemma nibbles_join: "push_bit 4 (drop_bit 4 b) OR (b AND 15) = (b :: u8)"
proof (rule bit_word_eqI)
  fix n
  assume "n < LENGTH(8)"
  then consider "n < 4" | "4 \<le> n" "n < 8" by fastforce
  then have "bit (push_bit 4 (drop_bit 4 b) OR (b AND mask 4)) n = bit b n"
    by cases (auto simp: bit_simps)
  then show "bit (push_bit 4 (drop_bit 4 b) OR (b AND 15)) n = bit b n"
    by (simp add: mask_eq_exp_minus_1)
qed

lemma hex_chunks_to_hex: "hex_chunks (to_hex bs) = Some bs"
  by (induction bs) (simp_all add: nibble_bounds to_digit16_from_digit16 nibbles_join)

lemma length_to_hex [simp]: "length (to_hex bs) = 2 * length bs"
  by (induction bs) simp_all

interpretation hex: codec to_hex from_hex "\<lambda>d. length d = 32"
  by unfold_locales (simp add: from_hex_def hex_chunks_to_hex)

end
