(* ===== verification/Token_Registry.thy ===== *)
theory Token_Registry
  imports Base64 Cri_Vocab
begin

text \<open>
  The single-use token registry (\<open>token.rs\<close>) with the stream verbs and parameters of the
  streaming crate's \<open>lib.rs\<close>, and the URLs built on it (\<open>ServerHandle::stream_url\<close>).

  Instants are nanoseconds on the monotonic clock, so \<open>duration_since\<close> is the saturating
  difference of naturals.  The random source is a parameter \<open>rnd\<close>: the attempt number to
  the six bytes read from \<open>/dev/urandom\<close>, or \<open>None\<close> where the read fails.

  The interface \<open>single_use\<close> states what a stream server needs of its registry; its client
  lemmas bound what any sequence of mints and consumes can redeem.
\<close>

section \<open>Verbs, parameters, URLs\<close>

datatype StreamVerb = Exec | Attach | PortForward

fun verb_path :: "StreamVerb \<Rightarrow> string" where
  "verb_path Exec = ''exec''"
| "verb_path Attach = ''attach''"
| "verb_path PortForward = ''portforward''"

record StreamParams =
  sp_container :: "string option"
  sp_sandbox :: "string option"
  sp_cmd :: "string list"
  sp_tty :: bool
  sp_stdin :: bool
  sp_ports :: "i32 list"
  sp_dial_target :: "string option"
  sp_netns_path :: "string option"

definition stream_url :: "string \<Rightarrow> StreamVerb \<Rightarrow> string \<Rightarrow> string" where
  "stream_url base_url verb token = base_url @ ''/'' @ verb_path verb @ ''/'' @ token"

section \<open>The registry\<close>

definition TTL :: nat where "TTL = 60 * 1000000000"
definition MAX_INFLIGHT :: nat where "MAX_INFLIGHT = 1000"

record Entry =
  en_verb :: StreamVerb
  en_params :: StreamParams
  en_minted_at :: nat

type_synonym TokenRegistry = "(string, Entry) btree"

definition new_registry :: TokenRegistry where "new_registry = []"

definition random_token :: "bytes option \<Rightarrow> string option" where
  "random_token buf = map_option encode_url_nopad buf"

definition is_live :: "nat \<Rightarrow> Entry \<Rightarrow> bool" where
  "is_live now e \<longleftrightarrow> now - en_minted_at e < TTL"

definition sweep_expired :: "nat \<Rightarrow> TokenRegistry \<Rightarrow> TokenRegistry" where
  "sweep_expired now m = filter (\<lambda>(_, e). is_live now e) m"

text \<open>The \<open>for _ in 0..8\<close> loop: \<open>left\<close> attempts remain, the next one is number \<open>i\<close>.\<close>

fun mint_loop :: "nat \<Rightarrow> nat \<Rightarrow> (nat \<Rightarrow> bytes option) \<Rightarrow> Entry \<Rightarrow> TokenRegistry
    \<Rightarrow> string option \<times> TokenRegistry" where
  "mint_loop 0 i rnd e m = (None, m)"
| "mint_loop (Suc left) i rnd e m =
     (case random_token (rnd i) of
        None \<Rightarrow> (None, m)
      | Some tok \<Rightarrow>
          if map_of m tok = None then (Some tok, bt_insert tok e m)
          else mint_loop left (Suc i) rnd e m)"

definition mint :: "nat \<Rightarrow> (nat \<Rightarrow> bytes option) \<Rightarrow> StreamVerb \<Rightarrow> StreamParams \<Rightarrow> TokenRegistry
    \<Rightarrow> string option \<times> TokenRegistry" where
  "mint now rnd verb params m =
     (let m' = sweep_expired now m
      in if MAX_INFLIGHT \<le> length m' then (None, m')
         else mint_loop 8 0 rnd
                \<lparr>en_verb = verb, en_params = params, en_minted_at = now\<rparr> m')"

definition consume :: "nat \<Rightarrow> string \<Rightarrow> TokenRegistry
    \<Rightarrow> (StreamVerb \<times> StreamParams) option \<times> TokenRegistry" where
  "consume now token m =
     (case map_of m token of
        None \<Rightarrow> (None, m)
      | Some e \<Rightarrow>
          let m' = bt_remove token m
          in if TTL \<le> now - en_minted_at e then (None, m')
             else (Some (en_verb e, en_params e), m'))"

section \<open>What a step leaves behind\<close>

definition registry_ok :: "TokenRegistry \<Rightarrow> bool" where
  "registry_ok m \<longleftrightarrow> bt_ok m \<and> length m \<le> MAX_INFLIGHT"

lemma bt_ok_filter: "bt_ok m \<Longrightarrow> bt_ok (filter P m)"
  by (simp add: bt_ok_def sorted_wrt_map sorted_wrt_filter)

lemma length_bt_insert: "length (bt_insert k v m) \<le> Suc (length m)"
  by (induction k v m rule: bt_insert.induct) auto

lemma map_of_filter_snd:
  "bt_ok m \<Longrightarrow> map_of (filter (\<lambda>(_, v). P v) m) k =
     (case map_of m k of None \<Rightarrow> None | Some v \<Rightarrow> if P v then Some v else None)"
proof (induction m)
  case (Cons x m)
  obtain k' v' where x: "x = (k', v')" by force
  from Cons.prems x have "map_of m k' = None" and "bt_ok m"
    by (auto simp: bt_ok_def map_of_eq_None_iff)
  with Cons x show ?case by (auto split: option.splits)
qed simp

lemma mint_loop_cases:
  obtains (None) "mint_loop n i rnd e m = (None, m)"
  | (Some) j bs where "j < n" "rnd (i + j) = Some bs" "map_of m (encode_url_nopad bs) = None"
      "mint_loop n i rnd e m = (Some (encode_url_nopad bs), bt_insert (encode_url_nopad bs) e m)"
proof (induction n arbitrary: i thesis)
  case 0
  then show ?case by simp
next
  case (Suc n)
  show ?case
  proof (cases "rnd i")
    case None
    with Suc.prems(1) show ?thesis by (simp add: random_token_def)
  next
    case (Some bs)
    show ?thesis
    proof (cases "map_of m (encode_url_nopad bs) = None")
      case True
      with Some Suc.prems(2) [of 0 bs] show ?thesis by (simp add: random_token_def)
    next
      case False
      with Some have step: "mint_loop (Suc n) i rnd e m = mint_loop n (Suc i) rnd e m"
        by (auto simp: random_token_def)
      show ?thesis
      proof (rule Suc.IH [of "Suc i"])
        assume "mint_loop n (Suc i) rnd e m = (None, m)"
        with step Suc.prems(1) show ?thesis by simp
      next
        fix j bs'
        assume "j < n" "rnd (Suc i + j) = Some bs'" "map_of m (encode_url_nopad bs') = None"
          "mint_loop n (Suc i) rnd e m =
             (Some (encode_url_nopad bs'), bt_insert (encode_url_nopad bs') e m)"
        with step Suc.prems(2) [of "Suc j" bs'] show ?thesis by simp
      qed
    qed
  qed
qed

lemma mint_loop_fresh:
  assumes "\<And>i. \<exists>bs. rnd i = Some bs" and "map_of m (encode_url_nopad (the (rnd (i + j)))) = None"
    and "j < n"
  shows "\<exists>tok. fst (mint_loop n i rnd e m) = Some tok"
  using assms(2,3)
proof (induction n arbitrary: i j)
  case (Suc n)
  obtain bs where "rnd i = Some bs" using assms(1) by blast
  with Suc show ?case
    by (cases j) (auto simp: random_token_def)
qed simp

lemma sweep_expired_lookup:
  "bt_ok m \<Longrightarrow> map_of (sweep_expired now m) k =
     (case map_of m k of None \<Rightarrow> None | Some e \<Rightarrow> if is_live now e then Some e else None)"
  by (simp add: sweep_expired_def map_of_filter_snd)

lemma registry_ok_sweep: "registry_ok m \<Longrightarrow> registry_ok (sweep_expired now m)"
  unfolding registry_ok_def sweep_expired_def
  by (metis bt_ok_filter length_filter_le le_trans)

lemma registry_ok_mint: "registry_ok m \<Longrightarrow> registry_ok (snd (mint now rnd verb params m))"
proof -
  assume ok: "registry_ok m"
  let ?e = "\<lparr>en_verb = verb, en_params = params, en_minted_at = now\<rparr>"
  let ?m = "sweep_expired now m"
  from ok have ok': "registry_ok ?m" by (rule registry_ok_sweep)
  show ?thesis
  proof (cases "MAX_INFLIGHT \<le> length ?m")
    case True
    with ok' show ?thesis by (simp add: mint_def)
  next
    case False
    have "length (bt_insert k ?e ?m) \<le> MAX_INFLIGHT" for k
      using False length_bt_insert [of k ?e ?m] by linarith
    with False ok' show ?thesis
      by (cases rule: mint_loop_cases [of 8 0 rnd ?e ?m]) (auto simp: mint_def registry_ok_def)
  qed
qed

lemma registry_ok_consume: "registry_ok m \<Longrightarrow> registry_ok (snd (consume now token m))"
  by (auto simp: consume_def registry_ok_def Let_def bt_remove_def bt_ok_filter split: option.splits
      intro: le_trans [OF length_filter_le])

text \<open>A successful mint: the token is new, eight characters of the URL alphabet where the
  random source gives six bytes, and the registry has exactly the live entries and this one.\<close>

lemma mint_SomeE:
  assumes "mint now rnd verb params m = (Some tok, m')" and "registry_ok m"
  obtains j bs where "j < 8" "rnd j = Some bs" "tok = encode_url_nopad bs"
    "map_of (sweep_expired now m) tok = None"
    "m' = bt_insert tok \<lparr>en_verb = verb, en_params = params, en_minted_at = now\<rparr> (sweep_expired now m)"
  using assms
  by (cases rule: mint_loop_cases [of 8 0 rnd
        "\<lparr>en_verb = verb, en_params = params, en_minted_at = now\<rparr>" "sweep_expired now m"])
     (auto simp: mint_def Let_def split: if_splits)

text \<open>A minted token gives its verb and parameters until it is 60 seconds old, and then nothing.\<close>

lemma consume_minted:
  assumes "mint now rnd verb params m = (Some tok, m')" and "registry_ok m" and "now \<le> later"
  shows "consume later tok m' =
      (if later - now < 60 * 1000000000 then Some (verb, params) else None, bt_remove tok m')
    \<and> map_of (bt_remove tok m') tok = None"
proof -
  obtain j bs where "m' = bt_insert tok \<lparr>en_verb = verb, en_params = params, en_minted_at = now\<rparr> (sweep_expired now m)"
    by (rule mint_SomeE [OF assms(1,2)])
  then show ?thesis
    by (simp add: consume_def Let_def TTL_def)
qed

lemma mint_keeps:
  assumes "mint now rnd verb params m = (r, m')" and "registry_ok m"
    and "map_of m' t = Some e"
  shows "map_of m t = Some e \<or>
    (r = Some t \<and> e = \<lparr>en_verb = verb, en_params = params, en_minted_at = now\<rparr>)"
proof (cases r)
  case None
  with assms have "m' = sweep_expired now m"
    by (cases rule: mint_loop_cases [of 8 0 rnd
        "\<lparr>en_verb = verb, en_params = params, en_minted_at = now\<rparr>" "sweep_expired now m"])
       (auto simp: mint_def Let_def split: if_splits)
  with assms show ?thesis
    by (auto simp: sweep_expired_lookup registry_ok_def split: option.splits if_splits)
next
  case (Some tok)
  with assms obtain "m' = bt_insert tok
      \<lparr>en_verb = verb, en_params = params, en_minted_at = now\<rparr> (sweep_expired now m)"
    using mint_SomeE [of now rnd verb params m tok m'] by metis
  with assms Some show ?thesis
    by (auto simp: sweep_expired_lookup registry_ok_def split: option.splits if_splits)
qed

section \<open>The single-use contract\<close>

text \<open>
  A run of a registry: an event mints a token (with the time and the randomness of that
  call) or uses one; the log says what each event gave.
\<close>

datatype ('t, 'r, 'k, 'p) RegEvent = MintEv 't 'r 'p | UseEv 't 'k
datatype ('k, 'p) RegOut = Minted 'k 'p | Redeemed 'k 'p | Refused

fun run_events :: "('t \<Rightarrow> 'r \<Rightarrow> 'p \<Rightarrow> 's \<Rightarrow> 'k option \<times> 's) \<Rightarrow> ('t \<Rightarrow> 'k \<Rightarrow> 's \<Rightarrow> 'p option \<times> 's)
    \<Rightarrow> ('t, 'r, 'k, 'p) RegEvent list \<Rightarrow> 's \<Rightarrow> ('k, 'p) RegOut list \<times> 's" where
  "run_events mintf usef [] s = ([], s)"
| "run_events mintf usef (MintEv t r p # es) s =
     (let (q, s') = mintf t r p s; (out, s'') = run_events mintf usef es s'
      in ((case q of None \<Rightarrow> Refused | Some k \<Rightarrow> Minted k p) # out, s''))"
| "run_events mintf usef (UseEv t k # es) s =
     (let (q, s') = usef t k s; (out, s'') = run_events mintf usef es s'
      in ((case q of None \<Rightarrow> Refused | Some p \<Rightarrow> Redeemed k p) # out, s''))"

definition minted_count :: "'k \<Rightarrow> 'p \<Rightarrow> ('k, 'p) RegOut list \<Rightarrow> nat" where
  "minted_count k p out = length (filter (\<lambda>x. x = Minted k p) out)"

definition redeemed_count :: "'k \<Rightarrow> 'p \<Rightarrow> ('k, 'p) RegOut list \<Rightarrow> nat" where
  "redeemed_count k p out = length (filter (\<lambda>x. x = Redeemed k p) out)"

locale single_use =
  fixes mintf :: "'t \<Rightarrow> 'r \<Rightarrow> 'p \<Rightarrow> 's \<Rightarrow> 'k option \<times> 's"
    and usef :: "'t \<Rightarrow> 'k \<Rightarrow> 's \<Rightarrow> 'p option \<times> 's"
    and look :: "'s \<Rightarrow> 'k \<Rightarrow> 'p option"
    and ok :: "'s \<Rightarrow> bool"
  assumes ok_mint: "ok s \<Longrightarrow> ok (snd (mintf t r p s))"
    and ok_use: "ok s \<Longrightarrow> ok (snd (usef t k s))"
    and mint_only: "ok s \<Longrightarrow> mintf t r p s = (q, s') \<Longrightarrow> look s' k = Some p' \<Longrightarrow>
      look s k = Some p' \<or> (q = Some k \<and> p' = p)"
    and use_held: "ok s \<Longrightarrow> usef t k s = (Some p, s') \<Longrightarrow> look s k = Some p"
    and use_removes: "ok s \<Longrightarrow> usef t k s = (u, s') \<Longrightarrow> look s' = (look s)(k := None)"
begin

text \<open>Nothing is redeemed more often than it was minted, and only with what it was minted for.\<close>

lemma redeemed_le_minted:
  assumes "ok s"
  shows "redeemed_count k p (fst (run_events mintf usef es s))
    \<le> minted_count k p (fst (run_events mintf usef es s)) + (if look s k = Some p then 1 else 0)"
  using assms
proof (induction es arbitrary: s)
  case Nil
  then show ?case by (simp add: redeemed_count_def)
next
  case (Cons ev es)
  show ?case
  proof (cases ev)
    case (MintEv t r p')
    obtain q s' where m: "mintf t r p' s = (q, s')" by force
    with Cons.prems have "ok s'" using ok_mint [of s t r p'] by simp
    obtain out s'' where run: "run_events mintf usef es s' = (out, s'')" by force
    have "redeemed_count k p out \<le> minted_count k p out + (if look s' k = Some p then 1 else 0)"
      using Cons.IH [OF \<open>ok s'\<close>] run by simp
    moreover have "look s' k = Some p \<Longrightarrow> look s k = Some p \<or> (q = Some k \<and> p = p')"
      using mint_only [OF Cons.prems m] .
    ultimately show ?thesis
      by (auto simp: MintEv m run redeemed_count_def minted_count_def
          split: option.splits if_splits)
  next
    case (UseEv t k')
    obtain u s' where u: "usef t k' s = (u, s')" by force
    with Cons.prems have "ok s'" using ok_use [of s t k'] by simp
    obtain out s'' where run: "run_events mintf usef es s' = (out, s'')" by force
    have "redeemed_count k p out \<le> minted_count k p out + (if look s' k = Some p then 1 else 0)"
      using Cons.IH [OF \<open>ok s'\<close>] run by simp
    moreover have "look s' = (look s)(k' := None)"
      using use_removes [OF Cons.prems u] .
    moreover have "u = Some v \<Longrightarrow> look s k' = Some v" for v
      using use_held [OF Cons.prems] u by auto
    ultimately show ?thesis
      by (auto simp: UseEv u run redeemed_count_def minted_count_def
          split: option.splits if_splits)
  qed
qed

lemma ok_run: "ok s \<Longrightarrow> ok (snd (run_events mintf usef es s))"
proof (induction es arbitrary: s)
  case (Cons ev es)
  then show ?case
    using ok_mint [of s] ok_use [of s]
    by (cases ev) (auto split: prod.splits, (metis snd_conv)+)
qed simp

end

definition mint_pair :: "nat \<Rightarrow> (nat \<Rightarrow> bytes option) \<Rightarrow> StreamVerb \<times> StreamParams \<Rightarrow> TokenRegistry
    \<Rightarrow> string option \<times> TokenRegistry" where
  "mint_pair now rnd vp m = mint now rnd (fst vp) (snd vp) m"

definition token_payload :: "TokenRegistry \<Rightarrow> string \<Rightarrow> (StreamVerb \<times> StreamParams) option" where
  "token_payload m t = map_option (\<lambda>e. (en_verb e, en_params e)) (map_of m t)"

interpretation tokens: single_use mint_pair consume token_payload registry_ok
proof (unfold_locales, goal_cases)
  case (1 s t r p)
  then show ?case by (simp add: mint_pair_def registry_ok_mint)
next
  case (2 s t k)
  then show ?case by (rule registry_ok_consume)
next
  case (3 s t r p q s' k p')
  from 3(3) obtain e where "map_of s' k = Some e" "p' = (en_verb e, en_params e)"
    by (auto simp: token_payload_def)
  with mint_keeps [of t r "fst p" "snd p" s q s' k e] 3(1,2) show ?case
    by (auto simp: token_payload_def mint_pair_def)
next
  case (4 s t k p s')
  then show ?case by (auto simp: consume_def token_payload_def Let_def split: option.splits if_splits)
next
  case (5 s t k q s')
  then show ?case
    by (auto simp: consume_def token_payload_def Let_def fun_eq_iff split: option.splits if_splits)
qed

end
