(* ===== verification/Ws_Session.thy ===== *)
theory Ws_Session
  imports Channel_Framing Exit_Status Protocol_Negotiation Token_Registry
begin

text \<open>
  The WebSocket driver of exec and attach (\<open>ws.rs\<close>): the initial empty frame, the select loop
  that pumps the session's output to the client and the client's input to the session, and the
  exit status with the closing frame.

  The select loop is a fold over the events its arms deliver, in the order they fire: a read of
  stdout or stderr (\<open>Some bs\<close>, with \<open>[]\<close> for end of file, or \<open>None\<close> for an error) or a message
  from the socket.  An inbound event carries whether the write to the session's stdin, if the
  message leads to one, succeeds.  \<open>None\<close> from the loop: the events ended while it still waits.
\<close>

section \<open>Messages, sessions, events\<close>

datatype WsMessage = Binary bytes | Text string | Ping | Pong | Close "u16 option"
datatype WsRecv = RecvMsg WsMessage | RecvErr | RecvEnd

text \<open>The live session of the contract: which handles it has, and what its waiter reports.\<close>

record StreamSession =
  ses_stdin :: bool
  ses_stdout :: bool
  ses_stderr :: bool
  ses_pty_master :: bool
  ses_exit :: "i32 option"

datatype OpenResult = Opened StreamSession | OpenErr string | OpenPanicked

datatype WsEvent =
    EvStdout "bytes option"
  | EvStderr "bytes option"
  | EvSocket WsRecv bool

record WsState =
  ws_stdout_open :: bool
  ws_stderr_open :: bool
  ws_sent :: "WsMessage list"
  ws_stdin_writes :: "bytes list"
  ws_resizes :: "TerminalSize list"

section \<open>The driver\<close>

definition frame_msg :: "bool \<Rightarrow> u8 \<Rightarrow> bytes \<Rightarrow> WsMessage" where
  "frame_msg base64 ch payload =
     (if base64 then Text (encode_base64 ch payload) else Binary (encode_binary ch payload))"

definition send_frame :: "bool \<Rightarrow> u8 \<Rightarrow> bytes \<Rightarrow> WsState \<Rightarrow> WsState" where
  "send_frame base64 ch payload st =
     st\<lparr>ws_sent := ws_sent st @ [frame_msg base64 ch payload]\<rparr>"

definition close_ws :: "WsState \<Rightarrow> WsState" where
  "close_ws st = st\<lparr>ws_sent := ws_sent st @ [Close (Some 1000)]\<rparr>"

text \<open>\<open>handle_inbound\<close>: the new state, and whether the connection stays open.\<close>

definition handle_inbound :: "(bytes \<Rightarrow> TerminalSize option list) \<Rightarrow> StreamSession \<Rightarrow> bytes \<Rightarrow> bool
    \<Rightarrow> bool \<Rightarrow> WsState \<Rightarrow> WsState \<times> bool" where
  "handle_inbound de ses frame base64 wr_ok st =
     (case (if base64 then decode_base64 frame else decode_binary frame) of
        None \<Rightarrow> (st, True)
      | Some (ch, payload) \<Rightarrow>
          if ch = STDIN then
            (if ses_stdin ses then
               (if wr_ok then (st\<lparr>ws_stdin_writes := ws_stdin_writes st @ [payload]\<rparr>, True)
                else (st, False))
             else (st, True))
          else if ch = RESIZE then
            (case parse_resize de payload of
               Some sz \<Rightarrow>
                 if ses_pty_master ses then (st\<lparr>ws_resizes := ws_resizes st @ [sz]\<rparr>, True)
                 else (st, True)
             | None \<Rightarrow> (st, True))
          else (st, True))"

fun ws_enabled :: "WsEvent \<Rightarrow> WsState \<Rightarrow> bool" where
  "ws_enabled (EvStdout r) st = ws_stdout_open st"
| "ws_enabled (EvStderr r) st = ws_stderr_open st"
| "ws_enabled (EvSocket m w) st = True"

fun ws_step :: "(bytes \<Rightarrow> TerminalSize option list) \<Rightarrow> StreamSession \<Rightarrow> bool \<Rightarrow> WsEvent \<Rightarrow> WsState
    \<Rightarrow> WsState \<times> bool" where
  "ws_step de ses base64 (EvStdout r) st =
     (case r of
        Some (b # bs) \<Rightarrow> (send_frame base64 STDOUT (b # bs) st, True)
      | _ \<Rightarrow> (st\<lparr>ws_stdout_open := False\<rparr>, True))"
| "ws_step de ses base64 (EvStderr r) st =
     (case r of
        Some (b # bs) \<Rightarrow> (send_frame base64 STDERR (b # bs) st, True)
      | _ \<Rightarrow> (st\<lparr>ws_stderr_open := False\<rparr>, True))"
| "ws_step de ses base64 (EvSocket m wr_ok) st =
     (case m of
        RecvMsg (Binary data) \<Rightarrow> handle_inbound de ses data base64 wr_ok st
      | RecvMsg (Text t) \<Rightarrow> handle_inbound de ses (as_bytes t) base64 wr_ok st
      | RecvMsg (Close c) \<Rightarrow> (st, False)
      | RecvMsg _ \<Rightarrow> (st, True)
      | RecvErr \<Rightarrow> (st, False)
      | RecvEnd \<Rightarrow> (st, False))"

text \<open>The loop returns the state it leaves and the events it did not take.\<close>

fun ws_loop :: "(bytes \<Rightarrow> TerminalSize option list) \<Rightarrow> StreamSession \<Rightarrow> bool \<Rightarrow> WsEvent list \<Rightarrow> WsState
    \<Rightarrow> (WsState \<times> WsEvent list) option" where
  "ws_loop de ses base64 [] st = None"
| "ws_loop de ses base64 (ev # evs) st =
     (if ws_enabled ev st then
        (let (st', go) = ws_step de ses base64 ev st
         in if go \<and> (ws_stdout_open st' \<or> ws_stderr_open st')
            then ws_loop de ses base64 evs st' else Some (st', evs))
      else ws_loop de ses base64 evs st)"

definition ws_start :: "StreamSession \<Rightarrow> bool \<Rightarrow> WsState" where
  "ws_start ses base64 =
     send_frame base64 (if ses_stdout ses then STDOUT else STDERR) []
       \<lparr>ws_stdout_open = ses_stdout ses, ws_stderr_open = ses_stderr ses, ws_sent = [],
        ws_stdin_writes = [], ws_resizes = []\<rparr>"

definition ws_closed :: WsState where
  "ws_closed = \<lparr>ws_stdout_open = False, ws_stderr_open = False, ws_sent = [],
     ws_stdin_writes = [], ws_resizes = []\<rparr>"

definition ws_finish :: "(json \<Rightarrow> bytes) \<Rightarrow> StreamSession \<Rightarrow> bool \<Rightarrow> WsState \<Rightarrow> WsState" where
  "ws_finish to_vec ses base64 st =
     close_ws (send_frame base64 ERROR_CH
       (exit_status_json to_vec (case ses_exit ses of Some c \<Rightarrow> c | None \<Rightarrow> -1)) st)"

definition run_session :: "(json \<Rightarrow> bytes) \<Rightarrow> (bytes \<Rightarrow> TerminalSize option list) \<Rightarrow> string
    \<Rightarrow> OpenResult \<Rightarrow> WsEvent list \<Rightarrow> (WsState \<times> WsEvent list) option" where
  "run_session to_vec de proto session evs =
     (let base64 = is_base64 proto
      in case session of
           OpenErr e \<Rightarrow> Some (close_ws (send_frame base64 ERROR_CH (as_bytes e) ws_closed), evs)
         | OpenPanicked \<Rightarrow>
             Some (close_ws (send_frame base64 ERROR_CH (as_bytes ''session open panicked'') ws_closed), evs)
         | Opened ses \<Rightarrow>
             map_option (\<lambda>(st, rest). (ws_finish to_vec ses base64 st, rest))
               (ws_loop de ses base64 evs (ws_start ses base64)))"

section \<open>What the client sees\<close>

text \<open>The client's side of the framing: the payload bytes it receives on one channel.\<close>

fun recv_frame :: "bool \<Rightarrow> WsMessage \<Rightarrow> (u8 \<times> bytes) option" where
  "recv_frame base64 (Text t) = (if base64 then decode_base64 (as_bytes t) else None)"
| "recv_frame base64 (Binary b) = (if base64 then None else decode_binary b)"
| "recv_frame base64 _ = None"

definition channel_bytes :: "bool \<Rightarrow> u8 \<Rightarrow> WsMessage list \<Rightarrow> bytes" where
  "channel_bytes base64 ch ms =
     concat (map (\<lambda>m. case recv_frame base64 m of
       Some (c, p) \<Rightarrow> if c = ch then p else [] | None \<Rightarrow> []) ms)"

text \<open>The bytes a stream yields, up to its end of file or error.\<close>

fun stdout_of :: "WsEvent list \<Rightarrow> bytes" where
  "stdout_of [] = []"
| "stdout_of (EvStdout (Some (b # bs)) # evs) = (b # bs) @ stdout_of evs"
| "stdout_of (EvStdout _ # evs) = []"
| "stdout_of (ev # evs) = stdout_of evs"

fun stderr_of :: "WsEvent list \<Rightarrow> bytes" where
  "stderr_of [] = []"
| "stderr_of (EvStderr (Some (b # bs)) # evs) = (b # bs) @ stderr_of evs"
| "stderr_of (EvStderr _ # evs) = []"
| "stderr_of (ev # evs) = stderr_of evs"

lemma recv_frame_msg [simp]: "ch \<le> 9 \<Longrightarrow> recv_frame b (frame_msg b ch p) = Some (ch, p)"
  by (simp add: frame_msg_def decode_encode_base64 encode_binary_def)

lemma channel_bytes_append [simp]:
  "channel_bytes b ch (xs @ ys) = channel_bytes b ch xs @ channel_bytes b ch ys"
  by (simp add: channel_bytes_def)

lemma channel_bytes_Cons2 [simp]:
  "channel_bytes b ch (x # y # zs) = channel_bytes b ch [x] @ channel_bytes b ch (y # zs)"
  by (simp add: channel_bytes_def)

lemma channel_bytes_Nil [simp]: "channel_bytes b ch [] = []"
  by (simp add: channel_bytes_def)

lemma channel_bytes_frame [simp]:
  "c \<le> 9 \<Longrightarrow> channel_bytes b ch [frame_msg b c p] = (if c = ch then p else [])"
  by (simp add: channel_bytes_def)

lemma channel_bytes_close [simp]: "channel_bytes b ch [Close c] = []"
  by (simp add: channel_bytes_def)

lemma channel_le [simp]: "STDOUT \<le> 9" "STDERR \<le> 9" "ERROR_CH \<le> 9"
  by (simp_all add: channel_defs)

lemma channel_distinct [simp]:
  "STDOUT \<noteq> STDERR" "STDERR \<noteq> STDOUT" "STDOUT \<noteq> ERROR_CH" "ERROR_CH \<noteq> STDOUT"
  "STDERR \<noteq> ERROR_CH" "ERROR_CH \<noteq> STDERR"
  by (simp_all add: channel_defs)

lemma handle_inbound_sent [simp]:
  "ws_sent (fst (handle_inbound de ses f b w st)) = ws_sent st"
  "ws_stdout_open (fst (handle_inbound de ses f b w st)) = ws_stdout_open st"
  "ws_stderr_open (fst (handle_inbound de ses f b w st)) = ws_stderr_open st"
  by (auto simp: handle_inbound_def split: option.splits)

lemma ws_step_socket [simp]:
  "ws_sent (fst (ws_step de ses b (EvSocket m w) st)) = ws_sent st"
  "ws_stdout_open (fst (ws_step de ses b (EvSocket m w) st)) = ws_stdout_open st"
  "ws_stderr_open (fst (ws_step de ses b (EvSocket m w) st)) = ws_stderr_open st"
  by (auto split: WsRecv.splits WsMessage.splits)

declare ws_step.simps(3) [simp del]

text \<open>One step and the loop: what reaches the client on a channel is what the stream yielded.\<close>

lemma ws_loop_delivers:
  assumes "ws_loop de ses b evs st = Some (st', rest)"
  shows "\<exists>used. evs = used @ rest
    \<and> channel_bytes b STDOUT (ws_sent st') =
        channel_bytes b STDOUT (ws_sent st) @ (if ws_stdout_open st then stdout_of used else [])
    \<and> channel_bytes b STDERR (ws_sent st') =
        channel_bytes b STDERR (ws_sent st) @ (if ws_stderr_open st then stderr_of used else [])
    \<and> channel_bytes b ERROR_CH (ws_sent st') = channel_bytes b ERROR_CH (ws_sent st)"
  using assms
proof (induction evs arbitrary: st)
  case (Cons ev evs)
  let ?goal = "\<lambda>used st. channel_bytes b STDOUT (ws_sent st') =
        channel_bytes b STDOUT (ws_sent st) @ (if ws_stdout_open st then stdout_of used else [])
    \<and> channel_bytes b STDERR (ws_sent st') =
        channel_bytes b STDERR (ws_sent st) @ (if ws_stderr_open st then stderr_of used else [])
    \<and> channel_bytes b ERROR_CH (ws_sent st') = channel_bytes b ERROR_CH (ws_sent st)"
  have step: "?goal (ev # used) st" if "?goal used (fst (ws_step de ses b ev st))" "ws_enabled ev st" for used
    using that
    by (cases ev) (auto simp: send_frame_def split: option.splits list.splits)
  have skip: "?goal (ev # used) st" if "?goal used st" "\<not> ws_enabled ev st" for used
    using that by (cases ev) auto
  show ?case
  proof (cases "ws_enabled ev st")
    case False
    with Cons obtain used where "evs = used @ rest" "?goal used st" by auto
    with skip False show ?thesis by (intro exI [of _ "ev # used"]) simp
  next
    case True
    obtain st2 go where s: "ws_step de ses b ev st = (st2, go)" by force
    show ?thesis
    proof (cases "go \<and> (ws_stdout_open st2 \<or> ws_stderr_open st2)")
      case True
      with Cons.prems \<open>ws_enabled ev st\<close> s have "ws_loop de ses b evs st2 = Some (st', rest)" by simp
      with Cons.IH obtain used where "evs = used @ rest" "?goal used st2" by blast
      with step [of used] \<open>ws_enabled ev st\<close> s show ?thesis
        by (intro exI [of _ "ev # used"]) simp
    next
      case False
      with Cons.prems \<open>ws_enabled ev st\<close> s have "st' = st2" "rest = evs" by auto
      moreover from \<open>st' = st2\<close> have "?goal [] st2" by simp
      ultimately show ?thesis
        using step [of "[]"] \<open>ws_enabled ev st\<close> s by (intro exI [of _ "[ev]"]) simp
    qed
  qed
qed simp

text \<open>The loop ends once both output streams have.\<close>

lemma ws_loop_ends:
  assumes "EvStdout None \<in> set evs \<or> \<not> ws_stdout_open st"
    and "EvStderr None \<in> set evs \<or> \<not> ws_stderr_open st"
    and "ws_stdout_open st \<or> ws_stderr_open st"
  shows "ws_loop de ses b evs st \<noteq> None"
  using assms
proof (induction evs arbitrary: st)
  case (Cons ev evs)
  let ?st2 = "fst (ws_step de ses b ev st)" and ?go = "snd (ws_step de ses b ev st)"
  show ?case
  proof (cases "ws_enabled ev st \<and> \<not> (?go \<and> (ws_stdout_open ?st2 \<or> ws_stderr_open ?st2))")
    case True
    then show ?thesis by (auto simp: case_prod_unfold)
  next
    case False
    let ?st = "if ws_enabled ev st then ?st2 else st"
    have "(EvStdout None \<in> set evs \<or> \<not> ws_stdout_open ?st)
        \<and> (EvStderr None \<in> set evs \<or> \<not> ws_stderr_open ?st)"
      using Cons.prems
      by (cases ev) (auto simp: send_frame_def split: option.splits list.splits if_splits)
    moreover have "ws_stdout_open ?st \<or> ws_stderr_open ?st"
      using False Cons.prems(3) by auto
    ultimately have "ws_loop de ses b evs ?st \<noteq> None"
      using Cons.IH [of ?st] by blast
    with False show ?thesis by (auto simp: case_prod_unfold split: if_splits)
  qed
qed simp

end
