(* ===== verification/Port_Forward.thy ===== *)
theory Port_Forward
  imports Ws_Session
begin

text \<open>
  Port forwarding over WebSocket (\<open>portforward.rs\<close>): the query's ports, where a connection is
  dialled, the port prefixes, and the select loop.  Sockets are the operating system's: what
  the loop does to them is its list of effects, and whether a dial, a write or a send succeeds
  comes with the event.  \<open>order\<close> is the iteration order of the \<open>HashMap\<close> of connections, which
  does not change after the prefixes are sent.
\<close>

section \<open>The query\<close>

definition parse_port_value :: "string \<Rightarrow> u16 list" where
  "parse_port_value v =
     List.map_filter (\<lambda>tok. map_option of_nat (parse_uint 65536 (trim tok))) (split_on (CHR '','') v)"

definition parse_ports :: "string \<Rightarrow> u16 list" where
  "parse_ports query =
     concat (map (\<lambda>pair. case split_once (CHR ''='') pair of
         None \<Rightarrow> []
       | Some (k, v) \<Rightarrow> if k \<noteq> ''port'' \<and> k \<noteq> ''ports'' then [] else parse_port_value v)
       (split_on (CHR ''&'') query))"

section \<open>Connections\<close>

text \<open>Where \<open>dial\<close> connects: from the host, or inside a sandbox's network namespace.\<close>

datatype DialTarget = HostDial string u16 | NetnsDial string string u16

definition dial :: "string \<Rightarrow> u16 \<Rightarrow> string option \<Rightarrow> DialTarget" where
  "dial host port netns_path =
     (case netns_path of None \<Rightarrow> HostDial host port | Some ns \<Rightarrow> NetnsDial ns host port)"

record PortConn =
  po_port :: u16
  po_stream :: bool

datatype PfEffect =
    PfSend WsMessage
  | PfDial DialTarget
  | PfWrite u8 bytes
  | PfShutdown u8

record PfState =
  pf_conns :: "(u8, PortConn) btree"
  pf_effects :: "PfEffect list"

definition pf_emit :: "PfEffect list \<Rightarrow> PfState \<Rightarrow> PfState" where
  "pf_emit es st = st\<lparr>pf_effects := pf_effects st @ es\<rparr>"

definition set_stream :: "u8 \<Rightarrow> bool \<Rightarrow> PfState \<Rightarrow> PfState" where
  "set_stream ch b st =
     (case map_of (pf_conns st) ch of
        None \<Rightarrow> st
      | Some c \<Rightarrow> st\<lparr>pf_conns := bt_insert ch (c\<lparr>po_stream := b\<rparr>) (pf_conns st)\<rparr>)"

section \<open>The prefixes\<close>

definition data_channel :: "nat \<Rightarrow> u8" where "data_channel i = of_nat (i * 2)"
definition error_channel :: "nat \<Rightarrow> u8" where "error_channel i = of_nat (i * 2 + 1)"

fun pf_open :: "nat \<Rightarrow> u16 list \<Rightarrow> PfState \<Rightarrow> PfState" where
  "pf_open i [] st = st"
| "pf_open i (p # ps) st =
     pf_open (Suc i) ps
       (pf_emit [PfSend (Binary (data_channel i # le16 p)), PfSend (Binary (error_channel i # le16 p))]
         (st\<lparr>pf_conns := bt_insert (data_channel i) \<lparr>po_port = p, po_stream = False\<rparr> (pf_conns st)\<rparr>))"

section \<open>The loop\<close>

text \<open>\<open>read_any\<close> awaits the first connected stream of the iteration order, and only that one.\<close>

definition first_connected :: "u8 list \<Rightarrow> PfState \<Rightarrow> u8 option" where
  "first_connected order st =
     List.find (\<lambda>ch. case map_of (pf_conns st) ch of None \<Rightarrow> False | Some c \<Rightarrow> po_stream c) order"

text \<open>An event: a message with whether a dial and a write succeed, or a read of the stream
  \<open>read_any\<close> awaits (\<open>None\<close> for end of file or error) with whether the send succeeds.\<close>

datatype PfEvent = PfSocket WsRecv bool bool | PfTcp "bytes option" bool

definition pf_data :: "string \<Rightarrow> string option \<Rightarrow> u8 \<Rightarrow> bytes \<Rightarrow> bool \<Rightarrow> bool \<Rightarrow> PfState \<Rightarrow> PfState" where
  "pf_data dial_host netns_path ch payload dial_ok write_ok st =
     (if ch mod 2 = 0 then
        (case map_of (pf_conns st) ch of
           None \<Rightarrow> st
         | Some conn \<Rightarrow>
             (let st1 = (if po_stream conn then st
                         else pf_emit [PfDial (dial dial_host (po_port conn) netns_path)] st)
              in if \<not> po_stream conn \<and> \<not> dial_ok then
                   pf_emit [PfSend (Binary ((ch + 1) # as_bytes ''dial failed''))] st1
                 else if write_ok then pf_emit [PfWrite ch payload] (set_stream ch True st1)
                 else set_stream ch False st1))
      else st)"

definition pf_half_close :: "u8 list \<Rightarrow> PfState \<Rightarrow> PfState" where
  "pf_half_close order st =
     pf_emit (map PfShutdown (filter (\<lambda>ch. case map_of (pf_conns st) ch of
       None \<Rightarrow> False | Some c \<Rightarrow> po_stream c) order)) st"

fun pf_step :: "string \<Rightarrow> string option \<Rightarrow> u8 list \<Rightarrow> PfEvent \<Rightarrow> PfState \<Rightarrow> PfState \<times> bool" where
  "pf_step host ns order (PfSocket m dial_ok write_ok) st =
     (case m of
        RecvMsg (Binary []) \<Rightarrow> (st, True)
      | RecvMsg (Binary (ch # pl)) \<Rightarrow> (pf_data host ns ch pl dial_ok write_ok st, True)
      | RecvMsg (Close c) \<Rightarrow> (pf_half_close order st, False)
      | RecvEnd \<Rightarrow> (pf_half_close order st, False)
      | RecvMsg _ \<Rightarrow> (st, True)
      | RecvErr \<Rightarrow> (st, False))"
| "pf_step host ns order (PfTcp r send_ok) st =
     (case first_connected order st of
        None \<Rightarrow> (st, True)
      | Some ch \<Rightarrow>
          (case r of
             Some bs \<Rightarrow> (pf_emit [PfSend (Binary (ch # bs))] st, send_ok)
           | None \<Rightarrow> (set_stream ch False st, True)))"

fun pf_loop :: "string \<Rightarrow> string option \<Rightarrow> u8 list \<Rightarrow> PfEvent list \<Rightarrow> PfState \<Rightarrow> PfState option" where
  "pf_loop host ns order [] st = None"
| "pf_loop host ns order (ev # evs) st =
     (let (st', go) = pf_step host ns order ev st
      in if go then pf_loop host ns order evs st' else Some st')"

definition pf_init :: PfState where
  "pf_init = \<lparr>pf_conns = [], pf_effects = []\<rparr>"

definition run_ws :: "u16 list \<Rightarrow> string \<Rightarrow> string option \<Rightarrow> u8 list \<Rightarrow> PfEvent list
    \<Rightarrow> PfState option" where
  "run_ws ports dial_host netns_path order evs =
     (if ports = [] then Some (pf_emit [PfSend (Close None)] pf_init)
      else map_option (pf_emit [PfSend (Close None)])
             (pf_loop dial_host netns_path order evs (pf_open 0 ports pf_init)))"

section \<open>Lemmas\<close>

lemma parse_port_nat_str:
  "parse_uint 65536 (trim (nat_str (unat (p :: u16)))) = Some (unat p)"
proof -
  have "\<not> is_ws c" if "c \<in> set (nat_str (unat p))" for c
    using nat_str_digits [OF that] by (auto simp: is_ws_def is_digit_def)
  then have "trim (nat_str (unat p)) = nat_str (unat p)"
    by (simp add: trim_no_ws)
  then show ?thesis
    using unsigned_less [of p, where 'a = nat] by simp
qed

lemma nat_str_absent: "\<not> is_digit c \<Longrightarrow> c \<notin> set (nat_str n)"
  using nat_str_digits by blast

definition port_query :: "u16 list \<Rightarrow> string" where
  "port_query ps = join ''&'' (map (\<lambda>p. ''port='' @ nat_str (unat p)) ps)"

lemma parse_ports_query: "parse_ports (port_query ps) = ps"
proof (cases ps)
  case Nil
  then show ?thesis by (simp add: parse_ports_def port_query_def)
next
  case Cons
  have no_amp: "CHR ''&'' \<notin> set (nat_str n)" and no_comma: "CHR '','' \<notin> set (nat_str n)" for n
    by (rule nat_str_absent, simp add: is_digit_def)+
  have "split_on (CHR ''&'') (port_query ps) = map (\<lambda>p. ''port='' @ nat_str (unat p)) ps"
    unfolding port_query_def using Cons no_amp by (intro split_on_join) auto
  moreover have "parse_port_value (nat_str (unat p)) = [p]" for p :: u16
    by (simp add: parse_port_value_def split_on_absent no_comma parse_port_nat_str
        List.map_filter_simps)
  ultimately show ?thesis
    by (simp add: parse_ports_def comp_def)
qed

lemma pf_emit_conns [simp]: "pf_conns (pf_emit es st) = pf_conns st"
  by (simp add: pf_emit_def)

lemma pf_emit_effects [simp]: "pf_effects (pf_emit es st) = pf_effects st @ es"
  by (simp add: pf_emit_def)

lemma set_stream_effects [simp]: "pf_effects (set_stream ch b st) = pf_effects st"
  by (simp add: set_stream_def split: option.splits)

lemma set_stream_ports:
  "map_option po_port (map_of (pf_conns (set_stream ch b st)) c) =
   map_option po_port (map_of (pf_conns st) c)"
  by (auto simp: set_stream_def split: option.splits)

lemma pf_step_ports:
  "map_option po_port (map_of (pf_conns (fst (pf_step host ns order ev st))) c) =
   map_option po_port (map_of (pf_conns st) c)"
  by (cases ev) (auto simp: pf_data_def pf_half_close_def set_stream_ports Let_def
      split: WsRecv.splits WsMessage.splits list.splits option.splits)

text \<open>Below 128 ports the data channels are distinct.\<close>

lemma data_channel_inject:
  assumes "i < 128" "j < 128"
  shows "data_channel i = data_channel j \<longleftrightarrow> i = j"
proof
  assume "data_channel i = data_channel j"
  then have "unat (data_channel i) = unat (data_channel j)" by simp
  with assms show "i = j"
    by (simp add: data_channel_def unat_of_nat del: of_nat_mult of_nat_numeral)
qed simp

lemma pf_open_conns:
  assumes "i + length ps \<le> 128" and "j < 128"
  shows "map_of (pf_conns (pf_open i ps st)) (data_channel j) =
    (if i \<le> j \<and> j < i + length ps then Some \<lparr>po_port = ps ! (j - i), po_stream = False\<rparr>
     else map_of (pf_conns st) (data_channel j))"
  using assms(1)
proof (induction i ps st rule: pf_open.induct)
  case (2 i p ps st)
  then have "i < 128" by simp
  with 2 assms(2) data_channel_inject [of j i] show ?case
    by (auto simp: nth_Cons' Suc_diff_le le_Suc_eq)
qed auto

lemma pf_open_effects:
  "pf_effects (pf_open i ps st) = pf_effects st @
     concat (map (\<lambda>(k, p). [PfSend (Binary (data_channel k # le16 p)),
       PfSend (Binary (error_channel k # le16 p))]) (enumerate i ps))"
  by (induction i ps st rule: pf_open.induct) simp_all

end
