(* ===== verification/Stream_Server.thy ===== *)
theory Stream_Server
  imports Port_Forward Protocol_Negotiation
begin

text \<open>
  The token-gated stream server (\<open>server.rs\<close>): the exec/attach and the port-forward handlers
  from the request to the response and the session task they spawn.  A request is what the
  handlers read of it: the path, the token the router extracts from it, the query, whether
  axum found a WebSocket upgrade, and the headers as \<open>headers.get(name)\<close> followed by
  \<open>to_str().ok()\<close>, under lower-case names.
\<close>

record Request =
  rq_path :: string
  rq_token :: string
  rq_query :: "string option"
  rq_ws :: bool
  rq_header :: "string \<Rightarrow> string option"

datatype Response =
    Http nat "(string \<times> string) list" string
  | WsUpgrade "string option"

datatype Task =
    SpdyExec StreamVerb StreamParams
  | SpdyPortforward string "string option"
  | WsExec string StreamVerb StreamParams
  | WsPortforward "u16 list" string "string option"

definition session_cap :: "string option \<Rightarrow> nat option" where
  "session_cap env = Option.bind env (parse_uint (2 ^ 64))"

definition not_found :: Response where
  "not_found = Http 404 [] ''token not found''"

definition bad_request :: "string \<Rightarrow> Response" where
  "bad_request msg = Http 400 [] msg"

definition wants_spdy :: "Request \<Rightarrow> bool" where
  "wants_spdy req =
     (case rq_header req ''upgrade'' of
        None \<Rightarrow> False | Some v \<Rightarrow> eq_ignore_ascii_case v ''SPDY/3.1'')"

definition build_101_spdy :: "string option \<Rightarrow> Response" where
  "build_101_spdy proto =
     Http 101 ([(''connection'', ''Upgrade''), (''upgrade'', ''SPDY/3.1'')]
       @ (case proto of None \<Rightarrow> [] | Some p \<Rightarrow> [(''X-Stream-Protocol-Version'', p)])) []"

definition spdy_protocol_mismatch :: "string list \<Rightarrow> Response" where
  "spdy_protocol_mismatch versions =
     Http 403 (map (\<lambda>v. (''X-Stream-Protocol-Version'', v)) versions)
       ''unsupported stream protocol version''"

definition spdy_exec_upgrade :: "Request \<Rightarrow> StreamVerb \<Rightarrow> StreamParams \<Rightarrow> Response \<times> Task option" where
  "spdy_exec_upgrade req verb params =
     (case (case rq_header req ''x-stream-protocol-version'' of
              Some h \<Rightarrow> negotiate_exec_protocol h
            | None \<Rightarrow> Some SPDY_PROTOCOL_V4) of
        None \<Rightarrow> (spdy_protocol_mismatch SPDY_EXEC_PROTOCOLS, None)
      | Some negotiated \<Rightarrow> (build_101_spdy (Some negotiated), Some (SpdyExec verb params)))"

definition spdy_portforward_upgrade :: "Request \<Rightarrow> string \<Rightarrow> string option \<Rightarrow> Response \<times> Task option" where
  "spdy_portforward_upgrade req dial_host netns_path =
     (let ok = (case rq_header req ''x-stream-protocol-version'' of
                  None \<Rightarrow> True
                | Some h \<Rightarrow> list_ex (\<lambda>p. trim p = SPDY_PORTFORWARD) (split_on (CHR '','') h))
      in if \<not> ok then (spdy_protocol_mismatch [SPDY_PORTFORWARD], None)
         else (build_101_spdy (Some SPDY_PORTFORWARD), Some (SpdyPortforward dial_host netns_path)))"

definition ws_response :: "string \<Rightarrow> Response" where
  "ws_response proto = WsUpgrade (if proto = [] then None else Some proto)"

definition exec_attach :: "nat \<Rightarrow> Request \<Rightarrow> TokenRegistry \<Rightarrow> (Response \<times> Task option) \<times> TokenRegistry" where
  "exec_attach now req reg =
     (let path_verb = (if starts_with ''/attach/'' (rq_path req) then Attach else Exec);
          (consumed, reg') = consume now (rq_token req) reg
      in case consumed of
           None \<Rightarrow> ((not_found, None), reg')
         | Some (verb, params) \<Rightarrow>
             if verb \<noteq> path_verb then ((not_found, None), reg')
             else if wants_spdy req then (spdy_exec_upgrade req verb params, reg')
             else if rq_ws req then
               (let proto = negotiate (rq_header req ''sec-websocket-protocol'')
                in ((ws_response proto, Some (WsExec proto verb params)), reg'))
             else ((bad_request ''expected websocket or SPDY/3.1 upgrade'', None), reg'))"

definition pf_dial_host :: "StreamParams \<Rightarrow> string" where
  "pf_dial_host params =
     (if sp_netns_path params \<noteq> None then ''127.0.0.1''
      else (case sp_dial_target params of Some t \<Rightarrow> t | None \<Rightarrow> ''127.0.0.1''))"

definition portforward_handler :: "nat \<Rightarrow> Request \<Rightarrow> TokenRegistry
    \<Rightarrow> (Response \<times> Task option) \<times> TokenRegistry" where
  "portforward_handler now req reg =
     (let (consumed, reg') = consume now (rq_token req) reg
      in case consumed of
           None \<Rightarrow> ((not_found, None), reg')
         | Some (verb, params) \<Rightarrow>
             if verb \<noteq> PortForward then ((not_found, None), reg')
             else
               (let netns_path = sp_netns_path params; dial_host = pf_dial_host params
                in if wants_spdy req then (spdy_portforward_upgrade req dial_host netns_path, reg')
                   else if rq_ws req then
                     (let ports = parse_ports (case rq_query req of None \<Rightarrow> [] | Some q \<Rightarrow> q);
                          proto = (case rq_header req ''sec-websocket-protocol'' of
                                     None \<Rightarrow> [] | Some h \<Rightarrow> pick_pf_protocol h)
                      in ((ws_response proto, Some (WsPortforward ports dial_host netns_path)), reg'))
                   else ((bad_request ''expected websocket or SPDY/3.1 upgrade'', None), reg')))"

text \<open>The router: the first path segment picks the handler; axum answers 404 elsewhere.\<close>

definition handle :: "nat \<Rightarrow> Request \<Rightarrow> TokenRegistry \<Rightarrow> (Response \<times> Task option) \<times> TokenRegistry" where
  "handle now req reg =
     (if rq_path req = ''/exec/'' @ rq_token req \<or> rq_path req = ''/attach/'' @ rq_token req
      then exec_attach now req reg
      else if rq_path req = ''/portforward/'' @ rq_token req then portforward_handler now req reg
      else ((Http 404 [] [], None), reg))"

text \<open>A whole server: requests at their times, the registry threaded through.\<close>

fun serve_all :: "(nat \<times> Request) list \<Rightarrow> TokenRegistry \<Rightarrow> (Response \<times> Task option) list \<times> TokenRegistry" where
  "serve_all [] reg = ([], reg)"
| "serve_all ((now, req) # rs) reg =
     (let (out, reg') = handle now req reg; (outs, reg'') = serve_all rs reg'
      in (out # outs, reg''))"

section \<open>Lemmas\<close>

fun task_verb :: "Task \<Rightarrow> StreamVerb" where
  "task_verb (SpdyExec v p) = v"
| "task_verb (WsExec pr v p) = v"
| "task_verb (SpdyPortforward h n) = PortForward"
| "task_verb (WsPortforward ps h n) = PortForward"

lemma handlers_registry:
  "snd (exec_attach now req reg) = snd (consume now (rq_token req) reg)"
  "snd (portforward_handler now req reg) = snd (consume now (rq_token req) reg)"
  by (auto simp: exec_attach_def portforward_handler_def Let_def split: prod.splits option.splits)

lemma handle_registry:
  "snd (handle now req reg) = reg \<or> snd (handle now req reg) = snd (consume now (rq_token req) reg)"
  by (simp add: handle_def handlers_registry)

lemma exec_attach_taskD:
  assumes "fst (exec_attach now req reg) = (r, Some t)"
  shows "\<exists>params. fst (consume now (rq_token req) reg) = Some (task_verb t, params)
    \<and> task_verb t = (if starts_with ''/attach/'' (rq_path req) then Attach else Exec)
    \<and> (t = SpdyExec (task_verb t) params \<or> (\<exists>pr. t = WsExec pr (task_verb t) params))"
  using assms
  by (auto simp: exec_attach_def spdy_exec_upgrade_def Let_def
      split: prod.splits option.splits if_splits)

lemma portforward_taskD:
  assumes "fst (portforward_handler now req reg) = (r, Some t)"
  shows "\<exists>params. fst (consume now (rq_token req) reg) = Some (PortForward, params)
    \<and> (t = SpdyPortforward (pf_dial_host params) (sp_netns_path params)
       \<or> (\<exists>ps. t = WsPortforward ps (pf_dial_host params) (sp_netns_path params)))"
  using assms
  by (auto simp: portforward_handler_def spdy_portforward_upgrade_def Let_def
      split: prod.splits option.splits if_splits)

lemma consume_removes: "map_of (snd (consume now t reg)) t = None"
  by (auto simp: consume_def Let_def split: option.splits)

lemma consume_absent: "map_of reg t = None \<Longrightarrow> consume now t reg = (None, reg)"
  by (simp add: consume_def)

lemma handle_absent:
  "map_of reg (rq_token req) = None \<Longrightarrow> snd (fst (handle now req reg)) = None"
  by (simp add: handle_def exec_attach_def portforward_handler_def consume_absent)

lemma handle_lookup_None:
  "map_of reg t = None \<Longrightarrow> map_of (snd (handle now req reg)) t = None"
  using handle_registry [of now req reg]
  by (auto simp: consume_def Let_def split: option.splits)

lemma serve_all_lookup_None:
  "map_of reg t = None \<Longrightarrow> map_of (snd (serve_all rs reg)) t = None"
proof (induction rs arbitrary: reg)
  case (Cons r rs)
  obtain now req where "r = (now, req)" by force
  then show ?case
    using Cons.IH [OF handle_lookup_None [OF Cons.prems, of now req]]
    by (auto simp: split: prod.splits)
qed simp

lemma serve_all_append:
  "serve_all (xs @ ys) reg =
     (let (o1, r1) = serve_all xs reg; (o2, r2) = serve_all ys r1 in (o1 @ o2, r2))"
  by (induction xs arbitrary: reg) (auto simp: Let_def split: prod.splits)

end
