(* ===== verification/Spdy_Frame.thy ===== *)
theory Spdy_Frame
  imports Codec_Laws
begin

text \<open>
  \<open>crates/lightr-cri-stream/src/spdy/frame.rs\<close>: the SPDY/3.1 wire framing.  Header blocks stay
  compressed here.  \<open>parse_frame\<close> and \<open>serialize\<close> follow the source field by field; the
  interpretation \<open>spdy\<close> shows that the format is self-delimiting.
\<close>

definition SPDY_VERSION :: u16 where "SPDY_VERSION = 3"

definition TYPE_SYN_STREAM :: u16 where "TYPE_SYN_STREAM = 1"
definition TYPE_SYN_REPLY :: u16 where "TYPE_SYN_REPLY = 2"
definition TYPE_RST_STREAM :: u16 where "TYPE_RST_STREAM = 3"
definition TYPE_SETTINGS :: u16 where "TYPE_SETTINGS = 4"
definition TYPE_PING :: u16 where "TYPE_PING = 6"
definition TYPE_GOAWAY :: u16 where "TYPE_GOAWAY = 7"
definition TYPE_HEADERS :: u16 where "TYPE_HEADERS = 8"
definition TYPE_WINDOW_UPDATE :: u16 where "TYPE_WINDOW_UPDATE = 9"

definition FLAG_FIN :: u8 where "FLAG_FIN = 1"

definition RST_PROTOCOL_ERROR :: u32 where "RST_PROTOCOL_ERROR = 1"
definition RST_REFUSED_STREAM :: u32 where "RST_REFUSED_STREAM = 3"
definition RST_CANCEL :: u32 where "RST_CANCEL = 5"
definition RST_INTERNAL_ERROR :: u32 where "RST_INTERNAL_ERROR = 6"

lemmas frame_type_defs = TYPE_SYN_STREAM_def TYPE_SYN_REPLY_def TYPE_RST_STREAM_def
  TYPE_SETTINGS_def TYPE_PING_def TYPE_GOAWAY_def TYPE_HEADERS_def TYPE_WINDOW_UPDATE_def

datatype Frame =
    SynStream (stream_id: u32) (assoc_stream_id: u32) (priority: u8) (flags: u8) (header_block: bytes)
  | SynReply (stream_id: u32) (flags: u8) (header_block: bytes)
  | RstStream (stream_id: u32) (status: u32)
  | Settings (payload: bytes)
  | Ping (ping_id: u32)
  | GoAway (last_good_stream_id: u32) (status: u32)
  | Headers (stream_id: u32) (flags: u8) (header_block: bytes)
  | WindowUpdate (stream_id: u32) (delta: u32)
  | Data (stream_id: u32) (flags: u8) (data: bytes)

datatype ParseResult = ParsedFrame Frame nat | NeedMore | ParseError string

section \<open>Parsing\<close>

definition be_u32 :: "bytes \<Rightarrow> u32" where
  "be_u32 b = from_be32 (b ! 0) (b ! 1) (b ! 2) (b ! 3)"

definition length24 :: "u8 \<Rightarrow> u8 \<Rightarrow> u8 \<Rightarrow> nat" where
  "length24 a b c = unat (push_bit 16 (ucast a) OR push_bit 8 (ucast b) OR (ucast c :: u32))"

abbreviation MASK31 :: u32 where "MASK31 \<equiv> 0x7fffffff"

text \<open>The \<open>match ftype\<close> of \<open>parse_frame\<close>.\<close>

definition parse_control :: "u16 \<Rightarrow> u8 \<Rightarrow> bytes \<Rightarrow> string + Frame" where
  "parse_control ftype fl p =
     (if ftype = TYPE_SYN_STREAM then
        (if length p < 10 then Inl ''short SYN_STREAM''
         else Inr (SynStream (be_u32 p AND MASK31) (be_u32 (drop 4 p) AND MASK31)
                     (drop_bit 5 (p ! 8)) fl (drop 10 p)))
      else if ftype = TYPE_SYN_REPLY then
        (if length p < 4 then Inl ''short SYN_REPLY''
         else Inr (SynReply (be_u32 p AND MASK31) fl (drop 4 p)))
      else if ftype = TYPE_RST_STREAM then
        (if length p < 8 then Inl ''short RST_STREAM''
         else Inr (RstStream (be_u32 p AND MASK31) (be_u32 (drop 4 p))))
      else if ftype = TYPE_SETTINGS then Inr (Settings p)
      else if ftype = TYPE_PING then
        (if length p < 4 then Inl ''short PING'' else Inr (Ping (be_u32 p)))
      else if ftype = TYPE_GOAWAY then
        (if length p < 8 then Inl ''short GOAWAY''
         else Inr (GoAway (be_u32 p AND MASK31) (be_u32 (drop 4 p))))
      else if ftype = TYPE_HEADERS then
        (if length p < 4 then Inl ''short HEADERS''
         else Inr (Headers (be_u32 p AND MASK31) fl (drop 4 p)))
      else if ftype = TYPE_WINDOW_UPDATE then
        (if length p < 8 then Inl ''short WINDOW_UPDATE''
         else Inr (WindowUpdate (be_u32 p AND MASK31) (be_u32 (drop 4 p) AND MASK31)))
      else Inl (''unknown control frame type '' @ nat_str (unat ftype)))"

definition parse_frame :: "bytes \<Rightarrow> ParseResult" where
  "parse_frame buf =
     (if length buf < 8 then NeedMore
      else
        let len = length24 (buf ! 5) (buf ! 6) (buf ! 7); total = 8 + len
        in if length buf < total then NeedMore
           else
             let p = take len (drop 8 buf); fl = buf ! 4
             in if buf ! 0 AND 0x80 = 0
                then ParsedFrame (Data (be_u32 buf AND MASK31) fl p) total
                else
                  let version = push_bit 8 (ucast (buf ! 0 AND 0x7f)) OR (ucast (buf ! 1) :: u16)
                  in if version \<noteq> SPDY_VERSION
                     then ParseError (''unsupported SPDY version '' @ nat_str (unat version))
                     else
                       let ftype = push_bit 8 (ucast (buf ! 2)) OR ucast (buf ! 3)
                       in (case parse_control ftype fl p of
                             Inl e \<Rightarrow> ParseError e
                           | Inr f \<Rightarrow> ParsedFrame f total))"

section \<open>Serialising\<close>

definition len24_bytes :: "nat \<Rightarrow> bytes" where
  "len24_bytes n = [of_nat (drop_bit 16 n), of_nat (drop_bit 8 n), of_nat n]"

definition control_header :: "u16 \<Rightarrow> u8 \<Rightarrow> nat \<Rightarrow> bytes" where
  "control_header ftype fl len =
     [0x80 OR ucast (drop_bit 8 SPDY_VERSION), ucast (SPDY_VERSION AND 0xff)]
       @ be16 ftype @ [fl] @ len24_bytes len"

fun serialize :: "Frame \<Rightarrow> bytes" where
  "serialize (SynReply sid fl hb) =
     control_header TYPE_SYN_REPLY fl (4 + length hb) @ be32 (sid AND MASK31) @ hb"
| "serialize (SynStream sid asid prio fl hb) =
     control_header TYPE_SYN_STREAM fl (10 + length hb)
       @ be32 (sid AND MASK31) @ be32 (asid AND MASK31) @ [push_bit 5 prio] @ [0] @ hb"
| "serialize (Headers sid fl hb) =
     control_header TYPE_HEADERS fl (4 + length hb) @ be32 (sid AND MASK31) @ hb"
| "serialize (RstStream sid st) =
     control_header TYPE_RST_STREAM 0 8 @ be32 (sid AND MASK31) @ be32 st"
| "serialize (Ping i) = control_header TYPE_PING 0 4 @ be32 i"
| "serialize (GoAway sid st) =
     control_header TYPE_GOAWAY 0 8 @ be32 (sid AND MASK31) @ be32 st"
| "serialize (Settings p) = control_header TYPE_SETTINGS 0 (length p) @ p"
| "serialize (WindowUpdate sid d) =
     control_header TYPE_WINDOW_UPDATE 0 8 @ be32 (sid AND MASK31) @ be32 (d AND MASK31)"
| "serialize (Data sid fl d) =
     be32 (sid AND MASK31) @ [fl] @ len24_bytes (length d) @ d"

text \<open>What a frame must satisfy to fit the wire: 31-bit ids, 3-bit priority, 24-bit length.\<close>

fun frame_ok :: "Frame \<Rightarrow> bool" where
  "frame_ok (SynStream sid asid prio fl hb) \<longleftrightarrow>
     sid AND MASK31 = sid \<and> asid AND MASK31 = asid \<and> drop_bit 5 (push_bit 5 prio) = prio
       \<and> length hb + 10 < 2 ^ 24"
| "frame_ok (SynReply sid fl hb) \<longleftrightarrow> sid AND MASK31 = sid \<and> length hb + 4 < 2 ^ 24"
| "frame_ok (RstStream sid st) \<longleftrightarrow> sid AND MASK31 = sid"
| "frame_ok (Settings p) \<longleftrightarrow> length p < 2 ^ 24"
| "frame_ok (Ping i) \<longleftrightarrow> True"
| "frame_ok (GoAway sid st) \<longleftrightarrow> sid AND MASK31 = sid"
| "frame_ok (Headers sid fl hb) \<longleftrightarrow> sid AND MASK31 = sid \<and> length hb + 4 < 2 ^ 24"
| "frame_ok (WindowUpdate sid d) \<longleftrightarrow> sid AND MASK31 = sid \<and> d AND MASK31 = d"
| "frame_ok (Data sid fl d) \<longleftrightarrow> sid AND MASK31 = sid \<and> length d < 2 ^ 24"

section \<open>The length field and the id fields\<close>

lemma length_len24_bytes [simp]: "length (len24_bytes n) = 3"
  by (simp add: len24_bytes_def)

lemma length_control_header [simp]: "length (control_header t fl n) = 8"
  by (simp add: control_header_def be16_def)

lemma length24_len24:
  assumes "n < 2 ^ 24"
  shows "length24 (of_nat (drop_bit 16 n)) (of_nat (drop_bit 8 n)) (of_nat n) = n"
proof -
  have n24: "take_bit 24 n = n"
    using assms by (simp add: take_bit_eq_mod)
  have "push_bit 16 (ucast (of_nat (drop_bit 16 n) :: u8)) OR
      push_bit 8 (ucast (of_nat (drop_bit 8 n) :: u8)) OR ucast (of_nat n :: u8) = (of_nat n :: u32)"
    (is "?l = _")
  proof (rule bit_word_eqI)
    fix m
    assume "m < LENGTH(32)"
    then consider "m < 8" | "8 \<le> m" "m < 16" | "16 \<le> m" "m < 24" | "24 \<le> m" "m < 32"
      by fastforce
    moreover have "\<not> bit n m" if "24 \<le> m"
      using that n24 by (metis bit_take_bit_iff linorder_not_le)
    ultimately show "bit ?l m = bit (of_nat n :: u32) m"
      by cases (auto simp: bit_simps)
  qed
  then have "length24 (of_nat (drop_bit 16 n)) (of_nat (drop_bit 8 n)) (of_nat n)
      = unat (of_nat n :: u32)"
    by (simp add: length24_def)
  with assms show ?thesis
    by (simp add: unat_of_nat)
qed

lemma be_u32_be32 [simp]: "be_u32 (be32 w @ r) = w"
  by (simp add: be_u32_def be32_def)

lemma be_u32_be32_whole [simp]: "be_u32 (be32 w) = w"
  using be_u32_be32 [of w "[]"] by simp

lemma mask31_idem: "w AND MASK31 AND MASK31 = (w AND MASK31 :: u32)"
  by (simp add: and.assoc)

lemma data_top_bit:
  "(ucast (drop_bit 24 (sid AND MASK31 :: u32)) :: u8) AND 0x80 = 0"
proof (rule bit_word_eqI)
  fix n
  assume n: "n < LENGTH(8)"
  have b80: "bit (0x80 :: u8) n \<longleftrightarrow> n = 7"
    using n by (auto simp: bit_numeral_rec less_Suc_eq numeral_eq_Suc)
  have "\<not> bit (MASK31 :: u32) 31"
    by simp
  then show "bit ((ucast (drop_bit 24 (sid AND MASK31 :: u32)) :: u8) AND 0x80) n = bit (0 :: u8) n"
    using b80 by (auto simp: bit_simps)
qed

section \<open>Headers of a buffer\<close>

text \<open>What \<open>parse_frame\<close> sees of a buffer that starts with an eight-byte header.\<close>

lemma control_header_eq:
  "control_header t fl n = [0x80, 3, ucast (drop_bit 8 t), ucast t, fl,
     of_nat (drop_bit 16 n), of_nat (drop_bit 8 n), of_nat n]"
  by (simp add: control_header_def len24_bytes_def be16_def SPDY_VERSION_def)

lemma nth_control_header:
  "(control_header t fl n @ r) ! 0 = 0x80" "(control_header t fl n @ r) ! Suc 0 = 3"
  "(control_header t fl n @ r) ! 2 = ucast (drop_bit 8 t)"
  "(control_header t fl n @ r) ! 3 = ucast t"
  "(control_header t fl n @ r) ! 4 = fl"
  "(control_header t fl n @ r) ! 5 = of_nat (drop_bit 16 n)"
  "(control_header t fl n @ r) ! 6 = of_nat (drop_bit 8 n)"
  "(control_header t fl n @ r) ! 7 = of_nat n"
  by (simp_all add: control_header_eq nth_Cons')

lemma u16_bytes: "push_bit 8 (ucast (ucast (drop_bit 8 t) :: u8)) OR ucast (ucast t :: u8) = (t :: u16)"
  by (rule bit_word_eqI) (auto simp: bit_simps)

definition control_result :: "u16 \<Rightarrow> u8 \<Rightarrow> bytes \<Rightarrow> ParseResult" where
  "control_result t fl p =
     (case parse_control t fl p of Inl e \<Rightarrow> ParseError e | Inr f \<Rightarrow> ParsedFrame f (8 + length p))"

lemma parse_control_frame:
  assumes "length p < 2 ^ 24"
  shows "parse_frame (control_header t fl (length p) @ p @ r) = control_result t fl p"
  using assms
  by (simp add: parse_frame_def Let_def nth_control_header length24_len24 u16_bytes
      SPDY_VERSION_def control_result_def del: push_bit_numeral_minus_1)

lemma take_header: "length h = 8 \<Longrightarrow> \<not> n < 8 \<Longrightarrow> take n (h @ d) = h @ take (n - 8) d"
  by simp

lemma parse_control_short:
  assumes "length p < 2 ^ 24" and "n < 8 + length p"
  shows "parse_frame (take n (control_header t fl (length p) @ p)) = NeedMore"
proof (cases "n < 8")
  case True
  then show ?thesis by (simp add: parse_frame_def)
next
  case False
  then have "take n (control_header t fl (length p) @ p)
      = control_header t fl (length p) @ take (n - 8) p"
    by simp
  with False assms show ?thesis
    by (simp add: parse_frame_def Let_def nth_control_header length24_len24)
qed

lemma nth_data_header:
  "(be32 w @ [fl] @ len24_bytes n @ r) ! 0 = ucast (drop_bit 24 w)"
  "(be32 w @ [fl] @ len24_bytes n @ r) ! 4 = fl"
  "(be32 w @ [fl] @ len24_bytes n @ r) ! 5 = of_nat (drop_bit 16 n)"
  "(be32 w @ [fl] @ len24_bytes n @ r) ! 6 = of_nat (drop_bit 8 n)"
  "(be32 w @ [fl] @ len24_bytes n @ r) ! 7 = of_nat n"
  by (simp_all add: be32_def len24_bytes_def nth_Cons')

lemma parse_data_frame:
  assumes "length d < 2 ^ 24"
  shows "parse_frame (be32 (sid AND MASK31) @ [fl] @ len24_bytes (length d) @ d @ r)
    = ParsedFrame (Data (sid AND MASK31) fl d) (8 + length d)"
  using assms
  by (simp only: parse_frame_def Let_def nth_data_header length24_len24 data_top_bit be_u32_be32
      mask31_idem) simp

lemma parse_data_short:
  assumes "length d < 2 ^ 24" and "n < 8 + length d"
  shows "parse_frame (take n (be32 (sid AND MASK31) @ [fl] @ len24_bytes (length d) @ d)) = NeedMore"
proof (cases "n < 8")
  case True
  then show ?thesis by (simp add: parse_frame_def)
next
  case False
  then have "take n (be32 (sid AND MASK31) @ [fl] @ len24_bytes (length d) @ d)
      = be32 (sid AND MASK31) @ [fl] @ len24_bytes (length d) @ take (n - 8) d"
    using take_header [of "be32 (sid AND MASK31) @ [fl] @ len24_bytes (length d)" n d] by simp
  with False assms show ?thesis
    by (simp only: parse_frame_def Let_def nth_data_header length24_len24) simp
qed

section \<open>The round trip and the framing interface\<close>

text \<open>Every frame is a header and a payload.\<close>

fun control_parts :: "Frame \<Rightarrow> (u16 \<times> u8 \<times> bytes) option" where
  "control_parts (SynReply sid fl hb) = Some (TYPE_SYN_REPLY, fl, be32 (sid AND MASK31) @ hb)"
| "control_parts (SynStream sid asid prio fl hb) =
     Some (TYPE_SYN_STREAM, fl, be32 (sid AND MASK31) @ be32 (asid AND MASK31)
       @ [push_bit 5 prio] @ [0] @ hb)"
| "control_parts (Headers sid fl hb) = Some (TYPE_HEADERS, fl, be32 (sid AND MASK31) @ hb)"
| "control_parts (RstStream sid st) = Some (TYPE_RST_STREAM, 0, be32 (sid AND MASK31) @ be32 st)"
| "control_parts (Ping i) = Some (TYPE_PING, 0, be32 i)"
| "control_parts (GoAway sid st) = Some (TYPE_GOAWAY, 0, be32 (sid AND MASK31) @ be32 st)"
| "control_parts (Settings p) = Some (TYPE_SETTINGS, 0, p)"
| "control_parts (WindowUpdate sid d) =
     Some (TYPE_WINDOW_UPDATE, 0, be32 (sid AND MASK31) @ be32 (d AND MASK31))"
| "control_parts (Data sid fl d) = None"

lemma serialize_control:
  "control_parts f = Some (t, fl, p) \<Longrightarrow> serialize f = control_header t fl (length p) @ p"
  by (cases f) auto

lemma serialize_data: "control_parts f = None \<Longrightarrow> \<exists>sid fl d. f = Data sid fl d"
  by (cases f) auto

lemma control_parts_ok: "control_parts f = Some (t, fl, p) \<Longrightarrow> frame_ok f \<Longrightarrow> length p < 2 ^ 24"
  by (cases f) auto

lemma control_parts_parse:
  assumes "control_parts f = Some (t, fl, p)" and "frame_ok f"
  shows "parse_control t fl p = Inr f"
proof (cases f)
  case (SynStream sid asid prio fl hb)
  have "drop 4 (be32 (sid AND MASK31) @ r) = r" for r
    by simp
  with SynStream assms show ?thesis
    by (auto simp: parse_control_def frame_type_defs nth_append mask31_idem)
qed (use assms in \<open>auto simp: parse_control_def frame_type_defs mask31_idem\<close>)

lemma parse_serialize:
  assumes "frame_ok f"
  shows "parse_frame (serialize f @ r) = ParsedFrame f (length (serialize f))"
proof (cases "control_parts f")
  case None
  then obtain sid fl d where f: "f = Data sid fl d"
    using serialize_data by blast
  with assms have "sid AND MASK31 = sid" and "length d < 2 ^ 24"
    by auto
  with f parse_data_frame [of d sid fl r] show ?thesis
    by simp
next
  case (Some parts)
  obtain t fl p where "parts = (t, fl, p)"
    by (cases parts)
  with Some have parts: "control_parts f = Some (t, fl, p)"
    by simp
  show ?thesis
    using parse_control_frame [OF control_parts_ok [OF parts assms], of t fl r]
      control_parts_parse [OF parts assms]
    by (simp add: serialize_control [OF parts] control_result_def)
qed

lemma parse_serialize_short:
  assumes "frame_ok f" and "n < length (serialize f)"
  shows "parse_frame (take n (serialize f)) = NeedMore"
proof (cases "control_parts f")
  case None
  then obtain sid fl d where f: "f = Data sid fl d"
    using serialize_data by blast
  with assms have "length d < 2 ^ 24" and "n < 8 + length d"
    by auto
  with f parse_data_short [of d n sid fl] show ?thesis
    by simp
next
  case (Some parts)
  obtain t fl p where "parts = (t, fl, p)"
    by (cases parts)
  with Some have parts: "control_parts f = Some (t, fl, p)"
    by simp
  with assms show ?thesis
    using parse_control_short [OF control_parts_ok [OF parts assms(1)], of n t fl]
    by (simp add: serialize_control [OF parts])
qed

definition parsed :: "ParseResult \<Rightarrow> (Frame \<times> nat) option" where
  "parsed r = (case r of ParsedFrame f n \<Rightarrow> Some (f, n) | _ \<Rightarrow> None)"

interpretation spdy: framed serialize "\<lambda>buf. parsed (parse_frame buf)" frame_ok
  by unfold_locales (simp_all add: parsed_def parse_serialize parse_serialize_short)

section \<open>What a successful parse has looked at\<close>

text \<open>A parsed frame lies inside the buffer, and only its own bytes decided it.\<close>

lemma parse_frame_FrameE:
  assumes "parse_frame buf = ParsedFrame f n"
  obtains "8 \<le> n" "n \<le> length buf" "n = 8 + length24 (buf ! 5) (buf ! 6) (buf ! 7)"
  using assms
  by (auto simp: parse_frame_def Let_def split: if_splits sum.splits)

lemma parse_frame_local:
  assumes "parse_frame buf = ParsedFrame f n"
  shows "parse_frame (take n buf @ r) = ParsedFrame f n"
proof -
  from assms obtain n8: "8 \<le> n" and len: "n \<le> length buf"
    and n: "n = 8 + length24 (buf ! 5) (buf ! 6) (buf ! 7)"
    by (rule parse_frame_FrameE)
  define L where "L = length24 (buf ! 5) (buf ! 6) (buf ! 7)"
  define X where "X = take n buf @ r"
  have nth: "X ! i = buf ! i" if "i < 8" for i
    using that n8 len by (simp add: X_def nth_append)
  have be: "be_u32 X = be_u32 buf"
    by (simp add: be_u32_def nth)
  have pay: "take L (drop 8 X) = take L (drop 8 buf)"
    using n n8 len by (simp add: X_def L_def drop_take)
  have "8 + L \<le> length X" and "8 + L \<le> length buf"
    using n n8 len by (simp_all add: X_def L_def)
  with assms have "parse_frame X = ParsedFrame f n"
    by (simp add: parse_frame_def Let_def nth be pay flip: L_def split: if_splits)
  then show ?thesis
    by (simp add: X_def)
qed

end
