(* ===== verification/Spdy_Headers.thy ===== *)
theory Spdy_Headers
  imports Codec_Laws
begin

text \<open>
  \<open>crates/lightr-cri-stream/src/spdy/headers.rs\<close>: the uncompressed SPDY/3.1 name/value block.
  A Rust \<open>String\<close> is valid UTF-8, which \<open>String::from_utf8\<close> checks on the way in.
\<close>

section \<open>UTF-8 validity\<close>

definition cont :: "u8 \<Rightarrow> bool" where
  "cont b \<longleftrightarrow> 0x80 \<le> b \<and> b \<le> 0xBF"

fun valid_utf8 :: "bytes \<Rightarrow> bool" where
  "valid_utf8 [] = True"
| "valid_utf8 (a # bs) =
     (if a < 0x80 then valid_utf8 bs
      else if 0xC2 \<le> a \<and> a \<le> 0xDF then
        (case bs of b # cs \<Rightarrow> cont b \<and> valid_utf8 cs | _ \<Rightarrow> False)
      else if 0xE0 \<le> a \<and> a \<le> 0xEF then
        (case bs of
           b # c # ds \<Rightarrow>
             cont b \<and> (a = 0xE0 \<longrightarrow> 0xA0 \<le> b) \<and> (a = 0xED \<longrightarrow> b \<le> 0x9F) \<and> cont c \<and> valid_utf8 ds
         | _ \<Rightarrow> False)
      else if 0xF0 \<le> a \<and> a \<le> 0xF4 then
        (case bs of
           b # c # d # es \<Rightarrow>
             cont b \<and> (a = 0xF0 \<longrightarrow> 0x90 \<le> b) \<and> (a = 0xF4 \<longrightarrow> b \<le> 0x8F) \<and> cont c \<and> cont d
               \<and> valid_utf8 es
         | _ \<Rightarrow> False)
      else False)"

definition from_utf8 :: "bytes \<Rightarrow> string option" where
  "from_utf8 bs = (if valid_utf8 bs then Some (of_bytes bs) else None)"

section \<open>The block\<close>

type_synonym header_list = "(string \<times> string) list"

fun serialize_pairs :: "header_list \<Rightarrow> bytes" where
  "serialize_pairs [] = []"
| "serialize_pairs ((name, value) # hs) =
     be32 (of_nat (length name)) @ as_bytes name
       @ be32 (of_nat (length value)) @ as_bytes value @ serialize_pairs hs"

definition serialize_headers :: "header_list \<Rightarrow> bytes" where
  "serialize_headers hs = be32 (of_nat (length hs)) @ serialize_pairs hs"

definition read_bytes :: "bytes \<Rightarrow> nat \<Rightarrow> nat \<Rightarrow> (bytes \<times> nat) option" where
  "read_bytes buf pos len =
     (if pos + len \<le> length buf then Some (take len (drop pos buf), pos + len) else None)"

definition read_u32 :: "bytes \<Rightarrow> nat \<Rightarrow> (u32 \<times> nat) option" where
  "read_u32 buf pos =
     (case read_bytes buf pos 4 of
        None \<Rightarrow> None
      | Some (s, end_pos) \<Rightarrow> Some (from_be32 (s ! 0) (s ! 1) (s ! 2) (s ! 3), end_pos))"

text \<open>A length-prefixed byte string at \<open>pos\<close>.\<close>

definition read_field :: "bytes \<Rightarrow> nat \<Rightarrow> (bytes \<times> nat) option" where
  "read_field buf pos =
     (case read_u32 buf pos of
        None \<Rightarrow> None
      | Some (len, pos1) \<Rightarrow> read_bytes buf pos1 (unat len))"

fun read_pairs :: "nat \<Rightarrow> bytes \<Rightarrow> nat \<Rightarrow> header_list option" where
  "read_pairs 0 buf pos = Some []"
| "read_pairs (Suc k) buf pos =
     (case read_field buf pos of
        None \<Rightarrow> None
      | Some (name, pos1) \<Rightarrow>
          (case read_field buf pos1 of
             None \<Rightarrow> None
           | Some (value, pos2) \<Rightarrow>
               (case (from_utf8 name, from_utf8 value) of
                  (Some n, Some v) \<Rightarrow> map_option ((#) (n, v)) (read_pairs k buf pos2)
                | _ \<Rightarrow> None)))"

definition deserialize_headers :: "bytes \<Rightarrow> header_list option" where
  "deserialize_headers buf =
     (case read_u32 buf 0 of
        None \<Rightarrow> None
      | Some (count, pos) \<Rightarrow> if 1024 < unat count then None else read_pairs (unat count) buf pos)"

definition header_get :: "header_list \<Rightarrow> string \<Rightarrow> string option" where
  "header_get hs name =
     map_option snd (List.find (\<lambda>(k, _). eq_ignore_ascii_case k name) hs)"

section \<open>Round trip\<close>

definition rust_string :: "string \<Rightarrow> bool" where
  "rust_string s \<longleftrightarrow> valid_utf8 (as_bytes s) \<and> length s < 2 ^ 32"

definition headers_ok :: "header_list \<Rightarrow> bool" where
  "headers_ok hs \<longleftrightarrow> length hs \<le> 1024 \<and> list_all (\<lambda>(n, v). rust_string n \<and> rust_string v) hs"

lemma read_bytes_at: "read_bytes (pre @ bs @ r) (length pre) (length bs) = Some (bs, length pre + length bs)"
  by (simp add: read_bytes_def)

lemma read_u32_at: "read_u32 (pre @ be32 w @ r) (length pre) = Some (w, length pre + 4)"
proof -
  have "be32 w ! 0 = ucast (drop_bit 24 w)" "be32 w ! 1 = ucast (drop_bit 16 w)"
    "be32 w ! 2 = ucast (drop_bit 8 w)" "be32 w ! 3 = ucast w"
    by (simp_all add: be32_def)
  with read_bytes_at [of pre "be32 w" r] show ?thesis
    by (simp add: read_u32_def)
qed

lemma read_field_at:
  assumes "length s < 2 ^ 32"
  shows "read_field (pre @ be32 (of_nat (length s)) @ as_bytes s @ r) (length pre)
    = Some (as_bytes s, length pre + 4 + length s)"
proof -
  have "unat (of_nat (length s) :: u32) = length s"
    using assms by (simp add: unat_of_nat)
  then show ?thesis
    using read_u32_at [of pre "of_nat (length s)" "as_bytes s @ r"]
      read_bytes_at [of "pre @ be32 (of_nat (length s))" "as_bytes s" r]
    by (simp add: read_field_def)
qed

lemma from_utf8_as_bytes: "rust_string s \<Longrightarrow> from_utf8 (as_bytes s) = Some s"
  by (simp add: from_utf8_def rust_string_def)

lemma read_pairs_at:
  assumes "list_all (\<lambda>(n, v). rust_string n \<and> rust_string v) hs"
  shows "read_pairs (length hs) (pre @ serialize_pairs hs @ r) (length pre) = Some hs"
  using assms
proof (induction hs arbitrary: pre)
  case Nil
  then show ?case by simp
next
  case (Cons h hs)
  obtain n v where h: "h = (n, v)" by (cases h)
  define m where "m = pre @ be32 (of_nat (length n)) @ as_bytes n"
  define q where "q = m @ be32 (of_nat (length v)) @ as_bytes v"
  have ok: "rust_string n" "rust_string v" and rest: "list_all (\<lambda>(n, v). rust_string n \<and> rust_string v) hs"
    using Cons.prems h by auto
  have buf: "pre @ serialize_pairs (h # hs) @ r = q @ serialize_pairs hs @ r"
    by (simp add: h m_def q_def)
  have "read_field (pre @ serialize_pairs (h # hs) @ r) (length pre) = Some (as_bytes n, length m)"
    using read_field_at [of n pre "be32 (of_nat (length v)) @ as_bytes v @ serialize_pairs hs @ r"] ok
    by (simp add: h m_def rust_string_def)
  moreover have "read_field (pre @ serialize_pairs (h # hs) @ r) (length m) = Some (as_bytes v, length q)"
    using read_field_at [of v m "serialize_pairs hs @ r"] ok
    by (simp add: h m_def q_def rust_string_def)
  moreover have "read_pairs (length hs) (pre @ serialize_pairs (h # hs) @ r) (length q) = Some hs"
    using Cons.IH [OF rest, of q] by (simp only: buf)
  ultimately show ?case
    using ok by (simp add: h from_utf8_as_bytes)
qed

lemma deserialize_serialize:
  assumes "headers_ok hs"
  shows "deserialize_headers (serialize_headers hs @ r) = Some hs"
proof -
  have "unat (of_nat (length hs) :: u32) = length hs"
    using assms by (simp add: headers_ok_def unat_of_nat)
  then show ?thesis
    using assms read_u32_at [of "[]" "of_nat (length hs)" "serialize_pairs hs @ r"]
      read_pairs_at [of hs "be32 (of_nat (length hs))" r]
    by (simp add: deserialize_headers_def serialize_headers_def headers_ok_def)
qed

interpretation headers: codec serialize_headers deserialize_headers headers_ok
  by unfold_locales (use deserialize_serialize [of _ "[]"] in simp)

text \<open>Bounds: a block never yields more than 1024 pairs, and truncation is an error.\<close>

lemma read_pairs_length: "read_pairs k buf pos = Some hs \<Longrightarrow> length hs = k"
  by (induction k buf pos arbitrary: hs rule: read_pairs.induct)
    (auto split: option.splits prod.splits)

lemma read_pairs_utf8:
  "read_pairs k buf pos = Some hs \<Longrightarrow>
     list_all (\<lambda>(n, v). valid_utf8 (as_bytes n) \<and> valid_utf8 (as_bytes v)) hs"
  by (induction k buf pos arbitrary: hs rule: read_pairs.induct)
    (auto simp: from_utf8_def split: option.splits prod.splits if_splits)

lemma deserialize_bounds:
  "deserialize_headers buf = Some hs \<Longrightarrow>
     length hs \<le> 1024 \<and> list_all (\<lambda>(n, v). valid_utf8 (as_bytes n) \<and> valid_utf8 (as_bytes v)) hs"
  using read_pairs_length read_pairs_utf8
  by (fastforce simp: deserialize_headers_def split: option.splits if_splits)

text \<open>Looking a header up ignores the case of its name.\<close>

lemma header_get_case:
  assumes "eq_ignore_ascii_case a b"
  shows "header_get hs a = header_get hs b"
proof -
  have "(\<lambda>(k, _ :: string). eq_ignore_ascii_case k a) = (\<lambda>(k, _). eq_ignore_ascii_case k b)"
    using assms by (auto simp: eq_ignore_ascii_case_def)
  then show ?thesis by (simp add: header_get_def)
qed

end
