(* ===== verification/Stream_Props.thy ===== *)
theory Stream_Props
  imports Stream_Server Spdy_Frame Spdy_Headers
begin

text \<open>
  The properties of the streaming crate: the token gate, the framings and their round trips,
  negotiation, and the two WebSocket drivers.
\<close>

section \<open>Tokens\<close>

definition demo_params :: StreamParams where
  "demo_params = \<lparr>sp_container = Some ''ct-1'', sp_sandbox = None, sp_cmd = [''ls''], sp_tty = False,
     sp_stdin = False, sp_ports = [], sp_dial_target = None, sp_netns_path = None\<rparr>"

definition demo_rnd :: "nat \<Rightarrow> bytes option" where
  "demo_rnd i = Some [of_nat i, 1, 2, 3, 4, 5]"

lemma registry_ok_new [simp]: "registry_ok new_registry"
  by (simp add: registry_ok_def new_registry_def)

text \<open>C17: From the empty registry, whatever the sequence of mints and consumes, their times and
  the random bytes: a token is redeemed for given parameters at most as often as it was minted
  for them.\<close>

theorem tokens_single_use:
  "redeemed_count t vp (fst (run_events mint_pair consume evs new_registry))
     \<le> minted_count t vp (fst (run_events mint_pair consume evs new_registry))"
  using tokens.redeemed_le_minted [OF registry_ok_new, of t vp evs]
  by (simp add: token_payload_def new_registry_def)

text \<open>C18: The registry never holds more than 1000 tokens, and a mint that succeeds gives eight
  characters of the URL-safe alphabet that no live entry has (the random source yields six
  bytes).\<close>

theorem mint_bounded_and_fresh:
  assumes "registry_ok m" and "\<And>i bs. rnd i = Some bs \<Longrightarrow> length bs = 6"
  shows "length (snd (mint now rnd verb params m)) \<le> 1000
    \<and> (case fst (mint now rnd verb params m) of
         None \<Rightarrow> True
       | Some tok \<Rightarrow> length tok = 8 \<and> set tok \<subseteq> set URL_ALPHABET
           \<and> (case map_of m tok of None \<Rightarrow> True | Some e \<Rightarrow> \<not> is_live now e))"
proof (cases "fst (mint now rnd verb params m)")
  case None
  then show ?thesis
    using registry_ok_mint [OF assms(1), of now rnd verb params]
    by (simp add: registry_ok_def MAX_INFLIGHT_def)
next
  case (Some tok)
  then obtain m' where "mint now rnd verb params m = (Some tok, m')"
    by (cases "mint now rnd verb params m") simp
  then obtain j bs where bs: "rnd j = Some bs" "tok = encode_url_nopad bs"
    and new: "map_of (sweep_expired now m) tok = None"
    by (rule mint_SomeE [OF _ assms(1)])
  from assms(2) [OF bs(1)] have len: "length bs = 6" .
  have "case map_of m tok of None \<Rightarrow> True | Some e \<Rightarrow> \<not> is_live now e"
    using new assms(1) by (auto simp: sweep_expired_lookup registry_ok_def split: option.splits if_splits)
  with len bs(2) Some registry_ok_mint [OF assms(1), of now rnd verb params] show ?thesis
    by (simp add: length_encode_url set_encode_url registry_ok_def MAX_INFLIGHT_def)
qed

theorem mint_bounded_and_fresh_witness:
  "length (snd (mint 0 demo_rnd Exec demo_params new_registry)) \<le> 1000
   \<and> length (the (fst (mint 0 demo_rnd Exec demo_params new_registry))) = 8"
proof -
  have six: "length bs = 6" if "demo_rnd i = Some bs" for i bs
    using that by (auto simp: demo_rnd_def)
  have "fst (mint 0 demo_rnd Exec demo_params new_registry) = Some ''AAECAwQF''"
    by code_simp
  then show ?thesis
    using mint_bounded_and_fresh [OF registry_ok_new six, where now = 0 and verb = Exec and params = demo_params] by auto
qed

section \<open>The token gate\<close>

text \<open>C1: The server starts a session only for a request whose token is in the registry, younger
  than 60 seconds and minted for the verb of the route the request came in on; an exec or attach
  session gets exactly the parameters cached under the token, a port forward dials loopback
  inside the token's network namespace, or the token's dial target where there is none.\<close>

theorem token_gate:
  assumes "snd (fst (handle now req reg)) = Some task"
  shows "\<exists>e. map_of reg (rq_token req) = Some e \<and> is_live now e \<and> en_verb e = task_verb task
    \<and> rq_path req = ''/'' @ verb_path (en_verb e) @ ''/'' @ rq_token req
    \<and> (case task of
         SpdyExec v p \<Rightarrow> p = en_params e
       | WsExec pr v p \<Rightarrow> p = en_params e
       | SpdyPortforward h ns \<Rightarrow> h = pf_dial_host (en_params e) \<and> ns = sp_netns_path (en_params e)
       | WsPortforward ports h ns \<Rightarrow> h = pf_dial_host (en_params e) \<and> ns = sp_netns_path (en_params e))"
proof -
  have live: "\<exists>e. map_of reg (rq_token req) = Some e \<and> is_live now e \<and> en_verb e = v \<and> en_params e = p"
    if "fst (consume now (rq_token req) reg) = Some (v, p)" for v p
    using that by (auto simp: consume_def Let_def is_live_def split: option.splits if_splits)
  have no_prefix: "starts_with ''/attach/'' (''/attach/'' @ t)" "\<not> starts_with ''/attach/'' (''/exec/'' @ t)" for t
    by (simp_all add: starts_with_def)
  consider (exec) "fst (handle now req reg) = fst (exec_attach now req reg)"
      "rq_path req = ''/exec/'' @ rq_token req \<or> rq_path req = ''/attach/'' @ rq_token req"
    | (pf) "fst (handle now req reg) = fst (portforward_handler now req reg)"
      "rq_path req = ''/portforward/'' @ rq_token req"
    using assms by (auto simp: handle_def split: if_splits)
  then show ?thesis
  proof cases
    case exec
    obtain r where "fst (exec_attach now req reg) = (r, Some task)"
      using assms exec(1) by (cases "fst (exec_attach now req reg)") simp
    from exec_attach_taskD [OF this] obtain params where
      p: "fst (consume now (rq_token req) reg) = Some (task_verb task, params)"
      "task_verb task = (if starts_with ''/attach/'' (rq_path req) then Attach else Exec)"
      "task = SpdyExec (task_verb task) params \<or> (\<exists>pr. task = WsExec pr (task_verb task) params)"
      by blast
    have v: "rq_path req = ''/'' @ verb_path (task_verb task) @ ''/'' @ rq_token req"
      using exec(2) p(2) no_prefix by (auto split: if_splits)
    from p(3) show ?thesis
      using live [OF p(1)] v by (cases task) auto
  next
    case pf
    obtain r where "fst (portforward_handler now req reg) = (r, Some task)"
      using assms pf(1) by (cases "fst (portforward_handler now req reg)") simp
    from portforward_taskD [OF this] obtain params where
      p: "fst (consume now (rq_token req) reg) = Some (PortForward, params)"
      "task = SpdyPortforward (pf_dial_host params) (sp_netns_path params)
        \<or> (\<exists>ps. task = WsPortforward ps (pf_dial_host params) (sp_netns_path params))"
      by blast
    from p(2) show ?thesis
      using live [OF p(1)] pf(2) by (cases task) auto
  qed
qed

definition demo_request :: Request where
  "demo_request = \<lparr>rq_path = ''/exec/AAECAwQF'', rq_token = ''AAECAwQF'', rq_query = None,
     rq_ws = True, rq_header = (\<lambda>h. None)\<rparr>"

definition demo_registry :: TokenRegistry where
  "demo_registry = [(''AAECAwQF'', \<lparr>en_verb = Exec, en_params = demo_params, en_minted_at = 0\<rparr>)]"

lemma demo_handle:
  "handle 5 demo_request demo_registry = ((WsUpgrade None, Some (WsExec [] Exec demo_params)), [])"
  by (simp add: handle_def exec_attach_def consume_def TTL_def demo_request_def demo_registry_def
      bt_remove_def starts_with_def wants_spdy_def negotiate_def ws_response_def)

theorem token_gate_witness:
  "snd (fst (handle 5 demo_request demo_registry)) = Some (WsExec [] Exec demo_params)
   \<and> map_option en_params (map_of demo_registry ''AAECAwQF'') = Some demo_params"
proof -
  have t: "snd (fst (handle 5 demo_request demo_registry)) = Some (WsExec [] Exec demo_params)"
    by (simp add: demo_handle)
  from token_gate [OF this] t show ?thesis by (auto simp: demo_request_def)
qed

text \<open>C2: Once a request has presented a token to a handler - whatever its verb, its upgrade or its
  protocol - no later request with that token starts a session.\<close>

theorem token_replay:
  assumes "rq_path req \<in> {''/exec/'' @ t, ''/attach/'' @ t, ''/portforward/'' @ t}"
    and "rq_token req = t" and "serve_all ((now, req) # rs) reg = (out # outs, reg')"
  shows "list_all2 (\<lambda>(_, r) (_, task). rq_token r = t \<longrightarrow> task = None) rs outs"
proof -
  have dead: "list_all2 (\<lambda>(_, r) (_, task). rq_token r = t \<longrightarrow> task = None) rs (fst (serve_all rs m))"
    if "map_of m t = None" for rs :: "(nat \<times> Request) list" and m
    using that
  proof (induction rs arbitrary: m)
    case (Cons x rs)
    obtain n r where x: "x = (n, r)" by force
    obtain resp task m' where h: "handle n r m = ((resp, task), m')"
      by (cases "handle n r m") force
    have "map_of m' t = None"
      using handle_lookup_None [OF Cons.prems, of n r] h by simp
    moreover have "rq_token r = t \<longrightarrow> task = None"
      using handle_absent [of m r n] Cons.prems h by auto
    ultimately show ?case
      using Cons.IH [of m'] by (auto simp: x h split: prod.splits)
  qed simp
  have "map_of (snd (handle now req reg)) t = None"
    using assms(1,2) consume_removes [of now t reg] by (auto simp: handle_def handlers_registry)
  from dead [OF this, of rs] assms(3) show ?thesis
    by (auto split: prod.splits)
qed

theorem token_replay_witness:
  "snd (fst (serve_all [(5, demo_request), (6, demo_request)] demo_registry) ! 1) = None
   \<and> snd (fst (serve_all [(5, demo_request), (6, demo_request)] demo_registry) ! 0) \<noteq> None"
proof -
  have 0: "snd (fst (serve_all [(5, demo_request), (6, demo_request)] demo_registry) ! 0) \<noteq> None"
    by (simp add: demo_handle split: prod.splits)
  let ?run = "serve_all [(5, demo_request), (6, demo_request)] demo_registry"
  obtain a b reg' where r: "?run = (a # [b], reg')"
    by (cases "handle 6 demo_request []") (simp add: demo_handle)
  have "list_all2 (\<lambda>(_, r) (_, task). rq_token r = ''AAECAwQF'' \<longrightarrow> task = None) [(6 :: nat, demo_request)] [b]"
    by (rule token_replay [OF _ _ r]) (simp_all add: demo_request_def)
  with 0 r show ?thesis by (auto simp: demo_request_def)
qed

section \<open>SPDY framing\<close>

text \<open>C24: A conversation of well-formed SPDY frames is read back frame by frame, in order and
  unchanged, however the network cuts the byte stream into chunks.\<close>

theorem spdy_segmentation:
  assumes "list_all frame_ok fs" and "concat chunks = concat (map serialize fs)"
  shows "read_n (length fs) (\<lambda>buf. parsed (parse_frame buf)) chunks [] = Some fs"
  using spdy.read_n_ser [OF assms(1), of "[]" chunks "[]"] assms(2) by simp

theorem spdy_segmentation_witness:
  "read_n (length [Ping 7, Data 1 1 [72, 105]]) (\<lambda>buf. parsed (parse_frame buf))
     [take 3 (serialize (Ping 7)), drop 3 (serialize (Ping 7)) @ serialize (Data 1 1 [72, 105])] []
   = Some [Ping 7, Data 1 1 [72, 105]]"
  by (rule spdy_segmentation) simp_all

text \<open>A header block of at most 1024 pairs of UTF-8 strings is read back exactly, and its
  values are found under their names in any letter case.\<close>

lemma spdy_headers_roundtrip:
  assumes "headers_ok hs" and "eq_ignore_ascii_case name name'"
  shows "deserialize_headers (serialize_headers hs) = Some hs
    \<and> header_get hs name = header_get hs name'"
  using headers.dec_enc [OF assms(1)] header_get_case [OF assms(2)] by simp

text \<open>Whatever bytes a peer sends, a header block yields at most 1024 pairs, all of them UTF-8.\<close>

lemma spdy_headers_bounded:
  "case deserialize_headers buf of None \<Rightarrow> True
   | Some hs \<Rightarrow> length hs \<le> 1024 \<and> list_all (\<lambda>(n, v). valid_utf8 (as_bytes n) \<and> valid_utf8 (as_bytes v)) hs"
  using deserialize_bounds by (auto split: option.splits)

section \<open>WebSocket framing and the exit status\<close>

text \<open>Both WebSocket framings are read back as sent: the binary frame for every channel and
  payload, the base64 text frame for the channels 0 to 9.\<close>

lemma channel_frames_roundtrip:
  assumes "ch \<le> 9"
  shows "decode_binary (encode_binary ch bs) = Some (ch, bs)
    \<and> decode_base64 (as_bytes (encode_base64 ch bs)) = Some (ch, bs)"
  using assms chan_binary.dec_enc [of "(ch, bs)"] chan_base64.dec_enc [of "(ch, bs)"] by simp

text \<open>The status that ends a session carries the exit code: a client that reads it by the v4
  rules gets the code back, for every 32-bit exit code, negative ones included.\<close>

lemma exit_code_delivered:
  "client_exit_code (status_json (exit_status code)) = Some (sint code)"
  by (rule client_reads_exit_code)

text \<open>C19: An exec or attach session over WebSocket, whenever it ends, has sent the client the bytes
  read from stdout on channel 1 and those of stderr on channel 2, complete and in order up to
  the point where the loop ended, then the exit status on channel 3 and the close frame 1000.\<close>

theorem ws_session_delivers:
  assumes "run_session to_vec de proto (Opened ses) evs = Some (st, rest)"
  shows "\<exists>used. evs = used @ rest
    \<and> channel_bytes (is_base64 proto) STDOUT (ws_sent st) = (if ses_stdout ses then stdout_of used else [])
    \<and> channel_bytes (is_base64 proto) STDERR (ws_sent st) = (if ses_stderr ses then stderr_of used else [])
    \<and> channel_bytes (is_base64 proto) ERROR_CH (ws_sent st)
        = exit_status_json to_vec (case ses_exit ses of Some c \<Rightarrow> c | None \<Rightarrow> -1)
    \<and> List.last (ws_sent st) = Close (Some 1000)"
proof -
  let ?b = "is_base64 proto"
  obtain st1 where l: "ws_loop de ses ?b evs (ws_start ses ?b) = Some (st1, rest)"
    and st: "st = ws_finish to_vec ses ?b st1"
    using assms by (auto simp: run_session_def Let_def)
  have start: "ws_stdout_open (ws_start ses ?b) = ses_stdout ses"
    "ws_stderr_open (ws_start ses ?b) = ses_stderr ses"
    "channel_bytes ?b c (ws_sent (ws_start ses ?b)) = []" for c
    by (auto simp: ws_start_def send_frame_def)
  from ws_loop_delivers [OF l] obtain used where "evs = used @ rest"
    "channel_bytes ?b STDOUT (ws_sent st1) = (if ses_stdout ses then stdout_of used else [])"
    "channel_bytes ?b STDERR (ws_sent st1) = (if ses_stderr ses then stderr_of used else [])"
    "channel_bytes ?b ERROR_CH (ws_sent st1) = []"
    unfolding start by auto
  then show ?thesis
    by (intro exI [of _ used]) (simp add: st ws_finish_def send_frame_def close_ws_def)
qed

definition demo_session :: StreamSession where
  "demo_session = \<lparr>ses_stdin = True, ses_stdout = True, ses_stderr = True, ses_pty_master = False,
     ses_exit = Some 3\<rparr>"

definition demo_events :: "WsEvent list" where
  "demo_events = [EvStdout (Some [104, 105]), EvSocket (RecvMsg (Binary [0, 120])) True,
     EvStdout (Some [10]), EvStderr None, EvStdout None]"

theorem ws_session_delivers_witness:
  "channel_bytes False STDOUT (ws_sent (fst (the
     (run_session (\<lambda>_. []) (\<lambda>_. []) ''v4.channel.k8s.io'' (Opened demo_session) demo_events)))) = [104, 105, 10]"
proof -
  let ?r = "run_session (\<lambda>_. []) (\<lambda>_. []) ''v4.channel.k8s.io'' (Opened demo_session) demo_events"
  have "is_base64 ''v4.channel.k8s.io'' = False" by code_simp
  moreover have "?r = Some (fst (the ?r), [])" by code_simp
  from ws_session_delivers [OF this] have
    "channel_bytes (is_base64 ''v4.channel.k8s.io'') STDOUT (ws_sent (fst (the ?r))) =
      (if ses_stdout demo_session then stdout_of demo_events else [])"
    by auto
  ultimately show ?thesis by (simp add: demo_session_def demo_events_def)
qed



section \<open>Negotiation\<close>

text \<open>SPDY negotiation answers with the highest version the client lists, and refuses exactly
  when the client lists no version the server knows.\<close>

lemma negotiate_highest:
  assumes "ps \<noteq> []" and "list_all plain_token ps"
  shows "case negotiate_exec_protocol (join '','' ps) of
      None \<Rightarrow> set ps \<inter> set SPDY_EXEC_PROTOCOLS = {}
    | Some v \<Rightarrow> \<exists>lower higher. SPDY_EXEC_PROTOCOLS = lower @ v # higher \<and> v \<in> set ps
        \<and> set higher \<inter> set ps = {}"
proof -
  have off: "offered_spdy (join '','' ps) = ps" using assms by (rule offered_spdy_join)
  show ?thesis
  proof (cases "negotiate_exec_protocol (join '','' ps)")
    case None
    then have "\<forall>sv \<in> set SPDY_EXEC_PROTOCOLS. sv \<notin> set ps"
      by (simp add: negotiate_exec_protocol_def off find_None_iff)
    with None show ?thesis by auto
  next
    case (Some v)
    then obtain ys zs where f: "rev SPDY_EXEC_PROTOCOLS = ys @ v # zs" "v \<in> set ps" "\<forall>y \<in> set ys. y \<notin> set ps"
      by (auto simp: negotiate_exec_protocol_def off find_first)
    then have "SPDY_EXEC_PROTOCOLS = rev zs @ v # rev ys"
      by (metis append.assoc append_Cons append_Nil rev.simps(2) rev_append rev_rev_ident)
    moreover have "set (rev ys) \<inter> set ps = {}" using f(3) by auto
    ultimately have "\<exists>lower higher. SPDY_EXEC_PROTOCOLS = lower @ v # higher \<and> v \<in> set ps
        \<and> set higher \<inter> set ps = {}"
      using f(2) by blast
    with Some show ?thesis by simp
  qed
qed

section \<open>Port forwarding\<close>

text \<open>The ports a client asks for in the query are the ports forwarded, in that order, and each
  of up to 128 ports gets its own data channel 2i with that port; the first frames sent are the
  two little-endian prefixes of each port in turn.\<close>

lemma pf_ports_opened:
  assumes "parse_ports query = ports" and "length ports \<le> 128" and "i < length ports"
  shows "parse_ports (port_query ports) = ports
    \<and> map_of (pf_conns (pf_open 0 (parse_ports query) pf_init)) (data_channel i)
        = Some \<lparr>po_port = ports ! i, po_stream = False\<rparr>
    \<and> pf_effects (pf_open 0 (parse_ports query) pf_init) ! (2 * i)
        = PfSend (Binary (data_channel i # le16 (ports ! i)))"
proof -
  have pairs: "concat (map (\<lambda>(k, p). [f k p, g k p]) (enumerate n ps)) ! (2 * j) = f (n + j) (ps ! j)"
    if "j < length ps" for f g :: "nat \<Rightarrow> u16 \<Rightarrow> PfEffect" and n ps j
    using that
  proof (induction ps arbitrary: n j)
    case (Cons p ps)
    then show ?case by (cases j) auto
  qed simp
  show ?thesis
    using assms pf_open_conns [of 0 ports i pf_init] parse_ports_query [of ports]
    by (simp add: pf_open_effects pairs) (simp add: pf_init_def pairs)
qed

text \<open>With more than 128 ports the channel number wraps: port 128 takes over the data channel of
  port 0, which can then no longer be reached.\<close>

lemma pf_channel_wraps:
  assumes "length ports = 129"
  shows "data_channel 128 = data_channel 0
    \<and> map_of (pf_conns (pf_open 0 ports pf_init)) (data_channel 0)
        = Some \<lparr>po_port = ports ! 128, po_stream = False\<rparr>"
proof -
  obtain ps p where ps: "ports = ps @ [p]" "length ps = 128"
    using assms by (cases ports rule: rev_cases) auto
  have wrap: "data_channel 128 = data_channel 0" by (simp add: data_channel_def)
  have split: "pf_open i (xs @ [y]) st = pf_open (i + length xs) [y] (pf_open i xs st)" for i xs y st
    by (induction i xs st rule: pf_open.induct) simp_all
  have "map_of (pf_conns (pf_open 0 ports pf_init)) (data_channel 128) = Some \<lparr>po_port = p, po_stream = False\<rparr>"
    by (simp add: ps split)
  with wrap ps show ?thesis by (simp add: nth_append)
qed

text \<open>Only the first connected stream of the connection table is ever read: data a client gets
  back comes on that stream's channel, so a second connected port stays silent until the first
  one ends.\<close>

lemma pf_head_of_line:
  assumes "first_connected order st = Some ch" and "pf_step host ns order (PfTcp r ok) st = (st', go)"
  shows "pf_effects st' = pf_effects st @ (case r of Some bs \<Rightarrow> [PfSend (Binary (ch # bs))] | None \<Rightarrow> [])"
  using assms by (auto split: option.splits)

end
