(* ===== verification/Fake_State.thy ===== *)
theory Fake_State
  imports Cri_Vocab
begin

text \<open>
  The state of the fake backend (\<open>crates/lightr-cri-fake/src/lib.rs\<close>): the persisted records,
  the in-memory cache, the three directories on disk, the table of held stdio, the running
  child processes with the reaper threads that wait for them, and the log of what was done to
  the outside world.

  What the backend asks of the outside is an \<open>Env\<close>: one answer per question and per tick of a
  counter that every question advances, so two questions are never forced to agree.  Files
  hold an opaque content \<open>'f\<close>; \<open>serde_json\<close> is the parameter \<open>Serde\<close>, and \<open>serde_ok\<close> is its
  documented round trip.
\<close>

section \<open>Records\<close>

record SandboxRecord =
  sr_id :: SandboxId
  sr_config :: SandboxConfig
  sr_state :: SandboxState
  sr_created_at :: i64
  sr_ip :: "string option"
  sr_netns_path :: "string option"

record ContainerRecord =
  cr_id :: ContainerId
  cr_sandbox :: SandboxId
  cr_config :: ContainerConfig
  cr_state :: ContainerState
  cr_created_at :: i64
  cr_started_at :: i64
  cr_finished_at :: i64
  cr_exit_code :: i32
  cr_reason :: string
  cr_message :: string
  cr_pid :: u32

record ImageDiskRecord =
  ir_id :: string
  ir_ref_name :: string
  ir_size :: u64

text \<open>Which handles the stdio table holds; \<open>None\<close> for the fan-out is a pty container.\<close>

record FanOut =
  fo_stdout_sinks :: nat
  fo_stderr_sinks :: nat

record ContainerIo =
  io_pty_master :: bool
  io_stdout_rd :: bool
  io_stderr_rd :: bool
  io_stdin_wr :: bool
  io_fanout :: "FanOut option"

section \<open>The outside world\<close>

text \<open>\<open>ExitStatus\<close>: killed by a signal, exited with a code, or neither; waiting may fail.\<close>

datatype WaitStatus = Signaled i32 | ExitedWith i32 | NoCode
type_synonym WaitResult = "string + WaitStatus"

record CommandSpec =
  cmd_program :: string
  cmd_args :: "string list"
  cmd_cwd :: "string option"
  cmd_envs :: "(string \<times> string) list"
  cmd_stdin_piped :: bool
  cmd_pty :: bool
  cmd_process_group :: bool
  cmd_hostname :: "string option"
  cmd_resolv :: "string option"
  cmd_mnt_uts_of :: "u32 option"
  cmd_netns :: "string option"

text \<open>What a sleep of a polling loop lets happen: the reapers that fire, with the status each
  waited for, and whether the deadline has passed by the next check.\<close>

type_synonym SleepEvents = "(ContainerId \<times> WaitResult) list \<times> bool"

datatype TryWait = TwExited WaitStatus | TwRunning | TwError string

record Env =
  ev_now :: "nat \<Rightarrow> i64"
  ev_write :: "nat \<Rightarrow> string option"
  ev_unlink :: "nat \<Rightarrow> bool"
  ev_log_open :: "nat \<Rightarrow> string option"
  ev_openpty :: "nat \<Rightarrow> string option"
  ev_dup :: "nat \<Rightarrow> string option"
  ev_pipe :: "nat \<Rightarrow> string option"
  ev_open_ns :: "nat \<Rightarrow> string \<Rightarrow> string option"
  ev_spawn :: "nat \<Rightarrow> string + u32"
  ev_sleep :: "nat \<Rightarrow> SleepEvents"
  ev_try_wait :: "nat \<Rightarrow> TryWait \<times> bool"
  ev_output :: "nat \<Rightarrow> string + (WaitStatus \<times> bytes \<times> bytes)"
  ev_proc_stat :: "nat \<Rightarrow> string option"
  ev_proc_status :: "nat \<Rightarrow> string option"
  ev_clk_tck :: u64
  ev_pid_alive :: "nat \<Rightarrow> u32 \<Rightarrow> bool"
  ev_cni_available :: "nat \<Rightarrow> string option"
  ev_netns_create :: "nat \<Rightarrow> string \<Rightarrow> string + string"
  ev_read_dir :: "nat \<Rightarrow> string \<Rightarrow> string list option"
  ev_cni_add :: "nat \<Rightarrow> string \<Rightarrow> string \<Rightarrow> string \<Rightarrow> PortMapping list \<Rightarrow> string + string option"
  ev_blake3_hex :: "string \<Rightarrow> string"

record 'f Serde =
  ser_sandbox :: "SandboxRecord \<Rightarrow> string + 'f"
  de_sandbox :: "'f \<Rightarrow> SandboxRecord option"
  ser_container :: "ContainerRecord \<Rightarrow> string + 'f"
  de_container :: "'f \<Rightarrow> ContainerRecord option"
  ser_image :: "ImageDiskRecord \<Rightarrow> string + 'f"
  de_image :: "'f \<Rightarrow> ImageDiskRecord option"

definition serde_ok :: "'f Serde \<Rightarrow> bool" where
  "serde_ok sd \<longleftrightarrow>
     (\<forall>r. \<exists>f. ser_sandbox sd r = Inr f \<and> de_sandbox sd f = Some r) \<and>
     (\<forall>r. \<exists>f. ser_container sd r = Inr f \<and> de_container sd f = Some r) \<and>
     (\<forall>r. \<exists>f. ser_image sd r = Inr f \<and> de_image sd f = Some r)"

datatype FakeEffect =
    Spawned ContainerId CommandSpec u32
  | ExecSpawned ContainerId CommandSpec u32
  | Killed int nat
  | LogOpened string
  | ResolvWritten string string
  | CniDel string string string
  | NetnsCreated string
  | NetnsTeardown string

definition SIGTERM :: nat where "SIGTERM = 15"
definition SIGKILL :: nat where "SIGKILL = 9"

section \<open>The backend\<close>

record Cache =
  ca_sandboxes :: "(SandboxId, SandboxRecord) btree"
  ca_containers :: "(ContainerId, ContainerRecord) btree"
  ca_images :: "(string, ImageDiskRecord) btree"

type_synonym 'f dir = "(string, 'f) btree"

record 'f Fake =
  fk_state_root :: string
  fk_cache :: Cache
  fk_io :: "(ContainerId, ContainerIo) btree"
  fk_reapers :: "ContainerId list"
  fk_sandboxes_dir :: "'f dir"
  fk_containers_dir :: "'f dir"
  fk_images_dir :: "'f dir"
  fk_counter :: u64
  fk_tick :: nat
  fk_effects :: "FakeEffect list"

text \<open>Ask the environment one question; every question advances the tick.\<close>

definition ask :: "(nat \<Rightarrow> 'a) \<Rightarrow> 'f Fake \<Rightarrow> 'a \<times> 'f Fake" where
  "ask q st = (q (fk_tick st), st\<lparr>fk_tick := Suc (fk_tick st)\<rparr>)"

definition emit :: "FakeEffect \<Rightarrow> 'f Fake \<Rightarrow> 'f Fake" where
  "emit e st = st\<lparr>fk_effects := fk_effects st @ [e]\<rparr>"

abbreviation sandboxes :: "'f Fake \<Rightarrow> (SandboxId, SandboxRecord) btree" where
  "sandboxes st \<equiv> ca_sandboxes (fk_cache st)"
abbreviation containers :: "'f Fake \<Rightarrow> (ContainerId, ContainerRecord) btree" where
  "containers st \<equiv> ca_containers (fk_cache st)"
abbreviation images :: "'f Fake \<Rightarrow> (string, ImageDiskRecord) btree" where
  "images st \<equiv> ca_images (fk_cache st)"

definition put_sandbox :: "SandboxRecord \<Rightarrow> 'f Fake \<Rightarrow> 'f Fake" where
  "put_sandbox r st =
     st\<lparr>fk_cache := (fk_cache st)\<lparr>ca_sandboxes := bt_insert (sr_id r) r (sandboxes st)\<rparr>\<rparr>"

definition put_container :: "ContainerRecord \<Rightarrow> 'f Fake \<Rightarrow> 'f Fake" where
  "put_container r st =
     st\<lparr>fk_cache := (fk_cache st)\<lparr>ca_containers := bt_insert (cr_id r) r (containers st)\<rparr>\<rparr>"

definition put_image :: "ImageDiskRecord \<Rightarrow> 'f Fake \<Rightarrow> 'f Fake" where
  "put_image r st =
     st\<lparr>fk_cache := (fk_cache st)\<lparr>ca_images := bt_insert (ir_id r) r (images st)\<rparr>\<rparr>"

definition drop_sandbox :: "SandboxId \<Rightarrow> 'f Fake \<Rightarrow> 'f Fake" where
  "drop_sandbox i st = st\<lparr>fk_cache := (fk_cache st)\<lparr>ca_sandboxes := bt_remove i (sandboxes st)\<rparr>\<rparr>"

definition drop_container :: "ContainerId \<Rightarrow> 'f Fake \<Rightarrow> 'f Fake" where
  "drop_container i st = st\<lparr>fk_cache := (fk_cache st)\<lparr>ca_containers := bt_remove i (containers st)\<rparr>\<rparr>"

definition drop_image :: "string \<Rightarrow> 'f Fake \<Rightarrow> 'f Fake" where
  "drop_image i st = st\<lparr>fk_cache := (fk_cache st)\<lparr>ca_images := bt_remove i (images st)\<rparr>\<rparr>"

definition io_insert :: "ContainerId \<Rightarrow> ContainerIo \<Rightarrow> 'f Fake \<Rightarrow> 'f Fake" where
  "io_insert i x st = st\<lparr>fk_io := bt_insert i x (fk_io st)\<rparr>"

definition io_remove :: "ContainerId \<Rightarrow> 'f Fake \<Rightarrow> 'f Fake" where
  "io_remove i st = st\<lparr>fk_io := bt_remove i (fk_io st)\<rparr>"

lemmas fake_put_defs = put_sandbox_def put_container_def put_image_def drop_sandbox_def
  drop_container_def drop_image_def io_insert_def io_remove_def emit_def

text \<open>The \<open>?\<close> operator: stop at the first error, keeping the state reached.\<close>

definition bindE :: "('s \<Rightarrow> 'a result \<times> 's) \<Rightarrow> ('a \<Rightarrow> 's \<Rightarrow> 'b result \<times> 's) \<Rightarrow> 's \<Rightarrow> 'b result \<times> 's" where
  "bindE m k st = (case m st of (Inl e, st') \<Rightarrow> (Inl e, st') | (Inr x, st') \<Rightarrow> k x st')"

definition ask_io :: "(nat \<Rightarrow> string option) \<Rightarrow> 'f Fake \<Rightarrow> unit result \<times> 'f Fake" where
  "ask_io q st =
     (let (err, st) = ask q st in (case err of Some e \<Rightarrow> Inl (Io e) | None \<Rightarrow> Inr (), st))"

section \<open>Identifiers\<close>

definition fresh_name :: "string \<Rightarrow> i64 \<Rightarrow> u64 \<Rightarrow> string" where
  "fresh_name prefix n c = prefix @ int_str (sint n) @ ''-'' @ nat_str (unat c)"

definition new_id :: "Env \<Rightarrow> string \<Rightarrow> 'f Fake \<Rightarrow> string \<times> 'f Fake" where
  "new_id env prefix st =
     (let (n, st) = ask (ev_now env) st; c = fk_counter st
      in (fresh_name prefix n c, st\<lparr>fk_counter := c + 1\<rparr>))"

section \<open>Files\<close>

definition sandbox_file :: "SandboxId \<Rightarrow> string" where
  "sandbox_file i = sid_0 i @ ''.json''"

definition container_file :: "ContainerId \<Rightarrow> string" where
  "container_file i = cid_0 i @ ''.json''"

definition image_file :: "string \<Rightarrow> string" where
  "image_file i = i @ ''.json''"

text \<open>\<open>atomic_write\<close> writes a temporary file, syncs it and renames it: on failure the named
  file is as before.  A temporary file left behind has no \<open>json\<close> extension and is never read.\<close>

definition atomic_write :: "Env \<Rightarrow> ('f dir \<Rightarrow> 'f Fake \<Rightarrow> 'f Fake) \<Rightarrow> ('f Fake \<Rightarrow> 'f dir) \<Rightarrow> string
    \<Rightarrow> 'f \<Rightarrow> 'f Fake \<Rightarrow> unit result \<times> 'f Fake" where
  "atomic_write env set_dir dir filename data st =
     (let (err, st) = ask (ev_write env) st
      in case err of
           Some e \<Rightarrow> (Inl (Io e), st)
         | None \<Rightarrow> (Inr (), set_dir (bt_insert filename data (dir st)) st))"

definition atomic_write_json :: "Env \<Rightarrow> ('f dir \<Rightarrow> 'f Fake \<Rightarrow> 'f Fake) \<Rightarrow> ('f Fake \<Rightarrow> 'f dir) \<Rightarrow> string
    \<Rightarrow> string + 'f \<Rightarrow> 'f Fake \<Rightarrow> unit result \<times> 'f Fake" where
  "atomic_write_json env set_dir dir filename serialized st =
     (case serialized of
        Inl e \<Rightarrow> (Inl (Internal (''serialize: '' @ e)), st)
      | Inr data \<Rightarrow> atomic_write env set_dir dir filename data st)"

definition set_sandboxes_dir :: "'f dir \<Rightarrow> 'f Fake \<Rightarrow> 'f Fake" where
  "set_sandboxes_dir d st = st\<lparr>fk_sandboxes_dir := d\<rparr>"
definition set_containers_dir :: "'f dir \<Rightarrow> 'f Fake \<Rightarrow> 'f Fake" where
  "set_containers_dir d st = st\<lparr>fk_containers_dir := d\<rparr>"
definition set_images_dir :: "'f dir \<Rightarrow> 'f Fake \<Rightarrow> 'f Fake" where
  "set_images_dir d st = st\<lparr>fk_images_dir := d\<rparr>"

definition persist_sandbox :: "Env \<Rightarrow> 'f Serde \<Rightarrow> SandboxRecord \<Rightarrow> 'f Fake \<Rightarrow> unit result \<times> 'f Fake" where
  "persist_sandbox env sd r =
     atomic_write_json env set_sandboxes_dir fk_sandboxes_dir (sandbox_file (sr_id r)) (ser_sandbox sd r)"

definition persist_container :: "Env \<Rightarrow> 'f Serde \<Rightarrow> ContainerRecord \<Rightarrow> 'f Fake \<Rightarrow> unit result \<times> 'f Fake" where
  "persist_container env sd r =
     atomic_write_json env set_containers_dir fk_containers_dir (container_file (cr_id r)) (ser_container sd r)"

definition persist_image :: "Env \<Rightarrow> 'f Serde \<Rightarrow> ImageDiskRecord \<Rightarrow> 'f Fake \<Rightarrow> unit result \<times> 'f Fake" where
  "persist_image env sd r =
     atomic_write_json env set_images_dir fk_images_dir (image_file (ir_id r)) (ser_image sd r)"

text \<open>\<open>let _ = fs::remove_file(path)\<close>: a failure to unlink is ignored.\<close>

definition remove_file :: "Env \<Rightarrow> ('f dir \<Rightarrow> 'f Fake \<Rightarrow> 'f Fake) \<Rightarrow> ('f Fake \<Rightarrow> 'f dir) \<Rightarrow> string
    \<Rightarrow> 'f Fake \<Rightarrow> 'f Fake" where
  "remove_file env set_dir dir filename st =
     (let (ok, st) = ask (ev_unlink env) st
      in if ok then set_dir (bt_remove filename (dir st)) st else st)"

section \<open>Filters and statuses\<close>

definition labels_match :: "(string, string) btree \<Rightarrow> (string, string) btree \<Rightarrow> bool" where
  "labels_match selector labels \<longleftrightarrow> list_all (\<lambda>(k, v). map_of labels k = Some v) selector"

definition sandbox_matches :: "SandboxRecord \<Rightarrow> SandboxFilter \<Rightarrow> bool" where
  "sandbox_matches rec flt \<longleftrightarrow>
     (case sf_id flt of None \<Rightarrow> True | Some i \<Rightarrow> sr_id rec = i) \<and>
     (case sf_state flt of None \<Rightarrow> True | Some s \<Rightarrow> sr_state rec = s) \<and>
     labels_match (sf_label_selector flt) (sc_labels (sr_config rec))"

definition container_matches :: "ContainerRecord \<Rightarrow> ContainerFilter \<Rightarrow> bool" where
  "container_matches rec flt \<longleftrightarrow>
     (case cf_id flt of None \<Rightarrow> True | Some i \<Rightarrow> cr_id rec = i) \<and>
     (case cf_sandbox flt of None \<Rightarrow> True | Some i \<Rightarrow> cr_sandbox rec = i) \<and>
     (case cf_state flt of None \<Rightarrow> True | Some s \<Rightarrow> cr_state rec = s) \<and>
     labels_match (cf_label_selector flt) (cc_labels (cr_config rec))"

definition rec_to_status :: "ContainerRecord \<Rightarrow> string \<Rightarrow> ContainerStatus" where
  "rec_to_status rec sandbox_log_dir =
     (let (reason, message) =
            (if cr_state rec = Exited then
               (if cr_exit_code rec = 0 then ''Completed'' else ''Error'',
                if cr_message rec = [] then cr_reason rec else cr_message rec)
             else (cr_reason rec, cr_message rec));
          config =
            (if cc_log_path (cr_config rec) \<noteq> [] \<and> sandbox_log_dir \<noteq> [] then
               (cr_config rec)\<lparr>cc_log_path := path_join sandbox_log_dir (cc_log_path (cr_config rec))\<rparr>
             else cr_config rec)
      in \<lparr>cs_id = cr_id rec, cs_sandbox = cr_sandbox rec, cs_config = config,
          cs_state = cr_state rec, cs_created_at = cr_created_at rec,
          cs_started_at = cr_started_at rec, cs_finished_at = cr_finished_at rec,
          cs_exit_code = cr_exit_code rec, cs_reason = reason, cs_message = message\<rparr>)"

definition sandbox_rec_to_status :: "SandboxRecord \<Rightarrow> SandboxStatus" where
  "sandbox_rec_to_status rec =
     \<lparr>ss_id = sr_id rec, ss_config = sr_config rec, ss_state = sr_state rec,
      ss_created_at = sr_created_at rec, ss_ip = sr_ip rec, ss_netns_path = sr_netns_path rec\<rparr>"

fun exit_code_from_status :: "WaitStatus \<Rightarrow> i32" where
  "exit_code_from_status (Signaled sig) = 128 + sig"
| "exit_code_from_status (ExitedWith c) = c"
| "exit_code_from_status NoCode = 0"

end
