(* ===== verification/Fake_Container.thy ===== *)
theory Fake_Container
  imports Fake_State
begin

text \<open>
  The container plane of the fake backend: creation, the start sequence with its persisted
  intent and its reaper thread, stopping by signals and waiting, removal, status and stats.

  A start is the composition of four phases, the stretches of code between two points where
  another thread can run: \<open>start_prepare\<close> (checks, log, command, pty), \<open>start_intent\<close> (the
  \<open>Running\<close> record with pid 0, persisted), \<open>start_spawn\<close> (the child, or the \<open>spawn-failed\<close>
  record) and \<open>start_finish\<close> (the stdio table, the persisted pid, the reaper).
\<close>

section \<open>The reaper thread\<close>

fun reap_outcome :: "WaitResult \<Rightarrow> i32 \<times> string" where
  "reap_outcome (Inr (Signaled sig)) = (128 + sig, ''killed-by-signal-'' @ int_str (sint sig))"
| "reap_outcome (Inr (ExitedWith c)) = (c, [])"
| "reap_outcome (Inr NoCode) = (0, [])"
| "reap_outcome (Inl e) = (-1, ''wait-error: '' @ e)"

definition exited_record :: "i32 \<Rightarrow> i64 \<Rightarrow> string \<Rightarrow> ContainerRecord \<Rightarrow> ContainerRecord" where
  "exited_record code finished reason r =
     r\<lparr>cr_state := Exited, cr_exit_code := code, cr_finished_at := finished, cr_reason := reason\<rparr>"

text \<open>Persisting with \<open>let _ =\<close>: the outcome of the write is dropped.\<close>

definition reap :: "Env \<Rightarrow> 'f Serde \<Rightarrow> ContainerId \<Rightarrow> WaitResult \<Rightarrow> 'f Fake \<Rightarrow> 'f Fake" where
  "reap env sd cid res st =
     (if cid \<notin> set (fk_reapers st) then st
      else
        let st = st\<lparr>fk_reapers := remove1 cid (fk_reapers st)\<rparr>;
            (finished_at, st) = ask (ev_now env) st;
            (exit_code, reason) = reap_outcome res;
            st = io_remove cid st
        in case map_of (containers st) cid of
             None \<Rightarrow> st
           | Some entry \<Rightarrow>
               if cr_state entry = Running then
                 let entry = exited_record exit_code finished_at reason entry
                 in snd (persist_container env sd entry (put_container entry st))
               else st)"

fun reap_all :: "Env \<Rightarrow> 'f Serde \<Rightarrow> (ContainerId \<times> WaitResult) list \<Rightarrow> 'f Fake \<Rightarrow> 'f Fake" where
  "reap_all env sd [] st = st"
| "reap_all env sd ((cid, res) # rs) st = reap_all env sd rs (reap env sd cid res st)"

section \<open>Waiting and stopping\<close>

definition not_running :: "ContainerId \<Rightarrow> 'f Fake \<Rightarrow> bool" where
  "not_running cid st =
     (case map_of (containers st) cid of None \<Rightarrow> True | Some r \<Rightarrow> cr_state r \<noteq> Running)"

text \<open>\<open>wait_until_exited\<close> with at most \<open>n\<close> sleeps of 10 ms: after \<open>timeout / 10 ms\<close> sleeps the
  deadline has passed, whatever else the environment says about it.\<close>

fun wait_until_exited :: "Env \<Rightarrow> 'f Serde \<Rightarrow> ContainerId \<Rightarrow> nat \<Rightarrow> 'f Fake \<Rightarrow> bool \<times> 'f Fake" where
  "wait_until_exited env sd cid 0 st = (not_running cid st, st)"
| "wait_until_exited env sd cid (Suc n) st =
     (if not_running cid st then (True, st)
      else
        let ((reaps, over), st) = ask (ev_sleep env) st
        in if over then (False, st)
           else wait_until_exited env sd cid n (reap_all env sd reaps st))"

definition polls :: "nat \<Rightarrow> nat" where "polls secs = 100 * secs"

definition kill :: "u32 \<Rightarrow> nat \<Rightarrow> 'f Fake \<Rightarrow> 'f Fake" where
  "kill pid sig st = emit (Killed (sint pid) sig) st"

definition stop_container :: "Env \<Rightarrow> 'f Serde \<Rightarrow> ContainerId \<Rightarrow> i64 \<Rightarrow> 'f Fake \<Rightarrow> unit result \<times> 'f Fake" where
  "stop_container env sd cid grace st =
     (case map_of (containers st) cid of
        None \<Rightarrow> (Inr (), st)
      | Some rec \<Rightarrow>
          if cr_state rec \<noteq> Running then (Inr (), st)
          else if 0 < cr_pid rec then
            (if 0 < sint grace then
               (let st = kill (cr_pid rec) SIGTERM st;
                    (exited, st) = wait_until_exited env sd cid (polls (unat grace)) st
                in if exited then (Inr (), st)
                   else
                     let st = kill (cr_pid rec) SIGKILL st
                     in (Inr (), snd (wait_until_exited env sd cid (polls 5) st)))
             else
               let st = kill (cr_pid rec) SIGKILL st
               in (Inr (), snd (wait_until_exited env sd cid (polls 5) st)))
          else
            let (finished_at, st) = ask (ev_now env) st
            in case map_of (containers st) cid of
                 None \<Rightarrow> (Inr (), st)
               | Some entry \<Rightarrow>
                   if cr_state entry = Running then
                     let entry = exited_record (if 0 < sint grace then 128 + 15 else 128 + 9)
                                   finished_at ''stopped'' entry
                     in persist_container env sd entry (put_container entry st)
                   else (Inr (), st))"

definition remove_container :: "Env \<Rightarrow> 'f Serde \<Rightarrow> ContainerId \<Rightarrow> 'f Fake \<Rightarrow> unit result \<times> 'f Fake" where
  "remove_container env sd cid st =
     (case map_of (containers st) cid of
        None \<Rightarrow> (Inr (), st)
      | Some r \<Rightarrow>
          bindE (if cr_state r = Running then stop_container env sd cid 0 else Pair (Inr ()))
            (\<lambda>_ st. (Inr (), remove_file env set_containers_dir fk_containers_dir (container_file cid)
               (io_remove cid (drop_container cid st)))) st)"

section \<open>Creating\<close>

definition sandbox_NotFound :: "SandboxId \<Rightarrow> BackendError" where
  "sandbox_NotFound i = NotFound (''sandbox '' @ sid_0 i)"

definition container_NotFound :: "ContainerId \<Rightarrow> BackendError" where
  "container_NotFound i = NotFound (''container '' @ cid_0 i)"

definition create_container :: "Env \<Rightarrow> 'f Serde \<Rightarrow> SandboxId \<Rightarrow> ContainerConfig \<Rightarrow> 'f Fake
    \<Rightarrow> ContainerId result \<times> 'f Fake" where
  "create_container env sd sandbox cfg st =
     (case map_of (sandboxes st) sandbox of
        None \<Rightarrow> (Inl (sandbox_NotFound sandbox), st)
      | Some sb \<Rightarrow>
          if sr_state sb \<noteq> Ready then
            (Inl (FailedPrecondition (''sandbox '' @ sid_0 sandbox @ '' is not Ready'')), st)
          else
            let (name, st) = new_id env ''ct-'' st;
                (now, st) = ask (ev_now env) st;
                rec = \<lparr>cr_id = ContainerId name, cr_sandbox = sandbox, cr_config = cfg,
                       cr_state = Created, cr_created_at = now, cr_started_at = 0,
                       cr_finished_at = 0, cr_exit_code = 0, cr_reason = [], cr_message = [],
                       cr_pid = 0\<rparr>
            in bindE (persist_container env sd rec)
                 (\<lambda>_ st. (Inr (cr_id rec), put_container rec st)) st)"

section \<open>Starting\<close>

definition resolv_conf :: "DnsConfig \<Rightarrow> string" where
  "resolv_conf dns =
     concat (map (\<lambda>s. ''nameserver '' @ s @ ''\<newline>'') (dns_servers dns))
     @ (if dns_searches dns = [] then [] else ''search '' @ join '' '' (dns_searches dns) @ ''\<newline>'')
     @ (if dns_options dns = [] then [] else ''options '' @ join '' '' (dns_options dns) @ ''\<newline>'')"

definition resolv_path :: "'f Fake \<Rightarrow> SandboxId \<Rightarrow> string" where
  "resolv_path st sb = path_join (fk_state_root st) (''resolv-'' @ sid_0 sb @ ''.conf'')"

definition write_sandbox_resolv_conf :: "Env \<Rightarrow> SandboxId \<Rightarrow> DnsConfig \<Rightarrow> 'f Fake
    \<Rightarrow> string result \<times> 'f Fake" where
  "write_sandbox_resolv_conf env sb dns =
     bindE (ask_io (ev_write env))
       (\<lambda>_ st. (Inr (resolv_path st sb), emit (ResolvWritten (resolv_path st sb) (resolv_conf dns)) st))"

definition open_cri_log :: "Env \<Rightarrow> string \<Rightarrow> string \<Rightarrow> 'f Fake \<Rightarrow> string option result \<times> 'f Fake" where
  "open_cri_log env log_dir log_path st =
     (if log_dir = [] \<or> log_path = [] then (Inr None, st)
      else bindE (ask_io (ev_log_open env))
             (\<lambda>_ st. (Inr (Some (path_join log_dir log_path)),
                      emit (LogOpened (path_join log_dir log_path)) st)) st)"

definition first_program :: "ContainerConfig \<Rightarrow> string option" where
  "first_program cfg =
     (case cc_command cfg of
        c # _ \<Rightarrow> Some c
      | [] \<Rightarrow> (case cc_args cfg of a # _ \<Rightarrow> Some a | [] \<Rightarrow> None))"

definition is_keepalive_top :: "ContainerConfig \<Rightarrow> bool" where
  "is_keepalive_top cfg =
     (case first_program cfg of
        None \<Rightarrow> False
      | Some p \<Rightarrow> (case file_name p of Some f \<Rightarrow> f | None \<Rightarrow> p) = ''top'')"

definition effective_command :: "ContainerConfig \<Rightarrow> string list" where
  "effective_command cfg =
     (if (cc_command cfg = [] \<and> cc_args cfg = []) \<or> is_keepalive_top cfg
      then [''tail'', ''-f'', ''/dev/null'']
      else cc_command cfg @ cc_args cfg)"

record StartPlan =
  sp_command :: CommandSpec
  sp_log :: "string option"

definition join_container_netns :: "Env \<Rightarrow> string option \<Rightarrow> 'f Fake \<Rightarrow> unit result \<times> 'f Fake" where
  "join_container_netns env netns_path st =
     (case netns_path of
        None \<Rightarrow> (Inr (), st)
      | Some p \<Rightarrow>
          let (err, st) = ask (\<lambda>t. ev_open_ns env t p) st
          in (case err of
                Some e \<Rightarrow> Inl (Internal (''start_container join_netns '' @ p @ '': '' @ e))
              | None \<Rightarrow> Inr (), st))"

definition open_pty :: "Env \<Rightarrow> 'f Fake \<Rightarrow> unit result \<times> 'f Fake" where
  "open_pty env st =
     (let (err, st) = ask (ev_openpty env) st
      in (case err of Some e \<Rightarrow> Inl (Internal (''openpty: '' @ e)) | None \<Rightarrow> Inr (), st))"

fun state_debug :: "ContainerState \<Rightarrow> string" where
  "state_debug Created = ''Created''"
| "state_debug Running = ''Running''"
| "state_debug Exited = ''Exited''"
| "state_debug Unknown = ''Unknown''"

text \<open>Resolv.conf synthesis is best effort: its failure only drops the override.\<close>

definition start_resolv :: "Env \<Rightarrow> SandboxId \<Rightarrow> DnsConfig option \<Rightarrow> 'f Fake \<Rightarrow> string option \<times> 'f Fake" where
  "start_resolv env sb dns st =
     (case dns of
        None \<Rightarrow> (None, st)
      | Some d \<Rightarrow>
          (case write_sandbox_resolv_conf env sb d st of
             (Inl e, st) \<Rightarrow> (None, st)
           | (Inr p, st) \<Rightarrow> (Some p, st)))"

definition start_command :: "ContainerConfig \<Rightarrow> string \<Rightarrow> string option \<Rightarrow> string option \<Rightarrow> CommandSpec result" where
  "start_command cfg hostname resolv netns =
     (case effective_command cfg of
        [] \<Rightarrow> Inl (InvalidArgument ''empty command'')
      | program # rest \<Rightarrow>
          Inr \<lparr>cmd_program = program, cmd_args = rest,
               cmd_cwd = (if cc_working_dir cfg = [] then None else Some (cc_working_dir cfg)),
               cmd_envs = cc_envs cfg, cmd_stdin_piped = (\<not> cc_tty cfg \<and> cc_stdin cfg),
               cmd_pty = cc_tty cfg, cmd_process_group = False,
               cmd_hostname = (if hostname = [] then None else Some hostname),
               cmd_resolv = resolv, cmd_mnt_uts_of = None, cmd_netns = netns\<rparr>)"

text \<open>The pty pair, the two copies of its slave, and (after the namespaces) the master's copy
  for the tee.\<close>

definition start_stdio :: "Env \<Rightarrow> bool \<Rightarrow> string option \<Rightarrow> 'f Fake \<Rightarrow> unit result \<times> 'f Fake" where
  "start_stdio env tty netns =
     (if tty then
        bindE (open_pty env) (\<lambda>_.
        bindE (ask_io (ev_dup env)) (\<lambda>_.
        bindE (ask_io (ev_dup env)) (\<lambda>_.
        bindE (join_container_netns env netns) (\<lambda>_. ask_io (ev_dup env)))))
      else join_container_netns env netns)"

definition start_prepare :: "Env \<Rightarrow> ContainerId \<Rightarrow> 'f Fake \<Rightarrow> StartPlan result \<times> 'f Fake" where
  "start_prepare env cid st =
     (case map_of (containers st) cid of
        None \<Rightarrow> (Inl (container_NotFound cid), st)
      | Some rec \<Rightarrow>
          if cr_state rec \<noteq> Created then
            (Inl (FailedPrecondition (''container '' @ cid_0 cid @ '' is in state ''
               @ state_debug (cr_state rec) @ '', must be Created to start'')), st)
          else
            let cfg = cr_config rec;
                (log_dir, dns, hostname, netns) =
                  (case map_of (sandboxes st) (cr_sandbox rec) of
                     None \<Rightarrow> ([], None, [], None)
                   | Some s \<Rightarrow> (sc_log_directory (sr_config s), sc_dns (sr_config s),
                              sc_hostname (sr_config s), sr_netns_path s));
                (resolv, st) = start_resolv env (cr_sandbox rec) dns st
            in bindE (open_cri_log env log_dir (cc_log_path cfg)) (\<lambda>log st.
                 case start_command cfg hostname resolv netns of
                   Inl e \<Rightarrow> (Inl e, st)
                 | Inr cmd \<Rightarrow>
                     bindE (start_stdio env (cc_tty cfg) netns)
                       (\<lambda>_ st. (Inr \<lparr>sp_command = cmd, sp_log = log\<rparr>, st)) st) st)"

definition start_intent :: "Env \<Rightarrow> 'f Serde \<Rightarrow> ContainerId \<Rightarrow> 'f Fake \<Rightarrow> unit result \<times> 'f Fake" where
  "start_intent env sd cid st =
     (let (started_at, st) = ask (ev_now env) st
      in case map_of (containers st) cid of
           None \<Rightarrow> (Inl (container_NotFound cid), st)
         | Some entry \<Rightarrow>
             let entry = entry\<lparr>cr_state := Running, cr_started_at := started_at, cr_pid := 0,
                               cr_reason := ''starting''\<rparr>
             in persist_container env sd entry (put_container entry st))"

definition start_spawn :: "Env \<Rightarrow> 'f Serde \<Rightarrow> ContainerId \<Rightarrow> CommandSpec \<Rightarrow> 'f Fake \<Rightarrow> u32 result \<times> 'f Fake" where
  "start_spawn env sd cid cmd st =
     (let (child, st) = ask (ev_spawn env) st
      in case child of
           Inr pid \<Rightarrow> (Inr pid, emit (Spawned cid cmd pid) st)
         | Inl e \<Rightarrow>
             (Inl (Internal (''spawn container '' @ cid_0 cid @ '': '' @ e)),
              case map_of (containers st) cid of
                None \<Rightarrow> st
              | Some entry \<Rightarrow>
                  let (finished_at, st) = ask (ev_now env) st;
                      entry = entry\<lparr>cr_state := Exited, cr_finished_at := finished_at,
                                    cr_exit_code := -1, cr_reason := ''spawn-failed'',
                                    cr_message := e\<rparr>
                  in snd (persist_container env sd entry (put_container entry st))))"

definition start_io :: "ContainerConfig \<Rightarrow> ContainerIo" where
  "start_io cfg =
     (if cc_tty cfg then
        \<lparr>io_pty_master = True, io_stdout_rd = False, io_stderr_rd = False, io_stdin_wr = False,
         io_fanout = None\<rparr>
      else
        \<lparr>io_pty_master = False, io_stdout_rd = True, io_stderr_rd = True,
         io_stdin_wr = cc_stdin cfg,
         io_fanout = Some \<lparr>fo_stdout_sinks = 0, fo_stderr_sinks = 0\<rparr>\<rparr>)"

definition start_finish :: "Env \<Rightarrow> 'f Serde \<Rightarrow> ContainerId \<Rightarrow> ContainerConfig \<Rightarrow> u32 \<Rightarrow> 'f Fake
    \<Rightarrow> unit result \<times> 'f Fake" where
  "start_finish env sd cid cfg pid =
     bindE (if cc_tty cfg then Pair (Inr ())
            else bindE (ask_io (ev_dup env)) (\<lambda>_. ask_io (ev_dup env))) (\<lambda>_ st.
       let st = io_insert cid (start_io cfg) st
       in case map_of (containers st) cid of
            None \<Rightarrow> (Inl (container_NotFound cid), st)
          | Some entry \<Rightarrow>
              let entry = entry\<lparr>cr_pid := pid, cr_reason := []\<rparr>
              in bindE (persist_container env sd entry)
                   (\<lambda>_ st. (Inr (), st\<lparr>fk_reapers := cid # fk_reapers st\<rparr>))
                   (put_container entry st))"

definition start_container :: "Env \<Rightarrow> 'f Serde \<Rightarrow> ContainerId \<Rightarrow> 'f Fake \<Rightarrow> unit result \<times> 'f Fake" where
  "start_container env sd cid st =
     (case map_of (containers st) cid of
        None \<Rightarrow> (Inl (container_NotFound cid), st)
      | Some rec \<Rightarrow>
          bindE (start_prepare env cid) (\<lambda>plan.
          bindE (start_intent env sd cid) (\<lambda>_.
          bindE (start_spawn env sd cid (sp_command plan)) (\<lambda>pid.
          start_finish env sd cid (cr_config rec) pid))) st)"

section \<open>Status and statistics\<close>

definition sandbox_log_dir :: "'f Fake \<Rightarrow> SandboxId \<Rightarrow> string" where
  "sandbox_log_dir st sb =
     (case map_of (sandboxes st) sb of None \<Rightarrow> [] | Some s \<Rightarrow> sc_log_directory (sr_config s))"

definition container_status :: "ContainerId \<Rightarrow> 'f Fake \<Rightarrow> ContainerStatus result" where
  "container_status cid st =
     (case map_of (containers st) cid of
        None \<Rightarrow> Inl (container_NotFound cid)
      | Some rec \<Rightarrow> Inr (rec_to_status rec (sandbox_log_dir st (cr_sandbox rec))))"

definition list_containers :: "ContainerFilter \<Rightarrow> 'f Fake \<Rightarrow> ContainerStatus list" where
  "list_containers flt st =
     map (\<lambda>r. rec_to_status r (sandbox_log_dir st (cr_sandbox r)))
       (filter (\<lambda>r. container_matches r flt) (bt_values (containers st)))"

definition u64_or_zero :: "string \<Rightarrow> u64" where
  "u64_or_zero s = (case parse_uint (2 ^ 64) s of None \<Rightarrow> 0 | Some n \<Rightarrow> of_nat n)"

definition proc_cpu :: "u64 \<Rightarrow> string option \<Rightarrow> u64" where
  "proc_cpu clk_tck stat =
     (let nanos_per_tick = (if clk_tck = 0 then 0 else 1000000000 div clk_tck)
      in case stat of
           None \<Rightarrow> 0
         | Some s \<Rightarrow>
             let fields = split_whitespace s
             in if 14 < length fields
                then (u64_or_zero (fields ! 13) + u64_or_zero (fields ! 14)) * nanos_per_tick
                else 0)"

fun vm_rss :: "string list \<Rightarrow> u64" where
  "vm_rss [] = 0"
| "vm_rss (line # ls) =
     (if starts_with ''VmRSS:'' line then
        (case split_whitespace line of _ # v # _ \<Rightarrow> u64_or_zero v | _ \<Rightarrow> 0)
      else vm_rss ls)"

definition proc_mem :: "string option \<Rightarrow> u64" where
  "proc_mem status =
     (case status of None \<Rightarrow> 0 | Some s \<Rightarrow> vm_rss (split_on (CHR 0x0A) s) * 1024)"

definition container_stats :: "Env \<Rightarrow> ContainerId \<Rightarrow> 'f Fake \<Rightarrow> ContainerStatsRec result \<times> 'f Fake" where
  "container_stats env cid st =
     (case map_of (containers st) cid of
        None \<Rightarrow> (Inl (container_NotFound cid), st)
      | Some rec \<Rightarrow>
          let (ts, st) = ask (ev_now env) st
          in if cr_state rec \<noteq> Running \<or> cr_pid rec = 0 then
               (Inr \<lparr>st_id = cid, st_timestamp = ts, st_cpu_usage = 0, st_memory_working_set = 0\<rparr>, st)
             else
               let (stat, st) = ask (ev_proc_stat env) st; (status, st) = ask (ev_proc_status env) st
               in (Inr \<lparr>st_id = cid, st_timestamp = ts,
                        st_cpu_usage = proc_cpu (ev_clk_tck env) stat,
                        st_memory_working_set = proc_mem status\<rparr>, st))"

text \<open>\<open>collect\<close> into a \<open>Result\<close>: the first error wins.\<close>

fun map_result :: "('a \<Rightarrow> 's \<Rightarrow> 'b result \<times> 's) \<Rightarrow> 'a list \<Rightarrow> 's \<Rightarrow> 'b list result \<times> 's" where
  "map_result f [] st = (Inr [], st)"
| "map_result f (x # xs) st =
     bindE (f x) (\<lambda>y. bindE (map_result f xs) (\<lambda>ys st. (Inr (y # ys), st))) st"

definition list_container_stats :: "Env \<Rightarrow> ContainerFilter \<Rightarrow> 'f Fake
    \<Rightarrow> ContainerStatsRec list result \<times> 'f Fake" where
  "list_container_stats env flt st =
     map_result (container_stats env)
       (map cr_id (filter (\<lambda>r. container_matches r flt) (bt_values (containers st)))) st"

end
