(* ===== verification/Fake_Sandbox.thy ===== *)
theory Fake_Sandbox
  imports Fake_Container
begin

text \<open>
  The sandbox plane of the fake backend: running a sandbox with its network namespace and CNI
  attachment, stopping, the cascading removal, status and listing, and the rebuilding of the
  cache from the state directories (\<open>FakeBackend::open\<close>).
\<close>

section \<open>CNI attachment\<close>

definition first_conflist :: "Env \<Rightarrow> string \<Rightarrow> 'f Fake \<Rightarrow> string option \<times> 'f Fake" where
  "first_conflist env conf_dir st =
     (let (entries, st) = ask (\<lambda>t. ev_read_dir env t conf_dir) st
      in (case entries of
            None \<Rightarrow> None
          | Some names \<Rightarrow>
              (case sort (filter (\<lambda>n. extension n = Some ''conflist'') names) of
                 [] \<Rightarrow> None
               | n # _ \<Rightarrow> Some (path_join conf_dir n)), st))"

definition ns_name :: "SandboxId \<Rightarrow> string" where
  "ns_name i = ''lightr-'' @ take 24 (sid_0 i)"

definition cni_setup :: "Env \<Rightarrow> SandboxId \<Rightarrow> string \<Rightarrow> PortMapping list \<Rightarrow> 'f Fake
    \<Rightarrow> (string + (string option \<times> string)) \<times> 'f Fake" where
  "cni_setup env i conf_dir pms st =
     (let (created, st) = ask (\<lambda>t. ev_netns_create env t (ns_name i)) st
      in case created of
           Inl e \<Rightarrow> (Inl e, st)
         | Inr ns_path \<Rightarrow>
             let st = emit (NetnsCreated ns_path) st;
                 (conflist, st) = first_conflist env conf_dir st
             in case conflist of
                  None \<Rightarrow> (Inl (''no .conflist found in '' @ conf_dir), st)
                | Some cl \<Rightarrow>
                    let (added, st) = ask (\<lambda>t. ev_cni_add env t cl (sid_0 i) ns_path pms) st
                    in case added of
                         Inl e \<Rightarrow> (Inl (''CNI ADD: '' @ e), st)
                       | Inr ip \<Rightarrow> (Inr (ip, ns_path), st))"

definition cni_teardown :: "Env \<Rightarrow> SandboxId \<Rightarrow> string \<Rightarrow> 'f Fake \<Rightarrow> 'f Fake" where
  "cni_teardown env i netns_path st =
     (let (cni, st) = ask (ev_cni_available env) st
      in case cni of
           None \<Rightarrow> emit (NetnsTeardown netns_path) st
         | Some conf_dir \<Rightarrow>
             let (conflist, st) = first_conflist env conf_dir st
             in case conflist of
                  None \<Rightarrow> emit (NetnsTeardown netns_path) st
                | Some cl \<Rightarrow>
                    emit (NetnsTeardown netns_path) (emit (CniDel cl (sid_0 i) netns_path) st))"

section \<open>Running\<close>

definition sandbox_network :: "Env \<Rightarrow> SandboxId \<Rightarrow> SandboxConfig \<Rightarrow> 'f Fake
    \<Rightarrow> (string option \<times> string option) result \<times> 'f Fake" where
  "sandbox_network env i cfg st =
     (if sc_host_network cfg then (Inr (None, None), st)
      else
        let (cni, st) = ask (ev_cni_available env) st
        in case cni of
             None \<Rightarrow> (Inr (None, None), st)
           | Some conf_dir \<Rightarrow>
               (case cni_setup env i conf_dir (sc_port_mappings cfg) st of
                  (Inl e, st) \<Rightarrow>
                    (Inl (Internal (''CNI setup for sandbox '' @ sid_0 i @ '': '' @ e)), st)
                | (Inr (ip, ns_path), st) \<Rightarrow> (Inr (ip, Some ns_path), st)))"

definition run_sandbox :: "Env \<Rightarrow> 'f Serde \<Rightarrow> SandboxConfig \<Rightarrow> 'f Fake \<Rightarrow> SandboxId result \<times> 'f Fake" where
  "run_sandbox env sd cfg st =
     (let (name, st) = new_id env ''sb-'' st; i = SandboxId name
      in bindE (sandbox_network env i cfg) (\<lambda>(ip, netns_path) st.
           let (now, st) = ask (ev_now env) st;
               rec = \<lparr>sr_id = i, sr_config = cfg, sr_state = Ready, sr_created_at = now,
                      sr_ip = ip, sr_netns_path = netns_path\<rparr>
           in bindE (persist_sandbox env sd rec) (\<lambda>_ st. (Inr i, put_sandbox rec st)) st) st)"

section \<open>Stopping and removing\<close>

definition stop_sandbox :: "Env \<Rightarrow> 'f Serde \<Rightarrow> SandboxId \<Rightarrow> 'f Fake \<Rightarrow> unit result \<times> 'f Fake" where
  "stop_sandbox env sd i st =
     (case map_of (sandboxes st) i of
        None \<Rightarrow> (Inr (), st)
      | Some rec \<Rightarrow>
          if sr_state rec = NotReady then (Inr (), st)
          else let rec = rec\<lparr>sr_state := NotReady\<rparr>
               in persist_sandbox env sd rec (put_sandbox rec st))"

text \<open>\<open>stop_container(cid, 0)?; remove_container(cid)?\<close> for each container of the snapshot.\<close>

fun remove_containers :: "Env \<Rightarrow> 'f Serde \<Rightarrow> ContainerId list \<Rightarrow> 'f Fake \<Rightarrow> unit result \<times> 'f Fake" where
  "remove_containers env sd [] st = (Inr (), st)"
| "remove_containers env sd (cid # cids) st =
     bindE (stop_container env sd cid 0) (\<lambda>_.
     bindE (remove_container env sd cid) (\<lambda>_. remove_containers env sd cids)) st"

definition containers_of :: "SandboxId \<Rightarrow> 'f Fake \<Rightarrow> ContainerId list" where
  "containers_of i st = map cr_id (filter (\<lambda>c. cr_sandbox c = i) (bt_values (containers st)))"

text \<open>After the containers: the network goes, then the record, then its file.\<close>

definition remove_sandbox_record :: "Env \<Rightarrow> SandboxId \<Rightarrow> SandboxRecord \<Rightarrow> 'f Fake \<Rightarrow> unit result \<times> 'f Fake" where
  "remove_sandbox_record env i s st =
     (let st = (case sr_netns_path s of
                  None \<Rightarrow> st
                | Some ns_path \<Rightarrow> cni_teardown env i ns_path st)
      in case map_of (sandboxes st) i of
           None \<Rightarrow> (Inr (), st)
         | Some _ \<Rightarrow>
             (Inr (), remove_file env set_sandboxes_dir fk_sandboxes_dir (sandbox_file i)
                (drop_sandbox i st)))"

definition remove_sandbox :: "Env \<Rightarrow> 'f Serde \<Rightarrow> SandboxId \<Rightarrow> 'f Fake \<Rightarrow> unit result \<times> 'f Fake" where
  "remove_sandbox env sd i =
     bindE (stop_sandbox env sd i) (\<lambda>_ st.
       case map_of (sandboxes st) i of
         None \<Rightarrow> (Inr (), st)
       | Some s \<Rightarrow>
           bindE (remove_containers env sd (containers_of i st))
             (\<lambda>_. remove_sandbox_record env i s) st)"

section \<open>Status\<close>

definition sandbox_status :: "SandboxId \<Rightarrow> 'f Fake \<Rightarrow> SandboxStatus result" where
  "sandbox_status i st =
     (case map_of (sandboxes st) i of
        None \<Rightarrow> Inl (sandbox_NotFound i)
      | Some rec \<Rightarrow> Inr (sandbox_rec_to_status rec))"

definition list_sandboxes :: "SandboxFilter \<Rightarrow> 'f Fake \<Rightarrow> SandboxStatus list" where
  "list_sandboxes flt st =
     map sandbox_rec_to_status (filter (\<lambda>r. sandbox_matches r flt) (bt_values (sandboxes st)))"

definition network_ready :: "Env \<Rightarrow> 'f Fake \<Rightarrow> bool \<times> 'f Fake" where
  "network_ready env st = (let (cni, st) = ask (ev_cni_available env) st in (cni \<noteq> None, st))"

section \<open>Opening: recovery from disk\<close>

text \<open>One entry of \<open>read_dir\<close>: skipped unless it is a \<open>json\<close> file that parses.\<close>

fun load_sandbox :: "'f Serde \<Rightarrow> string \<times> 'f \<Rightarrow> 'f Fake \<Rightarrow> 'f Fake" where
  "load_sandbox sd (name, data) st =
     (if extension name \<noteq> Some ''json'' then st
      else (case de_sandbox sd data of None \<Rightarrow> st | Some rec \<Rightarrow> put_sandbox rec st))"

definition open_sandboxes :: "'f Serde \<Rightarrow> 'f Fake \<Rightarrow> 'f Fake" where
  "open_sandboxes sd st = fold (load_sandbox sd) (fk_sandboxes_dir st) st"

definition lost_record :: "string \<Rightarrow> i64 \<Rightarrow> ContainerRecord \<Rightarrow> ContainerRecord" where
  "lost_record reason now rec = exited_record (-1) now reason rec"

text \<open>The corrected record is written back where that succeeds; a failure is ignored.\<close>

definition write_back :: "Env \<Rightarrow> 'f Serde \<Rightarrow> ContainerRecord \<Rightarrow> 'f Fake \<Rightarrow> 'f Fake" where
  "write_back env sd rec st = snd (persist_container env sd rec st)"

definition recover_container :: "Env \<Rightarrow> 'f Serde \<Rightarrow> ContainerRecord \<Rightarrow> 'f Fake \<Rightarrow> 'f Fake" where
  "recover_container env sd rec st =
     (if cr_state rec = Running then
        (if 0 < cr_pid rec then
           (let (alive, st) = ask (\<lambda>t. ev_pid_alive env t (cr_pid rec)) st
            in if \<not> alive then
                 let (now, st) = ask (ev_now env) st;
                     rec = lost_record ''lost-exit-reaped-elsewhere'' now rec
                 in put_container rec (write_back env sd rec st)
               else put_container rec st)
         else
           (let (now, st) = ask (ev_now env) st;
                rec = lost_record ''lost-start-window'' now rec
            in put_container rec (write_back env sd rec st)))
      else put_container rec st)"

fun load_container :: "Env \<Rightarrow> 'f Serde \<Rightarrow> string \<times> 'f \<Rightarrow> 'f Fake \<Rightarrow> 'f Fake" where
  "load_container env sd (name, data) st =
     (if extension name \<noteq> Some ''json'' then st
      else (case de_container sd data of
              None \<Rightarrow> st
            | Some rec \<Rightarrow> recover_container env sd rec st))"

definition open_containers :: "Env \<Rightarrow> 'f Serde \<Rightarrow> 'f Fake \<Rightarrow> 'f Fake" where
  "open_containers env sd st = fold (load_container env sd) (fk_containers_dir st) st"

fun load_image :: "'f Serde \<Rightarrow> string \<times> 'f \<Rightarrow> 'f Fake \<Rightarrow> 'f Fake" where
  "load_image sd (name, data) st =
     (if extension name \<noteq> Some ''json'' then st
      else (case de_image sd data of None \<Rightarrow> st | Some rec \<Rightarrow> put_image rec st))"

definition open_images :: "'f Serde \<Rightarrow> 'f Fake \<Rightarrow> 'f Fake" where
  "open_images sd st = fold (load_image sd) (fk_images_dir st) st"

definition empty_cache :: Cache where
  "empty_cache = \<lparr>ca_sandboxes = [], ca_containers = [], ca_images = []\<rparr>"

text \<open>A new process: the directories are what the old one left, everything in memory is gone
  and the static counter starts again.\<close>

definition crash :: "'f Fake \<Rightarrow> 'f Fake" where
  "crash st = st\<lparr>fk_cache := empty_cache, fk_io := [], fk_reapers := [], fk_counter := 0\<rparr>"

definition open_backend :: "Env \<Rightarrow> 'f Serde \<Rightarrow> 'f Fake \<Rightarrow> 'f Fake" where
  "open_backend env sd st = open_images sd (open_containers env sd (open_sandboxes sd (crash st)))"

end
