(* ===== verification/Fake_Exec.thy ===== *)
theory Fake_Exec
  imports Fake_Container
begin

text \<open>
  The exec plane of the fake backend: \<open>exec_sync\<close> with its polling timeout, and the streaming
  sessions \<open>open_exec\<close> and \<open>open_attach\<close>.
\<close>

section \<open>The command\<close>

definition exec_NotRunning :: "string \<Rightarrow> ContainerRecord \<Rightarrow> ContainerId \<Rightarrow> BackendError" where
  "exec_NotRunning what rec cid =
     FailedPrecondition (''container '' @ cid_0 cid @ '' is not Running (state=''
       @ state_debug (cr_state rec) @ ''); '' @ what @ '' requires Running'')"

definition join_container_mnt_uts :: "Env \<Rightarrow> ContainerId \<Rightarrow> u32 \<Rightarrow> 'f Fake \<Rightarrow> unit result \<times> 'f Fake" where
  "join_container_mnt_uts env cid pid st =
     (if pid = 0 then
        (Inl (FailedPrecondition (''container '' @ cid_0 cid
           @ '' is not Running (no live pid); exec requires Running'')), st)
      else
        let ns = (\<lambda>kind. ''/proc/'' @ nat_str (unat pid) @ ''/ns/'' @ kind);
            (mnt, st) = ask (\<lambda>t. ev_open_ns env t (ns ''mnt'')) st
        in if mnt \<noteq> None then
             (Inl (FailedPrecondition (''container '' @ cid_0 cid
                @ '' is not Running (mnt namespace unavailable); exec requires Running'')), st)
           else
             let (uts, st) = ask (\<lambda>t. ev_open_ns env t (ns ''uts'')) st
             in (if uts \<noteq> None then
                   Inl (FailedPrecondition (''container '' @ cid_0 cid
                     @ '' is not Running (uts namespace unavailable); exec requires Running''))
                 else Inr (), st))"

definition join_sandbox_netns :: "Env \<Rightarrow> string \<Rightarrow> SandboxId \<Rightarrow> 'f Fake \<Rightarrow> string option result \<times> 'f Fake" where
  "join_sandbox_netns env what sb st =
     (case Option.bind (map_of (sandboxes st) sb) sr_netns_path of
        None \<Rightarrow> (Inr None, st)
      | Some p \<Rightarrow>
          let (err, st) = ask (\<lambda>t. ev_open_ns env t p) st
          in (case err of
                Some e \<Rightarrow> Inl (Internal (what @ '' join_netns '' @ p @ '': '' @ e))
              | None \<Rightarrow> Inr (Some p), st))"

text \<open>What \<open>exec_sync\<close> and \<open>open_exec\<close> share: the container must be running, the command
  non-empty, and the process joins the container's namespaces.\<close>

definition exec_command :: "Env \<Rightarrow> string \<Rightarrow> ContainerId \<Rightarrow> string list \<Rightarrow> bool \<Rightarrow> bool \<Rightarrow> bool \<Rightarrow> 'f Fake
    \<Rightarrow> CommandSpec result \<times> 'f Fake" where
  "exec_command env what cid cmd pty stdin grp st =
     (case map_of (containers st) cid of
        None \<Rightarrow> (Inl (container_NotFound cid), st)
      | Some rec \<Rightarrow>
          if cr_state rec \<noteq> Running then (Inl (exec_NotRunning what rec cid), st)
          else
            (case cmd of
               [] \<Rightarrow> (Inl (InvalidArgument (what @ '': empty command'')), st)
             | program # args \<Rightarrow>
                 bindE (join_container_mnt_uts env cid (cr_pid rec)) (\<lambda>_.
                 bindE (join_sandbox_netns env what (cr_sandbox rec)) (\<lambda>netns st.
                   (Inr \<lparr>cmd_program = program, cmd_args = args,
                         cmd_cwd = (let d = cc_working_dir (cr_config rec) in if d = [] then None else Some d),
                         cmd_envs = cc_envs (cr_config rec), cmd_stdin_piped = stdin,
                         cmd_pty = pty, cmd_process_group = grp, cmd_hostname = None,
                         cmd_resolv = None, cmd_mnt_uts_of = Some (cr_pid rec), cmd_netns = netns\<rparr>,
                    st))) st))"

definition exec_spawn :: "Env \<Rightarrow> string \<Rightarrow> ContainerId \<Rightarrow> CommandSpec \<Rightarrow> 'f Fake \<Rightarrow> u32 result \<times> 'f Fake" where
  "exec_spawn env what cid cmd st =
     (let (child, st) = ask (ev_spawn env) st
      in case child of
           Inl e \<Rightarrow> (Inl (Internal (what @ '' spawn: '' @ e)), st)
         | Inr pid \<Rightarrow> (Inr pid, emit (ExecSpawned cid cmd pid) st))"

section \<open>exec_sync\<close>

text \<open>The polling loop: \<open>n\<close> bounds the sleeps of 10 ms before the deadline is certainly over.
  A child seen to have exited gives its output; at the deadline it is killed, then its group,
  and reaped.\<close>

definition exec_result :: "WaitStatus \<Rightarrow> bytes \<Rightarrow> bytes \<Rightarrow> ExecResult" where
  "exec_result status out err =
     \<lparr>er_exit_code = exit_code_from_status status, er_stdout = out, er_stderr = err\<rparr>"

definition exec_timeout :: "u32 \<Rightarrow> 'f Fake \<Rightarrow> ExecResult result \<times> 'f Fake" where
  "exec_timeout pid st =
     (Inl (Internal ''exec timeout''),
      emit (Killed (- sint pid) SIGKILL) (emit (Killed (sint pid) SIGKILL) st))"

fun exec_poll :: "Env \<Rightarrow> u32 \<Rightarrow> nat \<Rightarrow> 'f Fake \<Rightarrow> ExecResult result \<times> 'f Fake" where
  "exec_poll env pid n st =
     (let ((tw, over), st) = ask (ev_try_wait env) st
      in case tw of
           TwError e \<Rightarrow> (Inl (Internal (''try_wait: '' @ e)), st)
         | TwExited status \<Rightarrow>
             let (out, st) = ask (ev_output env) st
             in (case out of
                   Inr (_, stdout, stderr) \<Rightarrow> (Inr (exec_result status stdout stderr), st)
                 | Inl e \<Rightarrow> (Inr (exec_result status [] []), st))
         | TwRunning \<Rightarrow>
             if over then exec_timeout pid st
             else (case n of 0 \<Rightarrow> exec_timeout pid st | Suc n \<Rightarrow> exec_poll env pid n st))"

declare exec_poll.simps [simp del]

definition exec_sync :: "Env \<Rightarrow> ContainerId \<Rightarrow> string list \<Rightarrow> i64 \<Rightarrow> 'f Fake \<Rightarrow> ExecResult result \<times> 'f Fake" where
  "exec_sync env cid cmd timeout =
     bindE (exec_command env ''exec_sync'' cid cmd False False True) (\<lambda>spec.
     bindE (exec_spawn env ''exec_sync'' cid spec) (\<lambda>pid st.
       if 0 < sint timeout then exec_poll env pid (polls (unat timeout)) st
       else
         let (out, st) = ask (ev_output env) st
         in case out of
              Inl e \<Rightarrow> (Inl (Internal (''exec_sync wait: '' @ e)), st)
            | Inr (status, stdout, stderr) \<Rightarrow> (Inr (exec_result status stdout stderr), st)))"

section \<open>Streaming sessions\<close>

text \<open>Which handles a session has, and how its waiter completes: the child's status, at once
  with 0 (a pty attach), or when the container leaves \<open>Running\<close>.\<close>

datatype Waiter = ChildWaiter u32 | NoopWaiter | AttachWaiter ContainerId

record BackendSession =
  bs_stdin :: bool
  bs_stdout :: bool
  bs_stderr :: bool
  bs_pty_master :: bool
  bs_waiter :: Waiter

definition open_exec :: "Env \<Rightarrow> ContainerId \<Rightarrow> string list \<Rightarrow> bool \<Rightarrow> bool \<Rightarrow> 'f Fake
    \<Rightarrow> BackendSession result \<times> 'f Fake" where
  "open_exec env cid cmd tty stdin =
     bindE (exec_command env ''open_exec'' cid cmd tty (\<not> tty \<and> stdin) False) (\<lambda>spec.
       if tty then
         bindE (open_pty env) (\<lambda>_.
         bindE (ask_io (ev_dup env)) (\<lambda>_.
         bindE (ask_io (ev_dup env)) (\<lambda>_.
         bindE (exec_spawn env ''open_exec'' cid spec) (\<lambda>pid.
         bindE (ask_io (ev_dup env)) (\<lambda>_ st.
           (Inr \<lparr>bs_stdin = False, bs_stdout = True, bs_stderr = False, bs_pty_master = True,
                 bs_waiter = ChildWaiter pid\<rparr>, st))))))
       else
         bindE (exec_spawn env ''open_exec'' cid spec) (\<lambda>pid st.
           (Inr \<lparr>bs_stdin = stdin, bs_stdout = True, bs_stderr = True, bs_pty_master = False,
                 bs_waiter = ChildWaiter pid\<rparr>, st)))"

definition add_sink :: "Env \<Rightarrow> bool \<Rightarrow> ContainerId \<Rightarrow> (FanOut \<Rightarrow> FanOut) \<Rightarrow> 'f Fake \<Rightarrow> unit result \<times> 'f Fake" where
  "add_sink env present cid f st =
     (if present then
        bindE (ask_io (ev_pipe env)) (\<lambda>_ st. (Inr (),
          case map_of (fk_io st) cid of
            None \<Rightarrow> st
          | Some x \<Rightarrow> io_insert cid (x\<lparr>io_fanout := map_option f (io_fanout x)\<rparr>) st)) st
      else (Inr (), st))"

definition open_attach :: "Env \<Rightarrow> ContainerId \<Rightarrow> 'f Fake \<Rightarrow> BackendSession result \<times> 'f Fake" where
  "open_attach env cid st =
     (case map_of (containers st) cid of
        None \<Rightarrow> (Inl (container_NotFound cid), st)
      | Some rec \<Rightarrow>
          if cr_state rec \<noteq> Running then (Inl (exec_NotRunning ''open_attach'' rec cid), st)
          else
            (case map_of (fk_io st) cid of
               None \<Rightarrow> (Inl (Internal ''attach unavailable after restart''), st)
             | Some entry \<Rightarrow>
                 if io_pty_master entry then
                   bindE (ask_io (ev_dup env)) (\<lambda>_. bindE (ask_io (ev_dup env)) (\<lambda>_ st.
                     (Inr \<lparr>bs_stdin = False, bs_stdout = True, bs_stderr = False,
                           bs_pty_master = True, bs_waiter = NoopWaiter\<rparr>, st))) st
                 else
                   (case io_fanout entry of
                      None \<Rightarrow> (Inl (Internal (''pipe-mode container has no output fan-out ''
                                @ ''(started before fan-out support?)'')), st)
                    | Some _ \<Rightarrow>
                        bindE (add_sink env (io_stdout_rd entry) cid
                          (\<lambda>f. f\<lparr>fo_stdout_sinks := Suc (fo_stdout_sinks f)\<rparr>)) (\<lambda>_.
                        bindE (add_sink env (io_stderr_rd entry) cid
                          (\<lambda>f. f\<lparr>fo_stderr_sinks := Suc (fo_stderr_sinks f)\<rparr>)) (\<lambda>_.
                        bindE (if io_stdin_wr entry then ask_io (ev_dup env) else Pair (Inr ())) (\<lambda>_ st.
                          (Inr \<lparr>bs_stdin = io_stdin_wr entry, bs_stdout = io_stdout_rd entry,
                                bs_stderr = io_stderr_rd entry, bs_pty_master = False,
                                bs_waiter = AttachWaiter cid\<rparr>, st)))) st)))"

text \<open>One look of the attach waiter at the cache: \<open>None\<close> while the container runs.\<close>

definition attach_wait :: "ContainerId \<Rightarrow> 'f Fake \<Rightarrow> i32 option" where
  "attach_wait cid st =
     (case map_of (containers st) cid of
        None \<Rightarrow> Some 0
      | Some r \<Rightarrow> if cr_state r = Running then None else Some (cr_exit_code r))"

end
