(* ===== verification/Fake_Images.thy ===== *)
theory Fake_Images
  imports Fake_State
begin

text \<open>
  The image plane of the fake backend: an image is the record of a reference, its id the first
  sixteen digits of the BLAKE3 hash of the reference.
\<close>

definition pull_image :: "Env \<Rightarrow> 'f Serde \<Rightarrow> string \<Rightarrow> 'f Fake \<Rightarrow> PulledImage result \<times> 'f Fake" where
  "pull_image env sd image_ref st =
     (if image_ref = [] \<or> list_ex is_ascii_whitespace image_ref then
        (Inl (InvalidArgument (''image_ref '' @ debug_str image_ref
           @ '' is empty or contains whitespace'')), st)
      else
        let root_hex = ev_blake3_hex env image_ref;
            rec = \<lparr>ir_id = ''sha-'' @ take 16 root_hex, ir_ref_name = image_ref,
                   ir_size = of_nat (length image_ref)\<rparr>
        in bindE (persist_image env sd rec)
             (\<lambda>_ st. (Inr \<lparr>pi_ref_name = image_ref, pi_root_hex = root_hex,
                           pi_total_size = of_nat (length image_ref)\<rparr>,
                      put_image rec st)) st)"

definition image_record :: "ImageDiskRecord \<Rightarrow> ImageRecord" where
  "image_record r = \<lparr>im_id = ir_id r, im_ref_name = ir_ref_name r, im_size = ir_size r\<rparr>"

definition image_status :: "string \<Rightarrow> 'f Fake \<Rightarrow> ImageRecord option" where
  "image_status image_ref st =
     map_option image_record (List.find (\<lambda>r. ir_ref_name r = image_ref) (bt_values (images st)))"

definition list_images :: "'f Fake \<Rightarrow> ImageRecord list" where
  "list_images st = map image_record (bt_values (images st))"

definition uses_image :: "string \<Rightarrow> ContainerRecord \<Rightarrow> bool" where
  "uses_image image_ref c \<longleftrightarrow> cc_image_ref (cr_config c) = image_ref \<and> cr_state c \<noteq> Exited"

definition remove_image :: "Env \<Rightarrow> string \<Rightarrow> 'f Fake \<Rightarrow> unit result \<times> 'f Fake" where
  "remove_image env image_ref st =
     (case List.find (\<lambda>r. ir_ref_name r = image_ref) (bt_values (images st)) of
        None \<Rightarrow> (Inr (), st)
      | Some r \<Rightarrow>
          (case List.find (uses_image image_ref) (bt_values (containers st)) of
             Some c \<Rightarrow>
               (Inl (InUse (''image '' @ image_ref @ '' referenced by container '' @ cid_0 (cr_id c))), st)
           | None \<Rightarrow>
               (Inr (), remove_file env set_images_dir fk_images_dir (image_file (ir_id r))
                  (drop_image (ir_id r) st))))"

definition image_fs_info :: "Env \<Rightarrow> 'f Fake \<Rightarrow> FsInfo \<times> 'f Fake" where
  "image_fs_info env st =
     (let used = sum_list (map ir_size (bt_values (images st)));
          inodes = of_nat (length (images st));
          (now, st) = ask (ev_now env) st
      in (\<lparr>fi_timestamp = now, fi_mountpoint = fk_state_root st, fi_used_bytes = used,
           fi_inodes_used = inodes\<rparr>, st))"

end
