(* ===== verification/Fake_System.thy ===== *)
theory Fake_System
  imports Fake_Sandbox Fake_Exec Fake_Images
begin

text \<open>
  The fake backend as a transition system.  A \<open>Call\<close> is an RPC of the backend, the firing of a
  reaper thread, or a crash and restart.  The abstract machine \<open>prim\<close> has only the moves the
  cache and the directories may make: a record is added as \<open>Created\<close> or \<open>Ready\<close> after it is
  on disk, a container record advances along its lifecycle and is then written, a record and
  its file go.  Every call is a sequence of these moves (\<open>call_prims\<close>), so what holds of the
  moves holds of every run.
\<close>

section \<open>Calls\<close>

datatype Call =
    RunSandbox SandboxConfig
  | StopSandbox SandboxId
  | RemoveSandbox SandboxId
  | CreateContainer SandboxId ContainerConfig
  | StartContainer ContainerId
  | StopContainer ContainerId i64
  | RemoveContainer ContainerId
  | ExecSync ContainerId "string list" i64
  | OpenExec ContainerId "string list" bool bool
  | OpenAttach ContainerId
  | ContainerStats ContainerId
  | PullImage string
  | RemoveImage string
  | Reap ContainerId WaitResult

fun call :: "Env \<Rightarrow> 'f Serde \<Rightarrow> Call \<Rightarrow> 'f Fake \<Rightarrow> 'f Fake" where
  "call env sd (RunSandbox cfg) st = snd (run_sandbox env sd cfg st)"
| "call env sd (StopSandbox i) st = snd (stop_sandbox env sd i st)"
| "call env sd (RemoveSandbox i) st = snd (remove_sandbox env sd i st)"
| "call env sd (CreateContainer i cfg) st = snd (create_container env sd i cfg st)"
| "call env sd (StartContainer c) st = snd (start_container env sd c st)"
| "call env sd (StopContainer c g) st = snd (stop_container env sd c g st)"
| "call env sd (RemoveContainer c) st = snd (remove_container env sd c st)"
| "call env sd (ExecSync c cmd t) st = snd (exec_sync env c cmd t st)"
| "call env sd (OpenExec c cmd tty stdin) st = snd (open_exec env c cmd tty stdin st)"
| "call env sd (OpenAttach c) st = snd (open_attach env c st)"
| "call env sd (ContainerStats c) st = snd (container_stats env c st)"
| "call env sd (PullImage r) st = snd (pull_image env sd r st)"
| "call env sd (RemoveImage r) st = snd (remove_image env r st)"
| "call env sd (Reap c res) st = reap env sd c res st"

fun run_calls :: "Env \<Rightarrow> 'f Serde \<Rightarrow> Call list \<Rightarrow> 'f Fake \<Rightarrow> 'f Fake" where
  "run_calls env sd [] st = st"
| "run_calls env sd (c # cs) st = run_calls env sd cs (call env sd c st)"

section \<open>The abstract machine\<close>

text \<open>A move that leaves cache and directories alone.\<close>

definition quiet :: "'f Fake \<Rightarrow> 'f Fake \<Rightarrow> bool" where
  "quiet st st' \<longleftrightarrow>
     fk_cache st' = fk_cache st \<and> fk_sandboxes_dir st' = fk_sandboxes_dir st \<and>
     fk_containers_dir st' = fk_containers_dir st \<and> fk_images_dir st' = fk_images_dir st \<and>
     fk_tick st \<le> fk_tick st' \<and> fk_state_root st' = fk_state_root st"

text \<open>The lifecycle of a container record.\<close>

definition advances :: "ContainerRecord \<Rightarrow> ContainerRecord \<Rightarrow> bool" where
  "advances r r' \<longleftrightarrow>
     cr_id r' = cr_id r \<and> cr_sandbox r' = cr_sandbox r \<and> cr_config r' = cr_config r \<and>
     cr_created_at r' = cr_created_at r \<and>
     (cr_state r, cr_state r') \<in> {(Created, Running), (Running, Running), (Running, Exited)}"

definition is_new_container :: "ContainerRecord \<Rightarrow> bool" where
  "is_new_container r \<longleftrightarrow> cr_state r = Created \<and> cr_pid r = 0 \<and> cr_started_at r = 0 \<and>
     cr_finished_at r = 0 \<and> cr_exit_code r = 0 \<and> cr_reason r = [] \<and> cr_message r = []"

inductive prim :: "Env \<Rightarrow> 'f Serde \<Rightarrow> 'f Fake \<Rightarrow> 'f Fake \<Rightarrow> bool" for env sd where
  prim_quiet: "quiet st st' \<Longrightarrow> prim env sd st st'"
| add_sandbox: "quiet st0 st \<Longrightarrow> sr_state r = Ready \<Longrightarrow>
    sr_id r = SandboxId (fresh_name ''sb-'' (ev_now env t) c) \<Longrightarrow>
    fk_tick st0 \<le> t \<Longrightarrow> t < fk_tick st \<Longrightarrow>
    fst (persist_sandbox env sd r st) = Inr () \<Longrightarrow>
    prim env sd st0 (put_sandbox r (snd (persist_sandbox env sd r st)))"
| end_sandbox: "map_of (sandboxes st) (sr_id r) = Some r \<Longrightarrow>
    prim env sd st (snd (persist_sandbox env sd (r\<lparr>sr_state := NotReady\<rparr>)
      (put_sandbox (r\<lparr>sr_state := NotReady\<rparr>) st)))"
| del_sandbox:
    "prim env sd st (remove_file env set_sandboxes_dir fk_sandboxes_dir (sandbox_file i) (drop_sandbox i st))"
| add_container: "quiet st0 st \<Longrightarrow> is_new_container r \<Longrightarrow>
    cr_id r = ContainerId (fresh_name ''ct-'' (ev_now env t) c) \<Longrightarrow>
    fk_tick st0 \<le> t \<Longrightarrow> t < fk_tick st \<Longrightarrow>
    fst (persist_container env sd r st) = Inr () \<Longrightarrow>
    prim env sd st0 (put_container r (snd (persist_container env sd r st)))"
| advance_container: "map_of (containers st) (cr_id r) = Some r \<Longrightarrow> advances r r' \<Longrightarrow>
    prim env sd st (snd (persist_container env sd r' (put_container r' st)))"
| del_container:
    "prim env sd st (remove_file env set_containers_dir fk_containers_dir (container_file i) (drop_container i st))"
| add_image: "ir_id r = ''sha-'' @ take 16 (ev_blake3_hex env (ir_ref_name r)) \<Longrightarrow>
    fst (persist_image env sd r st) = Inr () \<Longrightarrow>
    prim env sd st (put_image r (snd (persist_image env sd r st)))"
| del_image:
    "prim env sd st (remove_file env set_images_dir fk_images_dir (image_file i) (drop_image i st))"

section \<open>What the primitives leave alone\<close>

lemmas persist_defs = persist_sandbox_def persist_container_def persist_image_def
  atomic_write_json_def atomic_write_def ask_def set_sandboxes_dir_def set_containers_dir_def
  set_images_dir_def

lemma persist_sandbox_frame [simp]:
  "fk_cache (snd (persist_sandbox env sd r st)) = fk_cache st"
  "fk_io (snd (persist_sandbox env sd r st)) = fk_io st"
  "fk_reapers (snd (persist_sandbox env sd r st)) = fk_reapers st"
  "fk_containers_dir (snd (persist_sandbox env sd r st)) = fk_containers_dir st"
  "fk_images_dir (snd (persist_sandbox env sd r st)) = fk_images_dir st"
  "fk_counter (snd (persist_sandbox env sd r st)) = fk_counter st"
  "fk_effects (snd (persist_sandbox env sd r st)) = fk_effects st"
  "fk_state_root (snd (persist_sandbox env sd r st)) = fk_state_root st"
  "fk_tick st \<le> fk_tick (snd (persist_sandbox env sd r st))"
  by (simp_all add: persist_defs Let_def split: sum.splits option.splits)

lemma persist_container_frame [simp]:
  "fk_cache (snd (persist_container env sd r st)) = fk_cache st"
  "fk_io (snd (persist_container env sd r st)) = fk_io st"
  "fk_reapers (snd (persist_container env sd r st)) = fk_reapers st"
  "fk_sandboxes_dir (snd (persist_container env sd r st)) = fk_sandboxes_dir st"
  "fk_images_dir (snd (persist_container env sd r st)) = fk_images_dir st"
  "fk_counter (snd (persist_container env sd r st)) = fk_counter st"
  "fk_effects (snd (persist_container env sd r st)) = fk_effects st"
  "fk_state_root (snd (persist_container env sd r st)) = fk_state_root st"
  "fk_tick st \<le> fk_tick (snd (persist_container env sd r st))"
  by (simp_all add: persist_defs Let_def split: sum.splits option.splits)

lemma persist_image_frame [simp]:
  "fk_cache (snd (persist_image env sd r st)) = fk_cache st"
  "fk_io (snd (persist_image env sd r st)) = fk_io st"
  "fk_reapers (snd (persist_image env sd r st)) = fk_reapers st"
  "fk_sandboxes_dir (snd (persist_image env sd r st)) = fk_sandboxes_dir st"
  "fk_containers_dir (snd (persist_image env sd r st)) = fk_containers_dir st"
  "fk_counter (snd (persist_image env sd r st)) = fk_counter st"
  "fk_effects (snd (persist_image env sd r st)) = fk_effects st"
  "fk_state_root (snd (persist_image env sd r st)) = fk_state_root st"
  "fk_tick st \<le> fk_tick (snd (persist_image env sd r st))"
  by (simp_all add: persist_defs Let_def split: sum.splits option.splits)

text \<open>A write that fails leaves the directory as it was; one that succeeds sets the file.\<close>

lemma persist_container_dir:
  "fk_containers_dir (snd (persist_container env sd r st)) =
     (if fst (persist_container env sd r st) = Inr ()
      then bt_insert (container_file (cr_id r)) (projr (ser_container sd r)) (fk_containers_dir st)
      else fk_containers_dir st)"
  by (auto simp: persist_defs Let_def split: sum.splits option.splits)

lemma persist_sandbox_dir:
  "fk_sandboxes_dir (snd (persist_sandbox env sd r st)) =
     (if fst (persist_sandbox env sd r st) = Inr ()
      then bt_insert (sandbox_file (sr_id r)) (projr (ser_sandbox sd r)) (fk_sandboxes_dir st)
      else fk_sandboxes_dir st)"
  by (auto simp: persist_defs Let_def split: sum.splits option.splits)

lemma persist_image_dir:
  "fk_images_dir (snd (persist_image env sd r st)) =
     (if fst (persist_image env sd r st) = Inr ()
      then bt_insert (image_file (ir_id r)) (projr (ser_image sd r)) (fk_images_dir st)
      else fk_images_dir st)"
  by (auto simp: persist_defs Let_def split: sum.splits option.splits)

lemma persist_ok:
  assumes "serde_ok sd" and "\<And>t. ev_write env t = None"
  shows "fst (persist_container env sd r st) = Inr ()"
    and "fst (persist_sandbox env sd s st) = Inr ()"
    and "fst (persist_image env sd i st) = Inr ()"
proof -
  obtain f g h where "ser_container sd r = Inr f" "ser_sandbox sd s = Inr g" "ser_image sd i = Inr h"
    using assms(1) unfolding serde_ok_def by metis
  then show "fst (persist_container env sd r st) = Inr ()"
    and "fst (persist_sandbox env sd s st) = Inr ()"
    and "fst (persist_image env sd i st) = Inr ()"
    by (simp_all add: persist_defs Let_def assms(2))
qed

lemma put_frame [simp]:
  "sandboxes (put_container r st) = sandboxes st"
  "images (put_container r st) = images st"
  "containers (put_container r st) = bt_insert (cr_id r) r (containers st)"
  "sandboxes (put_sandbox s st) = bt_insert (sr_id s) s (sandboxes st)"
  "images (put_sandbox s st) = images st"
  "containers (put_sandbox s st) = containers st"
  "sandboxes (put_image m st) = sandboxes st"
  "images (put_image m st) = bt_insert (ir_id m) m (images st)"
  "containers (put_image m st) = containers st"
  "sandboxes (drop_container c st) = sandboxes st"
  "images (drop_container c st) = images st"
  "containers (drop_container c st) = bt_remove c (containers st)"
  "sandboxes (drop_sandbox i st) = bt_remove i (sandboxes st)"
  "images (drop_sandbox i st) = images st"
  "containers (drop_sandbox i st) = containers st"
  "sandboxes (drop_image n st) = sandboxes st"
  "images (drop_image n st) = bt_remove n (images st)"
  "containers (drop_image n st) = containers st"
  by (simp_all add: fake_put_defs)

text \<open>The updates of the cache and of the stdio table leave every other component alone.\<close>

lemma put_tick [simp]:
  "fk_tick (put_container r st) = fk_tick st" "fk_tick (put_sandbox s st) = fk_tick st"
  "fk_tick (put_image m st) = fk_tick st" "fk_tick (drop_container c st) = fk_tick st"
  "fk_tick (drop_sandbox i st) = fk_tick st" "fk_tick (drop_image n st) = fk_tick st"
  "fk_tick (io_insert c x st) = fk_tick st" "fk_tick (io_remove c st) = fk_tick st"
  "fk_tick (emit e st) = fk_tick st"
  by (simp_all add: fake_put_defs)

lemma put_dirs [simp]:
  "fk_containers_dir (put_container r st) = fk_containers_dir st"
  "fk_sandboxes_dir (put_container r st) = fk_sandboxes_dir st"
  "fk_images_dir (put_container r st) = fk_images_dir st"
  "fk_containers_dir (put_sandbox s st) = fk_containers_dir st"
  "fk_sandboxes_dir (put_sandbox s st) = fk_sandboxes_dir st"
  "fk_images_dir (put_sandbox s st) = fk_images_dir st"
  "fk_containers_dir (put_image m st) = fk_containers_dir st"
  "fk_sandboxes_dir (put_image m st) = fk_sandboxes_dir st"
  "fk_images_dir (put_image m st) = fk_images_dir st"
  "fk_containers_dir (drop_container c st) = fk_containers_dir st"
  "fk_sandboxes_dir (drop_container c st) = fk_sandboxes_dir st"
  "fk_images_dir (drop_container c st) = fk_images_dir st"
  "fk_containers_dir (drop_sandbox i st) = fk_containers_dir st"
  "fk_sandboxes_dir (drop_sandbox i st) = fk_sandboxes_dir st"
  "fk_images_dir (drop_sandbox i st) = fk_images_dir st"
  "fk_containers_dir (drop_image n st) = fk_containers_dir st"
  "fk_sandboxes_dir (drop_image n st) = fk_sandboxes_dir st"
  "fk_images_dir (drop_image n st) = fk_images_dir st"
  by (simp_all add: fake_put_defs)

lemma quiet_cache [simp]:
  "fk_cache (io_insert c x st) = fk_cache st" "fk_cache (io_remove c st) = fk_cache st"
  "fk_cache (emit e st) = fk_cache st" "fk_cache (snd (ask q st)) = fk_cache st"
  by (simp_all add: fake_put_defs ask_def)

lemma remove_file_frame [simp]:
  "fk_cache (remove_file env set_containers_dir d n st) = fk_cache st"
  "fk_cache (remove_file env set_sandboxes_dir d n st) = fk_cache st"
  "fk_cache (remove_file env set_images_dir e n st) = fk_cache st"
  "fk_tick (remove_file env set_containers_dir d n st) = Suc (fk_tick st)"
  "fk_tick (remove_file env set_sandboxes_dir d n st) = Suc (fk_tick st)"
  "fk_tick (remove_file env set_images_dir e n st) = Suc (fk_tick st)"
  by (simp_all add: remove_file_def ask_def Let_def set_containers_dir_def set_sandboxes_dir_def
      set_images_dir_def)

section \<open>Composition\<close>

abbreviation prims :: "Env \<Rightarrow> 'f Serde \<Rightarrow> 'f Fake \<Rightarrow> 'f Fake \<Rightarrow> bool" where
  "prims env sd \<equiv> rtranclp (prim env sd)"

definition keys_ok :: "'f Fake \<Rightarrow> bool" where
  "keys_ok st \<longleftrightarrow>
     bt_ok (sandboxes st) \<and> bt_ok (containers st) \<and> bt_ok (images st) \<and>
     (\<forall>i r. map_of (sandboxes st) i = Some r \<longrightarrow> sr_id r = i) \<and>
     (\<forall>i r. map_of (containers st) i = Some r \<longrightarrow> cr_id r = i) \<and>
     (\<forall>i r. map_of (images st) i = Some r \<longrightarrow> ir_id r = i)"

lemma keys_ok_cong: "fk_cache st' = fk_cache st \<Longrightarrow> keys_ok st' \<longleftrightarrow> keys_ok st"
  by (simp add: keys_ok_def)

lemma keys_ok_put [simp]:
  "keys_ok st \<Longrightarrow> keys_ok (put_container r st)"
  "keys_ok st \<Longrightarrow> keys_ok (put_sandbox s st)"
  "keys_ok st \<Longrightarrow> keys_ok (put_image m st)"
  "keys_ok st \<Longrightarrow> keys_ok (drop_container c st)"
  "keys_ok st \<Longrightarrow> keys_ok (drop_sandbox i st)"
  "keys_ok st \<Longrightarrow> keys_ok (drop_image n st)"
  unfolding keys_ok_def by simp_all

lemma keys_ok_frame [simp]:
  "keys_ok (snd (persist_container env sd r st)) \<longleftrightarrow> keys_ok st"
  "keys_ok (snd (persist_sandbox env sd s st)) \<longleftrightarrow> keys_ok st"
  "keys_ok (snd (persist_image env sd m st)) \<longleftrightarrow> keys_ok st"
  "keys_ok (remove_file env set_containers_dir d n st) \<longleftrightarrow> keys_ok st"
  "keys_ok (remove_file env set_sandboxes_dir d n st) \<longleftrightarrow> keys_ok st"
  "keys_ok (remove_file env set_images_dir e n st) \<longleftrightarrow> keys_ok st"
  "keys_ok (snd (ask q st)) \<longleftrightarrow> keys_ok st"
  by (rule keys_ok_cong, simp)+

lemma prim_keys_ok: "prim env sd st st' \<Longrightarrow> keys_ok st \<Longrightarrow> keys_ok st'"
proof (induction rule: prim.induct)
  case (prim_quiet st st')
  then show ?case using keys_ok_cong [of st' st] by (simp add: quiet_def)
next
  case (add_sandbox st0 st r t c)
  then show ?case using keys_ok_cong [of st st0] by (simp add: quiet_def)
next
  case (add_container st0 st r t c)
  then show ?case using keys_ok_cong [of st st0] by (simp add: quiet_def)
qed simp_all

lemma prims_keys_ok: "prims env sd st st' \<Longrightarrow> keys_ok st \<Longrightarrow> keys_ok st'"
  by (induction rule: rtranclp_induct) (auto intro: prim_keys_ok)

text \<open>\<open>sound_op m\<close>: from a state with consistent keys, \<open>m\<close> is a sequence of moves.\<close>

definition sound_op :: "Env \<Rightarrow> 'f Serde \<Rightarrow> ('f Fake \<Rightarrow> 'a \<times> 'f Fake) \<Rightarrow> bool" where
  "sound_op env sd m \<longleftrightarrow> (\<forall>st. keys_ok st \<longrightarrow> prims env sd st (snd (m st)))"

named_theorems sound_intros \<open>operations that are sequences of moves\<close>

lemma sound_opD: "sound_op env sd m \<Longrightarrow> keys_ok st \<Longrightarrow> prims env sd st (snd (m st))"
  by (simp add: sound_op_def)

lemma prims_trans: "prims env sd a b \<Longrightarrow> prims env sd b c \<Longrightarrow> prims env sd a c"
  by (rule rtranclp_trans)

lemma sound_bindE [sound_intros]:
  fixes m :: "'f Fake \<Rightarrow> 'a result \<times> 'f Fake"
  assumes "sound_op env sd m" and "\<And>x. sound_op env sd (k x)"
  shows "sound_op env sd (bindE m k)"
  unfolding sound_op_def
proof (intro allI impI)
  fix st :: "'f Fake"
  assume "keys_ok st"
  obtain r st1 where m: "m st = (r, st1)" by force
  with assms(1) \<open>keys_ok st\<close> have step: "prims env sd st st1"
    by (auto dest: sound_opD)
  then have "keys_ok st1" using \<open>keys_ok st\<close> by (rule prims_keys_ok)
  show "prims env sd st (snd (bindE m k st))"
  proof (cases r)
    case Inl
    with m step show ?thesis by (simp add: bindE_def)
  next
    case (Inr x)
    with m step \<open>keys_ok st1\<close> assms(2) [of x] show ?thesis
      by (auto simp: bindE_def dest: sound_opD intro: prims_trans)
  qed
qed

lemma quiet_refl [simp]: "quiet st st"
  by (simp add: quiet_def)

lemma quiet_prims: "quiet st st' \<Longrightarrow> prims env sd st st'"
  by (auto intro: prim_quiet)

definition quiet_op :: "('f Fake \<Rightarrow> 'a \<times> 'f Fake) \<Rightarrow> bool" where
  "quiet_op m \<longleftrightarrow> (\<forall>st. quiet st (snd (m st)))"

lemma quiet_sound: "quiet_op m \<Longrightarrow> sound_op env sd m"
  by (simp add: quiet_op_def sound_op_def quiet_prims)

named_theorems quiet_intros \<open>operations that leave cache and directories alone\<close>

lemma quiet_opD: "quiet_op m \<Longrightarrow> quiet st (snd (m st))"
  by (simp add: quiet_op_def)

lemma quiet_trans: "quiet a b \<Longrightarrow> quiet b c \<Longrightarrow> quiet a c"
  by (auto simp: quiet_def)

lemma quiet_bindE [quiet_intros]:
  fixes m :: "'f Fake \<Rightarrow> 'a result \<times> 'f Fake"
  shows "quiet_op m \<Longrightarrow> (\<And>x. quiet_op (k x)) \<Longrightarrow> quiet_op (bindE m k)"
  unfolding quiet_op_def bindE_def
  by (auto split: prod.splits sum.splits) (metis quiet_trans snd_conv)+

lemma quiet_pure [quiet_intros]: "quiet_op (Pair x)" "quiet_op (\<lambda>st. (x, st))" "quiet_op (\<lambda>st. (f st, st))"
  by (simp_all add: quiet_op_def)

lemma quiet_ask [simp]: "quiet st (snd (ask q st))"
  by (simp add: quiet_def ask_def)

lemma quiet_ask_io [quiet_intros]: "quiet_op (ask_io q)"
  by (simp add: quiet_op_def ask_io_def quiet_def ask_def Let_def)

lemma quiet_effects [simp]: "quiet st (emit e st)" "quiet st (io_insert c x st)" "quiet st (io_remove c st)"
  "quiet st (kill p s st)"
  by (simp_all add: quiet_def fake_put_defs kill_def)

section \<open>Every call is a sequence of moves\<close>

lemma quiet_if [quiet_intros]:
  "(b \<Longrightarrow> quiet_op m) \<Longrightarrow> (\<not> b \<Longrightarrow> quiet_op k) \<Longrightarrow> quiet_op (if b then m else k)"
  by simp

lemma quiet_pointwise: "(\<And>st. quiet st (snd (m st))) \<Longrightarrow> quiet_op m"
  by (simp add: quiet_op_def)

lemma quiet_emit_result [quiet_intros]: "quiet_op (\<lambda>st. (f st, emit (g st) st))"
  by (simp add: quiet_op_def)

lemma quiet_join_netns [quiet_intros]: "quiet_op (join_container_netns env ns)"
  by (rule quiet_pointwise)
     (simp add: join_container_netns_def quiet_def ask_def Let_def split: option.splits)

lemma quiet_open_pty [quiet_intros]: "quiet_op (open_pty env)"
  by (rule quiet_pointwise) (simp add: open_pty_def quiet_def ask_def Let_def)

lemma quiet_start_stdio [quiet_intros]: "quiet_op (start_stdio env tty ns)"
  unfolding start_stdio_def by (intro quiet_intros)

lemma quiet_resolv [quiet_intros]: "quiet_op (write_sandbox_resolv_conf env sb dns)"
  unfolding write_sandbox_resolv_conf_def by (intro quiet_intros)

lemma quiet_start_resolv: "quiet st (snd (start_resolv env sb dns st))"
  using quiet_opD [OF quiet_resolv, of st env sb]
  by (auto simp: start_resolv_def split: option.splits prod.splits sum.splits) (metis snd_conv)+

lemma quiet_cri_log [quiet_intros]: "quiet_op (open_cri_log env dir p)"
proof (rule quiet_pointwise)
  fix st :: "'a Fake"
  have "quiet_op (bindE (ask_io (ev_log_open env))
      (\<lambda>_ st :: 'a Fake. (Inr (Some (path_join dir p)), emit (LogOpened (path_join dir p)) st)))"
    by (intro quiet_intros)
  then show "quiet st (snd (open_cri_log env dir p st))"
    by (simp add: open_cri_log_def quiet_op_def)
qed

lemma quiet_start_prepare [quiet_intros]: "quiet_op (start_prepare env cid)"
proof (rule quiet_pointwise)
  fix st :: "'a Fake"
  have tail: "quiet_op (bindE (open_cri_log env log_dir p) (\<lambda>log (st :: 'a Fake).
      case c of Inl e \<Rightarrow> (Inl e, st)
      | Inr cmd \<Rightarrow> bindE (start_stdio env tty ns)
          (\<lambda>_ st. (Inr \<lparr>sp_command = cmd, sp_log = log\<rparr>, st)) st))" for log_dir p c tty ns
    by (cases c) (simp_all, (intro quiet_intros)+)
  show "quiet st (snd (start_prepare env cid st))"
  proof (cases "map_of (containers st) cid")
    case None
    then show ?thesis by (simp add: start_prepare_def)
  next
    case (Some rec)
    then show ?thesis
      using quiet_trans [OF quiet_start_resolv quiet_opD [OF tail]]
      by (auto simp: start_prepare_def Let_def case_prod_unfold)
  qed
qed

lemma quiet_mnt_uts [quiet_intros]: "quiet_op (join_container_mnt_uts env cid pid)"
  by (rule quiet_pointwise)
     (simp add: join_container_mnt_uts_def quiet_def ask_def Let_def)

lemma quiet_sandbox_netns [quiet_intros]: "quiet_op (join_sandbox_netns env what sb)"
  by (rule quiet_pointwise)
     (simp add: join_sandbox_netns_def quiet_def ask_def Let_def split: option.splits)

lemma quiet_exec_command [quiet_intros]: "quiet_op (exec_command env what cid cmd p i g)"
  by (rule quiet_pointwise)
     (auto simp: exec_command_def split: option.splits list.splits intro!: quiet_opD quiet_intros)

lemma quiet_exec_spawn [quiet_intros]: "quiet_op (exec_spawn env what cid cmd)"
  by (rule quiet_pointwise)
     (simp add: exec_spawn_def quiet_def ask_def Let_def emit_def split: sum.splits)

lemma quiet_exec_poll [quiet_intros]: "quiet_op (exec_poll env pid n)"
proof (induction n)
  case 0
  show ?case
    by (rule quiet_pointwise)
       (subst exec_poll.simps, auto simp: quiet_def ask_def Let_def emit_def exec_timeout_def
         split: prod.splits TryWait.splits sum.splits)
next
  case (Suc n)
  show ?case
  proof (rule quiet_pointwise)
    fix st :: "'a Fake"
    have "quiet st (snd (exec_poll env pid n (st\<lparr>fk_tick := Suc (fk_tick st)\<rparr>)))"
      by (rule quiet_trans [OF _ quiet_opD [OF Suc]]) (simp add: quiet_def)
    then show "quiet st (snd (exec_poll env pid (Suc n) st))"
      by (subst exec_poll.simps)
         (auto simp: ask_def Let_def exec_timeout_def emit_def quiet_def
           split: prod.splits TryWait.splits sum.splits)
  qed
qed

lemma quiet_exec_sync [quiet_intros]: "quiet_op (exec_sync env cid cmd t)"
proof -
  have "quiet_op (\<lambda>(st :: 'a Fake). let (out, st) = ask (ev_output env) st
         in case out of
              Inl e \<Rightarrow> (Inl (Internal (''exec_sync wait: '' @ e)), st)
            | Inr (status, stdout, stderr) \<Rightarrow> (Inr (exec_result status stdout stderr), st))"
    by (rule quiet_pointwise) (auto simp: ask_def quiet_def split: sum.splits prod.splits)
  then show ?thesis
    unfolding exec_sync_def
    by (cases "0 < sint t") (simp_all, (intro quiet_intros; assumption?)+)
qed

lemma quiet_open_exec [quiet_intros]: "quiet_op (open_exec env cid cmd tty stdin)"
  unfolding open_exec_def
  by (cases tty) (simp_all, (intro quiet_intros)+)

lemma quiet_add_sink [quiet_intros]: "quiet_op (add_sink env present cid f)"
proof (rule quiet_pointwise)
  fix st :: "'a Fake"
  show "quiet st (snd (add_sink env present cid f st))"
    by (auto simp: add_sink_def bindE_def ask_io_def ask_def Let_def quiet_def io_insert_def
        split: option.splits)
qed

lemma quiet_open_attach [quiet_intros]: "quiet_op (open_attach env cid)"
  by (rule quiet_pointwise)
     (auto simp: open_attach_def split: option.splits intro!: quiet_opD quiet_intros)

lemma quiet_container_stats [quiet_intros]: "quiet_op (container_stats env cid)"
  by (rule quiet_pointwise)
     (auto simp: container_stats_def quiet_def ask_def Let_def split: option.splits)

text \<open>The moves as the code makes them: after some quiet steps.\<close>

lemma quiet_keys_ok: "quiet st st' \<Longrightarrow> keys_ok st' \<longleftrightarrow> keys_ok st"
  using keys_ok_cong [of st' st] by (simp add: quiet_def)

lemma quiet_cacheD: "quiet st st' \<Longrightarrow> fk_cache st' = fk_cache st"
  by (simp add: quiet_def)

lemma advance_prims:
  assumes "quiet st st1" and "keys_ok st" and "map_of (containers st1) cid = Some r"
    and "advances r r'"
  shows "prims env sd st (snd (persist_container env sd r' (put_container r' st1)))"
proof -
  from assms(1,2) have "keys_ok st1" by (simp add: quiet_keys_ok)
  with assms(3) have "cr_id r = cid" by (auto simp: keys_ok_def)
  with assms(3,4) have "prim env sd st1 (snd (persist_container env sd r' (put_container r' st1)))"
    by (intro advance_container) simp_all
  with assms(1) show ?thesis
    by (meson quiet_prims rtranclp.rtrancl_into_rtrancl)
qed

lemma reap_prims:
  assumes "keys_ok st"
  shows "prims env sd st (reap env sd cid res st)"
proof (cases "cid \<in> set (fk_reapers st)")
  case False
  then show ?thesis by (simp add: reap_def)
next
  case True
  let ?st1 = "io_remove cid (snd (ask (ev_now env) (st\<lparr>fk_reapers := remove1 cid (fk_reapers st)\<rparr>)))"
  have q: "quiet st ?st1" by (simp add: quiet_def ask_def io_remove_def)
  show ?thesis
  proof (cases "map_of (containers st) cid")
    case None
    with True q show ?thesis
      by (auto simp: reap_def Let_def case_prod_unfold intro: quiet_prims)
  next
    case (Some r)
    have adv: "advances r (exited_record c t why r)" if "cr_state r = Running" for c t why
      using that by (simp add: advances_def exited_record_def)
    show ?thesis
      using True Some q advance_prims [OF q assms, of cid r]
      by (auto simp: reap_def Let_def case_prod_unfold adv intro: quiet_prims)
  qed
qed

lemma reap_all_prims: "keys_ok st \<Longrightarrow> prims env sd st (reap_all env sd rs st)"
proof (induction rs arbitrary: st)
  case (Cons r rs)
  obtain cid res where r: "r = (cid, res)" by force
  have p: "prims env sd st (reap env sd cid res st)"
    using Cons.prems by (rule reap_prims)
  then have "keys_ok (reap env sd cid res st)"
    using Cons.prems by (rule prims_keys_ok)
  with Cons.IH p show ?case by (auto simp: r intro: prims_trans)
qed simp

lemma wait_prims: "keys_ok st \<Longrightarrow> prims env sd st (snd (wait_until_exited env sd cid n st))"
proof (induction n arbitrary: st)
  case (Suc n)
  let ?st1 = "snd (ask (ev_sleep env) st)"
  have q: "quiet st ?st1" by simp
  then have "keys_ok ?st1" using quiet_keys_ok Suc.prems by blast
  then have p: "prims env sd ?st1 (reap_all env sd rs ?st1)" for rs by (rule reap_all_prims)
  then have "keys_ok (reap_all env sd rs ?st1)" for rs
    using \<open>keys_ok ?st1\<close> prims_keys_ok by blast
  with Suc.IH p q have "prims env sd st (snd (wait_until_exited env sd cid n (reap_all env sd rs ?st1)))" for rs
    by (meson prims_trans quiet_prims)
  then show ?case
    using quiet_prims [OF q, of env sd] by (auto simp: case_prod_unfold Let_def)
qed simp

lemma kill_prims: "prims env sd st (kill pid sig st)"
  by (intro quiet_prims) simp

lemma kill_keys [simp]: "keys_ok (kill pid sig st) \<longleftrightarrow> keys_ok st"
  by (rule quiet_keys_ok) simp

lemma kill_wait_prims:
  assumes "keys_ok st"
  shows "prims env sd st (snd (wait_until_exited env sd cid n (kill pid sig st)))"
  using assms by (meson kill_keys kill_prims prims_trans wait_prims)

lemma stop_container_sound [sound_intros]: "sound_op env sd (stop_container env sd cid grace)"
  unfolding sound_op_def
proof (intro allI impI)
  fix st :: "'a Fake"
  assume k: "keys_ok st"
  show "prims env sd st (snd (stop_container env sd cid grace st))"
  proof (cases "map_of (containers st) cid")
    case None
    then show ?thesis by (simp add: stop_container_def)
  next
    case (Some r)
    have q: "quiet st (snd (ask (ev_now env) st))" by simp
    have adv: "advances r (exited_record c t why r)" if "cr_state r = Running" for c t why
      using that by (simp add: advances_def exited_record_def)
    have kill2: "prims env sd st (snd (wait_until_exited env sd cid m
        (kill pid SIGKILL (snd (wait_until_exited env sd cid n (kill pid SIGTERM st))))))" for m n pid
      using kill_wait_prims [OF k] prims_keys_ok [OF kill_wait_prims [OF k] k]
      by (meson kill_wait_prims prims_trans)
    show ?thesis
      using Some kill_wait_prims [OF k] kill2 advance_prims [OF q k, of cid r] quiet_prims [OF q]
      by (auto simp: stop_container_def Let_def case_prod_unfold adv)
  qed
qed

lemma drop_container_sound:
  "keys_ok st \<Longrightarrow> prims env sd st (remove_file env set_containers_dir fk_containers_dir
     (container_file cid) (io_remove cid (drop_container cid st)))"
proof -
  have "io_remove cid (drop_container cid st) = drop_container cid (io_remove cid st)"
    by (simp add: fake_put_defs)
  moreover have "prims env sd st (io_remove cid st)" by (intro quiet_prims) simp
  moreover have "prim env sd (io_remove cid st) (remove_file env set_containers_dir fk_containers_dir
     (container_file cid) (drop_container cid (io_remove cid st)))"
    by (rule del_container)
  ultimately show ?thesis by auto
qed

lemma remove_container_sound [sound_intros]: "sound_op env sd (remove_container env sd cid)"
proof -
  have drop: "sound_op env sd (\<lambda>st. (r, remove_file env set_containers_dir fk_containers_dir
     (container_file cid) (io_remove cid (drop_container cid st))))" for r :: "unit result"
    by (simp add: sound_op_def drop_container_sound)
  have "sound_op env sd (bindE (if b then stop_container env sd cid 0 else Pair (Inr ()))
      (\<lambda>_ st. (Inr (), remove_file env set_containers_dir fk_containers_dir
     (container_file cid) (io_remove cid (drop_container cid st)))))" for b
    by (cases b) (simp_all, (intro sound_bindE stop_container_sound drop quiet_sound quiet_pure)+)
  then show ?thesis
    unfolding sound_op_def by (auto simp: remove_container_def split: option.splits)
qed

lemma new_id_props:
  assumes "new_id env prefix st = (name, st1)"
  shows "quiet st st1" and "name = fresh_name prefix (ev_now env (fk_tick st)) (fk_counter st)"
    and "fk_tick st < fk_tick st1" and "fk_counter st1 = fk_counter st + 1"
  using assms by (auto simp: new_id_def ask_def Let_def quiet_def)

text \<open>A failed write is a quiet step.\<close>

lemma persist_failed_quiet:
  "fst (persist_container env sd r st) \<noteq> Inr () \<Longrightarrow> quiet st (snd (persist_container env sd r st))"
  "fst (persist_sandbox env sd s st) \<noteq> Inr () \<Longrightarrow> quiet st (snd (persist_sandbox env sd s st))"
  "fst (persist_image env sd m st) \<noteq> Inr () \<Longrightarrow> quiet st (snd (persist_image env sd m st))"
  by (simp_all add: quiet_def persist_container_dir persist_sandbox_dir persist_image_dir)

lemma bindE_persist:
  assumes "fst (m st1) = Inr () \<Longrightarrow> prims env sd st (snd (k () (snd (m st1))))"
    and "fst (m st1) \<noteq> Inr () \<Longrightarrow> quiet st (snd (m st1))"
  shows "prims env sd st (snd (bindE m k st1))"
  using assms by (auto simp: bindE_def quiet_prims split: prod.splits sum.splits)

lemma create_container_sound [sound_intros]: "sound_op env sd (create_container env sd sb cfg)"
  unfolding sound_op_def
proof (intro allI impI)
  fix st :: "'a Fake"
  assume "keys_ok st"
  obtain name st1 where n: "new_id env ''ct-'' st = (name, st1)" by force
  let ?st2 = "snd (ask (ev_now env) st1)"
  let ?r = "\<lparr>cr_id = ContainerId name, cr_sandbox = sb, cr_config = cfg, cr_state = Created,
    cr_created_at = fst (ask (ev_now env) st1), cr_started_at = 0, cr_finished_at = 0,
    cr_exit_code = 0, cr_reason = [], cr_message = [], cr_pid = 0\<rparr>"
  have q: "quiet st ?st2"
    using new_id_props(1) [OF n] quiet_trans quiet_ask by blast
  have "prims env sd st (snd (bindE (persist_container env sd ?r)
      (\<lambda>_ st. (Inr (cr_id ?r), put_container ?r st)) ?st2))"
  proof (rule bindE_persist)
    assume ok: "fst (persist_container env sd ?r ?st2) = Inr ()"
    have "fk_tick st < fk_tick ?st2"
      using new_id_props(3) [OF n] by (simp add: ask_def)
    then have "prim env sd st (put_container ?r (snd (persist_container env sd ?r ?st2)))"
      using ok new_id_props(2) [OF n] q
      by (intro add_container [where t = "fk_tick st" and c = "fk_counter st"])
         (simp_all add: is_new_container_def)
    then show "prims env sd st (snd (Inr (cr_id ?r), put_container ?r (snd (persist_container env sd ?r ?st2))))"
      by auto
  next
    assume "fst (persist_container env sd ?r ?st2) \<noteq> Inr ()"
    then show "quiet st (snd (persist_container env sd ?r ?st2))"
      using q persist_failed_quiet(1) quiet_trans by blast
  qed
  then show "prims env sd st (snd (create_container env sd sb cfg st))"
    by (simp add: create_container_def n Let_def case_prod_unfold split: option.splits)
qed

text \<open>The start sequence: \<open>Created\<close>, then \<open>Running\<close> with pid 0, then \<open>Running\<close> with the pid, or
  \<open>Exited\<close> where the spawn fails.\<close>

definition intent_record :: "i64 \<Rightarrow> ContainerRecord \<Rightarrow> ContainerRecord" where
  "intent_record now r = r\<lparr>cr_state := Running, cr_started_at := now, cr_pid := 0,
     cr_reason := ''starting''\<rparr>"

definition spawn_failed_record :: "i64 \<Rightarrow> string \<Rightarrow> ContainerRecord \<Rightarrow> ContainerRecord" where
  "spawn_failed_record now e r = r\<lparr>cr_state := Exited, cr_finished_at := now, cr_exit_code := -1,
     cr_reason := ''spawn-failed'', cr_message := e\<rparr>"

definition started_record :: "u32 \<Rightarrow> ContainerRecord \<Rightarrow> ContainerRecord" where
  "started_record pid r = r\<lparr>cr_pid := pid, cr_reason := []\<rparr>"

lemma start_records_advance:
  "cr_state r = Created \<Longrightarrow> advances r (intent_record now r)"
  "cr_state r = Running \<Longrightarrow> advances r (spawn_failed_record now e r)"
  "cr_state r = Running \<Longrightarrow> advances r (started_record pid r)"
  by (simp_all add: advances_def intent_record_def spawn_failed_record_def started_record_def)

lemma start_prepare_Created:
  assumes "fst (start_prepare env cid st) = Inr plan"
  shows "\<exists>r. map_of (containers st) cid = Some r \<and> cr_state r = Created"
  using assms by (auto simp: start_prepare_def split: option.splits if_splits)

lemma start_intent_sound:
  assumes "keys_ok st" and "map_of (containers st) cid = Some r" and "cr_state r = Created"
  shows "prims env sd st (snd (start_intent env sd cid st))"
    and "map_of (containers (snd (start_intent env sd cid st))) cid =
      Some (intent_record (ev_now env (fk_tick st)) r)"
proof -
  let ?st1 = "snd (ask (ev_now env) st)" and ?r = "intent_record (ev_now env (fk_tick st)) r"
  have eq: "start_intent env sd cid st = persist_container env sd ?r (put_container ?r ?st1)"
    using assms(2) by (simp add: start_intent_def ask_def intent_record_def Let_def)
  show "prims env sd st (snd (start_intent env sd cid st))"
    unfolding eq
    by (rule advance_prims [where cid = cid and r = r])
       (simp_all add: assms start_records_advance)
  have "cr_id ?r = cid"
    using assms(1,2) by (auto simp: keys_ok_def intent_record_def)
  then show "map_of (containers (snd (start_intent env sd cid st))) cid = Some ?r"
    by (simp add: eq)
qed

lemma start_spawn_sound:
  assumes "keys_ok st" and "map_of (containers st) cid = Some r" and "cr_state r = Running"
  shows "prims env sd st (snd (start_spawn env sd cid cmd st))"
    and "fst (start_spawn env sd cid cmd st) = Inr pid \<Longrightarrow>
      containers (snd (start_spawn env sd cid cmd st)) = containers st"
proof -
  show "prims env sd st (snd (start_spawn env sd cid cmd st))"
  proof (cases "ev_spawn env (fk_tick st)")
    case (Inr pid)
    have "quiet st (emit (Spawned cid cmd pid) (snd (ask (ev_spawn env) st)))"
      by (meson quiet_ask quiet_effects(1) quiet_trans)
    with Inr show ?thesis
      by (auto simp: start_spawn_def ask_def intro: quiet_prims)
  next
    case (Inl e)
    let ?st1 = "snd (ask (ev_now env) (snd (ask (ev_spawn env) st)))"
    let ?r = "spawn_failed_record (ev_now env (Suc (fk_tick st))) e r"
    have "snd (start_spawn env sd cid cmd st) = snd (persist_container env sd ?r (put_container ?r ?st1))"
      using Inl assms(2) by (simp add: start_spawn_def ask_def Let_def spawn_failed_record_def)
    moreover have "quiet st ?st1" by (meson quiet_ask quiet_trans)
    ultimately show ?thesis
      using advance_prims [of st ?st1 cid r ?r] assms start_records_advance(2) by simp
  qed
  show "fst (start_spawn env sd cid cmd st) = Inr pid \<Longrightarrow>
      containers (snd (start_spawn env sd cid cmd st)) = containers st"
    by (auto simp: start_spawn_def ask_def Let_def emit_def split: sum.splits)
qed

lemma prims_bindE_quiet:
  assumes "prims env sd st (snd (m st1))" and "\<And>x. quiet_op (k x)"
  shows "prims env sd st (snd (bindE m k st1))"
proof (cases "m st1")
  case (Pair r st2)
  then show ?thesis
    using assms(1) prims_trans [OF assms(1) quiet_prims [OF quiet_opD [OF assms(2)]]]
    by (cases r) (simp_all add: bindE_def)
qed

lemma start_finish_sound:
  assumes "keys_ok st" and "map_of (containers st) cid = Some r" and "cr_state r = Running"
  shows "prims env sd st (snd (start_finish env sd cid cfg pid st))"
proof -
  let ?dups = "if cc_tty cfg then Pair (Inr ())
    else bindE (ask_io (ev_dup env)) (\<lambda>_. ask_io (ev_dup env)) :: 'a Fake \<Rightarrow> unit result \<times> 'a Fake"
  have "quiet_op ?dups" by (intro quiet_intros)
  then have q: "quiet st (snd (?dups st))" by (rule quiet_opD)
  show ?thesis
  proof (cases "fst (?dups st)")
    case (Inl e)
    with q show ?thesis
      by (simp add: start_finish_def bindE_def case_prod_unfold quiet_prims)
  next
    case (Inr u)
    let ?st1 = "io_insert cid (start_io cfg) (snd (?dups st))"
    let ?r = "started_record pid r"
    have q1: "quiet st ?st1" using q by (meson quiet_effects(2) quiet_trans)
    have m: "map_of (containers ?st1) cid = Some r"
      using assms(2) quiet_cacheD [OF q1] by simp
    have p: "prims env sd st (snd (persist_container env sd ?r (put_container ?r ?st1)))"
      using advance_prims [OF q1 assms(1) m] assms(3) start_records_advance(3) by simp
    have eq: "start_finish env sd cid cfg pid st =
        bindE (persist_container env sd ?r)
          (\<lambda>_ st. (Inr (), st\<lparr>fk_reapers := cid # fk_reapers st\<rparr>)) (put_container ?r ?st1)"
      using Inr m by (simp add: start_finish_def bindE_def case_prod_unfold Let_def started_record_def)
    show ?thesis
      unfolding eq
      by (rule prims_bindE_quiet, rule p) (simp add: quiet_op_def quiet_def)
  qed
qed

lemma start_container_sound [sound_intros]: "sound_op env sd (start_container env sd cid)"
  unfolding sound_op_def
proof (intro allI impI)
  fix st :: "'a Fake"
  assume k: "keys_ok st"
  obtain pl st1 where p: "start_prepare env cid st = (pl, st1)" by force
  have q: "quiet st st1" using quiet_opD [OF quiet_start_prepare, of st env cid] p by simp
  then have k1: "keys_ok st1" using k quiet_keys_ok by blast
  obtain ui st2 where i: "start_intent env sd cid st1 = (ui, st2)" by force
  show "prims env sd st (snd (start_container env sd cid st))"
  proof (cases "map_of (containers st) cid")
    case None
    then show ?thesis by (simp add: start_container_def)
  next
    case (Some rec)
    show ?thesis
    proof (cases pl)
      case (Inl e)
      with Some p q show ?thesis
        by (simp add: start_container_def bindE_def quiet_prims)
    next
      case (Inr plan)
      with p Some have created: "cr_state rec = Created"
        using start_prepare_Created [of env cid st plan] by auto
      have m1: "map_of (containers st1) cid = Some rec"
        using Some quiet_cacheD [OF q] by simp
      have p2: "prims env sd st st2"
        using start_intent_sound(1) [OF k1 m1 created, of env sd] q i
        by (auto intro: prims_trans quiet_prims)
      have k2: "keys_ok st2" using p2 k by (rule prims_keys_ok)
      have m2: "map_of (containers st2) cid = Some (intent_record (ev_now env (fk_tick st1)) rec)"
        using start_intent_sound(2) [OF k1 m1 created, of env sd] i by simp
      have run2: "cr_state (intent_record (ev_now env (fk_tick st1)) rec) = Running"
        by (simp add: intent_record_def)
      obtain sp st3 where s: "start_spawn env sd cid (sp_command plan) st2 = (sp, st3)" by force
      have p3: "prims env sd st st3"
        using start_spawn_sound(1) [OF k2 m2 run2, of env sd "sp_command plan"] p2 s
        by (auto intro: prims_trans)
      have k3: "keys_ok st3" using p3 k by (rule prims_keys_ok)
      have p4: "prims env sd st (snd (start_finish env sd cid (cr_config rec) pid st3))"
        if "sp = Inr pid" for pid
      proof -
        have "map_of (containers st3) cid = Some (intent_record (ev_now env (fk_tick st1)) rec)"
          using start_spawn_sound(2) [OF k2 m2 run2, of env sd "sp_command plan" pid] s that m2
          by simp
        then show ?thesis
          using start_finish_sound [OF k3 _ run2] p3 by (meson prims_trans)
      qed
      from p2 p3 p4 Some p Inr i s show ?thesis
        by (auto simp: start_container_def bindE_def split: sum.splits)
    qed
  qed
qed

text \<open>The sandbox and image planes.\<close>

lemma quiet_first_conflist: "quiet st (snd (first_conflist env dir st))"
  by (simp add: first_conflist_def ask_def quiet_def Let_def)

lemma quiet_cni_setup: "quiet st (snd (cni_setup env i dir pms st))"
proof (cases "ev_netns_create env (fk_tick st) (ns_name i)")
  case (Inl e)
  then show ?thesis by (simp add: cni_setup_def ask_def quiet_def)
next
  case (Inr p)
  let ?st1 = "emit (NetnsCreated p) (snd (ask (\<lambda>t. ev_netns_create env t (ns_name i)) st))"
  have "quiet st ?st1" by (meson quiet_ask quiet_effects(1) quiet_trans)
  then have q2: "quiet st (snd (first_conflist env dir ?st1))"
    using quiet_first_conflist quiet_trans by blast
  then have q3: "quiet st (snd (ask q (snd (first_conflist env dir ?st1))))" for q :: "nat \<Rightarrow> string + string option"
    using quiet_ask quiet_trans by blast
  show ?thesis
    using q2 q3 Inr
    by (auto simp: cni_setup_def case_prod_unfold Let_def ask_def split: option.splits sum.splits)
qed

lemma quiet_emit: "quiet st x \<Longrightarrow> quiet st (emit e x)"
  by (meson quiet_effects(1) quiet_trans)

lemma quiet_cni_teardown: "quiet st (cni_teardown env i p st)"
proof -
  have "quiet st (snd (first_conflist env dir (snd (ask (ev_cni_available env) st))))" for dir
    using quiet_first_conflist quiet_trans quiet_ask by blast
  then show ?thesis
    by (auto simp: cni_teardown_def case_prod_unfold Let_def split: option.splits
        intro!: quiet_emit)
qed

lemma quiet_sandbox_network [quiet_intros]: "quiet_op (sandbox_network env i cfg)"
proof (rule quiet_pointwise)
  fix st :: "'a Fake"
  have "quiet st (snd (cni_setup env i dir pms (snd (ask (ev_cni_available env) st))))" for dir pms
    using quiet_cni_setup quiet_trans quiet_ask by blast
  then show "quiet st (snd (sandbox_network env i cfg st))"
    by (auto simp: sandbox_network_def case_prod_unfold Let_def split: option.splits sum.splits)
qed

lemma add_sandbox_prims:
  assumes "quiet st0 st" and "sr_state r = Ready"
    and "sr_id r = SandboxId (fresh_name ''sb-'' (ev_now env t) c)"
    and "fk_tick st0 \<le> t" and "t < fk_tick st"
  shows "prims env sd st0 (snd (bindE (persist_sandbox env sd r) (\<lambda>_ st. (x, put_sandbox r st)) st))"
proof (rule bindE_persist)
  assume "fst (persist_sandbox env sd r st) = Inr ()"
  with assms have "prim env sd st0 (put_sandbox r (snd (persist_sandbox env sd r st)))"
    by (rule add_sandbox)
  then show "prims env sd st0 (snd (x, put_sandbox r (snd (persist_sandbox env sd r st))))" by auto
next
  assume "fst (persist_sandbox env sd r st) \<noteq> Inr ()"
  then show "quiet st0 (snd (persist_sandbox env sd r st))"
    using assms(1) persist_failed_quiet(2) quiet_trans by blast
qed

lemma add_image_prims:
  assumes "ir_id r = ''sha-'' @ take 16 (ev_blake3_hex env (ir_ref_name r))"
  shows "prims env sd st (snd (bindE (persist_image env sd r) (\<lambda>_ st. (x, put_image r st)) st))"
proof (rule bindE_persist)
  assume "fst (persist_image env sd r st) = Inr ()"
  with assms have "prim env sd st (put_image r (snd (persist_image env sd r st)))"
    by (rule add_image)
  then show "prims env sd st (snd (x, put_image r (snd (persist_image env sd r st))))" by auto
qed (rule persist_failed_quiet)

lemma run_sandbox_sound [sound_intros]: "sound_op env sd (run_sandbox env sd cfg)"
  unfolding sound_op_def
proof (intro allI impI)
  fix st :: "'a Fake"
  assume "keys_ok st"
  obtain name st1 where n: "new_id env ''sb-'' st = (name, st1)" by force
  obtain net st2 where w: "sandbox_network env (SandboxId name) cfg st1 = (net, st2)" by force
  have q2: "quiet st st2"
    using new_id_props(1) [OF n] quiet_opD [OF quiet_sandbox_network, of st1 env "SandboxId name" cfg] w
    by (auto intro: quiet_trans)
  show "prims env sd st (snd (run_sandbox env sd cfg st))"
  proof (cases net)
    case (Inl e)
    with n w q2 show ?thesis by (simp add: run_sandbox_def bindE_def quiet_prims)
  next
    case (Inr ipns)
    obtain ip ns where ipns: "ipns = (ip, ns)" by force
    obtain now st3 where a: "ask (ev_now env) st2 = (now, st3)" by force
    let ?r = "\<lparr>sr_id = SandboxId name, sr_config = cfg, sr_state = Ready,
      sr_created_at = now, sr_ip = ip, sr_netns_path = ns\<rparr>"
    have q3: "quiet st st3" using q2 quiet_trans quiet_ask [of st2 "ev_now env"] a by auto
    have "fk_tick st < fk_tick st3"
      using new_id_props(3) [OF n] w a quiet_opD [OF quiet_sandbox_network, of st1 env "SandboxId name" cfg]
      by (auto simp: ask_def quiet_def)
    then have p: "prims env sd st (snd (bindE (persist_sandbox env sd ?r)
        (\<lambda>_ st. (Inr (SandboxId name), put_sandbox ?r st)) st3))"
      using new_id_props(2) [OF n] q3
      by (intro add_sandbox_prims [where t = "fk_tick st" and c = "fk_counter st"]) simp_all
    have "snd (run_sandbox env sd cfg st) = snd (bindE (persist_sandbox env sd ?r)
        (\<lambda>_ st. (Inr (SandboxId name), put_sandbox ?r st)) st3)"
      using n w Inr ipns a by (simp add: run_sandbox_def bindE_def Let_def)
    with p show ?thesis by simp
  qed
qed

lemma stop_sandbox_sound [sound_intros]: "sound_op env sd (stop_sandbox env sd i)"
  unfolding sound_op_def
proof (intro allI impI)
  fix st :: "'a Fake"
  assume k: "keys_ok st"
  show "prims env sd st (snd (stop_sandbox env sd i st))"
  proof (cases "map_of (sandboxes st) i")
    case None
    then show ?thesis by (simp add: stop_sandbox_def)
  next
    case (Some r)
    with k have "map_of (sandboxes st) (sr_id r) = Some r" by (auto simp: keys_ok_def)
    with Some show ?thesis by (auto simp: stop_sandbox_def Let_def intro: end_sandbox)
  qed
qed

lemma remove_containers_sound [sound_intros]: "sound_op env sd (remove_containers env sd cids)"
proof (induction cids)
  case Nil
  then show ?case by (simp add: sound_op_def)
next
  case (Cons cid cids)
  have "sound_op env sd (bindE (stop_container env sd cid 0) (\<lambda>_.
      bindE (remove_container env sd cid) (\<lambda>_. remove_containers env sd cids)))"
    by (intro sound_bindE stop_container_sound remove_container_sound Cons)
  then show ?case by (simp add: sound_op_def)
qed

lemma remove_sandbox_record_sound [sound_intros]: "sound_op env sd (remove_sandbox_record env i s)"
  unfolding sound_op_def
proof (intro allI impI)
  fix st :: "'a Fake"
  let ?st1 = "case sr_netns_path s of None \<Rightarrow> st | Some ns_path \<Rightarrow> cni_teardown env i ns_path st"
  have "prims env sd st ?st1"
    by (auto split: option.splits intro: quiet_prims quiet_cni_teardown)
  moreover have "prim env sd ?st1 (remove_file env set_sandboxes_dir fk_sandboxes_dir (sandbox_file i)
           (drop_sandbox i ?st1))" by (rule del_sandbox)
  ultimately show "prims env sd st (snd (remove_sandbox_record env i s st))"
    unfolding remove_sandbox_record_def Let_def
    by (cases "map_of (sandboxes ?st1) i") (simp_all add: rtranclp.rtrancl_into_rtrancl)
qed

lemma remove_sandbox_sound [sound_intros]: "sound_op env sd (remove_sandbox env sd i)"
proof -
  have "sound_op env sd (\<lambda>st. case map_of (sandboxes st) i of
         None \<Rightarrow> (Inr (), st)
       | Some s \<Rightarrow> bindE (remove_containers env sd (containers_of i st))
           (\<lambda>_. remove_sandbox_record env i s) st)"
    using sound_opD [OF sound_bindE [OF remove_containers_sound remove_sandbox_record_sound]]
    by (auto simp: sound_op_def split: option.splits)
  then show ?thesis
    unfolding remove_sandbox_def by (rule sound_bindE [OF stop_sandbox_sound])
qed

lemma pull_image_sound [sound_intros]: "sound_op env sd (pull_image env sd r)"
  by (simp add: sound_op_def pull_image_def Let_def add_image_prims)

lemma remove_image_sound [sound_intros]: "sound_op env sd (remove_image env r)"
  unfolding sound_op_def remove_image_def
  by (auto split: option.splits intro!: r_into_rtranclp del_image)

text \<open>Every call refines the abstract machine.\<close>

lemmas call_soundness =
  sound_opD [OF run_sandbox_sound] sound_opD [OF stop_sandbox_sound]
  sound_opD [OF remove_sandbox_sound] sound_opD [OF create_container_sound]
  sound_opD [OF start_container_sound] sound_opD [OF stop_container_sound]
  sound_opD [OF remove_container_sound] sound_opD [OF pull_image_sound]
  sound_opD [OF remove_image_sound] sound_opD [OF quiet_sound [OF quiet_exec_sync]]
  sound_opD [OF quiet_sound [OF quiet_open_exec]] sound_opD [OF quiet_sound [OF quiet_open_attach]]
  sound_opD [OF quiet_sound [OF quiet_container_stats]]

lemma call_prims: "keys_ok st \<Longrightarrow> prims env sd st (call env sd c st)"
  by (cases c; simp only: call.simps; (rule call_soundness reap_prims; assumption))

lemma run_calls_prims: "keys_ok st \<Longrightarrow> prims env sd st (run_calls env sd cs st)"
proof (induction cs arbitrary: st)
  case (Cons c cs)
  have p: "prims env sd st (call env sd c st)"
    using Cons.prems by (rule call_prims)
  then have "keys_ok (call env sd c st)"
    using Cons.prems by (rule prims_keys_ok)
  then have "prims env sd (call env sd c st) (run_calls env sd cs (call env sd c st))"
    by (rule Cons.IH)
  with p show ?case
    unfolding run_calls.simps by (rule prims_trans)
qed (simp only: run_calls.simps rtranclp.rtrancl_refl)

end
