(* ===== verification/Fake_Laws.thy ===== *)
theory Fake_Laws
  imports Fake_System
begin

text \<open>
  What holds of every run of the fake backend, by induction over the moves of its abstract
  machine: fresh identifiers, the lifecycle of a container, the agreement of the cache with the
  directories while writes succeed, and what opening the directories after a crash recovers.
\<close>

section \<open>Identifiers are fresh\<close>

lemma append_digits_inject:
  assumes "s @ CHR ''-'' # nat_str a = t @ CHR ''-'' # nat_str b"
  shows "s = t \<and> a = b"
proof -
  have no: "CHR ''-'' \<notin> set (rev (nat_str n))" for n
    using nat_str_digits [of "CHR ''-''" n] minus_not_digit by auto
  have "split_once (CHR ''-'') (rev (s @ CHR ''-'' # nat_str a)) = Some (rev (nat_str a), rev s)"
    "split_once (CHR ''-'') (rev (t @ CHR ''-'' # nat_str b)) = Some (rev (nat_str b), rev t)"
    using no by (simp_all add: split_once_append)
  with assms show ?thesis by simp
qed

lemma int_str_inject: "int_str i = int_str j \<longleftrightarrow> i = j"
  by (metis option.inject parse_int_int_str)

lemma fresh_name_inject: "fresh_name p n c = fresh_name p n' c' \<longleftrightarrow> n = n' \<and> c = c'"
proof
  assume "fresh_name p n c = fresh_name p n' c'"
  then have "int_str (sint n) @ CHR ''-'' # nat_str (unat c) =
      int_str (sint n') @ CHR ''-'' # nat_str (unat c')"
    by (simp add: fresh_name_def)
  then have "int_str (sint n) = int_str (sint n')" "unat c = unat c'"
    using append_digits_inject by blast+
  then show "n = n' \<and> c = c'"
    by (auto simp: int_str_inject intro: signed_word_eqI unsigned_word_eqI)
qed simp

definition minted :: "Env \<Rightarrow> 'f Fake \<Rightarrow> bool" where
  "minted env st \<longleftrightarrow>
     (\<forall>cid r. map_of (containers st) cid = Some r \<longrightarrow>
        (\<exists>t c. t < fk_tick st \<and> cid = ContainerId (fresh_name ''ct-'' (ev_now env t) c))) \<and>
     (\<forall>i r. map_of (sandboxes st) i = Some r \<longrightarrow>
        (\<exists>t c. t < fk_tick st \<and> i = SandboxId (fresh_name ''sb-'' (ev_now env t) c)))"

lemma persist_tick:
  "t < fk_tick st \<Longrightarrow> t < fk_tick (snd (persist_sandbox env sd s st))"
  "t < fk_tick st \<Longrightarrow> t < fk_tick (snd (persist_container env sd r st))"
  by (meson less_le_trans persist_sandbox_frame(9) persist_container_frame(9))+

lemma prim_tick: "prim env sd st st' \<Longrightarrow> fk_tick st \<le> fk_tick st'"
  by (induction rule: prim.induct)
     (auto simp: quiet_def intro: le_trans [OF _ persist_sandbox_frame(9)]
       le_trans [OF _ persist_container_frame(9)] le_trans [OF _ persist_image_frame(9)])

lemma prims_tick: "prims env sd st st' \<Longrightarrow> fk_tick st \<le> fk_tick st'"
  by (induction rule: rtranclp_induct) (auto dest: prim_tick)

text \<open>An id minted in the past does not come up again while the clock readings differ.\<close>

definition past_id :: "Env \<Rightarrow> nat \<Rightarrow> ContainerId \<Rightarrow> bool" where
  "past_id env n cid \<longleftrightarrow> (\<exists>t c. t < n \<and> cid = ContainerId (fresh_name ''ct-'' (ev_now env t) c))"

lemma past_id_mono: "past_id env m cid \<Longrightarrow> m \<le> n \<Longrightarrow> past_id env n cid"
  by (auto simp: past_id_def intro: less_le_trans)

lemma past_id_fresh:
  assumes "inj_on (ev_now env) {..<n}" and "past_id env m cid" and "m \<le> t" and "t < n"
  shows "cid \<noteq> ContainerId (fresh_name p (ev_now env t) c) \<or> p \<noteq> ''ct-''"
proof -
  obtain t' c' where t': "t' < m" "cid = ContainerId (fresh_name ''ct-'' (ev_now env t') c')"
    using assms(2) by (auto simp: past_id_def)
  with assms(3,4) have "t' \<in> {..<n}" "t \<in> {..<n}" "t' \<noteq> t" by auto
  with assms(1) have "ev_now env t' \<noteq> ev_now env t"
    by (auto dest: inj_onD)
  with t' show ?thesis by (auto simp: fresh_name_inject)
qed

section \<open>The lifecycle\<close>

fun phase :: "ContainerState \<Rightarrow> nat" where
  "phase Created = 0"
| "phase Running = 1"
| "phase Exited = 2"
| "phase Unknown = 3"

definition evolves :: "ContainerRecord \<Rightarrow> ContainerRecord \<Rightarrow> bool" where
  "evolves r r' \<longleftrightarrow>
     cr_id r' = cr_id r \<and> cr_sandbox r' = cr_sandbox r \<and> cr_config r' = cr_config r \<and>
     cr_created_at r' = cr_created_at r \<and> phase (cr_state r) \<le> phase (cr_state r') \<and>
     (cr_state r \<in> {Exited, Unknown} \<longrightarrow> r' = r)"

lemma evolves_refl [simp]: "evolves r r"
  by (simp add: evolves_def)

lemma evolves_trans: "evolves a b \<Longrightarrow> evolves b c \<Longrightarrow> evolves a c"
  by (auto simp: evolves_def intro: le_trans)

lemma advances_evolves: "advances r r' \<Longrightarrow> evolves r r'"
  by (auto simp: advances_def evolves_def)

text \<open>Following one container through a run: it evolves, or it is gone for good.\<close>

definition tracks :: "ContainerId \<Rightarrow> ContainerRecord \<Rightarrow> 'f Fake \<Rightarrow> bool" where
  "tracks cid r st \<longleftrightarrow> (\<forall>r'. map_of (containers st) cid = Some r' \<longrightarrow> evolves r r')"

lemma prim_tracks:
  assumes "prim env sd st st'" and "keys_ok st" and "tracks cid r st"
    and "past_id env (fk_tick st) cid" and "inj_on (ev_now env) {..<fk_tick st'}"
  shows "tracks cid r st'"
  using assms
proof (induction rule: prim.induct)
  case (prim_quiet st st')
  then show ?case by (simp add: tracks_def quiet_def)
next
  case (add_sandbox st0 st s t c)
  then show ?case by (simp add: tracks_def quiet_def)
next
  case (add_container st0 st s t c)
  let ?st' = "put_container s (snd (persist_container env sd s st))"
  have "t < fk_tick ?st'"
    using add_container(5) persist_tick(2) by simp
  then have "cid \<noteq> cr_id s"
    using add_container past_id_fresh [of env "fk_tick ?st'" "fk_tick st0" cid t "''ct-''" c] by auto
  with add_container show ?case by (simp add: tracks_def quiet_def)
next
  case (advance_container st s s')
  have "cr_id s' = cr_id s" using advance_container by (simp add: advances_def)
  with advance_container advances_evolves [of s s'] show ?case
    by (auto simp: tracks_def intro: evolves_trans)
qed (auto simp: tracks_def)

lemma prims_tracks:
  assumes "prims env sd st st'" and "keys_ok st" and "map_of (containers st) cid = Some r"
    and "past_id env (fk_tick st) cid" and "inj_on (ev_now env) {..<fk_tick st'}"
  shows "tracks cid r st'"
  using assms
proof (induction rule: rtranclp_induct)
  case base
  then show ?case by (simp add: tracks_def)
next
  case (step y z)
  have "fk_tick st \<le> fk_tick y" "fk_tick y \<le> fk_tick z"
    using step(1,2) prims_tick prim_tick by blast+
  then have "inj_on (ev_now env) {..<fk_tick y}"
    using step.prems(4) by (auto intro: inj_on_subset)
  moreover have "past_id env (fk_tick y) cid"
    using step.prems(3) \<open>fk_tick st \<le> fk_tick y\<close> by (rule past_id_mono)
  moreover have "keys_ok y" using step(1) step.prems(1) by (rule prims_keys_ok)
  ultimately show ?case
    using prim_tracks [OF step(2)] step by blast
qed

lemma minted_past_id: "minted env st \<Longrightarrow> map_of (containers st) cid = Some r \<Longrightarrow> past_id env (fk_tick st) cid"
  by (auto simp: minted_def past_id_def)

lemma prim_minted: "prim env sd st st' \<Longrightarrow> keys_ok st \<Longrightarrow> minted env st \<Longrightarrow> minted env st'"
proof -
  assume p: "prim env sd st st'" and k: "keys_ok st" and m: "minted env st"
  have mono: "fk_tick st \<le> fk_tick st'" using p by (rule prim_tick)
  have old: "\<exists>t c. t < fk_tick st' \<and> cid = ContainerId (fresh_name ''ct-'' (ev_now env t) c)"
    if "map_of (containers st) cid = Some r" for cid r
    using m that mono unfolding minted_def by (meson less_le_trans)
  have old2: "\<exists>t c. t < fk_tick st' \<and> i = SandboxId (fresh_name ''sb-'' (ev_now env t) c)"
    if "map_of (sandboxes st) i = Some r" for i r
    using m that mono unfolding minted_def by (meson less_le_trans)
  from p k old old2 show "minted env st'"
  proof (cases rule: prim.cases)
    case (add_sandbox st r t c)
    have "t < fk_tick st'"
      using add_sandbox persist_tick(1) by simp
    with add_sandbox old old2 show ?thesis
      unfolding minted_def quiet_def by auto
  next
    case (add_container st r t c)
    have "t < fk_tick st'"
      using add_container persist_tick(2) by simp
    with add_container old old2 show ?thesis
      unfolding minted_def quiet_def by auto
  next
    case (advance_container r r')
    with old old2 show ?thesis
      unfolding minted_def advances_def by auto
  qed (auto simp: minted_def quiet_def split: if_splits)
qed

lemma prims_minted: "prims env sd st st' \<Longrightarrow> keys_ok st \<Longrightarrow> minted env st \<Longrightarrow> minted env st'"
  by (induction rule: rtranclp_induct) (auto intro: prim_minted prims_keys_ok)

section \<open>Crash-only: the directories agree with the cache\<close>

text \<open>\<open>mirrors dir file dec m\<close>: the directory holds exactly the records of \<open>m\<close>.\<close>

definition mirrors :: "'f dir \<Rightarrow> ('k \<Rightarrow> string) \<Rightarrow> ('f \<Rightarrow> 'r option) \<Rightarrow> ('k \<Rightarrow> 'r option) \<Rightarrow> bool" where
  "mirrors dir file dec m \<longleftrightarrow>
     bt_ok dir \<and>
     (\<forall>k r. m k = Some r \<longrightarrow> (\<exists>f. map_of dir (file k) = Some f \<and> dec f = Some r)) \<and>
     (\<forall>name f. map_of dir name = Some f \<longrightarrow> (\<exists>k. name = file k \<and> m k \<noteq> None))"

lemma mirrorsD:
  "mirrors dir file dec m \<Longrightarrow> m k = Some r \<Longrightarrow> \<exists>f. map_of dir (file k) = Some f \<and> dec f = Some r"
  "mirrors dir file dec m \<Longrightarrow> map_of dir name = Some f \<Longrightarrow> \<exists>k r. name = file k \<and> m k = Some r"
  by (auto simp: mirrors_def)

lemma mirrors_insert:
  assumes "mirrors dir file dec m" and "inj file" and "dec f = Some r"
  shows "mirrors (bt_insert (file k) f dir) file dec (m(k \<mapsto> r))"
  unfolding mirrors_def
proof (intro conjI allI impI)
  show "bt_ok (bt_insert (file k) f dir)" using assms(1) by (simp add: mirrors_def)
next
  fix k' r'
  assume "(m(k \<mapsto> r)) k' = Some r'"
  with assms show "\<exists>f'. map_of (bt_insert (file k) f dir) (file k') = Some f' \<and> dec f' = Some r'"
    by (cases "k' = k") (auto simp: mirrors_def dest: injD)
next
  fix name f'
  assume "map_of (bt_insert (file k) f dir) name = Some f'"
  then have "name = file k \<or> map_of dir name = Some f'" by (auto split: if_splits)
  then obtain k' where "name = file k'" "k' = k \<or> m k' \<noteq> None"
    using assms(1) unfolding mirrors_def by metis
  then show "\<exists>k'. name = file k' \<and> (m(k \<mapsto> r)) k' \<noteq> None" by auto
qed

lemma mirrors_remove:
  assumes "mirrors dir file dec m" and "inj file"
  shows "mirrors (bt_remove (file k) dir) file dec (m(k := None))"
  unfolding mirrors_def
proof (intro conjI allI impI)
  show "bt_ok (bt_remove (file k) dir)" using assms(1) by (simp add: mirrors_def)
next
  fix k' r'
  assume "(m(k := None)) k' = Some r'"
  with assms show "\<exists>f'. map_of (bt_remove (file k) dir) (file k') = Some f' \<and> dec f' = Some r'"
    by (cases "k' = k") (auto simp: mirrors_def dest: injD)
next
  fix name f'
  assume "map_of (bt_remove (file k) dir) name = Some f'"
  then have "name \<noteq> file k" "map_of dir name = Some f'" by (auto split: if_splits)
  then obtain k' where "name = file k'" "m k' \<noteq> None" "k' \<noteq> k"
    using assms(1) unfolding mirrors_def by metis
  then show "\<exists>k'. name = file k' \<and> (m(k := None)) k' \<noteq> None" by auto
qed

definition synced :: "'f Serde \<Rightarrow> 'f Fake \<Rightarrow> bool" where
  "synced sd st \<longleftrightarrow>
     mirrors (fk_sandboxes_dir st) sandbox_file (de_sandbox sd) (map_of (sandboxes st)) \<and>
     mirrors (fk_containers_dir st) container_file (de_container sd) (map_of (containers st)) \<and>
     mirrors (fk_images_dir st) image_file (de_image sd) (map_of (images st))"

definition disk_ok :: "Env \<Rightarrow> bool" where
  "disk_ok env \<longleftrightarrow> (\<forall>t. ev_write env t = None \<and> ev_unlink env t)"

lemma file_names_inj: "inj sandbox_file" "inj container_file" "inj image_file"
  by (auto simp: inj_def sandbox_file_def container_file_def image_file_def
      intro: SandboxId.expand ContainerId.expand)

lemma serde_okD:
  assumes "serde_ok sd"
  shows "de_sandbox sd (projr (ser_sandbox sd r)) = Some r"
    and "de_container sd (projr (ser_container sd c)) = Some c"
    and "de_image sd (projr (ser_image sd m)) = Some m"
  using assms unfolding serde_ok_def by (metis sum.sel(2))+

lemma remove_file_dirs:
  assumes "disk_ok env"
  shows "fk_containers_dir (remove_file env set_containers_dir fk_containers_dir n st) =
      bt_remove n (fk_containers_dir st)"
    and "fk_sandboxes_dir (remove_file env set_sandboxes_dir fk_sandboxes_dir n st) =
      bt_remove n (fk_sandboxes_dir st)"
    and "fk_images_dir (remove_file env set_images_dir fk_images_dir n st) =
      bt_remove n (fk_images_dir st)"
    and "fk_sandboxes_dir (remove_file env set_containers_dir fk_containers_dir n st) = fk_sandboxes_dir st"
    and "fk_images_dir (remove_file env set_containers_dir fk_containers_dir n st) = fk_images_dir st"
    and "fk_containers_dir (remove_file env set_sandboxes_dir fk_sandboxes_dir n st) = fk_containers_dir st"
    and "fk_images_dir (remove_file env set_sandboxes_dir fk_sandboxes_dir n st) = fk_images_dir st"
    and "fk_containers_dir (remove_file env set_images_dir fk_images_dir n st) = fk_containers_dir st"
    and "fk_sandboxes_dir (remove_file env set_images_dir fk_images_dir n st) = fk_sandboxes_dir st"
  using assms by (simp_all add: disk_ok_def remove_file_def ask_def Let_def set_containers_dir_def
      set_sandboxes_dir_def set_images_dir_def)

lemma prim_synced:
  assumes "prim env sd st st'" and "synced sd st" and "serde_ok sd" and "disk_ok env"
  shows "synced sd st'"
proof -
  have w: "\<And>t. ev_write env t = None" using assms(4) by (simp add: disk_ok_def)
  note ok = persist_ok [OF assms(3) w]
  note dirs = persist_container_dir persist_sandbox_dir persist_image_dir remove_file_dirs [OF assms(4)]
  note ins = mirrors_insert [where dec = "de_sandbox sd", OF _ file_names_inj(1), OF _ serde_okD(1) [OF assms(3)]]
    mirrors_insert [where dec = "de_container sd", OF _ file_names_inj(2), OF _ serde_okD(2) [OF assms(3)]]
    mirrors_insert [where dec = "de_image sd", OF _ file_names_inj(3), OF _ serde_okD(3) [OF assms(3)]]
  note del = mirrors_remove [OF _ file_names_inj(1)] mirrors_remove [OF _ file_names_inj(2)]
    mirrors_remove [OF _ file_names_inj(3)]
  from assms(1,2) show ?thesis
  proof (cases rule: prim.cases)
    case prim_quiet
    with assms(2) show ?thesis by (simp add: synced_def quiet_def)
  next
    case (add_sandbox st1 r t c)
    with assms(2) have "synced sd st1" by (simp add: synced_def quiet_def)
    then show ?thesis using add_sandbox(1) by (simp add: synced_def dirs ok ins(1))
  next
    case (end_sandbox r)
    then show ?thesis
      using assms(2) by (simp add: synced_def dirs ok ins(1))
  next
    case (del_sandbox i)
    then show ?thesis using assms(2) by (simp add: synced_def dirs del(1))
  next
    case (add_container st1 r t c)
    with assms(2) have "synced sd st1" by (simp add: synced_def quiet_def)
    then show ?thesis using add_container(1) by (simp add: synced_def dirs ok ins(2))
  next
    case (advance_container r r')
    then show ?thesis
      using assms(2) by (simp add: synced_def dirs ok ins(2))
  next
    case (del_container i)
    then show ?thesis using assms(2) by (simp add: synced_def dirs del(2))
  next
    case (add_image r)
    then show ?thesis using assms(2) by (simp add: synced_def dirs ok ins(3))
  next
    case (del_image i)
    then show ?thesis using assms(2) by (simp add: synced_def dirs del(3))
  qed
qed

lemma prims_synced:
  "prims env sd st st' \<Longrightarrow> synced sd st \<Longrightarrow> serde_ok sd \<Longrightarrow> disk_ok env \<Longrightarrow> synced sd st'"
  by (induction rule: rtranclp_induct) (auto intro: prim_synced)

section \<open>Recovery\<close>

definition named :: "'f Fake \<Rightarrow> bool" where
  "named st \<longleftrightarrow> (\<forall>i r. map_of (sandboxes st) i = Some r \<longrightarrow> sid_0 i \<noteq> []) \<and>
     (\<forall>i r. map_of (containers st) i = Some r \<longrightarrow> cid_0 i \<noteq> []) \<and>
     (\<forall>i r. map_of (images st) i = Some r \<longrightarrow> i \<noteq> [])"

text \<open>What a container record may be recovered as.\<close>

definition recovered :: "Env \<Rightarrow> ContainerRecord \<Rightarrow> ContainerRecord \<Rightarrow> bool" where
  "recovered env r r' \<longleftrightarrow>
     (if cr_state r = Running then
        (if cr_pid r = 0 then \<exists>t. r' = lost_record ''lost-start-window'' (ev_now env t) r
         else \<exists>t. if ev_pid_alive env t (cr_pid r) then r' = r
                  else \<exists>t'. r' = lost_record ''lost-exit-reaped-elsewhere'' (ev_now env t') r)
      else r' = r)"

text \<open>\<open>holds xs file dec m\<close>: distinct entries, each the record of its name.\<close>

definition holds :: "(string \<times> 'f) list \<Rightarrow> ('k \<Rightarrow> string) \<Rightarrow> ('f \<Rightarrow> 'r option) \<Rightarrow> ('r \<Rightarrow> 'k)
    \<Rightarrow> ('k \<Rightarrow> 'r option) \<Rightarrow> bool" where
  "holds xs file dec key m \<longleftrightarrow>
     distinct (map fst xs) \<and>
     (\<forall>(n, d) \<in> set xs. extension n = Some ''json'' \<and>
        (\<exists>r. n = file (key r) \<and> m (key r) = Some r \<and> dec d = Some r))"

lemma holds_Cons:
  "holds ((n, d) # xs) file dec key m \<longleftrightarrow>
     holds xs file dec key m \<and> n \<notin> fst ` set xs \<and> extension n = Some ''json'' \<and>
     (\<exists>r. n = file (key r) \<and> m (key r) = Some r \<and> dec d = Some r)"
  by (auto simp: holds_def)

lemma mirrors_holds:
  assumes "mirrors dir file dec m" and "inj file" and "\<And>k r. m k = Some r \<Longrightarrow> key r = k"
    and "\<And>k r. m k = Some r \<Longrightarrow> extension (file k) = Some ''json''"
  shows "holds dir file dec key m"
  unfolding holds_def
proof (intro conjI ballI)
  show "distinct (map fst dir)" using assms(1) by (simp add: mirrors_def bt_ok_distinct)
next
  fix x
  assume "x \<in> set dir"
  obtain n d where x: "x = (n, d)" by force
  have look: "map_of dir n = Some d"
    using assms(1) \<open>x \<in> set dir\<close> by (simp add: x mirrors_def bt_ok_distinct)
  then obtain k r where r: "n = file k" "m k = Some r"
    using mirrorsD(2) [OF assms(1)] by blast
  then have "dec d = Some r"
    using mirrorsD(1) [OF assms(1) r(2)] look by auto
  with r assms(3,4) show "case x of (n, d) \<Rightarrow> extension n = Some ''json'' \<and>
      (\<exists>r. n = file (key r) \<and> m (key r) = Some r \<and> dec d = Some r)"
    by (auto simp: x)
qed

lemma mirrors_names:
  assumes "mirrors dir file dec m" and "inj file"
  shows "file k \<in> fst ` set dir \<longleftrightarrow> m k \<noteq> None"
proof
  assume "file k \<in> fst ` set dir"
  then obtain f where "map_of dir (file k) = Some f"
    by (metis map_of_eq_None_iff not_None_eq)
  then obtain k' where "file k = file k'" "m k' \<noteq> None"
    using assms(1) unfolding mirrors_def by metis
  then show "m k \<noteq> None" using assms(2) by (auto dest: injD)
next
  assume "m k \<noteq> None"
  then obtain f where "map_of dir (file k) = Some f"
    using mirrorsD(1) [OF assms(1)] by blast
  then show "file k \<in> fst ` set dir" by (force dest: map_of_SomeD)
qed

lemma load_sandboxes:
  assumes "holds xs sandbox_file (de_sandbox sd) sr_id m"
  shows "map_of (sandboxes (fold (load_sandbox sd) xs st)) i =
      (if sandbox_file i \<in> fst ` set xs then m i else map_of (sandboxes st) i)"
  using assms
proof (induction xs arbitrary: st)
  case (Cons x xs)
  obtain n d where x: "x = (n, d)" by force
  with Cons.prems obtain r where h: "holds xs sandbox_file (de_sandbox sd) sr_id m"
    "n \<notin> fst ` set xs" "extension n = Some ''json''" "n = sandbox_file (sr_id r)"
    "m (sr_id r) = Some r" "de_sandbox sd d = Some r"
    by (auto simp: holds_Cons)
  then show ?case
    using Cons.IH [OF h(1)] injD [OF file_names_inj(1)] by (auto simp: x)
qed simp

lemma load_images:
  assumes "holds xs image_file (de_image sd) ir_id m"
  shows "map_of (images (fold (load_image sd) xs st)) i =
      (if image_file i \<in> fst ` set xs then m i else map_of (images st) i)"
  using assms
proof (induction xs arbitrary: st)
  case (Cons x xs)
  obtain n d where x: "x = (n, d)" by force
  with Cons.prems obtain r where h: "holds xs image_file (de_image sd) ir_id m"
    "n \<notin> fst ` set xs" "extension n = Some ''json''" "n = image_file (ir_id r)"
    "m (ir_id r) = Some r" "de_image sd d = Some r"
    by (auto simp: holds_Cons)
  then show ?case
    using Cons.IH [OF h(1)] injD [OF file_names_inj(3)] by (auto simp: x)
qed simp

lemma recover_container_lookup:
  "\<exists>r'. recovered env r r' \<and>
     map_of (containers (recover_container env sd r st)) = (map_of (containers st))(cr_id r \<mapsto> r')"
proof -
  let ?m = "map_of (containers st)"
  consider "cr_state r \<noteq> Running" | "cr_state r = Running" "cr_pid r = 0"
    | "cr_state r = Running" "cr_pid r \<noteq> 0" by blast
  then show ?thesis
  proof cases
    case 1
    then show ?thesis by (auto simp: recover_container_def recovered_def)
  next
    case 2
    let ?r = "lost_record ''lost-start-window'' (ev_now env (fk_tick st)) r"
    have "map_of (containers (recover_container env sd r st)) = ?m(cr_id r \<mapsto> ?r)"
      using 2 by (simp add: recover_container_def Let_def ask_def write_back_def lost_record_def
          exited_record_def)
    with 2 show ?thesis by (auto simp: recovered_def)
  next
    case 3
    then have pos: "0 < cr_pid r" by (simp add: word_neq_0_conv)
    let ?t = "fk_tick st"
    let ?r = "if ev_pid_alive env ?t (cr_pid r) then r
      else lost_record ''lost-exit-reaped-elsewhere'' (ev_now env (Suc ?t)) r"
    have "map_of (containers (recover_container env sd r st)) = ?m(cr_id r \<mapsto> ?r)"
      using 3 pos by (simp add: recover_container_def Let_def ask_def write_back_def lost_record_def
          exited_record_def)
    moreover have "recovered env r ?r" using 3 by (auto simp: recovered_def)
    ultimately show ?thesis by blast
  qed
qed

lemma recover_container_frame [simp]:
  "sandboxes (recover_container env sd r st) = sandboxes st"
  "images (recover_container env sd r st) = images st"
  "fk_sandboxes_dir (recover_container env sd r st) = fk_sandboxes_dir st"
  "fk_images_dir (recover_container env sd r st) = fk_images_dir st"
  by (simp_all add: recover_container_def Let_def ask_def write_back_def)

lemma load_containers_frame:
  "sandboxes (fold (load_container env sd) xs st) = sandboxes st \<and>
   fk_images_dir (fold (load_container env sd) xs st) = fk_images_dir st"
  by (induction xs arbitrary: st) (auto split: option.splits)

lemma load_containers:
  assumes "holds xs container_file (de_container sd) cr_id m"
  shows "if container_file cid \<in> fst ` set xs
    then \<exists>r r'. m cid = Some r \<and> recovered env r r' \<and>
      map_of (containers (fold (load_container env sd) xs st)) cid = Some r'
    else map_of (containers (fold (load_container env sd) xs st)) cid = map_of (containers st) cid"
  using assms
proof (induction xs arbitrary: st)
  case (Cons x xs)
  obtain n d where x: "x = (n, d)" by force
  with Cons.prems obtain r where h: "holds xs container_file (de_container sd) cr_id m"
    "n \<notin> fst ` set xs" "extension n = Some ''json''" "n = container_file (cr_id r)"
    "m (cr_id r) = Some r" "de_container sd d = Some r"
    by (auto simp: holds_Cons)
  obtain r' where r': "recovered env r r'"
    "map_of (containers (recover_container env sd r st)) = (map_of (containers st))(cr_id r \<mapsto> r')"
    using recover_container_lookup by blast
  have fold: "fold (load_container env sd) (x # xs) st =
      fold (load_container env sd) xs (recover_container env sd r st)"
    using h by (simp add: x)
  note ih = Cons.IH [OF h(1), of "recover_container env sd r st"]
  show ?case
  proof (cases "cid = cr_id r")
    case True
    with h(2,4) ih r'(2) have "map_of (containers (fold (load_container env sd) (x # xs) st)) cid = Some r'"
      unfolding fold by simp
    with True h r'(1) show ?thesis by (auto simp: x)
  next
    case False
    then have "container_file cid \<noteq> n"
      using h(4) injD [OF file_names_inj(2)] by auto
    with False ih r'(2) show ?thesis
      unfolding fold by (cases "container_file cid \<in> fst ` set xs") (simp_all add: x)
  qed
qed simp

lemma open_backend_recovers:
  assumes "synced sd st" and "keys_ok st" and "named st"
  shows "map_of (sandboxes (open_backend env sd st)) = map_of (sandboxes st)"
    and "map_of (images (open_backend env sd st)) = map_of (images st)"
    and "map_of (containers st) cid = None \<Longrightarrow> map_of (containers (open_backend env sd st)) cid = None"
    and "map_of (containers st) cid = Some r \<Longrightarrow>
      \<exists>r'. map_of (containers (open_backend env sd st)) cid = Some r' \<and> recovered env r r'"
proof -
  note m = assms(1) [unfolded synced_def]
  note names = mirrors_names [OF m [THEN conjunct1] file_names_inj(1)]
    mirrors_names [OF m [THEN conjunct2, THEN conjunct1] file_names_inj(2)]
    mirrors_names [OF m [THEN conjunct2, THEN conjunct2] file_names_inj(3)]
  have c: "sandboxes (crash st) = []" "fk_sandboxes_dir (crash st) = fk_sandboxes_dir st"
    by (simp_all add: crash_def empty_cache_def)
  have s1: "sandboxes (open_sandboxes sd (crash st)) =
      sandboxes (fold (load_sandbox sd) (fk_sandboxes_dir st) (crash st))"
    by (simp add: open_sandboxes_def c)
  have h1: "holds (fk_sandboxes_dir st) sandbox_file (de_sandbox sd) sr_id (map_of (sandboxes st))"
    and h2: "holds (fk_containers_dir st) container_file (de_container sd) cr_id (map_of (containers st))"
    and h3: "holds (fk_images_dir st) image_file (de_image sd) ir_id (map_of (images st))"
    using m assms(2,3)
    by (auto intro!: mirrors_holds file_names_inj simp: keys_ok_def named_def sandbox_file_def
        container_file_def image_file_def)
  let ?s1 = "open_sandboxes sd (crash st)" and ?s2 = "open_containers env sd (open_sandboxes sd (crash st))"
  have dirs: "fk_containers_dir ?s1 = fk_containers_dir st" "fk_images_dir ?s1 = fk_images_dir st"
    "containers ?s1 = []" "images ?s1 = []"
  proof -
    have "fk_containers_dir (fold (load_sandbox sd) xs s) = fk_containers_dir s \<and>
        fk_images_dir (fold (load_sandbox sd) xs s) = fk_images_dir s \<and>
        containers (fold (load_sandbox sd) xs s) = containers s \<and>
        images (fold (load_sandbox sd) xs s) = images s" for xs and s :: "'a Fake"
      by (induction xs arbitrary: s) (auto split: option.splits)
    then show "fk_containers_dir ?s1 = fk_containers_dir st" "fk_images_dir ?s1 = fk_images_dir st"
      "containers ?s1 = []" "images ?s1 = []"
      by (simp_all add: open_sandboxes_def crash_def empty_cache_def)
  qed
  have images2: "images ?s2 = []"
  proof -
    have "images (fold (load_container env sd) xs s) = images s" for xs and s :: "'a Fake"
      by (induction xs arbitrary: s) (auto split: option.splits)
    then show ?thesis using dirs by (simp add: open_containers_def)
  qed
  have frame3: "sandboxes (fold (load_image sd) xs s) = sandboxes s \<and>
      containers (fold (load_image sd) xs s) = containers s" for xs and s :: "'a Fake"
    by (induction xs arbitrary: s) (auto split: option.splits)
  have dir2: "sandboxes ?s2 = sandboxes ?s1" "fk_images_dir ?s2 = fk_images_dir st"
    using load_containers_frame [of env sd "fk_containers_dir ?s1" ?s1] dirs
    by (simp_all add: open_containers_def)
  show "map_of (sandboxes (open_backend env sd st)) = map_of (sandboxes st)"
  proof
    fix i
    show "map_of (sandboxes (open_backend env sd st)) i = map_of (sandboxes st) i"
      using load_sandboxes [OF h1, of "crash st" i] names(1) [of i] c
      by (auto simp: open_backend_def open_images_def frame3 dir2 s1)
  qed
  show "map_of (images (open_backend env sd st)) = map_of (images st)"
  proof
    fix i
    show "map_of (images (open_backend env sd st)) i = map_of (images st) i"
      using load_images [OF h3, of ?s2 i] names(3) [of i]
      by (auto simp: open_backend_def open_images_def dir2 images2)
  qed
  have eq: "containers (open_backend env sd st) =
      containers (fold (load_container env sd) (fk_containers_dir st) ?s1)"
    by (simp add: open_backend_def open_images_def frame3 open_containers_def dirs)
  show "map_of (containers st) cid = None \<Longrightarrow> map_of (containers (open_backend env sd st)) cid = None"
    using load_containers [OF h2, of cid env ?s1] names(2) [of cid] dirs
    by (auto simp: eq)
  show "map_of (containers st) cid = Some r \<Longrightarrow>
      \<exists>r'. map_of (containers (open_backend env sd st)) cid = Some r' \<and> recovered env r r'"
    using load_containers [OF h2, of cid env ?s1] names(2) [of cid] dirs
    by (auto simp: eq)
qed

section \<open>From the empty state\<close>

definition fresh_backend :: "string \<Rightarrow> 'f Fake" where
  "fresh_backend root =
     \<lparr>fk_state_root = root, fk_cache = empty_cache, fk_io = [], fk_reapers = [],
      fk_sandboxes_dir = [], fk_containers_dir = [], fk_images_dir = [], fk_counter = 0,
      fk_tick = 0, fk_effects = []\<rparr>"

lemma fresh_backend_ok [simp]:
  "keys_ok (fresh_backend root)" "minted env (fresh_backend root)" "synced sd (fresh_backend root)"
  "named (fresh_backend root)"
  by (simp_all add: fresh_backend_def empty_cache_def keys_ok_def minted_def synced_def mirrors_def
      named_def)

lemma minted_named: "minted env st \<Longrightarrow> (\<forall>i r. map_of (images st) i = Some r \<longrightarrow> i \<noteq> []) \<Longrightarrow> named st"
  by (auto simp: named_def minted_def fresh_name_def)

lemma prim_named_images:
  "prim env sd st st' \<Longrightarrow> (\<forall>i r. map_of (images st) i = Some r \<longrightarrow> i \<noteq> []) \<Longrightarrow>
   (\<forall>i r. map_of (images st') i = Some r \<longrightarrow> i \<noteq> [])"
  by (induction rule: prim.induct) (auto simp: quiet_def split: if_splits)

lemma prims_named:
  assumes "prims env sd st st'" and "keys_ok st" and "minted env st" and "named st"
  shows "named st'"
proof -
  have "\<forall>i r. map_of (images st') i = Some r \<longrightarrow> i \<noteq> []"
    using assms(1,4) by (induction rule: rtranclp_induct) (simp add: named_def, metis prim_named_images)
  then show ?thesis
    using minted_named prims_minted [OF assms(1-3)] by blast
qed

section \<open>Image records\<close>

text \<open>The id of an image is a function of its reference, so a reference has one record.\<close>

definition images_hashed :: "Env \<Rightarrow> 'f Fake \<Rightarrow> bool" where
  "images_hashed env st \<longleftrightarrow>
     (\<forall>i r. map_of (images st) i = Some r \<longrightarrow> i = ''sha-'' @ take 16 (ev_blake3_hex env (ir_ref_name r)))"

lemma images_hashed_fresh [simp]: "images_hashed env (fresh_backend root)"
  by (simp add: images_hashed_def fresh_backend_def empty_cache_def)

lemma prim_images_hashed: "prim env sd st st' \<Longrightarrow> images_hashed env st \<Longrightarrow> images_hashed env st'"
  by (induction rule: prim.induct) (auto simp: images_hashed_def quiet_def split: if_splits)

lemma prims_images_hashed: "prims env sd st st' \<Longrightarrow> images_hashed env st \<Longrightarrow> images_hashed env st'"
  by (induction rule: rtranclp_induct) (auto intro: prim_images_hashed)

end
