(* ===== verification/Fake_Ops.thy ===== *)
theory Fake_Ops
  imports Fake_Laws
begin

text \<open>
  What each operation of the fake backend does: which containers a call may touch, what a
  removal leaves, what stopping waits for, and the outcomes of a start.
\<close>

section \<open>Shrinking\<close>

text \<open>Stopping, reaping and removing add no container and move none to another sandbox.\<close>

definition shrinks :: "'f Fake \<Rightarrow> 'f Fake \<Rightarrow> bool" where
  "shrinks st st' \<longleftrightarrow>
     sandboxes st' = sandboxes st \<and>
     (\<forall>cid r'. map_of (containers st') cid = Some r' \<longrightarrow>
        (\<exists>r. map_of (containers st) cid = Some r \<and> cr_sandbox r' = cr_sandbox r \<and> cr_id r' = cr_id r))"

lemma shrinks_refl [simp]: "shrinks st st"
  by (auto simp: shrinks_def)

lemma shrinks_trans: "shrinks a b \<Longrightarrow> shrinks b c \<Longrightarrow> shrinks a c"
  unfolding shrinks_def by metis

lemma shrinks_cache: "fk_cache st' = fk_cache st \<Longrightarrow> shrinks st st'"
  by (simp add: shrinks_def)

lemma shrinks_quiet: "quiet st st' \<Longrightarrow> shrinks st st'"
  by (simp add: quiet_def shrinks_cache)

lemma shrinks_update:
  assumes "fk_cache st1 = fk_cache st" and "map_of (containers st) cid = Some r"
    and "cr_id r = cid" and "cr_id r' = cid" and "cr_sandbox r' = cr_sandbox r"
  shows "shrinks st (snd (persist_container env sd r' (put_container r' st1)))"
  using assms by (auto simp: shrinks_def)

lemma shrinks_reap: "keys_ok st \<Longrightarrow> shrinks st (reap env sd cid res st)"
proof -
  assume k: "keys_ok st"
  show ?thesis
  proof (cases "cid \<in> set (fk_reapers st)")
    case False
    then show ?thesis by (simp add: reap_def)
  next
    case True
    show ?thesis
    proof (cases "map_of (containers st) cid")
      case None
      with True show ?thesis
        by (auto simp: reap_def Let_def case_prod_unfold ask_def intro!: shrinks_cache)
    next
      case (Some r)
      with k have "cr_id r = cid" by (auto simp: keys_ok_def)
      with True Some show ?thesis
        by (auto simp: reap_def Let_def case_prod_unfold ask_def exited_record_def
            intro: shrinks_cache shrinks_update [where cid = cid and r = r])
    qed
  qed
qed

lemma reap_keys: "keys_ok st \<Longrightarrow> keys_ok (reap env sd cid res st)"
  using reap_prims prims_keys_ok by blast

lemma reap_all_keys: "keys_ok st \<Longrightarrow> keys_ok (reap_all env sd rs st)"
  by (induction rs arbitrary: st) (auto simp: reap_keys split: prod.splits)

lemma shrinks_reap_all: "keys_ok st \<Longrightarrow> shrinks st (reap_all env sd rs st)"
proof (induction rs arbitrary: st)
  case (Cons r rs)
  obtain cid res where "r = (cid, res)" by force
  with Cons show ?case using shrinks_reap reap_keys shrinks_trans by (metis reap_all.simps(2))
qed simp

lemma shrinks_wait: "keys_ok st \<Longrightarrow> shrinks st (snd (wait_until_exited env sd cid n st))"
proof (induction n arbitrary: st)
  case (Suc n)
  let ?st1 = "snd (ask (ev_sleep env) st)"
  have k: "keys_ok ?st1" using Suc.prems by simp
  have q: "shrinks st ?st1" by (simp add: shrinks_cache)
  have "shrinks st (snd (wait_until_exited env sd cid n (reap_all env sd rs ?st1)))" for rs
    using Suc.IH [OF reap_all_keys [OF k]] shrinks_reap_all [OF k] q shrinks_trans by blast
  with q show ?case by (auto simp: case_prod_unfold Let_def)
qed simp

lemma shrinks_kill: "shrinks st (kill pid sig st)"
  by (simp add: shrinks_quiet)

lemma wait_keys: "keys_ok st \<Longrightarrow> keys_ok (snd (wait_until_exited env sd cid n st))"
  using wait_prims prims_keys_ok by blast

lemma shrinks_kill_wait:
  "keys_ok st \<Longrightarrow> shrinks st (snd (wait_until_exited env sd cid n (kill pid sig st)))"
  by (meson kill_keys shrinks_kill shrinks_trans shrinks_wait)

lemma shrinks_stop: "keys_ok st \<Longrightarrow> shrinks st (snd (stop_container env sd cid g st))"
proof -
  assume k: "keys_ok st"
  show ?thesis
  proof (cases "map_of (containers st) cid")
    case None
    then show ?thesis by (simp add: stop_container_def)
  next
    case (Some r)
    with k have "cr_id r = cid" by (auto simp: keys_ok_def)
    have two: "shrinks st (snd (wait_until_exited env sd cid m
        (kill p SIGKILL (snd (wait_until_exited env sd cid n (kill p SIGTERM st))))))" for m n p
      by (meson k kill_keys shrinks_kill_wait shrinks_trans wait_keys)
    show ?thesis
      using Some \<open>cr_id r = cid\<close> shrinks_kill_wait [OF k] two
      by (auto simp: stop_container_def Let_def case_prod_unfold ask_def exited_record_def
          intro: shrinks_update [where cid = cid and r = r] shrinks_cache)
  qed
qed

lemma stop_keys: "keys_ok st \<Longrightarrow> keys_ok (snd (stop_container env sd cid g st))"
  using sound_opD [OF stop_container_sound] prims_keys_ok by blast

lemma remove_keys: "keys_ok st \<Longrightarrow> keys_ok (snd (remove_container env sd cid st))"
  using sound_opD [OF remove_container_sound] prims_keys_ok by blast

section \<open>Removing\<close>

lemma remove_container_cases:
  obtains (absent) "map_of (containers st) cid = None" "remove_container env sd cid st = (Inr (), st)"
  | (failed) e st1 where "map_of (containers st) cid \<noteq> None"
      "stop_container env sd cid 0 st = (Inl e, st1)" "remove_container env sd cid st = (Inl e, st1)"
  | (removed) st1 where "map_of (containers st) cid \<noteq> None"
      "st1 = st \<or> st1 = snd (stop_container env sd cid 0 st)"
      "remove_container env sd cid st = (Inr (), remove_file env set_containers_dir fk_containers_dir
         (container_file cid) (io_remove cid (drop_container cid st1)))"
proof (cases "map_of (containers st) cid")
  case None
  then show ?thesis using absent by (simp add: remove_container_def)
next
  case (Some r)
  show ?thesis
  proof (cases "cr_state r = Running")
    case False
    with Some show ?thesis using removed [of st] by (simp add: remove_container_def bindE_def)
  next
    case True
    obtain res st1 where s: "stop_container env sd cid 0 st = (res, st1)" by force
    show ?thesis
    proof (cases res)
      case (Inl e)
      with s Some True show ?thesis using failed [of e st1] by (simp add: remove_container_def bindE_def)
    next
      case (Inr u)
      with s Some True show ?thesis
        using removed [of st1] by (simp add: remove_container_def bindE_def)
    qed
  qed
qed

lemma io_remove_lookup [simp]: "map_of (fk_io (io_remove c st)) = (map_of (fk_io st))(c := None)"
  by (simp add: io_remove_def)

lemma remove_file_io [simp]:
  "fk_io (remove_file env set_containers_dir d n st) = fk_io st"
  "fk_reapers (remove_file env set_containers_dir d n st) = fk_reapers st"
  "fk_effects (remove_file env set_containers_dir d n st) = fk_effects st"
  by (simp_all add: remove_file_def ask_def Let_def set_containers_dir_def)

lemma remove_container_gone:
  assumes "remove_container env sd cid st = (Inr (), st')" 
  shows "map_of (containers st') cid = None"
  using assms by (cases rule: remove_container_cases [of st cid env sd]) auto

lemma shrinks_remove: "keys_ok st \<Longrightarrow> shrinks st (snd (remove_container env sd cid st))"
proof -
  assume k: "keys_ok st"
  have drop: "shrinks x (remove_file env set_containers_dir fk_containers_dir
         (container_file cid) (io_remove cid (drop_container cid x)))" for x
    by (auto simp: shrinks_def)
  show ?thesis
    using shrinks_stop [OF k, of env sd cid 0]
    by (cases rule: remove_container_cases [of st cid env sd])
       (auto intro: shrinks_trans [OF _ drop] drop)
qed

lemma remove_containers_gone:
  assumes "remove_containers env sd cids st = (Inr (), st')" and "keys_ok st"
  shows "shrinks st st' \<and> keys_ok st' \<and> (\<forall>cid \<in> set cids. map_of (containers st') cid = None)"
  using assms
proof (induction cids arbitrary: st)
  case (Cons cid cids)
  obtain u st1 where s: "stop_container env sd cid 0 st = (Inr u, st1)"
    and rest: "bindE (remove_container env sd cid) (\<lambda>_. remove_containers env sd cids) st1 = (Inr (), st')"
    using Cons.prems(1) by (auto simp: bindE_def split: prod.splits sum.splits)
  obtain st2 where r: "remove_container env sd cid st1 = (Inr (), st2)"
    and rs: "remove_containers env sd cids st2 = (Inr (), st')"
    using rest by (auto simp: bindE_def split: prod.splits sum.splits)
  have k1: "keys_ok st1" and sh1: "shrinks st st1"
    using stop_keys [OF Cons.prems(2), of env sd cid 0] shrinks_stop [OF Cons.prems(2), of env sd cid 0] s
    by simp_all
  have k2: "keys_ok st2" and sh2: "shrinks st1 st2"
    using remove_keys [OF k1, of env sd cid] shrinks_remove [OF k1, of env sd cid] r by simp_all
  have ih: "shrinks st2 st'" "keys_ok st'" "\<forall>cid \<in> set cids. map_of (containers st') cid = None"
    using Cons.IH [OF rs k2] by auto
  have "map_of (containers st') cid = None"
    using remove_container_gone [OF r] ih(1) unfolding shrinks_def
    by (metis option.distinct(1) option.exhaust)
  with ih sh1 sh2 show ?case by (auto intro: shrinks_trans)
qed simp

lemma cni_teardown_cache [simp]: "fk_cache (cni_teardown env i p st) = fk_cache st"
  using quiet_cni_teardown [of st env i p] by (simp add: quiet_def)

text \<open>A stop without failing writes succeeds.\<close>

lemma stop_container_ok:
  assumes "serde_ok sd" and "disk_ok env"
  shows "fst (stop_container env sd cid g st) = Inr ()"
  using persist_ok(1) [OF assms(1), of env] assms(2)
  by (auto simp: stop_container_def Let_def case_prod_unfold disk_ok_def split: option.splits)

lemma remove_container_ok:
  assumes "serde_ok sd" and "disk_ok env"
  shows "fst (remove_container env sd cid st) = Inr ()"
  using stop_container_ok [OF assms, of cid 0 st]
  by (cases rule: remove_container_cases [of st cid env sd]) auto

lemma remove_containers_ok:
  assumes "serde_ok sd" and "disk_ok env"
  shows "fst (remove_containers env sd cids st) = Inr ()"
proof (induction cids arbitrary: st)
  case (Cons cid cids)
  obtain st1 where s: "stop_container env sd cid 0 st = (Inr (), st1)"
    using stop_container_ok [OF assms, of cid 0 st] by (metis prod.collapse)
  obtain st2 where r: "remove_container env sd cid st1 = (Inr (), st2)"
    using remove_container_ok [OF assms, of cid st1] by (metis prod.collapse)
  show ?case using Cons [of st2] by (simp add: bindE_def s r)
qed simp

lemma stop_sandbox_ok:
  assumes "serde_ok sd" and "disk_ok env"
  shows "fst (stop_sandbox env sd i st) = Inr ()"
  using persist_ok(2) [OF assms(1), of env] assms(2)
  by (auto simp: stop_sandbox_def Let_def disk_ok_def split: option.splits)

lemma remove_sandbox_ok:
  assumes "serde_ok sd" and "disk_ok env"
  shows "fst (remove_sandbox env sd i st) = Inr ()"
proof -
  obtain st1 where s: "stop_sandbox env sd i st = (Inr (), st1)"
    using stop_sandbox_ok [OF assms, of i st] by (metis prod.collapse)
  obtain st2 where r: "remove_containers env sd (containers_of i st1) st1 = (Inr (), st2)"
    using remove_containers_ok [OF assms, of "containers_of i st1" st1] by (metis prod.collapse)
  show ?thesis
    by (auto simp: remove_sandbox_def bindE_def s r remove_sandbox_record_def Let_def
        split: option.splits)
qed

lemma remove_sandbox_gone:
  assumes "remove_sandbox env sd i st = (Inr (), st')" and "keys_ok st"
    and "map_of (sandboxes st) i = Some s"
  shows "map_of (sandboxes st') i = None"
    and "map_of (containers st') cid = Some c \<Longrightarrow> cr_sandbox c \<noteq> i"
proof -
  obtain u st1 where s: "stop_sandbox env sd i st = (Inr u, st1)"
    using assms(1) by (auto simp: remove_sandbox_def bindE_def split: prod.splits sum.splits)
  have k1: "keys_ok st1"
    using sound_opD [OF stop_sandbox_sound assms(2), of env sd i] s prims_keys_ok [OF _ assms(2)] by simp
  have some1: "map_of (sandboxes st1) i \<noteq> None"
    using s assms(2,3) by (auto simp: stop_sandbox_def Let_def keys_ok_def persist_defs
        split: if_splits option.splits sum.splits)
  then obtain sb where sb: "map_of (sandboxes st1) i = Some sb" by auto
  obtain v st2 where r: "remove_containers env sd (containers_of i st1) st1 = (Inr v, st2)"
    and fin: "remove_sandbox_record env i sb st2 = (Inr (), st')"
    using assms(1) by (auto simp: remove_sandbox_def bindE_def s sb split: prod.splits sum.splits)
  have g: "shrinks st1 st2" "keys_ok st2"
    "\<forall>cid \<in> set (containers_of i st1). map_of (containers st2) cid = None"
    using remove_containers_gone [of env sd "containers_of i st1" st1 st2] r k1 by auto
  have st': "map_of (sandboxes st') i = None" "containers st' = containers st2"
    using fin g(1) by (auto simp: remove_sandbox_record_def Let_def shrinks_def
        split: option.splits)
  show "map_of (sandboxes st') i = None" by (rule st')
  show "map_of (containers st') cid = Some c \<Longrightarrow> cr_sandbox c \<noteq> i"
  proof
    assume c: "map_of (containers st') cid = Some c" and "cr_sandbox c = i"
    then obtain c1 where c1: "map_of (containers st1) cid = Some c1" "cr_sandbox c1 = i"
      using g(1) st'(2) unfolding shrinks_def by (metis (no_types))
    have "bt_ok (containers st1)" using k1 by (simp add: keys_ok_def)
    then have "c1 \<in> set (bt_values (containers st1))"
      using c1(1) by (auto simp: bt_values_iff)
    moreover have "cr_id c1 = cid" using c1(1) k1 by (auto simp: keys_ok_def)
    ultimately have "cid \<in> set (containers_of i st1)"
      using c1(2) by (auto simp: containers_of_def)
    with g(3) c st'(2) show False by auto
  qed
qed

section \<open>Starting\<close>

text \<open>The container processes a state has spawned.\<close>

fun is_spawn :: "FakeEffect \<Rightarrow> bool" where
  "is_spawn (Spawned c s p) = True"
| "is_spawn _ = False"

definition spawned :: "'f Fake \<Rightarrow> FakeEffect list" where
  "spawned st = filter is_spawn (fk_effects st)"

lemma spawned_bindE:
  assumes "\<And>st. spawned (snd (m st)) = spawned st" and "\<And>x st. spawned (snd (k x st)) = spawned st"
  shows "spawned (snd (bindE m k st)) = spawned st"
  using assms(1) [of st] assms(2) by (auto simp: bindE_def split: prod.splits sum.splits)

lemma spawned_simps [simp]:
  "spawned (snd (ask q st)) = spawned st"
  "spawned (snd (ask_io e st)) = spawned st"
  "spawned (snd (join_container_netns env ns st)) = spawned st"
  "spawned (snd (open_pty env st)) = spawned st"
  "spawned (put_container r st) = spawned st"
  "spawned (io_insert c x st) = spawned st"
  "spawned (snd (persist_container env sd r st)) = spawned st"
  "spawned (emit (LogOpened p) st) = spawned st"
  "spawned (emit (ResolvWritten p q2) st) = spawned st"
  "spawned (emit (Spawned c cmd pid) st) = spawned st @ [Spawned c cmd pid]"
  by (auto simp: spawned_def ask_def ask_io_def Let_def join_container_netns_def open_pty_def
      fake_put_defs split: option.splits)

lemma spawned_prepare: "spawned (snd (start_prepare env cid st)) = spawned st"
proof -
  have stdio: "spawned (snd (start_stdio env tty ns st)) = spawned st" for tty ns st
    unfolding start_stdio_def by (cases tty) (simp_all, (intro spawned_bindE; simp)+)
  have log: "spawned (snd (open_cri_log env d p st)) = spawned st" for d p st
    by (auto simp: open_cri_log_def intro!: spawned_bindE)
  have wrote: "spawned (snd (write_sandbox_resolv_conf env sb d st)) = spawned st" for sb d st
    unfolding write_sandbox_resolv_conf_def by (intro spawned_bindE) simp_all
  have resolv: "spawned (snd (start_resolv env sb d st)) = spawned st" for sb d st
  proof (cases d)
    case None
    then show ?thesis by (simp add: start_resolv_def)
  next
    case (Some dns)
    obtain r x where "write_sandbox_resolv_conf env sb dns st = (r, x)" by force
    then show ?thesis
      using wrote [of sb dns st] Some by (cases r) (simp_all add: start_resolv_def)
  qed
  have tail: "spawned (snd (bindE (open_cri_log env d p) (\<lambda>log st.
      case c of Inl e \<Rightarrow> (Inl e, st)
      | Inr cmd \<Rightarrow> bindE (start_stdio env tty ns)
          (\<lambda>_ st. (Inr \<lparr>sp_command = cmd, sp_log = log\<rparr>, st)) st) st)) = spawned st" for d p c tty ns st
    by (cases c) (simp_all, (intro spawned_bindE; simp add: log stdio spawned_bindE)+)
  show ?thesis
    by (auto simp: start_prepare_def Let_def case_prod_unfold tail resolv split: option.splits)
qed

lemma start_prepare_command:
  assumes "start_prepare env cid st = (Inr plan, st1)" and "map_of (containers st) cid = Some rec"
  shows "cmd_program (sp_command plan) # cmd_args (sp_command plan) = effective_command (cr_config rec)"
  using assms
  by (auto simp: start_prepare_def start_command_def bindE_def Let_def case_prod_unfold
      split: if_splits sum.splits list.splits prod.splits)

lemma start_container_okE:
  assumes "start_container env sd cid st = (Inr (), st')"
  obtains rec plan st1 st2 pid st3 where
    "map_of (containers st) cid = Some rec" "cr_state rec = Created"
    "start_prepare env cid st = (Inr plan, st1)" "start_intent env sd cid st1 = (Inr (), st2)"
    "start_spawn env sd cid (sp_command plan) st2 = (Inr pid, st3)"
    "start_finish env sd cid (cr_config rec) pid st3 = (Inr (), st')"
proof -
  obtain rec where rec: "map_of (containers st) cid = Some rec"
    using assms by (auto simp: start_container_def split: option.splits)
  obtain plan st1 where p: "start_prepare env cid st = (Inr plan, st1)"
    using assms rec by (auto simp: start_container_def bindE_def split: prod.splits sum.splits)
  obtain st2 where i: "start_intent env sd cid st1 = (Inr (), st2)"
    using assms rec p by (auto simp: start_container_def bindE_def split: prod.splits sum.splits)
  obtain pid st3 where s: "start_spawn env sd cid (sp_command plan) st2 = (Inr pid, st3)"
    using assms rec p i by (auto simp: start_container_def bindE_def split: prod.splits sum.splits)
  have "start_finish env sd cid (cr_config rec) pid st3 = (Inr (), st')"
    using assms rec p i s by (simp add: start_container_def bindE_def)
  moreover have "cr_state rec = Created"
    using start_prepare_Created [of env cid st plan] p rec by auto
  ultimately show ?thesis using that rec p i s by blast
qed

lemma start_spawn_Inr:
  assumes "start_spawn env sd cid cmd st = (Inr pid, st')"
  shows "fk_cache st' = fk_cache st" "spawned st' = spawned st @ [Spawned cid cmd pid]"
proof -
  from assms have "st' = emit (Spawned cid cmd pid) (snd (ask (ev_spawn env) st))"
    by (auto simp: start_spawn_def ask_def Let_def split: sum.splits)
  then show "fk_cache st' = fk_cache st" "spawned st' = spawned st @ [Spawned cid cmd pid]"
    by simp_all
qed

lemma start_finish_ok:
  assumes "start_finish env sd cid cfg pid st = (Inr (), st')" and "keys_ok st"
    and "map_of (containers st) cid = Some r"
  shows "map_of (containers st') cid = Some (started_record pid r)"
    and "map_of (fk_io st') cid = Some (start_io cfg)"
    and "cid \<in> set (fk_reapers st')"
    and "spawned st' = spawned st"
proof -
  let ?dups = "if cc_tty cfg then Pair (Inr ())
    else bindE (ask_io (ev_dup env)) (\<lambda>_. ask_io (ev_dup env)) :: 'a Fake \<Rightarrow> unit result \<times> 'a Fake"
  obtain st1 where d: "?dups st = (Inr (), st1)"
    using assms(1) by (cases "?dups st") (auto simp: start_finish_def bindE_def split: sum.splits)
  have "quiet_op ?dups" by (intro quiet_intros)
  then have q: "quiet st st1" using d quiet_opD [of ?dups st] by simp
  have "spawned (snd (?dups st)) = spawned st"
    by (cases "cc_tty cfg") (auto intro: spawned_bindE)
  then have sp: "spawned st1 = spawned st" using d by simp
  let ?r = "started_record pid r"
  have m: "map_of (containers st1) cid = Some r" using assms(3) quiet_cacheD [OF q] by simp
  have id: "cr_id ?r = cid" using assms(2,3) by (auto simp: keys_ok_def started_record_def)
  let ?st2 = "put_container ?r (io_insert cid (start_io cfg) st1)"
  have "start_finish env sd cid cfg pid st = bindE (persist_container env sd ?r)
      (\<lambda>_ st. (Inr (), st\<lparr>fk_reapers := cid # fk_reapers st\<rparr>)) ?st2"
    using d m by (simp add: start_finish_def bindE_def [of "?dups"] Let_def started_record_def)
  with assms(1) obtain u x where x: "persist_container env sd ?r ?st2 = (Inr u, x)"
    and st': "st' = x\<lparr>fk_reapers := cid # fk_reapers x\<rparr>"
    by (auto simp: bindE_def split: prod.splits sum.splits)
  have frame: "fk_cache x = fk_cache ?st2" "fk_io x = fk_io ?st2" "spawned x = spawned ?st2"
    using persist_container_frame(1,2) [of env sd ?r ?st2] spawned_simps(7) [of env sd ?r ?st2] x
    by simp_all
  show "map_of (containers st') cid = Some (started_record pid r)"
    using frame id by (simp add: st')
  show "map_of (fk_io st') cid = Some (start_io cfg)"
    using frame by (simp add: st' put_container_def io_insert_def)
  show "cid \<in> set (fk_reapers st')" by (simp add: st')
  show "spawned st' = spawned st"
    using frame sp by (simp add: st' spawned_def put_container_def io_insert_def)
qed

lemma start_container_outcome:
  assumes "start_container env sd cid st = (Inr (), st')" and "keys_ok st"
  shows "\<exists>r cmd pid now. map_of (containers st) cid = Some r \<and> cr_state r = Created \<and>
    map_of (containers st') cid =
      Some (r\<lparr>cr_state := Running, cr_started_at := now, cr_pid := pid, cr_reason := []\<rparr>) \<and>
    spawned st' = spawned st @ [Spawned cid cmd pid] \<and>
    cmd_program cmd # cmd_args cmd = effective_command (cr_config r) \<and>
    map_of (fk_io st') cid = Some (start_io (cr_config r)) \<and> cid \<in> set (fk_reapers st')"
  using assms(1)
proof (cases rule: start_container_okE)
  case (1 rec plan st1 st2 pid st3)
  have q: "quiet st st1"
    using quiet_opD [OF quiet_start_prepare, of st env cid] 1(3) by simp
  have k1: "keys_ok st1" using assms(2) q quiet_keys_ok by blast
  have m1: "map_of (containers st1) cid = Some rec" using 1(1) quiet_cacheD [OF q] by simp
  let ?r2 = "intent_record (ev_now env (fk_tick st1)) rec"
  have m2: "map_of (containers st2) cid = Some ?r2"
    using start_intent_sound(2) [OF k1 m1 1(2), of env sd] 1(4) by simp
  have k2: "keys_ok st2"
    using start_intent_sound(1) [OF k1 m1 1(2), of env sd] 1(4) k1 prims_keys_ok by fastforce
  note s = start_spawn_Inr [OF 1(5)]
  have k3: "keys_ok st3" using k2 s(1) keys_ok_cong by blast
  have m3: "map_of (containers st3) cid = Some ?r2" using m2 s(1) by simp
  note f = start_finish_ok [OF 1(6) k3 m3]
  have "spawned (snd (start_intent env sd cid st1)) = spawned st1"
    by (auto simp: start_intent_def Let_def ask_def m1) (simp add: spawned_def)
  then have "spawned st2 = spawned st"
    using 1(3,4) spawned_prepare [of env cid st] by simp
  then have "spawned st' = spawned st @ [Spawned cid (sp_command plan) pid]"
    using f(4) s(2) by simp
  moreover have "started_record pid ?r2 = rec\<lparr>cr_state := Running,
      cr_started_at := ev_now env (fk_tick st1), cr_pid := pid, cr_reason := []\<rparr>"
    by (simp add: started_record_def intent_record_def)
  ultimately show ?thesis
    using 1(1,2) f start_prepare_command [OF 1(3,1)] by metis
qed

section \<open>Stopping\<close>

text \<open>A container without a reaper thread is left alone by everything that fires while a stop
  waits for it.\<close>

definition orphan :: "ContainerId \<Rightarrow> ContainerRecord \<Rightarrow> 'f Fake \<Rightarrow> bool" where
  "orphan cid r st \<longleftrightarrow> keys_ok st \<and> cid \<notin> set (fk_reapers st) \<and> map_of (containers st) cid = Some r"

lemma reap_orphan: "orphan cid r st \<Longrightarrow> orphan cid r (reap env sd c res st)"
proof -
  assume o': "orphan cid r st"
  show ?thesis
  proof (cases "c \<in> set (fk_reapers st)")
    case False
    with o' show ?thesis by (simp add: reap_def)
  next
    case True
    with o' have "c \<noteq> cid" by (auto simp: orphan_def)
    have k: "keys_ok (reap env sd c res st)" using o' by (simp add: orphan_def reap_keys)
    have "fk_reapers (reap env sd c res st) = remove1 c (fk_reapers st)"
      using True by (simp add: reap_def Let_def case_prod_unfold ask_def io_remove_def put_container_def
          split: option.splits)
    moreover have "map_of (containers (reap env sd c res st)) cid = map_of (containers st) cid"
    proof (cases "map_of (containers st) c")
      case None
      with True show ?thesis
        by (simp add: reap_def Let_def case_prod_unfold ask_def)
    next
      case (Some rc)
      with o' have "cr_id rc = c" by (auto simp: orphan_def keys_ok_def)
      with True Some \<open>c \<noteq> cid\<close> show ?thesis
        by (simp add: reap_def Let_def case_prod_unfold ask_def exited_record_def)
    qed
    ultimately show ?thesis
      using o' k by (simp add: orphan_def notin_set_remove1)
  qed
qed

lemma reap_all_orphan: "orphan cid r st \<Longrightarrow> orphan cid r (reap_all env sd rs st)"
proof (induction rs arbitrary: st)
  case (Cons x rs)
  obtain c res where "x = (c, res)" by force
  with Cons.IH [OF reap_orphan [OF Cons.prems]] show ?case by simp
qed simp

lemma orphan_cong:
  "fk_cache st' = fk_cache st \<Longrightarrow> fk_reapers st' = fk_reapers st \<Longrightarrow> orphan cid r st' \<longleftrightarrow> orphan cid r st"
  by (simp add: orphan_def keys_ok_def)

lemma wait_orphan:
  assumes "orphan cid r st" and "cr_state r = Running"
  shows "fst (wait_until_exited env sd cid n st) = False"
    and "orphan cid r (snd (wait_until_exited env sd cid n st))"
proof -
  have "fst (wait_until_exited env sd cid n st) = False \<and> orphan cid r (snd (wait_until_exited env sd cid n st))"
    using assms(1)
  proof (induction n arbitrary: st)
    case 0
    with assms(2) show ?case by (simp add: not_running_def orphan_def)
  next
    case (Suc n)
    let ?st1 = "snd (ask (ev_sleep env) st)"
    have o1: "orphan cid r ?st1"
      using Suc.prems orphan_cong [of ?st1 st] by (simp add: ask_def)
    have "\<not> not_running cid st"
      using Suc.prems assms(2) by (simp add: not_running_def orphan_def)
    with o1 Suc.IH [OF reap_all_orphan [OF o1]] show ?case
      by (simp add: case_prod_unfold Let_def)
  qed
  then show "fst (wait_until_exited env sd cid n st) = False"
    "orphan cid r (snd (wait_until_exited env sd cid n st))" by auto
qed

lemma kill_orphan [simp]: "orphan cid r (kill pid sig st) \<longleftrightarrow> orphan cid r st"
  by (rule orphan_cong) (simp_all add: kill_def emit_def)

lemma stop_orphan:
  assumes "orphan cid r st" and "cr_state r = Running" and "0 < cr_pid r"
  shows "fst (stop_container env sd cid g st) = Inr ()"
    and "map_of (containers (snd (stop_container env sd cid g st))) cid = Some r"
proof -
  have m: "map_of (containers st) cid = Some r" using assms(1) by (simp add: orphan_def)
  have "fst (stop_container env sd cid g st) = Inr () \<and>
      orphan cid r (snd (stop_container env sd cid g st))"
    using m assms by (simp add: stop_container_def Let_def case_prod_unfold wait_orphan)
  then show "fst (stop_container env sd cid g st) = Inr ()"
    "map_of (containers (snd (stop_container env sd cid g st))) cid = Some r"
    by (auto simp: orphan_def)
qed

lemma fold_frame:
  assumes "\<And>x st. f (g x st) = f st"
  shows "f (fold g xs st) = f st"
  by (induction xs arbitrary: st) (simp_all add: assms)

lemma open_backend_reapers: "fk_reapers (open_backend env sd st) = []"
proof -
  have s: "fk_reapers (load_sandbox sd x st) = fk_reapers st" for x and st :: "'a Fake"
    by (cases x) (simp add: put_sandbox_def split: option.splits)
  have c: "fk_reapers (load_container env sd x st) = fk_reapers st" for x and st :: "'a Fake"
    by (cases x) (simp add: recover_container_def Let_def ask_def write_back_def put_container_def
        split: option.splits)
  have i: "fk_reapers (load_image sd x st) = fk_reapers st" for x and st :: "'a Fake"
    by (cases x) (simp add: put_image_def split: option.splits)
  show ?thesis
    by (simp add: open_backend_def open_images_def open_containers_def open_sandboxes_def
        fold_frame [of fk_reapers, OF s] fold_frame [of fk_reapers, OF c]
        fold_frame [of fk_reapers, OF i] crash_def)
qed

lemma open_backend_keys: "keys_ok (open_backend env sd st)"
proof -
  have s: "keys_ok st \<Longrightarrow> keys_ok (load_sandbox sd x st)" for x and st :: "'a Fake"
    by (cases x) (simp split: option.splits)
  have c: "keys_ok st \<Longrightarrow> keys_ok (load_container env sd x st)" for x and st :: "'a Fake"
    by (cases x) (auto simp: recover_container_def Let_def case_prod_unfold write_back_def
        split: option.splits)
  have i: "keys_ok st \<Longrightarrow> keys_ok (load_image sd x st)" for x and st :: "'a Fake"
    by (cases x) (simp split: option.splits)
  have fold: "keys_ok st \<Longrightarrow> (\<And>x st. keys_ok st \<Longrightarrow> keys_ok (g x st)) \<Longrightarrow> keys_ok (fold g xs st)"
    for g :: "'x \<Rightarrow> 'a Fake \<Rightarrow> 'a Fake" and xs st
    by (induction xs arbitrary: st) simp_all
  have "keys_ok (crash st)" by (simp add: crash_def empty_cache_def keys_ok_def)
  then have "keys_ok (open_sandboxes sd (crash st))"
    unfolding open_sandboxes_def by (rule fold) (rule s)
  then have "keys_ok (open_containers env sd (open_sandboxes sd (crash st)))"
    unfolding open_containers_def by (rule fold) (rule c)
  then show ?thesis
    unfolding open_backend_def open_images_def by (rule fold) (rule i)
qed

text \<open>A reaper that fires during the first sleep settles the exit code.\<close>

lemma stop_graceful:
  assumes "keys_ok st" and "map_of (containers st) cid = Some r" and "cr_state r = Running"
    and "0 < cr_pid r" and "0 < sint g" and "cid \<in> set (fk_reapers st)"
    and "ev_sleep env (fk_tick st) = ([(cid, res)], False)"
    and "stop_container env sd cid g st = (q, st')"
  shows "q = Inr ()"
    and "map_of (containers st') cid =
      Some (exited_record (fst (reap_outcome res)) (ev_now env (Suc (fk_tick st))) (snd (reap_outcome res)) r)"
    and "fk_effects st' = fk_effects st @ [Killed (sint (cr_pid r)) SIGTERM]"
proof -
  let ?k = "kill (cr_pid r) SIGTERM st"
  let ?r' = "exited_record (fst (reap_outcome res)) (ev_now env (Suc (fk_tick st))) (snd (reap_outcome res)) r"
  let ?st1 = "?k\<lparr>fk_tick := Suc (fk_tick st)\<rparr>"
  have id: "cr_id ?r' = cid" using assms(1,2) by (auto simp: keys_ok_def exited_record_def)
  have k: "containers ?k = containers st" "fk_tick ?k = fk_tick st" "fk_reapers ?k = fk_reapers st"
    "fk_effects ?k = fk_effects st @ [Killed (sint (cr_pid r)) SIGTERM]"
    by (simp_all add: kill_def emit_def)
  have run: "\<not> not_running cid ?k" using assms(2,3) by (simp add: not_running_def k)
  let ?st2 = "reap env sd cid res ?st1"
  have r2: "map_of (containers ?st2) cid = Some ?r'" "fk_effects ?st2 = fk_effects ?k"
    using assms(2,3,6) id
    by (simp_all add: reap_def Let_def case_prod_unfold ask_def k io_remove_def put_container_def
        exited_record_def)
  have settled: "not_running cid ?st2" using r2(1) by (simp add: not_running_def exited_record_def)
  have stopped: "wait_until_exited env sd cid m ?st2 = (True, ?st2)" for m
    using settled by (cases m) simp_all
  have "g \<noteq> 0" using assms(5) by auto
  then have "unat g \<noteq> 0" by (simp add: unat_eq_0)
  then obtain n where n: "polls (unat g) = Suc n"
    by (cases "polls (unat g)") (simp_all add: polls_def)
  have ask1: "ask (ev_sleep env) ?k = (([(cid, res)], False), ?st1)"
    using assms(7) by (simp add: ask_def k)
  have "wait_until_exited env sd cid (polls (unat g)) ?k = (True, ?st2)"
    using run stopped by (simp add: n ask1)
  then have "stop_container env sd cid g st = (Inr (), ?st2)"
    using assms(2-5) by (simp add: stop_container_def)
  with assms(8) r2 k show "q = Inr ()" "map_of (containers st') cid = Some ?r'"
    "fk_effects st' = fk_effects st @ [Killed (sint (cr_pid r)) SIGTERM]"
    by auto
qed

end
