(* ===== verification/Fake_Props.thy ===== *)
theory Fake_Props
  imports Fake_Ops
begin

text \<open>
  The properties of the fake backend, each applied to a concrete run: the sample environment
  has a clock that ticks, a disk that works, children with pid 4242 and no CNI.
\<close>

section \<open>A sample environment\<close>

definition demo_env :: Env where
  "demo_env = \<lparr>ev_now = of_nat, ev_write = (\<lambda>_. None), ev_unlink = (\<lambda>_. True),
     ev_log_open = (\<lambda>_. None), ev_openpty = (\<lambda>_. None), ev_dup = (\<lambda>_. None),
     ev_pipe = (\<lambda>_. None), ev_open_ns = (\<lambda>_ _. None), ev_spawn = (\<lambda>_. Inr 4242),
     ev_sleep = (\<lambda>_. ([], True)), ev_try_wait = (\<lambda>_. (TwExited (ExitedWith 0), False)),
     ev_output = (\<lambda>_. Inr (ExitedWith 0, [], [])), ev_proc_stat = (\<lambda>_. None),
     ev_proc_status = (\<lambda>_. None), ev_clk_tck = 100, ev_pid_alive = (\<lambda>_ _. False),
     ev_cni_available = (\<lambda>_. None), ev_netns_create = (\<lambda>_ n. Inr n),
     ev_read_dir = (\<lambda>_ _. None), ev_cni_add = (\<lambda>_ _ _ _ _. Inr None),
     ev_blake3_hex = (\<lambda>s. s)\<rparr>"

type_synonym demo_file = "SandboxRecord + ContainerRecord + ImageDiskRecord"
definition demo_serde :: "demo_file Serde" where
  "demo_serde = \<lparr>ser_sandbox = (\<lambda>r. Inr (Inl r)),
     de_sandbox = (\<lambda>f. case f of Inl r \<Rightarrow> Some r | _ \<Rightarrow> None),
     ser_container = (\<lambda>r. Inr (Inr (Inl r))),
     de_container = (\<lambda>f. case f of Inr (Inl r) \<Rightarrow> Some r | _ \<Rightarrow> None),
     ser_image = (\<lambda>r. Inr (Inr (Inr r))),
     de_image = (\<lambda>f. case f of Inr (Inr r) \<Rightarrow> Some r | _ \<Rightarrow> None)\<rparr>"

definition demo_sandbox_config :: SandboxConfig where
  "demo_sandbox_config = \<lparr>sc_name = ''web'', sc_uid = ''u1'', sc_namespace = ''default'', sc_attempt = 0,
     sc_labels = [(''app'', ''web'')], sc_annotations = [], sc_log_directory = ''/logs'', sc_hostname = [],
     sc_host_network = True, sc_dns = None, sc_port_mappings = []\<rparr>"
definition demo_container_config :: ContainerConfig where
  "demo_container_config = \<lparr>cc_name = ''c'', cc_attempt = 0, cc_image_ref = ''busybox'',
     cc_command = [''sh''], cc_args = [], cc_working_dir = [], cc_envs = [], cc_mounts = [],
     cc_labels = [], cc_annotations = [], cc_log_path = ''c.log'', cc_tty = False, cc_stdin = False\<rparr>"
definition demo_calls :: "Call list" where
  "demo_calls =
     [RunSandbox demo_sandbox_config,
      CreateContainer (SandboxId ''sb-0-0'') demo_container_config]"

definition demo_sb :: SandboxId where "demo_sb = SandboxId ''sb-0-0''"
definition demo_ct :: ContainerId where "demo_ct = ContainerId ''ct-3-1''"

definition demo_created :: "demo_file Fake" where
  "demo_created = run_calls demo_env demo_serde demo_calls (fresh_backend ''/s'')"

definition demo_running :: "demo_file Fake" where
  "demo_running = call demo_env demo_serde (StartContainer demo_ct) demo_created"

lemma demo_serde_ok [simp]: "serde_ok demo_serde"
  by (simp add: serde_ok_def demo_serde_def)

lemma demo_disk_ok [simp]: "disk_ok demo_env"
  by (simp add: disk_ok_def demo_env_def)


lemma demo_keys [simp]: "keys_ok demo_created" "keys_ok demo_running"
  unfolding demo_running_def demo_created_def
  by (meson call_prims fresh_backend_ok(1) prims_keys_ok run_calls_prims)+


section \<open>Lifecycle\<close>




section \<open>Crash-only state\<close>

text \<open>C3: Crash-only law.  While writes and unlinks succeed, stopping the process after any run of
  calls and opening the state directories again gives every sandbox and image unchanged, and
  every container: unchanged unless its record says Running; a Running one with a live pid is
  adopted as it is, with a dead pid it is Exited with -1 and lost-exit-reaped-elsewhere, with no
  pid it is Exited with -1 and lost-start-window.  Nothing else appears.\<close>

theorem crash_recovery:
  assumes "serde_ok sd" and "disk_ok env" and "st = run_calls env sd cs (fresh_backend root)"
  shows "map_of (sandboxes (open_backend env2 sd st)) = map_of (sandboxes st)
    \<and> map_of (images (open_backend env2 sd st)) = map_of (images st)
    \<and> (\<forall>cid. case map_of (containers st) cid of
          None \<Rightarrow> map_of (containers (open_backend env2 sd st)) cid = None
        | Some r \<Rightarrow> \<exists>r'. map_of (containers (open_backend env2 sd st)) cid = Some r' \<and> recovered env2 r r')"
proof -
  have p: "prims env sd (fresh_backend root) st"
    unfolding assms(3) by (rule run_calls_prims) simp
  have ok: "synced sd st" "keys_ok st" "named st"
    using prims_synced [OF p _ assms(1,2)] prims_keys_ok [OF p] prims_named [OF p] by simp_all
  note rec = open_backend_recovers [OF ok]
  show ?thesis
    using rec(1,2) rec(3) rec(4) by (auto split: option.splits)
qed

theorem crash_recovery_witness:
  "map_of (sandboxes (open_backend demo_env demo_serde demo_running)) = map_of (sandboxes demo_running)
   \<and> map_option (\<lambda>r. (cr_state r, cr_exit_code r, cr_reason r))
       (map_of (containers (open_backend demo_env demo_serde demo_running)) demo_ct)
     = Some (Exited, -1, ''lost-exit-reaped-elsewhere'')"
proof -
  have run: "demo_running = run_calls demo_env demo_serde (demo_calls @ [StartContainer demo_ct]) (fresh_backend ''/s'')"
    by (simp add: demo_running_def demo_created_def demo_calls_def)
  have "map_option (\<lambda>r. (cr_state r, cr_exit_code r, cr_reason r))
       (map_of (containers (open_backend demo_env demo_serde demo_running)) demo_ct)
     = Some (Exited, -1, ''lost-exit-reaped-elsewhere'')"
    by code_simp
  then show ?thesis
    using crash_recovery [OF demo_serde_ok demo_disk_ok run, of demo_env] by blast
qed

section \<open>Re-adopted containers\<close>

text \<open>C39: A container adopted by opening the state of an earlier process has no reaper thread in the
  new one: whatever happens, stopping it reports success and its record still says Running.\<close>

theorem readopted_never_stops:
  assumes "st = open_backend env sd st0" and "map_of (containers st) cid = Some r"
    and "cr_state r = Running" and "0 < cr_pid r"
  shows "fst (stop_container env2 sd cid grace st) = Inr ()
    \<and> map_of (containers (snd (stop_container env2 sd cid grace st))) cid = Some r"
proof -
  have "orphan cid r st"
    using assms(1,2) by (simp add: orphan_def open_backend_keys open_backend_reapers)
  then show ?thesis using stop_orphan [OF _ assms(3,4)] by blast
qed

definition demo_alive :: Env where
  "demo_alive = demo_env\<lparr>ev_pid_alive := (\<lambda>_ _. True)\<rparr>"

theorem readopted_never_stops_witness:
  "map_option cr_state (map_of (containers (snd (stop_container demo_env demo_serde demo_ct 30
     (open_backend demo_alive demo_serde demo_running)))) demo_ct) = Some Running
   \<and> fst (stop_container demo_env demo_serde demo_ct 30
     (open_backend demo_alive demo_serde demo_running)) = Inr ()"
proof -
  let ?st = "open_backend demo_alive demo_serde demo_running"
  have "map_option (\<lambda>r. (cr_state r, cr_pid r)) (map_of (containers ?st) demo_ct) = Some (Running, 4242)"
    by code_simp
  then obtain r where r: "map_of (containers ?st) demo_ct = Some r" "cr_state r = Running" "cr_pid r = 4242"
    by auto
  from readopted_never_stops [OF refl r(1,2), of demo_env 30] r show ?thesis by simp
qed

end
