(* ===== verification/Fake_Call_Props.thy ===== *)
theory Fake_Call_Props
  imports Fake_Props
begin

text \<open>
  The properties of the single calls of the fake backend: creating, starting, stopping and
  removing, running commands in a container, removing images, and the two ways in which calls
  that interleave or fail leave the state out of step.
\<close>

section \<open>Creating\<close>



section \<open>Starting\<close>

text \<open>C7: A start that succeeds was of a Created container.  It leaves the record Running with the
  pid of the one process it spawned, whose command line is the effective command of the
  configuration, the stdio table holds that process's handles, and a reaper waits for it.\<close>

theorem start_container_runs:
  assumes "start_container env sd cid st = (Inr (), st')" and "keys_ok st"
  shows "\<exists>r cmd pid now. map_of (containers st) cid = Some r \<and> cr_state r = Created
    \<and> map_of (containers st') cid =
        Some (r\<lparr>cr_state := Running, cr_started_at := now, cr_pid := pid, cr_reason := []\<rparr>)
    \<and> spawned st' = spawned st @ [Spawned cid cmd pid]
    \<and> cmd_program cmd # cmd_args cmd = effective_command (cr_config r)
    \<and> map_of (fk_io st') cid = Some (start_io (cr_config r)) \<and> cid \<in> set (fk_reapers st')"
  by (rule start_container_outcome [OF assms])

theorem start_container_runs_witness:
  "spawned (snd (start_container demo_env demo_serde demo_ct demo_created)) \<noteq> []
   \<and> demo_ct \<in> set (fk_reapers (snd (start_container demo_env demo_serde demo_ct demo_created)))"
proof -
  let ?r = "start_container demo_env demo_serde demo_ct demo_created"
  have "fst ?r = Inr ()" by code_simp
  then have "?r = (Inr (), snd ?r)" by (metis prod.collapse)
  from start_container_runs [OF this] show ?thesis by auto
qed

text \<open>C8: A start whose process cannot be spawned reports the error, leaves the container Exited
  with -1 and spawn-failed and the operating system's message, spawns nothing and starts no
  reaper; the container can not be started again.\<close>

theorem start_spawn_failure:
  assumes "keys_ok st" and "start_prepare env cid st = (Inr plan, st1)"
    and "start_intent env sd cid st1 = (Inr (), st2)" and "ev_spawn env (fk_tick st2) = Inl e"
  shows "\<exists>r started finished st'.
      map_of (containers st) cid = Some r
    \<and> start_container env sd cid st = (Inl (Internal (''spawn container '' @ cid_0 cid @ '': '' @ e)), st')
    \<and> map_of (containers st') cid = Some (r\<lparr>cr_state := Exited, cr_started_at := started,
         cr_finished_at := finished, cr_exit_code := -1, cr_reason := ''spawn-failed'',
         cr_message := e, cr_pid := 0\<rparr>)
    \<and> spawned st' = spawned st \<and> fk_reapers st' = fk_reapers st2
    \<and> fst (start_container env2 sd cid st') = Inl (FailedPrecondition (''container '' @ cid_0 cid
         @ '' is in state Exited, must be Created to start''))"
proof -
  obtain r where r: "map_of (containers st) cid = Some r" "cr_state r = Created"
    using start_prepare_Created [of env cid st plan] assms(2) by auto
  have q: "quiet st st1"
    using quiet_opD [OF quiet_start_prepare, of st env cid] assms(2) by simp
  have k1: "keys_ok st1" using assms(1) q quiet_keys_ok by blast
  have m1: "map_of (containers st1) cid = Some r" using r(1) quiet_cacheD [OF q] by simp
  let ?r2 = "intent_record (ev_now env (fk_tick st1)) r"
  have m2: "map_of (containers st2) cid = Some ?r2"
    using start_intent_sound(2) [OF k1 m1 r(2), of env sd] assms(3) by simp
  have sp: "spawned (snd (start_intent env sd cid st1)) = spawned st1"
    by (auto simp: start_intent_def Let_def ask_def m1) (simp add: spawned_def)
  have id: "cr_id r = cid" using assms(1) r(1) by (auto simp: keys_ok_def)
  let ?now = "ev_now env (Suc (fk_tick st2))"
  let ?r3 = "spawn_failed_record ?now e ?r2"
  obtain st' where sp3: "start_spawn env sd cid (sp_command plan) st2
      = (Inl (Internal (''spawn container '' @ cid_0 cid @ '': '' @ e)), st')"
    and st': "st' = snd (persist_container env sd ?r3 (put_container ?r3 (st2\<lparr>fk_tick := Suc (Suc (fk_tick st2))\<rparr>)))"
    using assms(4) m2 by (simp add: start_spawn_def ask_def Let_def spawn_failed_record_def)
  have id3: "cr_id ?r3 = cid" using id by (simp add: spawn_failed_record_def intent_record_def)
  have m3: "map_of (containers st') cid = Some ?r3"
    using id3 by (simp add: st' put_container_def)
  have "start_container env sd cid st
      = (Inl (Internal (''spawn container '' @ cid_0 cid @ '': '' @ e)), st')"
    using r(1) assms(2,3) sp3 by (simp add: start_container_def bindE_def)
  moreover have "?r3 = r\<lparr>cr_state := Exited, cr_started_at := ev_now env (fk_tick st1),
         cr_finished_at := ?now, cr_exit_code := -1, cr_reason := ''spawn-failed'',
         cr_message := e, cr_pid := 0\<rparr>"
    by (simp add: spawn_failed_record_def intent_record_def)
  moreover have "spawned st' = spawned st" "fk_reapers st' = fk_reapers st2"
    using assms(2,3) sp spawned_prepare [of env cid st]
    by (simp_all add: st' spawned_def put_container_def)
  moreover have "fst (start_container env2 sd cid st') = Inl (FailedPrecondition (''container '' @ cid_0 cid
         @ '' is in state Exited, must be Created to start''))"
    by (simp add: start_container_def start_prepare_def bindE_def m3 spawn_failed_record_def)
  ultimately show ?thesis
    using r(1) m3 by metis
qed

definition demo_broken :: Env where
  "demo_broken = demo_env\<lparr>ev_spawn := (\<lambda>_. Inl ''ENOENT'')\<rparr>"

theorem start_spawn_failure_witness:
  "fst (start_container demo_broken demo_serde demo_ct demo_created)
     = Inl (Internal ''spawn container ct-3-1: ENOENT'')"
proof -
  let ?p = "start_prepare demo_broken demo_ct demo_created"
  let ?i = "start_intent demo_broken demo_serde demo_ct (snd ?p)"
  have "case fst ?p of Inr x \<Rightarrow> True | Inl y \<Rightarrow> False" by code_simp
  then obtain plan where p: "?p = (Inr plan, snd ?p)" by (cases "fst ?p") (auto, metis prod.collapse)
  have "fst ?i = Inr ()" by code_simp
  then have i: "?i = (Inr (), snd ?i)" by (metis prod.collapse)
  have "ev_spawn demo_broken t = Inl ''ENOENT''" for t by (simp add: demo_broken_def)
  from start_spawn_failure [OF demo_keys(1) p i this] obtain st' where
    "start_container demo_broken demo_serde demo_ct demo_created
      = (Inl (Internal (''spawn container '' @ cid_0 demo_ct @ '': '' @ ''ENOENT'')), st')"
    by blast
  then show ?thesis by (simp add: demo_ct_def)
qed

section \<open>Stopping and removing\<close>




text \<open>C10: Removing a sandbox, while the disk works, succeeds: the sandbox is gone, so is every
  container that was in it, and every container of another sandbox keeps its record's sandbox.\<close>

theorem remove_sandbox_cascades:
  assumes "keys_ok st" and "serde_ok sd" and "disk_ok env" and "map_of (sandboxes st) i = Some s"
    and "remove_sandbox env sd i st = (q, st')"
  shows "q = Inr () \<and> map_of (sandboxes st') i = None
    \<and> list_all (\<lambda>c. cr_sandbox c \<noteq> i) (bt_values (containers st'))
    \<and> list_containers (default_container_filter\<lparr>cf_sandbox := Some i\<rparr>) st' = []"
proof -
  have q: "q = Inr ()"
    using remove_sandbox_ok [OF assms(2,3), of i st] assms(5) by simp
  note gone = remove_sandbox_gone [OF assms(5) [unfolded q] assms(1,4)]
  have "keys_ok st'"
    using sound_opD [OF remove_sandbox_sound assms(1), of env sd i] assms(5)
      prims_keys_ok [OF _ assms(1)] by simp
  then have all: "list_all (\<lambda>c. cr_sandbox c \<noteq> i) (bt_values (containers st'))"
    by (auto simp: list_all_iff keys_ok_def bt_values_iff dest: gone(2))
  then have "filter (\<lambda>r. container_matches r (default_container_filter\<lparr>cf_sandbox := Some i\<rparr>))
      (bt_values (containers st')) = []"
    by (auto simp: filter_empty_conv list_all_iff container_matches_def)
  with q gone(1) all show ?thesis by (simp add: list_containers_def)
qed

theorem remove_sandbox_cascades_witness:
  "map_of (sandboxes (snd (remove_sandbox demo_env demo_serde demo_sb demo_created))) demo_sb = None
   \<and> fst (remove_sandbox demo_env demo_serde demo_sb demo_created) = Inr ()"
proof -
  have "map_of (sandboxes demo_created) demo_sb \<noteq> None" by code_simp
  then obtain s where s: "map_of (sandboxes demo_created) demo_sb = Some s" by auto
  show ?thesis
    using remove_sandbox_cascades [OF demo_keys(1) demo_serde_ok demo_disk_ok s]
    by (cases "remove_sandbox demo_env demo_serde demo_sb demo_created") simp
qed

section \<open>Running commands in a container\<close>

text \<open>The effects of asking and of joining namespaces: none.\<close>

lemma effects_bindE:
  assumes "bindE m k st = (Inr y, st')"
  obtains x st1 where "m st = (Inr x, st1)" "k x st1 = (Inr y, st')"
  using assms by (auto simp: bindE_def split: prod.splits sum.splits)

lemma exec_command_ok:
  assumes "exec_command env what cid cmd pty stdin grp st = (Inr spec, st')"
  obtains r where "map_of (containers st) cid = Some r" "cr_state r = Running" "0 < cr_pid r"
    "cmd_program spec # cmd_args spec = cmd" "cmd_mnt_uts_of spec = Some (cr_pid r)"
    "cmd_netns spec = Option.bind (map_of (sandboxes st) (cr_sandbox r)) sr_netns_path"
    "fk_effects st' = fk_effects st"
proof -
  obtain r where r: "map_of (containers st) cid = Some r" "cr_state r = Running"
    using assms by (auto simp: exec_command_def split: option.splits if_splits)
  obtain program args where cmd: "cmd = program # args"
    using assms r by (cases cmd) (auto simp: exec_command_def)
  obtain u st1 where j: "join_container_mnt_uts env cid (cr_pid r) st = (Inr u, st1)"
    using assms r cmd by (auto simp: exec_command_def elim!: effects_bindE)
  then have st1: "0 < cr_pid r" "fk_effects st1 = fk_effects st" "fk_cache st1 = fk_cache st"
    by (auto simp: join_container_mnt_uts_def Let_def ask_def word_gt_0 split: if_splits)
  obtain ns where n: "join_sandbox_netns env what (cr_sandbox r) st1 = (Inr ns, st')"
    and spec: "spec = \<lparr>cmd_program = program, cmd_args = args,
       cmd_cwd = (let d = cc_working_dir (cr_config r) in if d = [] then None else Some d),
       cmd_envs = cc_envs (cr_config r), cmd_stdin_piped = stdin,
       cmd_pty = pty, cmd_process_group = grp, cmd_hostname = None,
       cmd_resolv = None, cmd_mnt_uts_of = Some (cr_pid r), cmd_netns = ns\<rparr>"
    using assms r cmd j by (auto simp: exec_command_def bindE_def split: prod.splits sum.splits)
  from n have "ns = Option.bind (map_of (sandboxes st1) (cr_sandbox r)) sr_netns_path"
    "fk_effects st' = fk_effects st1"
    by (auto simp: join_sandbox_netns_def Let_def ask_def split: option.splits)
  with r st1 spec cmd show thesis by (intro that) auto
qed

lemma exec_spawn_ok:
  assumes "exec_spawn env what cid spec st = (Inr pid, st')"
  shows "fk_effects st' = fk_effects st @ [ExecSpawned cid spec pid]"
  using assms by (auto simp: exec_spawn_def Let_def ask_def emit_def split: sum.splits)

lemma exec_poll_ok:
  "exec_poll env pid n st = (Inr res, st') \<Longrightarrow> fk_effects st' = fk_effects st"
proof (induction n arbitrary: st)
  case 0
  obtain tw over where "ev_try_wait env (fk_tick st) = (tw, over)" by force
  with 0 show ?case
    by (cases tw) (auto simp: exec_poll.simps [of _ _ 0] exec_timeout_def ask_def Let_def
        split: sum.splits if_splits)
next
  case (Suc n)
  obtain tw over where "ev_try_wait env (fk_tick st) = (tw, over)" by force
  with Suc.prems show ?case
    by (cases tw) (auto simp: exec_poll.simps [of _ _ "Suc n"] exec_timeout_def ask_def Let_def
        dest: Suc.IH split: sum.splits if_splits)
qed

text \<open>C11: A command that exec_sync reports a result for ran as exactly one process: with the
  arguments given, inside the mount and host-name namespaces of the container's live process and
  in the network namespace of its sandbox, and no signal was sent.\<close>

theorem exec_sync_runs:
  assumes "exec_sync env cid cmd timeout st = (Inr res, st')"
  shows "\<exists>r spec pid. map_of (containers st) cid = Some r \<and> cr_state r = Running \<and> 0 < cr_pid r
    \<and> cmd_program spec # cmd_args spec = cmd \<and> cmd_mnt_uts_of spec = Some (cr_pid r)
    \<and> cmd_netns spec = Option.bind (map_of (sandboxes st) (cr_sandbox r)) sr_netns_path
    \<and> fk_effects st' = fk_effects st @ [ExecSpawned cid spec pid]"
proof -
  let ?fin = "\<lambda>pid st. if 0 < sint timeout then exec_poll env pid (polls (unat timeout)) st
       else
         let (out, st) = ask (ev_output env) st
         in case out of
              Inl e \<Rightarrow> (Inl (Internal (''exec_sync wait: '' @ e)), st)
            | Inr (status, stdout, stderr) \<Rightarrow> (Inr (exec_result status stdout stderr), st)"
  obtain spec st1 where c: "exec_command env ''exec_sync'' cid cmd False False True st = (Inr spec, st1)"
    and rest: "bindE (exec_spawn env ''exec_sync'' cid spec) ?fin st1 = (Inr res, st')"
    using assms unfolding exec_sync_def by (rule effects_bindE)
  obtain pid st2 where s: "exec_spawn env ''exec_sync'' cid spec st1 = (Inr pid, st2)"
    and fin: "?fin pid st2 = (Inr res, st')"
    using rest by (rule effects_bindE)
  have "fk_effects st' = fk_effects st2"
    using fin by (auto simp: ask_def Let_def dest: exec_poll_ok split: if_splits sum.splits)
  then have "fk_effects st' = fk_effects st1 @ [ExecSpawned cid spec pid]"
    using exec_spawn_ok [OF s] by simp
  with exec_command_ok [OF c] show ?thesis by metis
qed

theorem exec_sync_runs_witness:
  "fk_effects (snd (exec_sync demo_env demo_ct [''ls''] 5 demo_running)) \<noteq> fk_effects demo_running"
proof -
  let ?x = "exec_sync demo_env demo_ct [''ls''] 5 demo_running"
  have "fst ?x = Inr \<lparr>er_exit_code = 0, er_stdout = [], er_stderr = []\<rparr>" by code_simp
  then have "?x = (Inr \<lparr>er_exit_code = 0, er_stdout = [], er_stderr = []\<rparr>, snd ?x)"
    by (metis prod.collapse)
  from exec_sync_runs [OF this] show ?thesis by auto
qed

text \<open>In a container that is not running, exec_sync, open_exec and open_attach all refuse with
  FailedPrecondition and do nothing; for an id that does not exist they answer NotFound.\<close>

lemma exec_requires_running:
  assumes "case map_of (containers st) cid of None \<Rightarrow> True | Some r \<Rightarrow> cr_state r \<noteq> Running"
  shows "let err = (\<lambda>what. case map_of (containers st) cid of
             None \<Rightarrow> NotFound (''container '' @ cid_0 cid)
           | Some r \<Rightarrow> FailedPrecondition (''container '' @ cid_0 cid @ '' is not Running (state=''
               @ state_debug (cr_state r) @ ''); '' @ what @ '' requires Running''))
    in exec_sync env cid cmd timeout st = (Inl (err ''exec_sync''), st)
      \<and> open_exec env cid cmd tty stdin st = (Inl (err ''open_exec''), st)
      \<and> open_attach env cid st = (Inl (err ''open_attach''), st)"
  using assms
  by (auto simp: exec_sync_def open_exec_def open_attach_def exec_command_def bindE_def
      exec_NotRunning_def container_NotFound_def split: option.splits)

section \<open>Listing\<close>

text \<open>Listing the containers gives exactly the statuses of the containers that match the filter,
  each once and in the order of their ids, and an exited container always shows the reason
  Completed for exit code 0 and Error for any other.\<close>

lemma list_containers_exact:
  assumes "keys_ok st"
  shows "sorted_wrt (<) (map cs_id (list_containers flt st))
    \<and> set (list_containers flt st) = {s. \<exists>cid r. map_of (containers st) cid = Some r
        \<and> container_matches r flt \<and> container_status cid st = Inr s}
    \<and> list_all (\<lambda>s. cs_state s \<noteq> Exited \<or> cs_reason s = (if cs_exit_code s = 0 then ''Completed'' else ''Error''))
        (list_containers flt st)"
proof -
  let ?l = "\<lambda>r. rec_to_status r (sandbox_log_dir st (cr_sandbox r))"
  have id: "cs_id (rec_to_status r d) = cr_id r" for r d
    by (simp add: rec_to_status_def split: prod.splits)
  have k: "bt_ok (containers st)" "\<And>k r. (k, r) \<in> set (containers st) \<Longrightarrow> cr_id r = k"
    using assms map_of_is_SomeI [OF bt_ok_distinct] by (fastforce simp: keys_ok_def)+
  have status: "container_status cid st = Inr s \<longleftrightarrow>
      (\<exists>r. map_of (containers st) cid = Some r \<and> s = ?l r)" for cid s
    by (auto simp: container_status_def split: option.splits)
  have "sorted_wrt (\<lambda>r r'. cr_id r < cr_id r') (bt_values (containers st))"
    using k by (simp add: bt_ok_def bt_values_def sorted_wrt_map)
       (rule sorted_wrt_mono_rel [rotated], assumption, force)
  then have "sorted_wrt (<) (map cs_id (list_containers flt st))"
    by (simp add: list_containers_def sorted_wrt_map comp_def id sorted_wrt_filter)
  moreover have "set (list_containers flt st) = {s. \<exists>cid r. map_of (containers st) cid = Some r
        \<and> container_matches r flt \<and> container_status cid st = Inr s}"
    using status by (auto simp: list_containers_def bt_values_iff [OF k(1)])
  moreover
  have "cs_state (?l r) \<noteq> Exited \<or> cs_reason (?l r) =
      (if cs_exit_code (?l r) = 0 then ''Completed'' else ''Error'')" for r
    by (simp add: rec_to_status_def split: prod.splits)
  then have "list_all (\<lambda>s. cs_state s \<noteq> Exited \<or>
      cs_reason s = (if cs_exit_code s = 0 then ''Completed'' else ''Error'')) (list_containers flt st)"
    by (simp add: list_containers_def list_all_iff)
  ultimately show ?thesis by blast
qed

section \<open>Images\<close>

lemma find_bt_remove:
  "list_all (\<lambda>(k, v). k \<noteq> i \<or> \<not> P v) m \<Longrightarrow>
   List.find P (bt_values (bt_remove i m)) = List.find P (bt_values m)"
  by (induction m) (auto simp: bt_values_def bt_remove_def)

text \<open>C14: An image is not removed while a container that has not exited was made from it: the call
  answers InUse with such a container and changes nothing.  Otherwise it succeeds, the reference
  has no image any more and every other reference keeps its own.\<close>

theorem remove_image_guarded:
  assumes "st = run_calls env sd cs (fresh_backend root)"
  shows "if image_status ref st \<noteq> None \<and> list_ex (uses_image ref) (bt_values (containers st))
    then \<exists>c \<in> set (bt_values (containers st)). uses_image ref c \<and> remove_image env ref st =
      (Inl (InUse (''image '' @ ref @ '' referenced by container '' @ cid_0 (cr_id c))), st)
    else \<exists>st'. remove_image env ref st = (Inr (), st') \<and> image_status ref st' = None
      \<and> (\<forall>other. other = ref \<or> image_status other st' = image_status other st)
      \<and> containers st' = containers st \<and> sandboxes st' = sandboxes st"
proof -
  have p: "prims env sd (fresh_backend root) st"
    unfolding assms by (rule run_calls_prims) simp
  have k: "keys_ok st" and h: "images_hashed env st"
    using prims_keys_ok [OF p] prims_images_hashed [OF p] by simp_all
  let ?f = "\<lambda>ref st. List.find (\<lambda>r. ir_ref_name r = ref) (bt_values (images st))"
  have status: "image_status ref st = None \<longleftrightarrow> ?f ref st = None" for ref and st :: "'a Fake"
    by (simp add: image_status_def)
  show ?thesis
  proof (cases "?f ref st")
    case None
    then show ?thesis by (simp add: remove_image_def image_status_def)
  next
    case (Some r)
    then have r: "ir_ref_name r = ref" "r \<in> set (bt_values (images st))"
      by (auto simp: find_Some_iff)
    show ?thesis
    proof (cases "List.find (uses_image ref) (bt_values (containers st))")
      case (Some c)
      then have "uses_image ref c" "c \<in> set (bt_values (containers st))"
        by (auto simp: find_Some_iff)
      with Some \<open>?f ref st = Some r\<close> show ?thesis
        by (auto simp: remove_image_def image_status_def list_ex_iff)
    next
      case None
      let ?st' = "remove_file env set_images_dir fk_images_dir (image_file (ir_id r)) (drop_image (ir_id r) st)"
      have img: "images ?st' = bt_remove (ir_id r) (images st)" "containers ?st' = containers st"
        "sandboxes ?st' = sandboxes st"
        by (simp_all add: drop_image_def)
      have rem: "remove_image env ref st = (Inr (), ?st')"
        using None Some by (simp add: remove_image_def)
      have id: "ir_id x = ''sha-'' @ take 16 (ev_blake3_hex env (ir_ref_name x)) \<and> map_of (images st) (ir_id x) = Some x"
        if "x \<in> set (bt_values (images st))" for x
        using that k h by (auto simp: keys_ok_def images_hashed_def bt_values_iff)
      have ok': "bt_ok (bt_remove (ir_id r) (images st))" using k by (simp add: keys_ok_def)
      have "ir_ref_name x \<noteq> ref" if x: "x \<in> set (bt_values (images ?st'))" for x
      proof -
        obtain j where j: "map_of (images st) j = Some x" "j \<noteq> ir_id r"
          using x [unfolded img(1)] by (auto simp: bt_values_iff [OF ok'] split: if_splits)
        then have "x \<in> set (bt_values (images st))"
          using k by (auto simp: keys_ok_def bt_values_iff)
        moreover have "ir_id x = j" using j(1) k by (auto simp: keys_ok_def)
        ultimately show ?thesis using id [of x] id [OF r(2)] r(1) j(2) by metis
      qed
      then have "image_status ref ?st' = None" by (simp add: status find_None_iff)
      moreover have "image_status other ?st' = image_status other st" if "other \<noteq> ref" for other
      proof -
        have "j \<noteq> ir_id r \<or> ir_ref_name v \<noteq> other" if jv: "(j, v) \<in> set (images st)" for j v
        proof -
          have "map_of (images st) j = Some v"
            using jv k by (intro map_of_is_SomeI) (simp_all add: keys_ok_def bt_ok_distinct)
          then show ?thesis
            using id [OF r(2)] r(1) \<open>other \<noteq> ref\<close> by (metis option.inject)
        qed
        then have "list_all (\<lambda>(k, v). k \<noteq> ir_id r \<or> \<not> ir_ref_name v = other) (images st)"
          by (auto simp: list_all_iff)
        then show ?thesis by (simp add: image_status_def img(1) find_bt_remove)
      qed
      moreover have "\<not> list_ex (uses_image ref) (bt_values (containers st))"
        using None by (auto simp: find_None_iff list_ex_iff)
      ultimately show ?thesis
        using rem img(2,3) by (simp only: simp_thms if_False) blast
    qed
  qed
qed

theorem remove_image_guarded_witness:
  "\<exists>c. fst (remove_image demo_env ''busybox'' (call demo_env demo_serde (PullImage ''busybox'') demo_created))
     = Inl (InUse (''image busybox referenced by container '' @ c))"
proof -
  let ?st = "call demo_env demo_serde (PullImage ''busybox'') demo_created"
  have st: "?st = run_calls demo_env demo_serde (demo_calls @ [PullImage ''busybox'']) (fresh_backend ''/s'')"
    by (simp add: demo_created_def demo_calls_def)
  have "image_status ''busybox'' ?st \<noteq> None" "list_ex (uses_image ''busybox'') (bt_values (containers ?st))"
    by code_simp+
  note c = conjI [OF this]
  show ?thesis
    using remove_image_guarded [OF st, of "''busybox''", unfolded if_P [OF c]] by (metis append_Cons append_Nil fst_conv)
qed

section \<open>Out of step\<close>

text \<open>stop_sandbox changes the cache before it writes.  If the write fails, the call reports the
  error, but a retry finds the sandbox already stopped and reports success without writing: the
  file still says Ready.\<close>

lemma stop_sandbox_retry_skips_write:
  assumes "map_of (sandboxes st) i = Some s" and "sr_state s = Ready" and "keys_ok st"
    and "ser_sandbox sd (s\<lparr>sr_state := NotReady\<rparr>) = Inr f" and "ev_write env (fk_tick st) = Some e"
  shows "\<exists>st'. stop_sandbox env sd i st = (Inl (Io e), st')
    \<and> stop_sandbox env2 sd i st' = (Inr (), st')
    \<and> map_option sr_state (map_of (sandboxes st') i) = Some NotReady
    \<and> fk_sandboxes_dir st' = fk_sandboxes_dir st"
proof -
  have "sr_id s = i" using assms(1,3) by (auto simp: keys_ok_def)
  with assms show ?thesis
    by (simp add: stop_sandbox_def Let_def persist_defs put_sandbox_def)
qed

definition demo_full :: Env where
  "demo_full = demo_env\<lparr>ev_write := (\<lambda>_. Some ''ENOSPC'')\<rparr>"




end
