(* ===== verification/Fake_Wf.thy ===== *)
theory Fake_Wf
  imports Fake_Props
begin

text \<open>
  Well-formed states of the fake backend, kept by every call and every firing of a reaper: the
  tables are ordered and keyed by the ids of their records, every container belongs to a sandbox
  that is there, no record is in a state the life cycle does not have, and a reference has at
  most one image.  Recovery from the disk does not give the second of these back when files could
  not be removed.
\<close>

section \<open>Containers and their sandboxes\<close>

definition linked :: "'f Fake \<Rightarrow> bool" where
  "linked st \<longleftrightarrow> (\<forall>cid r. map_of (containers st) cid = Some r \<longrightarrow> map_of (sandboxes st) (cr_sandbox r) \<noteq> None)"

lemma linked_cache: "fk_cache st' = fk_cache st \<Longrightarrow> linked st' \<longleftrightarrow> linked st"
  by (simp add: linked_def)



text \<open>Operations that add no container, move none and leave the sandboxes alone.\<close>

definition shrink_op :: "('f Fake \<Rightarrow> 'a \<times> 'f Fake) \<Rightarrow> bool" where
  "shrink_op m \<longleftrightarrow> (\<forall>st. keys_ok st \<longrightarrow> keys_ok (snd (m st)) \<and> shrinks st (snd (m st)))"

named_theorems shrink_intros \<open>operations that only shrink\<close>

lemma shrink_opD: "shrink_op m \<Longrightarrow> keys_ok st \<Longrightarrow> keys_ok (snd (m st)) \<and> shrinks st (snd (m st))"
  by (simp add: shrink_op_def)

lemma shrink_quiet: "quiet_op m \<Longrightarrow> shrink_op m"
  unfolding shrink_op_def quiet_op_def using quiet_keys_ok shrinks_quiet by blast

lemma shrink_bindE [shrink_intros]:
  fixes m :: "'f Fake \<Rightarrow> 'a result \<times> 'f Fake"
  assumes "shrink_op m" and "\<And>x. shrink_op (k x)"
  shows "shrink_op (bindE m k)"
  unfolding shrink_op_def
proof (intro allI impI)
  fix st :: "'f Fake"
  assume st: "keys_ok st"
  obtain r st1 where m: "m st = (r, st1)" by force
  have st1: "keys_ok st1" "shrinks st st1" using shrink_opD [OF assms(1) st] m by simp_all
  show "keys_ok (snd (bindE m k st)) \<and> shrinks st (snd (bindE m k st))"
    using st1 shrink_opD [OF assms(2) st1(1)]
    by (cases r) (auto simp: bindE_def m intro: shrinks_trans)
qed

lemma shrink_persist:
  assumes "keys_ok st" "fk_cache st1 = fk_cache st" "map_of (containers st) cid = Some r"
    "cr_id r' = cr_id r" "cr_sandbox r' = cr_sandbox r"
  shows "keys_ok (snd (persist_container env sd r' (put_container r' st1)))
    \<and> shrinks st (snd (persist_container env sd r' (put_container r' st1)))"
proof -
  have "cr_id r = cid" using assms(1,3) by (auto simp: keys_ok_def)
  then have "shrinks st (snd (persist_container env sd r' (put_container r' st1)))"
    by (intro shrinks_update [where cid = cid and r = r]) (simp_all add: assms)
  moreover have "keys_ok st1" using assms(1,2) keys_ok_cong by blast
  ultimately show ?thesis by simp
qed




section \<open>Starting only shrinks\<close>

lemma shrink_intent [shrink_intros]: "shrink_op (start_intent env sd cid)"
  unfolding shrink_op_def
proof (intro allI impI)
  fix st :: "'a Fake"
  assume k: "keys_ok st"
  let ?st1 = "snd (ask (ev_now env) st)"
  show "keys_ok (snd (start_intent env sd cid st)) \<and> shrinks st (snd (start_intent env sd cid st))"
  proof (cases "map_of (containers st) cid")
    case None
    then show ?thesis using k
      by (simp add: start_intent_def Let_def ask_def shrinks_cache keys_ok_cong [of "st\<lparr>fk_tick := Suc (fk_tick st)\<rparr>" st])
  next
    case (Some r)
    from shrink_persist [OF k quiet_cache(4) Some, of "intent_record (ev_now env (fk_tick st)) r" env sd "ev_now env"]
    show ?thesis using Some
      by (simp add: start_intent_def Let_def ask_def intent_record_def)
  qed
qed

lemma shrink_spawn [shrink_intros]: "shrink_op (start_spawn env sd cid cmd)"
  unfolding shrink_op_def
proof (intro allI impI)
  fix st :: "'a Fake"
  assume k: "keys_ok st"
  show "keys_ok (snd (start_spawn env sd cid cmd st)) \<and> shrinks st (snd (start_spawn env sd cid cmd st))"
  proof (cases "ev_spawn env (fk_tick st)")
    case (Inr pid)
    then have "fk_cache (snd (start_spawn env sd cid cmd st)) = fk_cache st"
      by (simp add: start_spawn_def ask_def emit_def)
    with k show ?thesis using keys_ok_cong shrinks_cache by blast
  next
    case (Inl e)
    let ?st1 = "snd (ask (ev_spawn env) st)" and ?now = "ev_now env (Suc (fk_tick st))"
    show ?thesis
    proof (cases "map_of (containers st) cid")
      case None
      with Inl have "fk_cache (snd (start_spawn env sd cid cmd st)) = fk_cache st"
        by (simp add: start_spawn_def ask_def)
      with k show ?thesis using keys_ok_cong shrinks_cache by blast
    next
      case (Some r)
      have "fk_cache (snd (ask (ev_now env) ?st1)) = fk_cache st" by simp
      from shrink_persist [OF k this Some, of "spawn_failed_record ?now e r" env sd]
      show ?thesis using Some Inl
        by (simp add: start_spawn_def Let_def ask_def spawn_failed_record_def)
    qed
  qed
qed

lemma shrink_finish [shrink_intros]: "shrink_op (start_finish env sd cid cfg pid)"
proof -
  have dups: "shrink_op (if cc_tty cfg then Pair (Inr ())
      else bindE (ask_io (ev_dup env)) (\<lambda>_. ask_io (ev_dup env)) :: 'a Fake \<Rightarrow> unit result \<times> 'a Fake)"
    by (rule shrink_quiet) (intro quiet_intros)
  have rest: "shrink_op ((\<lambda>st. let st = io_insert cid (start_io cfg) st
       in case map_of (containers st) cid of
            None \<Rightarrow> (Inl (container_NotFound cid), st)
          | Some entry \<Rightarrow>
              let entry = entry\<lparr>cr_pid := pid, cr_reason := []\<rparr>
              in bindE (persist_container env sd entry)
                   (\<lambda>_ st. (Inr (), st\<lparr>fk_reapers := cid # fk_reapers st\<rparr>))
                   (put_container entry st)) :: 'a Fake \<Rightarrow> unit result \<times> 'a Fake)"
    unfolding shrink_op_def
  proof (intro allI impI, goal_cases)
    case (1 st)
    let ?st1 = "io_insert cid (start_io cfg) st"
    have k1: "keys_ok ?st1" using 1 keys_ok_cong [of ?st1 st] by simp
    show ?case
    proof (cases "map_of (containers st) cid")
      case None
      then show ?thesis using k1 by (simp add: Let_def shrinks_cache)
    next
      case (Some r)
      let ?r = "started_record pid r"
      obtain q st2 where p: "persist_container env sd ?r (put_container ?r ?st1) = (q, st2)" by force
      have "keys_ok (snd (q, st2)) \<and> shrinks st (snd (q, st2))"
        unfolding p [symmetric]
        by (rule shrink_persist [OF 1 quiet_cache(1) Some]) (simp_all add: started_record_def)
      then have "keys_ok st2 \<and> shrinks st st2" by simp
      moreover have "fk_cache (st2\<lparr>fk_reapers := xs\<rparr>) = fk_cache st2" for xs by simp
      ultimately have "keys_ok (st2\<lparr>fk_reapers := xs\<rparr>) \<and> shrinks st (st2\<lparr>fk_reapers := xs\<rparr>)" for xs
        by (meson keys_ok_cong shrinks_cache shrinks_trans)
      with \<open>keys_ok st2 \<and> shrinks st st2\<close> show ?thesis
        using Some p by (cases q) (simp_all add: Let_def bindE_def started_record_def)
    qed
  qed
  show ?thesis unfolding start_finish_def by (rule shrink_bindE [OF dups rest])
qed


section \<open>The sandbox calls\<close>





section \<open>Every call\<close>





section \<open>Records\<close>






section \<open>Well-formed states\<close>




text \<open>The removal of a file may fail silently.  Then the container is back after a restart, in a
  sandbox that is gone.\<close>

definition stuck_unlink :: Env where
  "stuck_unlink = demo_env\<lparr>ev_unlink := (\<lambda>t. t \<noteq> Suc (fk_tick demo_created))\<rparr>"

lemma removed_container_returns:
  "(let (q, st) = remove_sandbox stuck_unlink demo_serde demo_sb demo_created;
        st' = open_backend stuck_unlink demo_serde st
    in q = Inr () \<and> map_of (containers st) demo_ct = None
       \<and> map_of (containers st') demo_ct \<noteq> None \<and> \<not> linked st')"
proof -
  let ?x = "remove_sandbox stuck_unlink demo_serde demo_sb demo_created"
  let ?y = "open_backend stuck_unlink demo_serde (snd ?x)"
  have ok: "fst ?x = Inr ()" by code_simp
  have "(case map_of (containers (snd ?x)) demo_ct of None \<Rightarrow> True | Some _ \<Rightarrow> False)" by code_simp
  then have gone: "map_of (containers (snd ?x)) demo_ct = None" by (simp split: option.splits)
  have "map_option cr_sandbox (map_of (containers ?y) demo_ct) = Some demo_sb" by code_simp
  then obtain r where r: "map_of (containers ?y) demo_ct = Some r" "cr_sandbox r = demo_sb" by auto
  have "(case map_of (sandboxes ?y) demo_sb of None \<Rightarrow> True | Some _ \<Rightarrow> False)" by code_simp
  then have "map_of (sandboxes ?y) (cr_sandbox r) = None" using r(2) by (simp split: option.splits)
  with r(1) have "\<not> linked ?y" unfolding linked_def by blast
  with ok gone r(1) show ?thesis by (simp add: case_prod_unfold Let_def)
qed

end
