(* ===== verification/Child_Setup.thy ===== *)
theory Child_Setup
  imports Fake_Call_Props
begin

text \<open>
  What a child of the backend does between \<open>fork\<close> and \<open>exec\<close>: the \<open>pre_exec\<close> closures that
  \<open>install_container_pre_exec\<close>, \<open>join_container_netns\<close>, \<open>join_container_mnt_uts\<close>, \<open>exec_sync\<close> and
  \<open>open_exec\<close> (\<open>lightr-cri-fake/src/lib.rs\<close>) register, run in the order of their registration; the
  first error ends the child and becomes the error of the spawn.  \<open>std::process::Command\<close> changes
  directory and sets the process group before them.

  \<open>World\<close> is what the kernel keeps of the child and of the namespaces it may touch.  The answers
  of the system calls are the record \<open>Kernel\<close>, so that every one of them may fail.
\<close>

section \<open>The kernel\<close>

text \<open>A namespace: the host's, one the child made for itself, that of the process with a pid, or the
  one pinned at a path.\<close>

datatype Ns = HostNs | OwnNs | PidNs u32 | PathNs string

record Kernel =
  k_chdir :: "string \<Rightarrow> string option"
  k_setsid :: bool
  k_unshare_uts :: bool
  k_sethostname :: bool
  k_unshare_mnt :: bool
  k_make_private :: bool
  k_bind_mount :: bool
  k_setns_mnt :: "Ns \<Rightarrow> string option"
  k_setns_uts :: "Ns \<Rightarrow> string option"
  k_setns_net :: "Ns \<Rightarrow> string option"

text \<open>\<open>w_hostname\<close> and \<open>w_resolv\<close> are the host name of a host-name namespace and the file mounted over
  \<open>/etc/resolv.conf\<close> in a mount namespace; \<open>w_shared\<close> says that mounts the child makes in its own
  mount namespace also appear on the host (shared propagation, which a new mount namespace
  inherits).\<close>

record World =
  w_cwd :: string
  w_leader :: bool
  w_uts :: Ns
  w_mnt :: Ns
  w_net :: Ns
  w_hostname :: "Ns \<Rightarrow> string"
  w_resolv :: "Ns \<Rightarrow> string option"
  w_shared :: bool
  w_closed :: "Ns list"

definition sys_setsid :: "Kernel \<Rightarrow> World \<Rightarrow> World" where
  "sys_setsid k w = (if k_setsid k then w\<lparr>w_leader := True\<rparr> else w)"

definition sys_unshare_uts :: "World \<Rightarrow> World" where
  "sys_unshare_uts w = w\<lparr>w_uts := OwnNs, w_hostname := (w_hostname w)(OwnNs := w_hostname w (w_uts w))\<rparr>"

definition sys_sethostname :: "Kernel \<Rightarrow> string \<Rightarrow> World \<Rightarrow> World" where
  "sys_sethostname k h w =
     (if k_sethostname k then w\<lparr>w_hostname := (w_hostname w)(w_uts w := h)\<rparr> else w)"

definition sys_unshare_mnt :: "World \<Rightarrow> World" where
  "sys_unshare_mnt w = w\<lparr>w_mnt := OwnNs, w_resolv := (w_resolv w)(OwnNs := w_resolv w (w_mnt w))\<rparr>"

definition sys_make_private :: "Kernel \<Rightarrow> World \<Rightarrow> World" where
  "sys_make_private k w = (if k_make_private k then w\<lparr>w_shared := False\<rparr> else w)"

definition sys_bind_mount :: "Kernel \<Rightarrow> string \<Rightarrow> World \<Rightarrow> World" where
  "sys_bind_mount k src w =
     (if k_bind_mount k then
        w\<lparr>w_resolv := (if w_shared w then (w_resolv w)(w_mnt w := Some src, HostNs := Some src)
                        else (w_resolv w)(w_mnt w := Some src))\<rparr>
      else w)"

text \<open>Joining a mount namespace also moves the process to its root directory.\<close>

definition sys_setns_mnt :: "Kernel \<Rightarrow> Ns \<Rightarrow> World \<Rightarrow> string option \<times> World" where
  "sys_setns_mnt k ns w =
     (case k_setns_mnt k ns of Some e \<Rightarrow> (Some e, w) | None \<Rightarrow> (None, w\<lparr>w_mnt := ns, w_cwd := ''/''\<rparr>))"

definition sys_setns_uts :: "Kernel \<Rightarrow> Ns \<Rightarrow> World \<Rightarrow> string option \<times> World" where
  "sys_setns_uts k ns w =
     (case k_setns_uts k ns of Some e \<Rightarrow> (Some e, w) | None \<Rightarrow> (None, w\<lparr>w_uts := ns\<rparr>))"

definition sys_setns_net :: "Kernel \<Rightarrow> Ns \<Rightarrow> World \<Rightarrow> string option \<times> World" where
  "sys_setns_net k ns w =
     (case k_setns_net k ns of Some e \<Rightarrow> (Some e, w) | None \<Rightarrow> (None, w\<lparr>w_net := ns\<rparr>))"

definition sys_close :: "Ns \<Rightarrow> World \<Rightarrow> World" where
  "sys_close ns w = w\<lparr>w_closed := w_closed w @ [ns]\<rparr>"

lemmas sys_defs = sys_setsid_def sys_unshare_uts_def sys_sethostname_def sys_unshare_mnt_def
  sys_make_private_def sys_bind_mount_def sys_setns_mnt_def sys_setns_uts_def sys_setns_net_def
  sys_close_def

section \<open>The closures\<close>

text \<open>A container's own set-up: a session of its own, then the host name, then the resolver file.
  None of it is fatal; a host name is set only in a fresh namespace, and so is the mount made.\<close>

definition setup_hostname :: "Kernel \<Rightarrow> string option \<Rightarrow> World \<Rightarrow> World" where
  "setup_hostname k hostname w =
     (case hostname of
        None \<Rightarrow> w
      | Some h \<Rightarrow> if k_unshare_uts k then sys_sethostname k h (sys_unshare_uts w) else w)"

definition setup_resolv :: "Kernel \<Rightarrow> string option \<Rightarrow> World \<Rightarrow> World" where
  "setup_resolv k resolv w =
     (case resolv of
        None \<Rightarrow> w
      | Some src \<Rightarrow>
          if k_unshare_mnt k then sys_bind_mount k src (sys_make_private k (sys_unshare_mnt w)) else w)"

definition container_pre_exec :: "Kernel \<Rightarrow> string option \<Rightarrow> string option \<Rightarrow> World \<Rightarrow> string option \<times> World" where
  "container_pre_exec k hostname resolv w =
     (None, setup_resolv k resolv (setup_hostname k hostname (sys_setsid k w)))"

definition netns_pre_exec :: "Kernel \<Rightarrow> string \<Rightarrow> World \<Rightarrow> string option \<times> World" where
  "netns_pre_exec k path w =
     (let (rc, w) = sys_setns_net k (PathNs path) w in (rc, sys_close (PathNs path) w))"

text \<open>Both joins are tried and both descriptors closed, whatever the first one answers.\<close>

definition mnt_uts_pre_exec :: "Kernel \<Rightarrow> u32 \<Rightarrow> World \<Rightarrow> string option \<times> World" where
  "mnt_uts_pre_exec k pid w =
     (let (rc_mnt, w) = sys_setns_mnt k (PidNs pid) w;
          (rc_uts, w) = sys_setns_uts k (PidNs pid) w;
          w = sys_close (PidNs pid) (sys_close (PidNs pid) w)
      in (case rc_uts of Some e \<Rightarrow> Some e | None \<Rightarrow> rc_mnt, w))"

definition setsid_pre_exec :: "Kernel \<Rightarrow> World \<Rightarrow> string option \<times> World" where
  "setsid_pre_exec k w = (None, sys_setsid k w)"

text \<open>The closures of a container's main process and of an exec, in the order of registration.\<close>

definition netns_closures :: "Kernel \<Rightarrow> string option \<Rightarrow> (World \<Rightarrow> string option \<times> World) list" where
  "netns_closures k netns = (case netns of None \<Rightarrow> [] | Some p \<Rightarrow> [netns_pre_exec k p])"

definition start_closures :: "Kernel \<Rightarrow> CommandSpec \<Rightarrow> (World \<Rightarrow> string option \<times> World) list" where
  "start_closures k cmd =
     container_pre_exec k (cmd_hostname cmd) (cmd_resolv cmd) # netns_closures k (cmd_netns cmd)"

definition exec_closures :: "Kernel \<Rightarrow> CommandSpec \<Rightarrow> (World \<Rightarrow> string option \<times> World) list" where
  "exec_closures k cmd =
     (case cmd_mnt_uts_of cmd of None \<Rightarrow> [] | Some pid \<Rightarrow> [mnt_uts_pre_exec k pid])
     @ netns_closures k (cmd_netns cmd)
     @ (if cmd_pty cmd then [setsid_pre_exec k] else [])"

fun run_closures :: "(World \<Rightarrow> string option \<times> World) list \<Rightarrow> World \<Rightarrow> string option \<times> World" where
  "run_closures [] w = (None, w)"
| "run_closures (f # fs) w =
     (case f w of (Some e, w) \<Rightarrow> (Some e, w) | (None, w) \<Rightarrow> run_closures fs w)"

text \<open>The child up to its \<open>exec\<close>; an error means that the program does not run.\<close>

definition child_setup :: "Kernel \<Rightarrow> CommandSpec \<Rightarrow> (World \<Rightarrow> string option \<times> World) list \<Rightarrow> World
    \<Rightarrow> string option \<times> World" where
  "child_setup k cmd closures w =
     (case cmd_cwd cmd of
        None \<Rightarrow> run_closures closures w
      | Some d \<Rightarrow>
          (case k_chdir k d of
             Some e \<Rightarrow> (Some e, w)
           | None \<Rightarrow> run_closures closures (w\<lparr>w_cwd := d\<rparr>)))"

lemmas closure_defs = container_pre_exec_def netns_pre_exec_def mnt_uts_pre_exec_def
  setsid_pre_exec_def setup_hostname_def setup_resolv_def netns_closures_def

section \<open>The main process of a container\<close>

text \<open>Where the child of a backend that lives in the host's namespaces begins.\<close>

definition on_host :: "World \<Rightarrow> bool" where
  "on_host w \<longleftrightarrow> w_uts w = HostNs \<and> w_mnt w = HostNs \<and> w_net w = HostNs"

lemma setup_hostname_host:
  "on_host w \<Longrightarrow> w_hostname (setup_hostname k h w) HostNs = w_hostname w HostNs"
  by (auto simp: setup_hostname_def sys_defs split: option.splits)

lemma setup_hostname_frame [simp]:
  "w_mnt (setup_hostname k h w) = w_mnt w" "w_net (setup_hostname k h w) = w_net w"
  "w_resolv (setup_hostname k h w) = w_resolv w" "w_shared (setup_hostname k h w) = w_shared w"
  "w_cwd (setup_hostname k h w) = w_cwd w" "w_leader (setup_hostname k h w) = w_leader w"
  by (auto simp: setup_hostname_def sys_defs split: option.splits)

lemma setup_resolv_frame [simp]:
  "w_uts (setup_resolv k r w) = w_uts w" "w_net (setup_resolv k r w) = w_net w"
  "w_hostname (setup_resolv k r w) = w_hostname w"
  "w_cwd (setup_resolv k r w) = w_cwd w" "w_leader (setup_resolv k r w) = w_leader w"
  by (auto simp: setup_resolv_def sys_defs split: option.splits)

lemma sys_setsid_frame [simp]:
  "w_uts (sys_setsid k w) = w_uts w" "w_mnt (sys_setsid k w) = w_mnt w" "w_net (sys_setsid k w) = w_net w"
  "w_hostname (sys_setsid k w) = w_hostname w" "w_resolv (sys_setsid k w) = w_resolv w"
  "w_shared (sys_setsid k w) = w_shared w" "w_cwd (sys_setsid k w) = w_cwd w"
  by (auto simp: sys_setsid_def)

text \<open>The closure of the network namespace, run last, joins it or ends the child.\<close>

lemma run_netns_closures:
  assumes "run_closures (netns_closures k netns) w = (r, w')"
  shows "w_hostname w' = w_hostname w" "w_resolv w' = w_resolv w" "w_uts w' = w_uts w"
    "w_mnt w' = w_mnt w" "w_leader w' = w_leader w" "w_cwd w' = w_cwd w"
    "r = None \<Longrightarrow> w_net w' = (case netns of None \<Rightarrow> w_net w | Some p \<Rightarrow> PathNs p)"
  using assms
  by (auto simp: netns_closures_def netns_pre_exec_def sys_setns_net_def sys_close_def Let_def
      split: option.splits prod.splits)

text \<open>The closures of a container's main process, before the claim adds the working directory.\<close>

lemma run_start_closures:
  assumes x: "on_host x" and run: "run_closures (start_closures k cmd) x = (r, x')"
  shows "w_hostname x' HostNs = w_hostname x HostNs
      \<and> (\<not> w_shared x \<or> k_make_private k \<longrightarrow> w_resolv x' HostNs = w_resolv x HostNs)
      \<and> (r = None \<longrightarrow>
           w_net x' = (case cmd_netns cmd of None \<Rightarrow> HostNs | Some p \<Rightarrow> PathNs p)
           \<and> (case cmd_hostname cmd of None \<Rightarrow> w_uts x' = HostNs
              | Some h \<Rightarrow> k_unshare_uts k \<and> k_sethostname k \<longrightarrow> w_hostname x' (w_uts x') = h)
           \<and> (case cmd_resolv cmd of None \<Rightarrow> w_mnt x' = HostNs
              | Some src \<Rightarrow> k_unshare_mnt k \<and> k_bind_mount k \<longrightarrow> w_resolv x' (w_mnt x') = Some src))"
proof -
  let ?a = "setup_hostname k (cmd_hostname cmd) (sys_setsid k x)"
  let ?b = "setup_resolv k (cmd_resolv cmd) ?a"
  have "run_closures (netns_closures k (cmd_netns cmd)) ?b = (r, x')"
    using run by (simp add: start_closures_def container_pre_exec_def)
  note net = run_netns_closures [OF this]
  have host: "on_host (sys_setsid k x)" using x by (simp add: on_host_def)
  have resolv: "\<not> w_shared x \<or> k_make_private k \<Longrightarrow> w_resolv ?b HostNs = w_resolv x HostNs"
    by (auto simp: setup_resolv_def sys_unshare_mnt_def sys_make_private_def sys_bind_mount_def
        split: option.splits)
  have named: "case cmd_hostname cmd of None \<Rightarrow> w_uts ?a = HostNs
      | Some h \<Rightarrow> k_unshare_uts k \<and> k_sethostname k \<longrightarrow> w_hostname ?a (w_uts ?a) = h"
    using x by (auto simp: on_host_def setup_hostname_def sys_unshare_uts_def sys_sethostname_def
        split: option.splits)
  have mounted: "case cmd_resolv cmd of None \<Rightarrow> w_mnt ?b = HostNs
      | Some src \<Rightarrow> k_unshare_mnt k \<and> k_bind_mount k \<longrightarrow> w_resolv ?b (w_mnt ?b) = Some src"
    using x by (auto simp: on_host_def setup_resolv_def sys_unshare_mnt_def sys_make_private_def
        sys_bind_mount_def split: option.splits)
  have joined: "r = None \<Longrightarrow> w_net x' = (case cmd_netns cmd of None \<Rightarrow> HostNs | Some p \<Rightarrow> PathNs p)"
    using net(7) x by (simp add: on_host_def split: option.splits)
  show ?thesis
    unfolding net(1-4)
    using joined resolv named mounted setup_hostname_host [OF host, of k "cmd_hostname cmd"]
    unfolding setup_resolv_frame sys_setsid_frame by blast
qed

text \<open>C13: The set-up of a container's main process touches the host only where it must not matter,
  and isolates the container where the kernel lets it.  Started from the host's namespaces,
  whatever system call fails: the host's name is never changed; the host's \<open>/etc/resolv.conf\<close> is left
  alone if the mounts are not shared with the host or can be made private; and when the program
  does run, it is in the sandbox's network namespace (the host's if there is none), it sees the
  configured host name if it could get a host-name namespace and set it, and the synthesized resolver
  file if it could get a mount namespace and mount it.\<close>

theorem container_child_isolated:
  assumes "on_host w" "child_setup k cmd (start_closures k cmd) w = (r, w')"
  shows "w_hostname w' HostNs = w_hostname w HostNs
    \<and> (\<not> w_shared w \<or> k_make_private k \<longrightarrow> w_resolv w' HostNs = w_resolv w HostNs)
    \<and> (r = None \<longrightarrow>
         w_net w' = (case cmd_netns cmd of None \<Rightarrow> HostNs | Some p \<Rightarrow> PathNs p)
         \<and> (case cmd_hostname cmd of None \<Rightarrow> w_uts w' = HostNs
            | Some h \<Rightarrow> k_unshare_uts k \<and> k_sethostname k \<longrightarrow> w_hostname w' (w_uts w') = h)
         \<and> (case cmd_resolv cmd of None \<Rightarrow> w_mnt w' = HostNs
            | Some src \<Rightarrow> k_unshare_mnt k \<and> k_bind_mount k \<longrightarrow> w_resolv w' (w_mnt w') = Some src))"
proof (cases "cmd_cwd cmd")
  case None
  with run_start_closures [OF assms(1)] assms(2) show ?thesis by (simp add: child_setup_def)
next
  case cwd: (Some d)
  show ?thesis
  proof (cases "k_chdir k d")
    case None
    with run_start_closures [of "w\<lparr>w_cwd := d\<rparr>" k cmd r w'] cwd assms show ?thesis
      by (simp add: child_setup_def on_host_def)
  next
    case (Some e)
    with cwd assms(2) have "r = Some e" "w' = w" by (simp_all add: child_setup_def)
    then show ?thesis by simp
  qed
qed

text \<open>The failure of the private remount is ignored.  With shared propagation, the bind mount then
  lands on the host as well.\<close>

lemma resolv_mount_escapes:
  assumes "on_host w" "w_shared w" "cmd_cwd cmd = None" "cmd_resolv cmd = Some src"
    "k_unshare_mnt k" "\<not> k_make_private k" "k_bind_mount k"
  shows "w_resolv (snd (child_setup k cmd (start_closures k cmd) w)) HostNs = Some src"
proof -
  let ?b = "setup_resolv k (Some src) (setup_hostname k (cmd_hostname cmd) (sys_setsid k w))"
  obtain r w' where run: "run_closures (netns_closures k (cmd_netns cmd)) ?b = (r, w')" by force
  have "w_resolv ?b HostNs = Some src"
    using assms by (simp add: setup_resolv_def sys_unshare_mnt_def sys_make_private_def sys_bind_mount_def)
  with run_netns_closures(2) [OF run] run assms(3,4) show ?thesis
    by (simp add: child_setup_def start_closures_def container_pre_exec_def)
qed

section \<open>An exec\<close>

lemma run_exec_closures:
  assumes "run_closures (exec_closures k cmd) w = (r, w')" "cmd_mnt_uts_of cmd = Some pid"
  shows "w_hostname w' = w_hostname w \<and> w_resolv w' = w_resolv w \<and>
    (r = None \<longrightarrow> w_mnt w' = PidNs pid \<and> w_uts w' = PidNs pid \<and> w_cwd w' = ''/''
       \<and> w_net w' = (case cmd_netns cmd of None \<Rightarrow> w_net w | Some p \<Rightarrow> PathNs p))"
  using assms
  by (auto simp: exec_closures_def closure_defs sys_setns_mnt_def sys_setns_uts_def sys_setns_net_def
      sys_close_def sys_setsid_def Let_def split: option.splits prod.splits if_splits)

lemma child_setup_exec:
  assumes "child_setup k cmd (exec_closures k cmd) w = (r, w')" "cmd_mnt_uts_of cmd = Some pid"
  shows "w_hostname w' = w_hostname w \<and> w_resolv w' = w_resolv w \<and>
    (r = None \<longrightarrow> w_mnt w' = PidNs pid \<and> w_uts w' = PidNs pid \<and> w_cwd w' = ''/''
       \<and> w_net w' = (case cmd_netns cmd of None \<Rightarrow> w_net w | Some p \<Rightarrow> PathNs p))"
proof (cases "cmd_cwd cmd")
  case None
  with run_exec_closures [OF _ assms(2)] assms(1) show ?thesis by (simp add: child_setup_def)
next
  case (Some d)
  with run_exec_closures [of k cmd "w\<lparr>w_cwd := d\<rparr>" r w', OF _ assms(2)] assms(1) show ?thesis
    by (auto simp: child_setup_def split: option.splits)
qed

text \<open>C12: An exec fails closed.  The program of a command that \<open>exec_sync\<close> or \<open>open_exec\<close> prepared runs
  only inside the mount and host-name namespaces of the container's live process and, when the
  sandbox has a network namespace, inside that; if any of the joins fails the program does not
  run at all, so it never runs with the host's files or host name in place of the container's.  In
  either case no namespace's host name or resolver file is changed.\<close>

theorem exec_child_joins:
  assumes "exec_command env what cid cmd pty stdin grp st = (Inr spec, st')"
    "child_setup k spec (exec_closures k spec) w = (r, w')"
  shows "\<exists>rec. map_of (containers st) cid = Some rec \<and> cr_state rec = Running \<and> 0 < cr_pid rec
    \<and> w_hostname w' = w_hostname w \<and> w_resolv w' = w_resolv w
    \<and> (r = None \<longrightarrow> w_mnt w' = PidNs (cr_pid rec) \<and> w_uts w' = PidNs (cr_pid rec)
         \<and> w_net w' = (case Option.bind (map_of (sandboxes st) (cr_sandbox rec)) sr_netns_path of
                         None \<Rightarrow> w_net w | Some p \<Rightarrow> PathNs p))"
proof -
  obtain rec where rec: "map_of (containers st) cid = Some rec" "cr_state rec = Running" "0 < cr_pid rec"
    "cmd_mnt_uts_of spec = Some (cr_pid rec)"
    "cmd_netns spec = Option.bind (map_of (sandboxes st) (cr_sandbox rec)) sr_netns_path"
    using exec_command_ok [OF assms(1)] by metis
  from child_setup_exec [OF assms(2) rec(4)] rec show ?thesis by auto
qed

text \<open>The directory of the container's configuration is entered before the mount namespace is, which
  leaves it again.\<close>

lemma exec_ignores_working_dir:
  assumes "exec_command env what cid cmd pty stdin grp st = (Inr spec, st')"
    "child_setup k spec (exec_closures k spec) w = (None, w')"
  shows "w_cwd w' = ''/''"
proof -
  obtain pid where "cmd_mnt_uts_of spec = Some pid"
    by (rule exec_command_ok [OF assms(1)])
  from child_setup_exec [OF assms(2) this] show ?thesis by simp
qed

section \<open>Examples\<close>

definition root_kernel :: Kernel where
  "root_kernel =
     \<lparr>k_chdir = (\<lambda>_. None), k_setsid = True, k_unshare_uts = True, k_sethostname = True,
      k_unshare_mnt = True, k_make_private = True, k_bind_mount = True,
      k_setns_mnt = (\<lambda>_. None), k_setns_uts = (\<lambda>_. None), k_setns_net = (\<lambda>_. None)\<rparr>"

definition host_world :: World where
  "host_world =
     \<lparr>w_cwd = ''/'', w_leader = False, w_uts = HostNs, w_mnt = HostNs, w_net = HostNs,
      w_hostname = (\<lambda>_. ''node1''), w_resolv = (\<lambda>_. None), w_shared = True, w_closed = []\<rparr>"

definition web_command :: CommandSpec where
  "web_command =
     \<lparr>cmd_program = ''serve'', cmd_args = [], cmd_cwd = Some ''/srv'', cmd_envs = [], cmd_stdin_piped = False,
      cmd_pty = False, cmd_process_group = False, cmd_hostname = Some ''web'',
      cmd_resolv = Some ''/state/resolv-sb.conf'', cmd_mnt_uts_of = None, cmd_netns = Some ''/run/netns/sb''\<rparr>"

lemma container_child_isolated_witness:
  "\<exists>w'. child_setup root_kernel web_command (start_closures root_kernel web_command) host_world = (None, w')
     \<and> w_hostname w' HostNs = ''node1'' \<and> w_resolv w' HostNs = None \<and> w_net w' = PathNs ''/run/netns/sb''
     \<and> w_hostname w' (w_uts w') = ''web''"
proof -
  obtain r w' where run: "child_setup root_kernel web_command (start_closures root_kernel web_command) host_world
      = (r, w')" by force
  then have "r = None"
    by (auto simp: child_setup_def start_closures_def closure_defs sys_defs root_kernel_def web_command_def
        Let_def)
  moreover have "on_host host_world" by (simp add: on_host_def host_world_def)
  from container_child_isolated [OF this run] \<open>r = None\<close>
  have "w_hostname w' HostNs = ''node1'' \<and> w_resolv w' HostNs = None \<and> w_net w' = PathNs ''/run/netns/sb''
     \<and> w_hostname w' (w_uts w') = ''web''"
    by (simp add: root_kernel_def web_command_def host_world_def)
  ultimately show ?thesis using run by blast
qed

lemma exec_child_joins_witness:
  "\<exists>spec w'. fst (exec_command demo_env ''exec_sync'' demo_ct [''ls''] False False True demo_running) = Inr spec
     \<and> child_setup root_kernel spec (exec_closures root_kernel spec) host_world = (None, w')
     \<and> w_mnt w' \<noteq> HostNs \<and> w_uts w' \<noteq> HostNs"
proof -
  let ?x = "exec_command demo_env ''exec_sync'' demo_ct [''ls''] False False True demo_running"
  have "\<not> (case fst ?x of Inl e \<Rightarrow> True | Inr s \<Rightarrow> False)" by code_simp
  then obtain spec st' where x: "?x = (Inr spec, st')"
    by (cases ?x) (auto split: sum.splits)
  obtain r w' where run: "child_setup root_kernel spec (exec_closures root_kernel spec) host_world = (r, w')"
    by force
  then have "r = None"
    by (auto simp: child_setup_def exec_closures_def closure_defs sys_defs root_kernel_def Let_def
        split: option.splits if_splits)
  with exec_child_joins [OF x run] run x show ?thesis by auto
qed

end
