(* ===== verification/Cri_Seam.thy ===== *)
theory Cri_Seam
  imports Cri_Vocab Token_Registry
begin

text \<open>
  The seam between shell and backend (\<open>trait CriBackend\<close> of \<open>lightr-cri-backend/src/lib.rs\<close>): the
  operations the shell calls, as a record of state transformers over an abstract backend
  state, and the laws the trait documents, as the locale \<open>cri_backend\<close>.
\<close>

section \<open>The trait\<close>

record 's CriBackend =
  be_run_sandbox :: "SandboxConfig \<Rightarrow> 's \<Rightarrow> SandboxId result \<times> 's"
  be_stop_sandbox :: "SandboxId \<Rightarrow> 's \<Rightarrow> unit result \<times> 's"
  be_remove_sandbox :: "SandboxId \<Rightarrow> 's \<Rightarrow> unit result \<times> 's"
  be_sandbox_status :: "SandboxId \<Rightarrow> 's \<Rightarrow> SandboxStatus result \<times> 's"
  be_list_sandboxes :: "SandboxFilter \<Rightarrow> 's \<Rightarrow> SandboxStatus list result \<times> 's"
  be_create_container :: "SandboxId \<Rightarrow> ContainerConfig \<Rightarrow> 's \<Rightarrow> ContainerId result \<times> 's"
  be_start_container :: "ContainerId \<Rightarrow> 's \<Rightarrow> unit result \<times> 's"
  be_stop_container :: "ContainerId \<Rightarrow> i64 \<Rightarrow> 's \<Rightarrow> unit result \<times> 's"
  be_remove_container :: "ContainerId \<Rightarrow> 's \<Rightarrow> unit result \<times> 's"
  be_container_status :: "ContainerId \<Rightarrow> 's \<Rightarrow> ContainerStatus result \<times> 's"
  be_list_containers :: "ContainerFilter \<Rightarrow> 's \<Rightarrow> ContainerStatus list result \<times> 's"
  be_container_stats :: "ContainerId \<Rightarrow> 's \<Rightarrow> ContainerStatsRec result \<times> 's"
  be_list_container_stats :: "ContainerFilter \<Rightarrow> 's \<Rightarrow> ContainerStatsRec list result \<times> 's"
  be_exec_sync :: "ContainerId \<Rightarrow> string list \<Rightarrow> i64 \<Rightarrow> 's \<Rightarrow> ExecResult result \<times> 's"
  be_pull_image :: "string \<Rightarrow> 's \<Rightarrow> PulledImage result \<times> 's"
  be_image_status :: "string \<Rightarrow> 's \<Rightarrow> ImageRecord option result \<times> 's"
  be_list_images :: "'s \<Rightarrow> ImageRecord list result \<times> 's"
  be_remove_image :: "string \<Rightarrow> 's \<Rightarrow> unit result \<times> 's"
  be_image_fs_info :: "'s \<Rightarrow> FsInfo result \<times> 's"
  be_network_ready :: "'s \<Rightarrow> bool \<times> 's"

section \<open>Its laws\<close>

text \<open>
  \<open>ok\<close> is the backend's own invariant.  A status is read without changing anything; a sandbox
  that was run is reported Ready with its configuration and no container; creation needs a
  Ready sandbox and makes a Created container of it; what was removed is not found; \<open>remove\<close>
  and \<open>stop\<close> of what is not there succeed.
\<close>

locale cri_backend =
  fixes be :: "'s CriBackend" and ok :: "'s \<Rightarrow> bool"
  assumes status_reads: "snd (be_sandbox_status be i s) = s" "snd (be_container_status be c s) = s"
      "snd (be_list_sandboxes be sf s) = s" "snd (be_list_containers be cf s) = s"
    and ok_ops: "ok s \<Longrightarrow> ok (snd (be_run_sandbox be cfg s))"
      "ok s \<Longrightarrow> ok (snd (be_stop_sandbox be i s))" "ok s \<Longrightarrow> ok (snd (be_remove_sandbox be i s))"
      "ok s \<Longrightarrow> ok (snd (be_create_container be i ccfg s))" "ok s \<Longrightarrow> ok (snd (be_start_container be c s))"
      "ok s \<Longrightarrow> ok (snd (be_stop_container be c g s))" "ok s \<Longrightarrow> ok (snd (be_remove_container be c s))"
    and sandbox_run: "be_run_sandbox be cfg s = (Inr i, s') \<Longrightarrow>
      \<exists>st. fst (be_sandbox_status be i s') = Inr st \<and> ss_id st = i \<and> ss_config st = cfg \<and> ss_state st = Ready"
    and sandbox_stopped: "ok s \<Longrightarrow> be_stop_sandbox be i s = (Inr (), s') \<Longrightarrow>
      fst (be_sandbox_status be i s) = Inr st \<Longrightarrow>
      \<exists>st'. fst (be_sandbox_status be i s') = Inr st' \<and> ss_state st' = NotReady"
    and sandbox_removed: "ok s \<Longrightarrow> be_remove_sandbox be i s = (Inr (), s') \<Longrightarrow>
      \<exists>m. fst (be_sandbox_status be i s') = Inl (NotFound m)"
    and sandbox_id: "ok s \<Longrightarrow> fst (be_sandbox_status be i s) = Inr st \<Longrightarrow> ss_id st = i"
    and container_id: "ok s \<Longrightarrow> fst (be_container_status be c s) = Inr ct \<Longrightarrow> cs_id ct = c"
    and create_ready: "be_create_container be i ccfg s = (Inr c, s') \<Longrightarrow>
      \<exists>st. fst (be_sandbox_status be i s) = Inr st \<and> ss_state st = Ready"
    and container_created: "be_create_container be i ccfg s = (Inr c, s') \<Longrightarrow>
      \<exists>st. fst (be_container_status be c s') = Inr st \<and> cs_id st = c \<and> cs_sandbox st = i \<and>
        cs_state st = Created \<and> cs_config st\<lparr>cc_log_path := cc_log_path ccfg\<rparr> = ccfg"
    and container_removed: "ok s \<Longrightarrow> be_remove_container be c s = (Inr (), s') \<Longrightarrow>
      \<exists>m. fst (be_container_status be c s') = Inl (NotFound m)"
    and containers_listed: "ok s \<Longrightarrow> \<exists>cts. fst (be_list_containers be cf s) = Inr cts \<and>
      (cf_label_selector cf = [] \<longrightarrow> (\<forall>ct. ct \<in> set cts \<longleftrightarrow>
         fst (be_container_status be (cs_id ct) s) = Inr ct \<and>
         (case cf_id cf of None \<Rightarrow> True | Some c \<Rightarrow> cs_id ct = c) \<and>
         (case cf_sandbox cf of None \<Rightarrow> True | Some i \<Rightarrow> cs_sandbox ct = i) \<and>
         (case cf_state cf of None \<Rightarrow> True | Some st \<Rightarrow> cs_state ct = st)))"

text \<open>
  A backend whose sandbox operations do not fail, as one whose storage works and that needs no
  plugins: a run succeeds, \<open>stop\<close> and \<open>remove\<close> always do.
\<close>

locale reliable_backend = cri_backend +
  assumes run_succeeds: "\<exists>i s'. be_run_sandbox be cfg s = (Inr i, s')"
    and stop_succeeds: "fst (be_stop_sandbox be i s) = Inr ()"
    and remove_succeeds: "fst (be_remove_sandbox be i s) = Inr ()"

end
