(* ===== verification/Fake_Backend.thy ===== *)
theory Fake_Backend
  imports Fake_Ops Cri_Seam
begin

text \<open>
  The fake backend behind the seam (\<open>impl CriBackend for FakeBackend\<close>): its operations as an
  instance of the trait, and the proof that they obey the trait's laws.
\<close>

definition pure_result :: "('s \<Rightarrow> 'a result) \<Rightarrow> 's \<Rightarrow> 'a result \<times> 's" where
  "pure_result f st = (f st, st)"

definition total_result :: "('s \<Rightarrow> 'a \<times> 's) \<Rightarrow> 's \<Rightarrow> 'a result \<times> 's" where
  "total_result f st = (let (x, st) = f st in (Inr x, st))"

definition fake_backend :: "Env \<Rightarrow> 'f Serde \<Rightarrow> 'f Fake CriBackend" where
  "fake_backend env sd =
     \<lparr>be_run_sandbox = run_sandbox env sd, be_stop_sandbox = stop_sandbox env sd,
      be_remove_sandbox = remove_sandbox env sd, be_sandbox_status = (\<lambda>i. pure_result (sandbox_status i)),
      be_list_sandboxes = (\<lambda>flt. pure_result (\<lambda>st. Inr (list_sandboxes flt st))),
      be_create_container = create_container env sd, be_start_container = start_container env sd,
      be_stop_container = stop_container env sd, be_remove_container = remove_container env sd,
      be_container_status = (\<lambda>c. pure_result (container_status c)),
      be_list_containers = (\<lambda>flt. pure_result (\<lambda>st. Inr (list_containers flt st))),
      be_container_stats = container_stats env, be_list_container_stats = list_container_stats env,
      be_exec_sync = exec_sync env, be_pull_image = pull_image env sd,
      be_image_status = (\<lambda>r. pure_result (\<lambda>st. Inr (image_status r st))),
      be_list_images = pure_result (\<lambda>st. Inr (list_images st)), be_remove_image = remove_image env,
      be_image_fs_info = total_result (image_fs_info env), be_network_ready = network_ready env\<rparr>"

lemma fake_backend_simps [simp]:
  "be_run_sandbox (fake_backend env sd) = run_sandbox env sd"
  "be_stop_sandbox (fake_backend env sd) = stop_sandbox env sd"
  "be_remove_sandbox (fake_backend env sd) = remove_sandbox env sd"
  "be_sandbox_status (fake_backend env sd) i st = (sandbox_status i st, st)"
  "be_list_sandboxes (fake_backend env sd) sf st = (Inr (list_sandboxes sf st), st)"
  "be_create_container (fake_backend env sd) = create_container env sd"
  "be_start_container (fake_backend env sd) = start_container env sd"
  "be_stop_container (fake_backend env sd) = stop_container env sd"
  "be_remove_container (fake_backend env sd) = remove_container env sd"
  "be_container_status (fake_backend env sd) c st = (container_status c st, st)"
  "be_list_containers (fake_backend env sd) cf st = (Inr (list_containers cf st), st)"
  "be_exec_sync (fake_backend env sd) = exec_sync env"
  "be_pull_image (fake_backend env sd) = pull_image env sd"
  "be_image_status (fake_backend env sd) r st = (Inr (image_status r st), st)"
  "be_list_images (fake_backend env sd) st = (Inr (list_images st), st)"
  "be_remove_image (fake_backend env sd) = remove_image env"
  "be_container_stats (fake_backend env sd) = container_stats env"
  by (simp_all add: fake_backend_def pure_result_def)

section \<open>What each operation leaves to be read\<close>

lemma sound_keys: "sound_op env sd m \<Longrightarrow> keys_ok st \<Longrightarrow> keys_ok (snd (m st))"
  using sound_opD prims_keys_ok by blast

lemma run_sandbox_status:
  assumes "run_sandbox env sd cfg st = (Inr i, st')"
  shows "\<exists>ss. sandbox_status i st' = Inr ss \<and> ss_id ss = i \<and> ss_config ss = cfg \<and> ss_state ss = Ready"
  using assms
  by (auto simp: run_sandbox_def bindE_def sandbox_status_def sandbox_rec_to_status_def put_sandbox_def
      Let_def split: prod.splits sum.splits)

lemma stop_sandbox_status:
  assumes "keys_ok st" and "stop_sandbox env sd i st = (Inr (), st')" and "sandbox_status i st = Inr ss"
  shows "\<exists>ss'. sandbox_status i st' = Inr ss' \<and> ss_state ss' = NotReady"
proof -
  obtain r where r: "map_of (sandboxes st) i = Some r"
    using assms(3) by (auto simp: sandbox_status_def split: option.splits)
  then have "sr_id r = i"
    using assms(1) by (simp add: keys_ok_def)
  let ?st = "if sr_state r = NotReady then st else put_sandbox (r\<lparr>sr_state := NotReady\<rparr>) st"
  have "fk_cache st' = fk_cache ?st"
    using r assms(2) persist_sandbox_frame(1) unfolding stop_sandbox_def
    by (auto simp: Let_def split: if_splits) (metis persist_sandbox_frame(1) snd_conv)
  then show ?thesis
    using r \<open>sr_id r = i\<close>
    by (auto simp: sandbox_status_def sandbox_rec_to_status_def put_sandbox_def split: if_splits)
qed

lemma remove_sandbox_absent:
  assumes "remove_sandbox env sd i st = (Inr (), st')" and "keys_ok st"
  shows "map_of (sandboxes st') i = None"
proof (cases "map_of (sandboxes st) i")
  case None
  then show ?thesis
    using assms(1) by (simp add: remove_sandbox_def stop_sandbox_def bindE_def)
next
  case (Some s)
  then show ?thesis
    by (rule remove_sandbox_gone(1) [OF assms])
qed

lemma create_container_status:
  assumes "create_container env sd i cfg st = (Inr c, st')"
  shows "\<exists>cs. container_status c st' = Inr cs \<and> cs_id cs = c \<and> cs_sandbox cs = i \<and>
    cs_state cs = Created \<and> cs_config cs\<lparr>cc_log_path := cc_log_path cfg\<rparr> = cfg"
  using assms
  by (auto simp: create_container_def bindE_def container_status_def rec_to_status_def put_container_def
      Let_def split: prod.splits sum.splits option.splits if_splits)

lemma list_containers_status:
  assumes "keys_ok st" and "cf_label_selector flt = []"
  shows "cs \<in> set (list_containers flt st) \<longleftrightarrow>
    container_status (cs_id cs) st = Inr cs \<and>
    (case cf_id flt of None \<Rightarrow> True | Some c \<Rightarrow> cs_id cs = c) \<and>
    (case cf_sandbox flt of None \<Rightarrow> True | Some i \<Rightarrow> cs_sandbox cs = i) \<and>
    (case cf_state flt of None \<Rightarrow> True | Some s \<Rightarrow> cs_state cs = s)"
proof -
  have f [simp]: "cs_id (rec_to_status r d) = cr_id r" "cs_sandbox (rec_to_status r d) = cr_sandbox r"
    "cs_state (rec_to_status r d) = cr_state r" for r d
    by (simp_all add: rec_to_status_def Let_def case_prod_unfold)
  have v: "r \<in> set (bt_values (containers st)) \<longleftrightarrow> map_of (containers st) (cr_id r) = Some r" for r
    using assms(1) by (auto simp: keys_ok_def bt_values_iff)
  show ?thesis
  proof
    assume "cs \<in> set (list_containers flt st)"
    then obtain r where r: "r \<in> set (bt_values (containers st))" "container_matches r flt"
        "cs = rec_to_status r (sandbox_log_dir st (cr_sandbox r))"
      by (auto simp: list_containers_def)
    then show "container_status (cs_id cs) st = Inr cs \<and>
      (case cf_id flt of None \<Rightarrow> True | Some c \<Rightarrow> cs_id cs = c) \<and>
      (case cf_sandbox flt of None \<Rightarrow> True | Some i \<Rightarrow> cs_sandbox cs = i) \<and>
      (case cf_state flt of None \<Rightarrow> True | Some s \<Rightarrow> cs_state cs = s)"
      using v by (auto simp: container_status_def container_matches_def split: option.splits)
  next
    assume a: "container_status (cs_id cs) st = Inr cs \<and>
      (case cf_id flt of None \<Rightarrow> True | Some c \<Rightarrow> cs_id cs = c) \<and>
      (case cf_sandbox flt of None \<Rightarrow> True | Some i \<Rightarrow> cs_sandbox cs = i) \<and>
      (case cf_state flt of None \<Rightarrow> True | Some s \<Rightarrow> cs_state cs = s)"
    then obtain r where r: "map_of (containers st) (cs_id cs) = Some r"
        "rec_to_status r (sandbox_log_dir st (cr_sandbox r)) = cs"
      by (auto simp: container_status_def split: option.splits)
    then have id: "cr_id r = cs_id cs" "cr_sandbox r = cs_sandbox cs" "cr_state r = cs_state cs"
      using f by metis+
    then have "container_matches r flt"
      using a assms(2) by (auto simp: container_matches_def labels_match_def split: option.splits)
    moreover have "r \<in> set (bt_values (containers st))"
      using r(1) id v by simp
    ultimately show "cs \<in> set (list_containers flt st)"
      using r(2) by (force simp: list_containers_def)
  qed
qed

section \<open>The laws of the seam\<close>

interpretation fake: cri_backend "fake_backend env sd" keys_ok for env sd
proof (unfold_locales, goal_cases)
  case (5 st cfg) then show ?case using sound_keys [OF run_sandbox_sound] by simp
next
  case (6 st i) then show ?case using sound_keys [OF stop_sandbox_sound] by simp
next
  case (7 st i) then show ?case using sound_keys [OF remove_sandbox_sound] by simp
next
  case (8 st i ccfg) then show ?case using sound_keys [OF create_container_sound] by simp
next
  case (9 st c) then show ?case using sound_keys [OF start_container_sound] by simp
next
  case (10 st c g) then show ?case using sound_keys [OF stop_container_sound] by simp
next
  case (11 st c) then show ?case using sound_keys [OF remove_container_sound] by simp
next
  case (12 cfg st i st') then show ?case by (simp add: run_sandbox_status)
next
  case (13 st i st' ss) then show ?case by (simp add: stop_sandbox_status)
next
  case (14 st i st') then show ?case
    using remove_sandbox_absent [of env sd i st st'] by (simp add: sandbox_status_def sandbox_NotFound_def)
next
  case (15 st i ss) then show ?case
    by (auto simp: sandbox_status_def sandbox_rec_to_status_def keys_ok_def split: option.splits)
next
  case (16 st c cs) then show ?case
    by (auto simp: container_status_def rec_to_status_def keys_ok_def Let_def case_prod_unfold
        split: option.splits)
next
  case (17 i ccfg st c st') then show ?case
    by (auto simp: create_container_def sandbox_status_def sandbox_rec_to_status_def
        split: option.splits if_splits)
next
  case (18 i ccfg st c st') then show ?case by (simp add: create_container_status)
next
  case (19 st c st') then show ?case
    using remove_container_gone by (fastforce simp: container_status_def container_NotFound_def)
next
  case (20 st cf) then show ?case by (simp add: list_containers_status)
qed simp_all

text \<open>While the disk works and no CNI is configured the fake is reliable.\<close>

definition no_cni :: "Env \<Rightarrow> bool" where
  "no_cni env \<longleftrightarrow> (\<forall>t. ev_cni_available env t = None)"

lemma run_sandbox_succeeds:
  assumes "serde_ok sd" and "disk_ok env" and "no_cni env"
  shows "\<exists>i st'. run_sandbox env sd cfg st = (Inr i, st') \<and> images st' = images st"
proof -
  obtain name st1 where n: "new_id env ''sb-'' st = (name, st1)" by force
  have 1: "images st1 = images st" using n by (auto simp: new_id_def ask_def Let_def)
  let ?st2 = "if sc_host_network cfg then st1 else st1\<lparr>fk_tick := Suc (fk_tick st1)\<rparr>"
  have net: "sandbox_network env (SandboxId name) cfg st1 = (Inr (None, None), ?st2)" "images ?st2 = images st"
    using assms(3) 1 by (simp_all add: sandbox_network_def ask_def no_cni_def)
  obtain now st3 where now: "ask (ev_now env) ?st2 = (now, st3)" "images st3 = images st"
    using net(2) by (auto simp: ask_def)
  let ?rec = "\<lparr>sr_id = SandboxId name, sr_config = cfg, sr_state = Ready, sr_created_at = now,
    sr_ip = None, sr_netns_path = None\<rparr>"
  obtain st4 where p: "persist_sandbox env sd ?rec st3 = (Inr (), st4)"
    using persist_ok(2) [OF assms(1), of env ?rec st3] assms(2) by (metis disk_ok_def prod.collapse)
  then have "images st4 = images st"
    using now(2) persist_sandbox_frame(1) [of env sd ?rec st3] by simp
  then show ?thesis
    by (simp add: run_sandbox_def n bindE_def net now p put_sandbox_def Let_def)
qed

lemma reliable_fake:
  assumes "serde_ok sd" and "disk_ok env" and "no_cni env"
  shows "reliable_backend (fake_backend env sd) keys_ok"
proof (unfold_locales, goal_cases)
  case (1 cfg s) then show ?case using run_sandbox_succeeds [OF assms] by fastforce
next
  case (2 i s) then show ?case by (simp add: stop_sandbox_ok assms)
next
  case (3 i s) then show ?case by (simp add: remove_sandbox_ok assms)
qed

text \<open>A serialiser that keeps the record as it is, under a tag; and an environment whose disk
  works and that has no CNI.\<close>

definition tagged_serde :: "(SandboxRecord + ContainerRecord + ImageDiskRecord) Serde" where
  "tagged_serde = \<lparr>ser_sandbox = (\<lambda>r. Inr (Inl r)),
     de_sandbox = (\<lambda>f. case f of Inl r \<Rightarrow> Some r | _ \<Rightarrow> None),
     ser_container = (\<lambda>r. Inr (Inr (Inl r))),
     de_container = (\<lambda>f. case f of Inr (Inl r) \<Rightarrow> Some r | _ \<Rightarrow> None),
     ser_image = (\<lambda>r. Inr (Inr (Inr r))),
     de_image = (\<lambda>f. case f of Inr (Inr r) \<Rightarrow> Some r | _ \<Rightarrow> None)\<rparr>"

definition working :: "Env \<Rightarrow> Env" where
  "working env = env\<lparr>ev_write := (\<lambda>_. None), ev_unlink := (\<lambda>_. True), ev_cni_available := (\<lambda>_. None)\<rparr>"

lemma tagged_serde_ok [simp]: "serde_ok tagged_serde"
  by (simp add: serde_ok_def tagged_serde_def)

lemma working_ok [simp]: "disk_ok (working env)" "no_cni (working env)"
  by (simp_all add: working_def disk_ok_def no_cni_def)

interpretation working: reliable_backend "fake_backend (working env) tagged_serde" keys_ok for env
  by (rule reliable_fake) simp_all

end
