(* ===== verification/Cri_Messages.thy ===== *)
theory Cri_Messages
  imports Cri_Vocab
begin

text \<open>
  The CRI messages the shell reads and builds (\<open>lightr-cri-proto\<close>, generated by the protobuf
  compiler), with the fields the shell uses.  A field the shell always leaves at its default is
  not listed.  A protobuf map is a \<open>HashMap\<close>; it is modelled by its content, as the ordered map
  with the same entries, so collecting it into a \<open>BTreeMap\<close> and back is the identity.  An
  enumeration travels as an \<open>i32\<close> and may have any value.
\<close>

section \<open>Enumerations\<close>

definition SandboxReady :: i32 where "SandboxReady = 0"
definition SandboxNotready :: i32 where "SandboxNotready = 1"

definition ContainerCreated :: i32 where "ContainerCreated = 0"
definition ContainerRunning :: i32 where "ContainerRunning = 1"
definition ContainerExited :: i32 where "ContainerExited = 2"
definition ContainerUnknown :: i32 where "ContainerUnknown = 3"

definition ProtocolTcp :: i32 where "ProtocolTcp = 0"
definition ProtocolUdp :: i32 where "ProtocolUdp = 1"
definition ProtocolSctp :: i32 where "ProtocolSctp = 2"

definition NamespacePod :: i32 where "NamespacePod = 0"
definition NamespaceNode :: i32 where "NamespaceNode = 2"

lemmas enum_defs = SandboxReady_def SandboxNotready_def ContainerCreated_def ContainerRunning_def
  ContainerExited_def ContainerUnknown_def ProtocolTcp_def ProtocolUdp_def ProtocolSctp_def
  NamespacePod_def NamespaceNode_def

section \<open>Sandboxes\<close>

record PodSandboxMetadata =
  pmd_name :: string
  pmd_uid :: string
  pmd_namespace :: string
  pmd_attempt :: u32

record ProtoDnsConfig =
  pdc_servers :: "string list"
  pdc_searches :: "string list"
  pdc_options :: "string list"

record ProtoPortMapping =
  ppm_protocol :: i32
  ppm_container_port :: i32
  ppm_host_port :: i32
  ppm_host_ip :: string

record NamespaceOption =
  no_network :: i32

record LinuxSandboxSecurityContext =
  ls_namespace_options :: "NamespaceOption option"

record LinuxPodSandboxConfig =
  lp_security_context :: "LinuxSandboxSecurityContext option"

record PodSandboxConfig =
  pc_metadata :: "PodSandboxMetadata option"
  pc_hostname :: string
  pc_log_directory :: string
  pc_dns_config :: "ProtoDnsConfig option"
  pc_port_mappings :: "ProtoPortMapping list"
  pc_labels :: "(string, string) btree"
  pc_annotations :: "(string, string) btree"
  pc_linux :: "LinuxPodSandboxConfig option"

record PodSandboxStatus =
  pss_id :: string
  pss_metadata :: "PodSandboxMetadata option"
  pss_state :: i32
  pss_created_at :: i64
  pss_network_ip :: string
  pss_labels :: "(string, string) btree"
  pss_annotations :: "(string, string) btree"

record PodSandbox =
  ps_id :: string
  ps_metadata :: "PodSandboxMetadata option"
  ps_state :: i32
  ps_created_at :: i64
  ps_labels :: "(string, string) btree"
  ps_annotations :: "(string, string) btree"

record PodSandboxFilter =
  psf_id :: string
  psf_state :: "i32 option"
  psf_label_selector :: "(string, string) btree"

section \<open>Containers\<close>

record ContainerMetadata =
  cm_name :: string
  cm_attempt :: u32

record ProtoMount =
  pmt_container_path :: string
  pmt_host_path :: string
  pmt_readonly :: bool

record KeyValue =
  kv_key :: string
  kv_value :: string

record ProtoContainerConfig =
  pcc_metadata :: "ContainerMetadata option"
  pcc_image :: "string option"
  pcc_command :: "string list"
  pcc_args :: "string list"
  pcc_working_dir :: string
  pcc_envs :: "KeyValue list"
  pcc_mounts :: "ProtoMount list"
  pcc_labels :: "(string, string) btree"
  pcc_annotations :: "(string, string) btree"
  pcc_log_path :: string
  pcc_tty :: bool
  pcc_stdin :: bool

record ProtoContainerStatus =
  pcs_id :: string
  pcs_metadata :: "ContainerMetadata option"
  pcs_state :: i32
  pcs_created_at :: i64
  pcs_started_at :: i64
  pcs_finished_at :: i64
  pcs_exit_code :: i32
  pcs_image :: "string option"
  pcs_image_ref :: string
  pcs_image_id :: string
  pcs_reason :: string
  pcs_message :: string
  pcs_labels :: "(string, string) btree"
  pcs_annotations :: "(string, string) btree"
  pcs_mounts :: "ProtoMount list"
  pcs_log_path :: string

record ProtoContainer =
  pct_id :: string
  pct_pod_sandbox_id :: string
  pct_metadata :: "ContainerMetadata option"
  pct_image :: "string option"
  pct_image_ref :: string
  pct_image_id :: string
  pct_state :: i32
  pct_created_at :: i64
  pct_labels :: "(string, string) btree"
  pct_annotations :: "(string, string) btree"

record ProtoContainerFilter =
  pcf_id :: string
  pcf_pod_sandbox_id :: string
  pcf_state :: "i32 option"
  pcf_label_selector :: "(string, string) btree"

record ContainerStatsFilter =
  csf_id :: string
  csf_pod_sandbox_id :: string
  csf_label_selector :: "(string, string) btree"

record ContainerStats =
  pst_id :: string
  pst_metadata :: "ContainerMetadata option"
  pst_labels :: "(string, string) btree"
  pst_annotations :: "(string, string) btree"
  pst_timestamp :: i64
  pst_cpu_usage :: u64
  pst_working_set :: u64
  pst_writable_used :: u64

section \<open>Images and the runtime\<close>

record ProtoImage =
  pim_id :: string
  pim_repo_tags :: "string list"
  pim_repo_digests :: "string list"
  pim_size :: u64

record FilesystemUsage =
  fu_timestamp :: i64
  fu_mountpoint :: string
  fu_used_bytes :: u64
  fu_inodes_used :: u64

record RuntimeCondition =
  rc_type :: string
  rc_status :: bool
  rc_reason :: string
  rc_message :: string

record VersionResponse =
  vr_version :: string
  vr_runtime_name :: string
  vr_runtime_version :: string
  vr_runtime_api_version :: string

section \<open>Streaming requests\<close>

record ExecRequest =
  xr_container_id :: string
  xr_cmd :: "string list"
  xr_tty :: bool
  xr_stdin :: bool

record PortForwardRequest =
  fr_pod_sandbox_id :: string
  fr_port :: "i32 list"

end
