(* ===== verification/Shell_Runtime.thy ===== *)
theory Shell_Runtime
  imports Cri_Messages Cri_Seam
begin

text \<open>
  The runtime service of the RPC shell (\<open>lightr-cri-shell/src/runtime.rs\<close> and the error mapping of
  its \<open>lib.rs\<close>).  The shell holds the backend, the token registry and the base URL of the
  stream server and nothing else; a handler is a function from a request and that state to
  a gRPC status or a response, and the state.

  \<open>spawn_blocking\<close> runs the backend call on another thread and hands its result over; its
  \<open>JoinError\<close> needs a panic of the backend, which is outside the model.
\<close>

section \<open>State and errors\<close>

text \<open>The UTF-8 bytes of the dash and the section sign of the messages.\<close>

definition em_dash :: string where "em_dash = [CHR 0xE2, CHR 0x80, CHR 0x94]"
definition section_sign :: string where "section_sign = [CHR 0xC2, CHR 0xA7]"

datatype GrpcCode =
    InvalidArgumentCode | NotFoundCode | AlreadyExistsCode | FailedPreconditionCode
  | InternalCode | ResourceExhaustedCode | UnimplementedCode

datatype GrpcStatus = GrpcStatus (code: GrpcCode) (status_message: string)

record 's Shell =
  sh_backend :: 's
  sh_registry :: TokenRegistry
  sh_base_url :: string

type_synonym ('s, 'a) rpc = "'s Shell \<Rightarrow> (GrpcStatus + 'a) \<times> 's Shell"

fun map_err :: "BackendError \<Rightarrow> GrpcStatus" where
  "map_err (NotFound m) = GrpcStatus NotFoundCode (error_to_string (NotFound m))"
| "map_err (AlreadyExists m) = GrpcStatus AlreadyExistsCode (error_to_string (AlreadyExists m))"
| "map_err (InvalidArgument m) = GrpcStatus InvalidArgumentCode (error_to_string (InvalidArgument m))"
| "map_err (FailedPrecondition m) =
     GrpcStatus FailedPreconditionCode (error_to_string (FailedPrecondition m))"
| "map_err (InUse m) = GrpcStatus FailedPreconditionCode (error_to_string (InUse m))"
| "map_err (Internal m) = GrpcStatus InternalCode (error_to_string (Internal m))"
| "map_err (Io m) = GrpcStatus InternalCode (error_to_string (Io m))"

definition blocking :: "('s \<Rightarrow> 'a result \<times> 's) \<Rightarrow> ('s, 'a) rpc" where
  "blocking f sh =
     (let (r, s) = f (sh_backend sh)
      in (case r of Inl e \<Rightarrow> Inl (map_err e) | Inr x \<Rightarrow> Inr x, sh\<lparr>sh_backend := s\<rparr>))"

definition bindR :: "('s, 'a) rpc \<Rightarrow> ('a \<Rightarrow> ('s, 'b) rpc) \<Rightarrow> ('s, 'b) rpc" where
  "bindR m k sh = (case m sh of (Inl e, sh') \<Rightarrow> (Inl e, sh') | (Inr x, sh') \<Rightarrow> k x sh')"

definition respond :: "'a \<Rightarrow> ('s, 'a) rpc" where
  "respond x sh = (Inr x, sh)"

definition refuse :: "GrpcCode \<Rightarrow> string \<Rightarrow> ('s, 'a) rpc" where
  "refuse c m sh = (Inl (GrpcStatus c m), sh)"

definition required :: "string \<Rightarrow> 'a option \<Rightarrow> ('s, 'a) rpc" where
  "required what v =
     (case v of None \<Rightarrow> refuse InvalidArgumentCode (what @ '' is required'') | Some x \<Rightarrow> respond x)"

text \<open>\<open>now\<close> and \<open>rnd\<close> are the clock and the random source of the registry.\<close>

definition mint_url :: "nat \<Rightarrow> (nat \<Rightarrow> bytes option) \<Rightarrow> StreamVerb \<Rightarrow> StreamParams \<Rightarrow> ('s, string) rpc" where
  "mint_url now rnd verb params sh =
     (let (token, reg) = mint now rnd verb params (sh_registry sh);
          sh = sh\<lparr>sh_registry := reg\<rparr>
      in case token of
           None \<Rightarrow> refuse ResourceExhaustedCode ''too many streaming tokens in flight'' sh
         | Some t \<Rightarrow> respond (sh_base_url sh @ ''/'' @ verb_path verb @ ''/'' @ t) sh)"

section \<open>Mapping\<close>

fun map_sandbox_state :: "SandboxState \<Rightarrow> i32" where
  "map_sandbox_state Ready = SandboxReady"
| "map_sandbox_state NotReady = SandboxNotready"

fun map_container_state :: "ContainerState \<Rightarrow> i32" where
  "map_container_state Created = ContainerCreated"
| "map_container_state Running = ContainerRunning"
| "map_container_state Exited = ContainerExited"
| "map_container_state Unknown = ContainerUnknown"

definition proto_sandbox_filter :: "PodSandboxFilter option \<Rightarrow> SandboxFilter" where
  "proto_sandbox_filter f =
     (case f of
        None \<Rightarrow> default_sandbox_filter
      | Some f \<Rightarrow>
          \<lparr>sf_id = (if psf_id f = [] then None else Some (SandboxId (psf_id f))),
           sf_state = map_option (\<lambda>sv. if sv = SandboxReady then Ready else NotReady) (psf_state f),
           sf_label_selector = psf_label_selector f\<rparr>)"

definition proto_container_filter :: "ProtoContainerFilter option \<Rightarrow> ContainerFilter" where
  "proto_container_filter f =
     (case f of
        None \<Rightarrow> default_container_filter
      | Some f \<Rightarrow>
          \<lparr>cf_id = (if pcf_id f = [] then None else Some (ContainerId (pcf_id f))),
           cf_sandbox = (if pcf_pod_sandbox_id f = [] then None else Some (SandboxId (pcf_pod_sandbox_id f))),
           cf_state = map_option (\<lambda>x. if x = ContainerCreated then Created
             else if x = ContainerRunning then Running
             else if x = ContainerExited then Exited else Unknown) (pcf_state f),
           cf_label_selector = pcf_label_selector f\<rparr>)"

definition proto_stats_filter :: "ContainerStatsFilter option \<Rightarrow> ContainerFilter" where
  "proto_stats_filter f =
     (case f of
        None \<Rightarrow> default_container_filter
      | Some f \<Rightarrow>
          \<lparr>cf_id = (if csf_id f = [] then None else Some (ContainerId (csf_id f))),
           cf_sandbox = (if csf_pod_sandbox_id f = [] then None else Some (SandboxId (csf_pod_sandbox_id f))),
           cf_state = None, cf_label_selector = csf_label_selector f\<rparr>)"

definition decode_dns :: "ProtoDnsConfig option \<Rightarrow> DnsConfig option" where
  "decode_dns d = map_option (\<lambda>d. \<lparr>dns_servers = pdc_servers d, dns_searches = pdc_searches d,
     dns_options = pdc_options d\<rparr>) d"

definition decode_port_mapping :: "ProtoPortMapping \<Rightarrow> PortMapping" where
  "decode_port_mapping pm =
     \<lparr>pm_protocol = (if ppm_protocol pm = ProtocolUdp then Udp
        else if ppm_protocol pm = ProtocolSctp then Sctp else Tcp),
      pm_container_port = ppm_container_port pm, pm_host_port = ppm_host_port pm,
      pm_host_ip = ppm_host_ip pm\<rparr>"

definition decode_host_network :: "LinuxPodSandboxConfig option \<Rightarrow> bool" where
  "decode_host_network linux =
     (case Option.bind (Option.bind linux lp_security_context) ls_namespace_options of
        None \<Rightarrow> False | Some ns \<Rightarrow> no_network ns = NamespaceNode)"

section \<open>Building responses\<close>

definition sandbox_metadata :: "SandboxConfig \<Rightarrow> PodSandboxMetadata" where
  "sandbox_metadata cfg = \<lparr>pmd_name = sc_name cfg, pmd_uid = sc_uid cfg,
     pmd_namespace = sc_namespace cfg, pmd_attempt = sc_attempt cfg\<rparr>"

definition build_sandbox_status :: "SandboxStatus \<Rightarrow> PodSandboxStatus" where
  "build_sandbox_status s =
     \<lparr>pss_id = sid_0 (ss_id s), pss_metadata = Some (sandbox_metadata (ss_config s)),
      pss_state = map_sandbox_state (ss_state s), pss_created_at = ss_created_at s,
      pss_network_ip = (case ss_ip s of None \<Rightarrow> [] | Some ip \<Rightarrow> ip),
      pss_labels = sc_labels (ss_config s), pss_annotations = sc_annotations (ss_config s)\<rparr>"

definition build_pod_sandbox :: "SandboxStatus \<Rightarrow> PodSandbox" where
  "build_pod_sandbox s =
     \<lparr>ps_id = sid_0 (ss_id s), ps_metadata = Some (sandbox_metadata (ss_config s)),
      ps_state = map_sandbox_state (ss_state s), ps_created_at = ss_created_at s,
      ps_labels = sc_labels (ss_config s), ps_annotations = sc_annotations (ss_config s)\<rparr>"

definition container_metadata :: "ContainerConfig \<Rightarrow> ContainerMetadata" where
  "container_metadata cfg = \<lparr>cm_name = cc_name cfg, cm_attempt = cc_attempt cfg\<rparr>"

definition build_mount :: "Mount \<Rightarrow> ProtoMount" where
  "build_mount m = \<lparr>pmt_container_path = mt_container_path m, pmt_host_path = mt_host_path m,
     pmt_readonly = mt_readonly m\<rparr>"

definition build_container_status :: "ContainerStatus \<Rightarrow> ProtoContainerStatus" where
  "build_container_status cs =
     \<lparr>pcs_id = cid_0 (cs_id cs), pcs_metadata = Some (container_metadata (cs_config cs)),
      pcs_state = map_container_state (cs_state cs), pcs_created_at = cs_created_at cs,
      pcs_started_at = cs_started_at cs, pcs_finished_at = cs_finished_at cs,
      pcs_exit_code = cs_exit_code cs, pcs_image = Some (cc_image_ref (cs_config cs)),
      pcs_image_ref = cc_image_ref (cs_config cs), pcs_image_id = cc_image_ref (cs_config cs),
      pcs_reason = cs_reason cs, pcs_message = cs_message cs,
      pcs_labels = cc_labels (cs_config cs), pcs_annotations = cc_annotations (cs_config cs),
      pcs_mounts = map build_mount (cc_mounts (cs_config cs)),
      pcs_log_path = cc_log_path (cs_config cs)\<rparr>"

definition build_container :: "ContainerStatus \<Rightarrow> ProtoContainer" where
  "build_container cs =
     \<lparr>pct_id = cid_0 (cs_id cs), pct_pod_sandbox_id = sid_0 (cs_sandbox cs),
      pct_metadata = Some (container_metadata (cs_config cs)),
      pct_image = Some (cc_image_ref (cs_config cs)), pct_image_ref = cc_image_ref (cs_config cs),
      pct_image_id = cc_image_ref (cs_config cs), pct_state = map_container_state (cs_state cs),
      pct_created_at = cs_created_at cs, pct_labels = cc_labels (cs_config cs),
      pct_annotations = cc_annotations (cs_config cs)\<rparr>"

definition build_container_stats :: "ContainerStatsRec \<Rightarrow> ContainerStatus option \<Rightarrow> ContainerStats" where
  "build_container_stats rec status =
     \<lparr>pst_id = cid_0 (st_id rec), pst_metadata = map_option (\<lambda>s. container_metadata (cs_config s)) status,
      pst_labels = (case status of None \<Rightarrow> [] | Some s \<Rightarrow> cc_labels (cs_config s)),
      pst_annotations = (case status of None \<Rightarrow> [] | Some s \<Rightarrow> cc_annotations (cs_config s)),
      pst_timestamp = st_timestamp rec, pst_cpu_usage = st_cpu_usage rec,
      pst_working_set = st_memory_working_set rec, pst_writable_used = 0\<rparr>"

section \<open>Validation\<close>

text \<open>The \<open>Debug\<close> forms of the states.\<close>

fun container_state_debug :: "ContainerState \<Rightarrow> string" where
  "container_state_debug Created = ''Created''"
| "container_state_debug Running = ''Running''"
| "container_state_debug Exited = ''Exited''"
| "container_state_debug Unknown = ''Unknown''"

fun sandbox_state_debug :: "SandboxState \<Rightarrow> string" where
  "sandbox_state_debug Ready = ''Ready''"
| "sandbox_state_debug NotReady = ''NotReady''"

definition validate_container_running :: "'s CriBackend \<Rightarrow> ContainerId \<Rightarrow> ('s, unit) rpc" where
  "validate_container_running be i =
     bindR (blocking (be_container_status be i)) (\<lambda>cs.
       if cs_state cs \<noteq> Running then
         refuse FailedPreconditionCode (''container '' @ cid_0 i @ '' is not Running (state=''
           @ container_state_debug (cs_state cs) @ '')'')
       else respond ())"

definition validate_sandbox_ready_get_ip :: "'s CriBackend \<Rightarrow> SandboxId \<Rightarrow> ('s, string \<times> string option) rpc" where
  "validate_sandbox_ready_get_ip be i =
     bindR (blocking (be_sandbox_status be i)) (\<lambda>ss.
       if ss_state ss \<noteq> Ready then
         refuse FailedPreconditionCode (''sandbox '' @ sid_0 i @ '' is not Ready (state=''
           @ sandbox_state_debug (ss_state ss) @ '')'')
       else respond
         (if ss_netns_path ss \<noteq> None then ''127.0.0.1''
          else case ss_ip ss of Some ip \<Rightarrow> ip | None \<Rightarrow> ''127.0.0.1'',
          ss_netns_path ss))"

section \<open>The runtime service\<close>

definition version :: "string \<Rightarrow> ('s, VersionResponse) rpc" where
  "version api_version = respond
     \<lparr>vr_version = api_version, vr_runtime_name = ''lightr'', vr_runtime_version = ''0.1.0'',
      vr_runtime_api_version = ''v1''\<rparr>"

definition runtime_status :: "'s CriBackend \<Rightarrow> ('s, RuntimeCondition list) rpc" where
  "runtime_status be sh =
     (let (net_ready, s) = be_network_ready be (sh_backend sh)
      in respond
           [\<lparr>rc_type = ''RuntimeReady'', rc_status = True, rc_reason = [], rc_message = []\<rparr>,
            \<lparr>rc_type = ''NetworkReady'', rc_status = net_ready,
             rc_reason = (if net_ready then [] else ''NetworkPluginNotReady''),
             rc_message = (if net_ready then []
               else ''CNI not configured (host-network sandboxes only)'')\<rparr>]
           (sh\<lparr>sh_backend := s\<rparr>))"

definition sandbox_config :: "PodSandboxConfig \<Rightarrow> PodSandboxMetadata \<Rightarrow> SandboxConfig" where
  "sandbox_config pod_cfg meta =
     \<lparr>sc_name = pmd_name meta, sc_uid = pmd_uid meta, sc_namespace = pmd_namespace meta,
      sc_attempt = pmd_attempt meta, sc_labels = pc_labels pod_cfg,
      sc_annotations = pc_annotations pod_cfg, sc_log_directory = pc_log_directory pod_cfg,
      sc_hostname = pc_hostname pod_cfg, sc_host_network = decode_host_network (pc_linux pod_cfg),
      sc_dns = decode_dns (pc_dns_config pod_cfg),
      sc_port_mappings = map decode_port_mapping (pc_port_mappings pod_cfg)\<rparr>"

definition run_pod_sandbox :: "'s CriBackend \<Rightarrow> PodSandboxConfig option \<Rightarrow> ('s, string) rpc" where
  "run_pod_sandbox be config =
     bindR (required ''config'' config) (\<lambda>pod_cfg.
     bindR (required ''config.metadata'' (pc_metadata pod_cfg)) (\<lambda>meta.
     bindR (blocking (be_run_sandbox be (sandbox_config pod_cfg meta))) (\<lambda>i. respond (sid_0 i))))"

definition stop_pod_sandbox :: "'s CriBackend \<Rightarrow> string \<Rightarrow> ('s, unit) rpc" where
  "stop_pod_sandbox be i = blocking (be_stop_sandbox be (SandboxId i))"

definition remove_pod_sandbox :: "'s CriBackend \<Rightarrow> string \<Rightarrow> ('s, unit) rpc" where
  "remove_pod_sandbox be i = blocking (be_remove_sandbox be (SandboxId i))"

definition pod_sandbox_status :: "'s CriBackend \<Rightarrow> string \<Rightarrow> ('s, PodSandboxStatus) rpc" where
  "pod_sandbox_status be i =
     bindR (blocking (be_sandbox_status be (SandboxId i))) (\<lambda>s. respond (build_sandbox_status s))"

definition list_pod_sandbox :: "'s CriBackend \<Rightarrow> PodSandboxFilter option \<Rightarrow> ('s, PodSandbox list) rpc" where
  "list_pod_sandbox be flt =
     bindR (blocking (be_list_sandboxes be (proto_sandbox_filter flt)))
       (\<lambda>sbs. respond (map build_pod_sandbox sbs))"

definition container_config :: "ProtoContainerConfig \<Rightarrow> ContainerMetadata \<Rightarrow> ContainerConfig" where
  "container_config cfg meta =
     \<lparr>cc_name = cm_name meta, cc_attempt = cm_attempt meta,
      cc_image_ref = (case pcc_image cfg of None \<Rightarrow> [] | Some i \<Rightarrow> i),
      cc_command = pcc_command cfg, cc_args = pcc_args cfg, cc_working_dir = pcc_working_dir cfg,
      cc_envs = map (\<lambda>kv. (kv_key kv, kv_value kv)) (pcc_envs cfg),
      cc_mounts = map (\<lambda>m. \<lparr>mt_container_path = pmt_container_path m,
        mt_host_path = pmt_host_path m, mt_readonly = pmt_readonly m\<rparr>) (pcc_mounts cfg),
      cc_labels = pcc_labels cfg, cc_annotations = pcc_annotations cfg,
      cc_log_path = pcc_log_path cfg, cc_tty = pcc_tty cfg, cc_stdin = pcc_stdin cfg\<rparr>"

definition rpc_create_container :: "'s CriBackend \<Rightarrow> string \<Rightarrow> ProtoContainerConfig option \<Rightarrow> ('s, string) rpc" where
  "rpc_create_container be sandbox_id config =
     bindR (required ''config'' config) (\<lambda>cfg.
     bindR (required ''config.metadata'' (pcc_metadata cfg)) (\<lambda>meta.
     bindR (blocking (be_create_container be (SandboxId sandbox_id) (container_config cfg meta)))
       (\<lambda>i. respond (cid_0 i))))"

definition rpc_start_container :: "'s CriBackend \<Rightarrow> string \<Rightarrow> ('s, unit) rpc" where
  "rpc_start_container be i = blocking (be_start_container be (ContainerId i))"

definition rpc_stop_container :: "'s CriBackend \<Rightarrow> string \<Rightarrow> i64 \<Rightarrow> ('s, unit) rpc" where
  "rpc_stop_container be i grace = blocking (be_stop_container be (ContainerId i) grace)"

definition rpc_remove_container :: "'s CriBackend \<Rightarrow> string \<Rightarrow> ('s, unit) rpc" where
  "rpc_remove_container be i = blocking (be_remove_container be (ContainerId i))"

definition rpc_list_containers :: "'s CriBackend \<Rightarrow> ProtoContainerFilter option \<Rightarrow> ('s, ProtoContainer list) rpc" where
  "rpc_list_containers be flt =
     bindR (blocking (be_list_containers be (proto_container_filter flt)))
       (\<lambda>cs. respond (map build_container cs))"

definition rpc_container_status :: "'s CriBackend \<Rightarrow> string \<Rightarrow> ('s, ProtoContainerStatus) rpc" where
  "rpc_container_status be i =
     bindR (blocking (be_container_status be (ContainerId i))) (\<lambda>cs. respond (build_container_status cs))"

text \<open>\<open>status_result.ok()\<close>: a failure of the second call only drops the attributes.\<close>

definition ok_result :: "'a result \<Rightarrow> 'a option" where
  "ok_result r = (case r of Inl e \<Rightarrow> None | Inr x \<Rightarrow> Some x)"

definition rpc_container_stats :: "'s CriBackend \<Rightarrow> string \<Rightarrow> ('s, ContainerStats) rpc" where
  "rpc_container_stats be i =
     bindR (blocking (be_container_stats be (ContainerId i))) (\<lambda>rec sh.
       let (st, s) = be_container_status be (ContainerId i) (sh_backend sh)
       in respond (build_container_stats rec (ok_result st)) (sh\<lparr>sh_backend := s\<rparr>))"

definition rpc_list_container_stats :: "'s CriBackend \<Rightarrow> ContainerStatsFilter option \<Rightarrow> ('s, ContainerStats list) rpc" where
  "rpc_list_container_stats be flt =
     bindR (blocking (be_list_container_stats be (proto_stats_filter flt))) (\<lambda>recs sh.
       let (sts, s) = be_list_containers be (proto_stats_filter flt) (sh_backend sh);
           statuses = (case sts of Inl e \<Rightarrow> [] | Inr cs \<Rightarrow> cs);
           status_map = fold (\<lambda>c. bt_insert (cid_0 (cs_id c)) c) statuses []
       in respond (map (\<lambda>rec. build_container_stats rec (map_of status_map (cid_0 (st_id rec)))) recs)
            (sh\<lparr>sh_backend := s\<rparr>))"

section \<open>Exec and streaming\<close>

definition rpc_exec_sync :: "'s CriBackend \<Rightarrow> string \<Rightarrow> string list \<Rightarrow> i64 \<Rightarrow> ('s, ExecResult) rpc" where
  "rpc_exec_sync be i cmd timeout = blocking (be_exec_sync be (ContainerId i) cmd timeout)"

definition rpc_exec :: "'s CriBackend \<Rightarrow> nat \<Rightarrow> (nat \<Rightarrow> bytes option) \<Rightarrow> ExecRequest \<Rightarrow> ('s, string) rpc" where
  "rpc_exec be now rnd req =
     bindR (validate_container_running be (ContainerId (xr_container_id req))) (\<lambda>_.
       mint_url now rnd Exec
         \<lparr>sp_container = Some (xr_container_id req), sp_sandbox = None, sp_cmd = xr_cmd req,
          sp_tty = xr_tty req, sp_stdin = xr_stdin req, sp_ports = [], sp_dial_target = None,
          sp_netns_path = None\<rparr>)"

definition rpc_attach :: "'s CriBackend \<Rightarrow> nat \<Rightarrow> (nat \<Rightarrow> bytes option) \<Rightarrow> ExecRequest \<Rightarrow> ('s, string) rpc" where
  "rpc_attach be now rnd req =
     bindR (validate_container_running be (ContainerId (xr_container_id req))) (\<lambda>_.
       mint_url now rnd Attach
         \<lparr>sp_container = Some (xr_container_id req), sp_sandbox = None, sp_cmd = [],
          sp_tty = xr_tty req, sp_stdin = xr_stdin req, sp_ports = [], sp_dial_target = None,
          sp_netns_path = None\<rparr>)"

definition rpc_port_forward :: "'s CriBackend \<Rightarrow> nat \<Rightarrow> (nat \<Rightarrow> bytes option) \<Rightarrow> PortForwardRequest \<Rightarrow> ('s, string) rpc" where
  "rpc_port_forward be now rnd req =
     bindR (validate_sandbox_ready_get_ip be (SandboxId (fr_pod_sandbox_id req))) (\<lambda>(dial_target, netns_path).
       mint_url now rnd PortForward
         \<lparr>sp_container = None, sp_sandbox = Some (fr_pod_sandbox_id req), sp_cmd = [],
          sp_tty = False, sp_stdin = False, sp_ports = fr_port req,
          sp_dial_target = Some dial_target, sp_netns_path = netns_path\<rparr>)"

text \<open>The remaining methods of the service: each answers Unimplemented whatever the request.\<close>

datatype DescopedRpc =
    GetContainerEvents | UpdateRuntimeConfig | UpdateContainerResources | ReopenContainerLog
  | CheckpointContainer | PodSandboxStats | ListPodSandboxStats | ListMetricDescriptors
  | ListPodSandboxMetrics | RuntimeConfig | UpdatePodSandboxResources

fun descoped_message :: "DescopedRpc \<Rightarrow> string" where
  "descoped_message GetContainerEvents =
     ''GetContainerEvents: R2 '' @ em_dash @ '' descoped (kubelet 1.33 never calls; alpha gate off)''"
| "descoped_message UpdateRuntimeConfig =
     ''UpdateRuntimeConfig: not implemented (kubelet 1.33 never calls)''"
| "descoped_message UpdateContainerResources =
     ''UpdateContainerResources: R2 '' @ em_dash @ '' see whitepaper '' @ section_sign @ ''11''"
| "descoped_message ReopenContainerLog =
     ''ReopenContainerLog: R2 '' @ em_dash @ '' see whitepaper '' @ section_sign @ ''11''"
| "descoped_message CheckpointContainer =
     ''CheckpointContainer: R2 '' @ em_dash @ '' see whitepaper '' @ section_sign @ ''11''"
| "descoped_message PodSandboxStats =
     ''PodSandboxStats: R2 '' @ em_dash @ '' descoped (kubelet 1.33 never calls; alpha gate off)''"
| "descoped_message ListPodSandboxStats =
     ''ListPodSandboxStats: R2 '' @ em_dash @ '' descoped (kubelet 1.33 never calls; alpha gate off)''"
| "descoped_message ListMetricDescriptors =
     ''ListMetricDescriptors: R2 '' @ em_dash @ '' see whitepaper '' @ section_sign @ ''11''"
| "descoped_message ListPodSandboxMetrics =
     ''ListPodSandboxMetrics: R2 '' @ em_dash @ '' see whitepaper '' @ section_sign @ ''11''"
| "descoped_message RuntimeConfig =
     ''RuntimeConfig: not implemented (kubelet 1.33 never calls; alpha gate off)''"
| "descoped_message UpdatePodSandboxResources =
     ''UpdatePodSandboxResources: R2 '' @ em_dash @ '' see whitepaper '' @ section_sign @ ''11''"

definition descoped :: "DescopedRpc \<Rightarrow> ('s, unit) rpc" where
  "descoped r = refuse UnimplementedCode (descoped_message r)"

end
