(* ===== verification/Shell_Image.thy ===== *)
theory Shell_Image
  imports Shell_Runtime
begin

text \<open>
  The image service of the RPC shell (\<open>lightr-cri-shell/src/image.rs\<close>).  A request's optional
  \<open>ImageSpec\<close> is its reference; none is the empty reference.
\<close>

text \<open>\<open>rsplit('/').next()\<close> is what follows the last slash.\<close>

definition last_segment :: "string \<Rightarrow> string" where
  "last_segment s = last (split_on (CHR ''/'') s)"

definition tagged :: "string \<Rightarrow> string" where
  "tagged ref_name =
     (if CHR '':'' \<in> set (last_segment ref_name) then ref_name else ref_name @ '':latest'')"

definition record_to_proto :: "ImageRecord \<Rightarrow> ProtoImage" where
  "record_to_proto r = \<lparr>pim_id = im_id r, pim_repo_tags = [tagged (im_ref_name r)],
     pim_repo_digests = [im_id r], pim_size = im_size r\<rparr>"

definition ref_of :: "string option \<Rightarrow> string" where
  "ref_of spec = (case spec of None \<Rightarrow> [] | Some r \<Rightarrow> r)"

definition rpc_pull_image :: "'s CriBackend \<Rightarrow> string option \<Rightarrow> ('s, string) rpc" where
  "rpc_pull_image be spec =
     bindR (blocking (be_pull_image be (ref_of spec))) (\<lambda>pulled. respond (''blake3:'' @ pi_root_hex pulled))"

definition rpc_image_status :: "'s CriBackend \<Rightarrow> string option \<Rightarrow> ('s, ProtoImage option) rpc" where
  "rpc_image_status be spec =
     bindR (blocking (be_image_status be (ref_of spec))) (\<lambda>r. respond (map_option record_to_proto r))"

definition rpc_list_images :: "'s CriBackend \<Rightarrow> string option \<Rightarrow> ('s, ProtoImage list) rpc" where
  "rpc_list_images be flt =
     (let filter_ref = (case flt of None \<Rightarrow> None | Some s \<Rightarrow> if s = [] then None else Some s)
      in bindR (blocking (be_list_images be)) (\<lambda>records.
           respond (map record_to_proto (filter (\<lambda>r.
             case filter_ref of
               Some needle \<Rightarrow> im_ref_name r = needle \<or> im_id r = needle \<or> tagged (im_ref_name r) = needle
             | None \<Rightarrow> True) records))))"

definition rpc_remove_image :: "'s CriBackend \<Rightarrow> string option \<Rightarrow> ('s, unit) rpc" where
  "rpc_remove_image be spec = blocking (be_remove_image be (ref_of spec))"

definition rpc_image_fs_info :: "'s CriBackend \<Rightarrow> ('s, FilesystemUsage list) rpc" where
  "rpc_image_fs_info be =
     bindR (blocking (be_image_fs_info be)) (\<lambda>info. respond
       [\<lparr>fu_timestamp = fi_timestamp info, fu_mountpoint = fi_mountpoint info,
         fu_used_bytes = fi_used_bytes info, fu_inodes_used = fi_inodes_used info\<rparr>])"

end
