(* ===== verification/Grpc_Router.thy ===== *)
theory Grpc_Router
  imports Fake_Backend Fake_Props Shell_Image
begin

text \<open>
  The generated gRPC servers (\<open>lightr-cri-proto/src/generated/runtime.v1.rs\<close>,
  \<open>RuntimeServiceServer::call\<close> and \<open>ImageServiceServer::call\<close>) in front of the shell: the path of a
  request selects the method, the method's codec reads the body, the shell's handler runs, and the
  codec writes the answer.  The codecs are derived by prost, which the repository only calls: they
  are the parameter \<open>Wire\<close>.  Compression and size limits are part of them.
\<close>

section \<open>Unary methods\<close>

record ('q, 'p) Codec =
  cd_decode :: "bytes \<Rightarrow> GrpcStatus + 'q"
  cd_encode :: "'p \<Rightarrow> bytes"

text \<open>A request message has the fields its handler reads.\<close>

record Wire =
  wr_version :: "(string, VersionResponse) Codec"
  wr_run_pod_sandbox :: "(PodSandboxConfig option, string) Codec"
  wr_stop_pod_sandbox :: "(string, unit) Codec"
  wr_remove_pod_sandbox :: "(string, unit) Codec"
  wr_pod_sandbox_status :: "(string, PodSandboxStatus) Codec"
  wr_list_pod_sandbox :: "(PodSandboxFilter option, PodSandbox list) Codec"
  wr_create_container :: "(string \<times> ProtoContainerConfig option, string) Codec"
  wr_start_container :: "(string, unit) Codec"
  wr_stop_container :: "(string \<times> i64, unit) Codec"
  wr_remove_container :: "(string, unit) Codec"
  wr_list_containers :: "(ProtoContainerFilter option, ProtoContainer list) Codec"
  wr_container_status :: "(string, ProtoContainerStatus) Codec"
  wr_exec_sync :: "(string \<times> string list \<times> i64, ExecResult) Codec"
  wr_exec :: "(ExecRequest, string) Codec"
  wr_attach :: "(ExecRequest, string) Codec"
  wr_port_forward :: "(PortForwardRequest, string) Codec"
  wr_container_stats :: "(string, ContainerStats) Codec"
  wr_list_container_stats :: "(ContainerStatsFilter option, ContainerStats list) Codec"
  wr_status :: "(unit, RuntimeCondition list) Codec"
  wr_descoped :: "DescopedRpc \<Rightarrow> (unit, unit) Codec"
  wr_list_images :: "(string option, ProtoImage list) Codec"
  wr_image_status :: "(string option, ProtoImage option) Codec"
  wr_pull_image :: "(string option, string) Codec"
  wr_remove_image :: "(string option, unit) Codec"
  wr_image_fs_info :: "(unit, FilesystemUsage list) Codec"

type_synonym 's method_service = "bytes \<Rightarrow> ('s, bytes) rpc"

definition unary :: "('q, 'p) Codec \<Rightarrow> ('q \<Rightarrow> ('s, 'p) rpc) \<Rightarrow> 's method_service" where
  "unary cd h body sh =
     (case cd_decode cd body of
        Inl e \<Rightarrow> (Inl e, sh)
      | Inr q \<Rightarrow> bindR (h q) (\<lambda>p. respond (cd_encode cd p)) sh)"

section \<open>The arms of the dispatch\<close>

definition version_routes :: "Wire \<Rightarrow> (string \<times> 's method_service) list" where
  "version_routes wr = [(''/runtime.v1.RuntimeService/Version'', unary (wr_version wr) version)]"

definition sandbox_change_routes :: "Wire \<Rightarrow> 's CriBackend \<Rightarrow> (string \<times> 's method_service) list" where
  "sandbox_change_routes wr be =
     [(''/runtime.v1.RuntimeService/RunPodSandbox'', unary (wr_run_pod_sandbox wr) (run_pod_sandbox be)),
      (''/runtime.v1.RuntimeService/StopPodSandbox'', unary (wr_stop_pod_sandbox wr) (stop_pod_sandbox be)),
      (''/runtime.v1.RuntimeService/RemovePodSandbox'', unary (wr_remove_pod_sandbox wr) (remove_pod_sandbox be))]"

definition sandbox_query_routes :: "Wire \<Rightarrow> 's CriBackend \<Rightarrow> (string \<times> 's method_service) list" where
  "sandbox_query_routes wr be =
     [(''/runtime.v1.RuntimeService/PodSandboxStatus'', unary (wr_pod_sandbox_status wr) (pod_sandbox_status be)),
      (''/runtime.v1.RuntimeService/ListPodSandbox'', unary (wr_list_pod_sandbox wr) (list_pod_sandbox be))]"

definition container_change_routes :: "Wire \<Rightarrow> 's CriBackend \<Rightarrow> (string \<times> 's method_service) list" where
  "container_change_routes wr be =
     [(''/runtime.v1.RuntimeService/CreateContainer'',
         unary (wr_create_container wr) (\<lambda>(sb, cfg). rpc_create_container be sb cfg)),
      (''/runtime.v1.RuntimeService/StartContainer'', unary (wr_start_container wr) (rpc_start_container be)),
      (''/runtime.v1.RuntimeService/StopContainer'',
         unary (wr_stop_container wr) (\<lambda>(c, grace). rpc_stop_container be c grace))]"

definition container_removal_routes :: "Wire \<Rightarrow> 's CriBackend \<Rightarrow> (string \<times> 's method_service) list" where
  "container_removal_routes wr be =
     [(''/runtime.v1.RuntimeService/RemoveContainer'', unary (wr_remove_container wr) (rpc_remove_container be))]"

definition container_query_routes :: "Wire \<Rightarrow> 's CriBackend \<Rightarrow> (string \<times> 's method_service) list" where
  "container_query_routes wr be =
     [(''/runtime.v1.RuntimeService/ListContainers'', unary (wr_list_containers wr) (rpc_list_containers be)),
      (''/runtime.v1.RuntimeService/ContainerStatus'', unary (wr_container_status wr) (rpc_container_status be))]"

text \<open>A descoped method is decoded like any other.\<close>

definition descoped_method :: "Wire \<Rightarrow> DescopedRpc \<Rightarrow> 's method_service" where
  "descoped_method wr d = unary (wr_descoped wr d) (\<lambda>_. descoped d)"

definition resource_routes :: "Wire \<Rightarrow> (string \<times> 's method_service) list" where
  "resource_routes wr =
     [(''/runtime.v1.RuntimeService/UpdateContainerResources'', descoped_method wr UpdateContainerResources),
      (''/runtime.v1.RuntimeService/ReopenContainerLog'', descoped_method wr ReopenContainerLog)]"

definition exec_routes :: "Wire \<Rightarrow> 's CriBackend \<Rightarrow> nat \<Rightarrow> (nat \<Rightarrow> bytes option)
    \<Rightarrow> (string \<times> 's method_service) list" where
  "exec_routes wr be now rnd =
     [(''/runtime.v1.RuntimeService/ExecSync'',
         unary (wr_exec_sync wr) (\<lambda>(c, cmd, timeout). rpc_exec_sync be c cmd timeout)),
      (''/runtime.v1.RuntimeService/Exec'', unary (wr_exec wr) (rpc_exec be now rnd))]"

definition stream_routes :: "Wire \<Rightarrow> 's CriBackend \<Rightarrow> nat \<Rightarrow> (nat \<Rightarrow> bytes option)
    \<Rightarrow> (string \<times> 's method_service) list" where
  "stream_routes wr be now rnd =
     [(''/runtime.v1.RuntimeService/Attach'', unary (wr_attach wr) (rpc_attach be now rnd)),
      (''/runtime.v1.RuntimeService/PortForward'', unary (wr_port_forward wr) (rpc_port_forward be now rnd))]"

definition stats_routes :: "Wire \<Rightarrow> 's CriBackend \<Rightarrow> (string \<times> 's method_service) list" where
  "stats_routes wr be =
     [(''/runtime.v1.RuntimeService/ContainerStats'', unary (wr_container_stats wr) (rpc_container_stats be)),
      (''/runtime.v1.RuntimeService/ListContainerStats'',
         unary (wr_list_container_stats wr) (rpc_list_container_stats be))]"

definition pod_stats_routes :: "Wire \<Rightarrow> (string \<times> 's method_service) list" where
  "pod_stats_routes wr =
     [(''/runtime.v1.RuntimeService/PodSandboxStats'', descoped_method wr PodSandboxStats),
      (''/runtime.v1.RuntimeService/ListPodSandboxStats'', descoped_method wr ListPodSandboxStats),
      (''/runtime.v1.RuntimeService/UpdateRuntimeConfig'', descoped_method wr UpdateRuntimeConfig)]"

definition status_routes :: "Wire \<Rightarrow> 's CriBackend \<Rightarrow> (string \<times> 's method_service) list" where
  "status_routes wr be =
     [(''/runtime.v1.RuntimeService/Status'', unary (wr_status wr) (\<lambda>_. runtime_status be))]"

definition event_routes :: "Wire \<Rightarrow> (string \<times> 's method_service) list" where
  "event_routes wr =
     [(''/runtime.v1.RuntimeService/CheckpointContainer'', descoped_method wr CheckpointContainer),
      (''/runtime.v1.RuntimeService/GetContainerEvents'', descoped_method wr GetContainerEvents),
      (''/runtime.v1.RuntimeService/ListMetricDescriptors'', descoped_method wr ListMetricDescriptors)]"

definition metric_routes :: "Wire \<Rightarrow> (string \<times> 's method_service) list" where
  "metric_routes wr =
     [(''/runtime.v1.RuntimeService/ListPodSandboxMetrics'', descoped_method wr ListPodSandboxMetrics),
      (''/runtime.v1.RuntimeService/RuntimeConfig'', descoped_method wr RuntimeConfig),
      (''/runtime.v1.RuntimeService/UpdatePodSandboxResources'', descoped_method wr UpdatePodSandboxResources)]"

definition image_query_routes :: "Wire \<Rightarrow> 's CriBackend \<Rightarrow> (string \<times> 's method_service) list" where
  "image_query_routes wr be =
     [(''/runtime.v1.ImageService/ListImages'', unary (wr_list_images wr) (rpc_list_images be)),
      (''/runtime.v1.ImageService/ImageStatus'', unary (wr_image_status wr) (rpc_image_status be))]"

definition image_change_routes :: "Wire \<Rightarrow> 's CriBackend \<Rightarrow> (string \<times> 's method_service) list" where
  "image_change_routes wr be =
     [(''/runtime.v1.ImageService/PullImage'', unary (wr_pull_image wr) (rpc_pull_image be)),
      (''/runtime.v1.ImageService/RemoveImage'', unary (wr_remove_image wr) (rpc_remove_image be))]"

definition image_fs_routes :: "Wire \<Rightarrow> 's CriBackend \<Rightarrow> (string \<times> 's method_service) list" where
  "image_fs_routes wr be =
     [(''/runtime.v1.ImageService/ImageFsInfo'', unary (wr_image_fs_info wr) (\<lambda>_. rpc_image_fs_info be))]"

section \<open>The two services\<close>

text \<open>No arm matches: the status is in the headers of an empty response.\<close>

definition unmatched :: "'s method_service" where
  "unmatched body = refuse UnimplementedCode []"

definition runtime_routes :: "Wire \<Rightarrow> 's CriBackend \<Rightarrow> nat \<Rightarrow> (nat \<Rightarrow> bytes option)
    \<Rightarrow> (string \<times> 's method_service) list" where
  "runtime_routes wr be now rnd =
     version_routes wr @ sandbox_change_routes wr be @ sandbox_query_routes wr be
     @ container_change_routes wr be @ container_removal_routes wr be @ container_query_routes wr be
     @ resource_routes wr @ exec_routes wr be now rnd @ stream_routes wr be now rnd
     @ stats_routes wr be @ pod_stats_routes wr @ status_routes wr be @ event_routes wr @ metric_routes wr"

definition image_routes :: "Wire \<Rightarrow> 's CriBackend \<Rightarrow> (string \<times> 's method_service) list" where
  "image_routes wr be = image_query_routes wr be @ image_change_routes wr be @ image_fs_routes wr be"

definition dispatch :: "(string \<times> 's method_service) list \<Rightarrow> string \<Rightarrow> 's method_service" where
  "dispatch routes path = (case map_of routes path of None \<Rightarrow> unmatched | Some m \<Rightarrow> m)"

text \<open>The server adds both services; the service is the part of the path before the method.\<close>

definition serve_rpc :: "Wire \<Rightarrow> 's CriBackend \<Rightarrow> nat \<Rightarrow> (nat \<Rightarrow> bytes option) \<Rightarrow> string \<Rightarrow> 's method_service" where
  "serve_rpc wr be now rnd path =
     (if starts_with ''/runtime.v1.RuntimeService/'' path then dispatch (runtime_routes wr be now rnd) path
      else if starts_with ''/runtime.v1.ImageService/'' path then dispatch (image_routes wr be) path
      else unmatched)"

section \<open>Handlers that only read\<close>

text \<open>The records and files of the fake backend and the shell's tokens are as before; only the
  environment was asked.\<close>

definition reads :: "('f Fake, 'a) rpc \<Rightarrow> bool" where
  "reads h \<longleftrightarrow> (\<forall>sh. quiet (sh_backend sh) (sh_backend (snd (h sh)))
     \<and> sh_registry (snd (h sh)) = sh_registry sh \<and> sh_base_url (snd (h sh)) = sh_base_url sh)"

named_theorems reads_intros \<open>handlers that change nothing\<close>

lemma reads_pure [reads_intros]: "reads (respond x)" "reads (refuse c m)"
  by (simp_all add: reads_def respond_def refuse_def)

lemma reads_blocking [reads_intros]: "quiet_op f \<Longrightarrow> reads (blocking f)"
  by (auto simp: reads_def blocking_def quiet_op_def case_prod_unfold Let_def)

lemma reads_bindR [reads_intros]:
  assumes "reads h" and "\<And>x. reads (k x)"
  shows "reads (bindR h k)"
  unfolding reads_def
proof (intro allI, goal_cases)
  case (1 sh)
  obtain r sh1 where h: "h sh = (r, sh1)" by force
  then have sh1: "quiet (sh_backend sh) (sh_backend sh1)" "sh_registry sh1 = sh_registry sh"
    "sh_base_url sh1 = sh_base_url sh" using assms(1) by (auto simp: reads_def dest: spec [of _ sh])
  show ?case
    using sh1 assms(2) quiet_trans unfolding reads_def
    by (cases r) (auto simp: bindR_def h intro: quiet_trans)
qed

lemma reads_unary [reads_intros]:
  assumes "\<And>q. reads (h q)"
  shows "reads (unary cd h body)"
proof (cases "cd_decode cd body")
  case (Inl e)
  then show ?thesis by (simp add: reads_def unary_def)
next
  case (Inr q)
  have "reads (bindR (h q) (\<lambda>p. respond (cd_encode cd p)))" by (intro reads_intros assms)
  with Inr show ?thesis by (simp add: reads_def unary_def)
qed

lemma quiet_pure_result [quiet_intros]: "quiet_op (pure_result f)"
  by (simp add: quiet_op_def pure_result_def)

lemma quiet_map_result [quiet_intros]: "(\<And>x. quiet_op (f x)) \<Longrightarrow> quiet_op (map_result f xs)"
proof (induction xs)
  case Nil
  then show ?case by (simp add: quiet_op_def)
next
  case (Cons x xs)
  have "quiet_op (bindE (f x) (\<lambda>y. bindE (map_result f xs) (\<lambda>ys st. (Inr (y # ys), st))))"
    by (intro quiet_intros Cons)
  then show ?case by (simp add: quiet_op_def)
qed

lemma quiet_list_stats [quiet_intros]: "quiet_op (list_container_stats env flt)"
  using quiet_opD [OF quiet_map_result [OF quiet_container_stats]]
  by (auto simp: quiet_op_def list_container_stats_def)

lemma quiet_fs_info [quiet_intros]: "quiet_op (total_result (image_fs_info env))"
  by (simp add: quiet_op_def total_result_def image_fs_info_def Let_def ask_def quiet_def)

lemma reads_status [reads_intros]: "reads (runtime_status (fake_backend env sd))"
  by (auto simp: reads_def runtime_status_def fake_backend_def network_ready_def ask_def respond_def
      quiet_def Let_def)

lemma reads_container_stats [reads_intros]: "reads (rpc_container_stats (fake_backend env sd) c)"
proof -
  have k: "reads (\<lambda>sh. let (st, s) = be_container_status (fake_backend env sd) (ContainerId c) (sh_backend sh)
       in respond (build_container_stats rec (ok_result st)) (sh\<lparr>sh_backend := s\<rparr>))" for rec
    by (simp add: reads_def respond_def)
  show ?thesis
    unfolding rpc_container_stats_def fake_backend_simps
    by (intro reads_bindR reads_blocking quiet_container_stats k [unfolded fake_backend_simps])
qed

lemma reads_list_stats [reads_intros]: "reads (rpc_list_container_stats (fake_backend env sd) flt)"
proof -
  have k: "reads (\<lambda>sh. let (sts, s) = be_list_containers (fake_backend env sd) (proto_stats_filter flt) (sh_backend sh);
           statuses = (case sts of Inl e \<Rightarrow> [] | Inr cs \<Rightarrow> cs);
           status_map = fold (\<lambda>c. bt_insert (cid_0 (cs_id c)) c) statuses []
       in respond (map (\<lambda>rec. build_container_stats rec (map_of status_map (cid_0 (st_id rec)))) recs)
            (sh\<lparr>sh_backend := s\<rparr>))" for recs
    by (simp add: reads_def respond_def Let_def)
  have "be_list_container_stats (fake_backend env sd) = list_container_stats env" by (simp add: fake_backend_def)
  with k show ?thesis
    unfolding rpc_list_container_stats_def
    by (simp only:) (intro reads_bindR reads_blocking quiet_list_stats k)
qed

lemma reads_queries [reads_intros]:
  "reads (pod_sandbox_status (fake_backend env sd) i)" "reads (list_pod_sandbox (fake_backend env sd) sf)"
  "reads (rpc_list_containers (fake_backend env sd) cf)" "reads (rpc_container_status (fake_backend env sd) c)"
  "reads (rpc_list_images (fake_backend env sd) r)" "reads (rpc_image_status (fake_backend env sd) r)"
  "reads (rpc_image_fs_info (fake_backend env sd))" "reads (rpc_exec_sync (fake_backend env sd) c cmd timeout)"
  "reads (version v)" "reads (descoped d)"
  unfolding pod_sandbox_status_def list_pod_sandbox_def rpc_list_containers_def rpc_container_status_def
    rpc_list_images_def rpc_image_status_def rpc_image_fs_info_def rpc_exec_sync_def version_def descoped_def
    Let_def fake_backend_def CriBackend.simps
  by (intro reads_intros quiet_intros)+

section \<open>Which methods change anything\<close>

definition change_paths :: "string list" where
  "change_paths =
     [''/runtime.v1.RuntimeService/RunPodSandbox'', ''/runtime.v1.RuntimeService/StopPodSandbox'',
      ''/runtime.v1.RuntimeService/RemovePodSandbox'', ''/runtime.v1.RuntimeService/CreateContainer'',
      ''/runtime.v1.RuntimeService/StartContainer'', ''/runtime.v1.RuntimeService/StopContainer'',
      ''/runtime.v1.RuntimeService/RemoveContainer'', ''/runtime.v1.RuntimeService/Exec'',
      ''/runtime.v1.RuntimeService/Attach'', ''/runtime.v1.RuntimeService/PortForward'',
      ''/runtime.v1.ImageService/PullImage'', ''/runtime.v1.ImageService/RemoveImage'']"

lemma reads_descoped [reads_intros]: "reads (descoped_method wr d body)"
  unfolding descoped_method_def by (intro reads_intros)

lemma route_groups_read:
  "(p, m) \<in> set (version_routes wr) \<Longrightarrow> reads (m body)"
  "(p, m) \<in> set (sandbox_query_routes wr (fake_backend env sd)) \<Longrightarrow> reads (m body)"
  "(p, m) \<in> set (container_query_routes wr (fake_backend env sd)) \<Longrightarrow> reads (m body)"
  "(p, m) \<in> set (resource_routes wr) \<Longrightarrow> reads (m body)"
  "(p, m) \<in> set (stats_routes wr (fake_backend env sd)) \<Longrightarrow> reads (m body)"
  "(p, m) \<in> set (pod_stats_routes wr) \<Longrightarrow> reads (m body)"
  "(p, m) \<in> set (status_routes wr (fake_backend env sd)) \<Longrightarrow> reads (m body)"
  "(p, m) \<in> set (event_routes wr) \<Longrightarrow> reads (m body)"
  "(p, m) \<in> set (metric_routes wr) \<Longrightarrow> reads (m body)"
  "(p, m) \<in> set (image_query_routes wr (fake_backend env sd)) \<Longrightarrow> reads (m body)"
  "(p, m) \<in> set (image_fs_routes wr (fake_backend env sd)) \<Longrightarrow> reads (m body)"
  by (auto simp: version_routes_def sandbox_query_routes_def container_query_routes_def resource_routes_def
      stats_routes_def pod_stats_routes_def status_routes_def event_routes_def metric_routes_def
      image_query_routes_def image_fs_routes_def intro!: reads_intros)

lemma route_groups_change:
  "(p, m) \<in> set (sandbox_change_routes wr be) \<Longrightarrow> p \<in> set change_paths"
  "(p, m) \<in> set (container_change_routes wr be) \<Longrightarrow> p \<in> set change_paths"
  "(p, m) \<in> set (container_removal_routes wr be) \<Longrightarrow> p \<in> set change_paths"
  "(p, m) \<in> set (stream_routes wr be now rnd) \<Longrightarrow> p \<in> set change_paths"
  "(p, m) \<in> set (image_change_routes wr be) \<Longrightarrow> p \<in> set change_paths"
  by (auto simp: sandbox_change_routes_def container_change_routes_def container_removal_routes_def
      stream_routes_def image_change_routes_def change_paths_def)

lemma exec_route:
  "(p, m) \<in> set (exec_routes wr (fake_backend env sd) now rnd) \<Longrightarrow> p \<in> set change_paths \<or> reads (m body)"
  by (auto simp: exec_routes_def change_paths_def intro!: reads_intros)

lemma routes_read:
  "(p, m) \<in> set (runtime_routes wr (fake_backend env sd) now rnd @ image_routes wr (fake_backend env sd)) \<Longrightarrow>
     p \<in> set change_paths \<or> reads (m body)"
  unfolding runtime_routes_def image_routes_def set_append Un_iff
  by (elim disjE) (blast dest: route_groups_read [where body = body] route_groups_change
      exec_route [where body = body])+

lemma reads_serve:
  assumes "path \<notin> set change_paths"
  shows "reads (serve_rpc wr (fake_backend env sd) now rnd path body)"
proof -
  have group: "reads (dispatch routes path body)"
    if "set routes \<subseteq> set (runtime_routes wr (fake_backend env sd) now rnd @ image_routes wr (fake_backend env sd))"
    for routes
    using routes_read [of path _ wr env sd now rnd body] assms that
    by (auto simp: dispatch_def unmatched_def reads_intros split: option.splits dest: map_of_SomeD)
  show ?thesis
    by (auto simp: serve_rpc_def unmatched_def reads_intros intro!: group)
qed

text \<open>C28: Only the methods that are meant to change something do.  Whatever the path and the body
  of a gRPC request, unless the path is one of the nine that change sandboxes, containers and images
  or the three that hand out a streaming token, the request leaves every record and every file of
  the backend and the token registry as they are: queries, statistics, a synchronous exec, the
  methods that are not implemented, paths that are no method, and bodies that do not decode.\<close>

theorem other_calls_change_nothing:
  assumes "path \<notin> set change_paths"
    and "serve_rpc wr (fake_backend env sd) now rnd path body sh = (r, sh')"
  shows "fk_cache (sh_backend sh') = fk_cache (sh_backend sh)
    \<and> fk_sandboxes_dir (sh_backend sh') = fk_sandboxes_dir (sh_backend sh)
    \<and> fk_containers_dir (sh_backend sh') = fk_containers_dir (sh_backend sh)
    \<and> fk_images_dir (sh_backend sh') = fk_images_dir (sh_backend sh)
    \<and> sh_registry sh' = sh_registry sh"
  using reads_serve [OF assms(1), of wr env sd now rnd body] assms(2)
  by (auto simp: reads_def quiet_def dest!: spec [of _ sh])

text \<open>A wire that carries the listing of containers without a filter.\<close>

definition mute_codec :: "('q, 'p) Codec" where
  "mute_codec = \<lparr>cd_decode = (\<lambda>_. Inl (GrpcStatus InternalCode [])), cd_encode = (\<lambda>_. [])\<rparr>"

definition list_wire :: Wire where
  "list_wire =
     \<lparr>wr_version = mute_codec, wr_run_pod_sandbox = mute_codec, wr_stop_pod_sandbox = mute_codec,
      wr_remove_pod_sandbox = mute_codec, wr_pod_sandbox_status = mute_codec, wr_list_pod_sandbox = mute_codec,
      wr_create_container = mute_codec, wr_start_container = mute_codec, wr_stop_container = mute_codec,
      wr_remove_container = mute_codec,
      wr_list_containers = \<lparr>cd_decode = (\<lambda>_. Inr None), cd_encode = (\<lambda>cs. map (\<lambda>_. 1) cs)\<rparr>,
      wr_container_status = mute_codec, wr_exec_sync = mute_codec, wr_exec = mute_codec, wr_attach = mute_codec,
      wr_port_forward = mute_codec, wr_container_stats = mute_codec, wr_list_container_stats = mute_codec,
      wr_status = mute_codec, wr_descoped = (\<lambda>_. mute_codec), wr_list_images = mute_codec,
      wr_image_status = mute_codec, wr_pull_image = mute_codec, wr_remove_image = mute_codec,
      wr_image_fs_info = mute_codec\<rparr>"

definition list_shell :: "demo_file Fake Shell" where
  "list_shell = \<lparr>sh_backend = demo_running, sh_registry = new_registry, sh_base_url = ''http://127.0.0.1:1''\<rparr>"

lemma other_calls_change_nothing_witness:
  "\<exists>sh'. serve_rpc list_wire (fake_backend demo_env demo_serde) 0 (\<lambda>_. None)
       ''/runtime.v1.RuntimeService/ListContainers'' [] list_shell = (Inr [1], sh')
     \<and> fk_cache (sh_backend sh') = fk_cache demo_running"
proof -
  let ?x = "serve_rpc list_wire (fake_backend demo_env demo_serde) 0 (\<lambda>_. None)
    ''/runtime.v1.RuntimeService/ListContainers'' [] list_shell"
  have "''/runtime.v1.RuntimeService/ListContainers'' \<notin> set change_paths" by code_simp
  from other_calls_change_nothing [OF this, of list_wire demo_env demo_serde 0 "\<lambda>_. None" "[]" list_shell "fst ?x" "snd ?x"]
  have "fk_cache (sh_backend (snd ?x)) = fk_cache demo_running" by (simp add: list_shell_def)
  moreover have "fst ?x = Inr [1]" by code_simp
  ultimately show ?thesis by (metis prod.collapse)
qed

end
