(* ===== verification/Acceptance.thy ===== *)
theory Acceptance
  imports Cri_Vocab
begin

text \<open>
  The harness of the acceptance suite (\<open>lightr-cri-acceptance/src/lib.rs\<close>): probes, the loud skip,
  the search for the server binary, the handle of a spawned server, and the command lines of
  \<open>crictl\<close> and \<open>critest\<close>.  The environment variables, the file system and the processes are
  arguments.  The tests themselves drive a running server and are not modelled.
\<close>

section \<open>Probes and skips\<close>

definition have_bin :: "(string \<Rightarrow> bool) \<Rightarrow> string option \<Rightarrow> string \<Rightarrow> bool" where
  "have_bin is_file path_var bin =
     (case path_var of
        None \<Rightarrow> False
      | Some p \<Rightarrow> list_ex (\<lambda>d. is_file (path_join d bin)) (split_on (CHR '':'') p))"

text \<open>A panic fails the test; a note is printed and the test goes on.\<close>

datatype SkipOutcome = SkipPanic string | SkipNote string

definition skip :: "string option \<Rightarrow> string \<Rightarrow> string \<Rightarrow> SkipOutcome" where
  "skip require item reason =
     (if require = Some ''1'' then
        SkipPanic (''PROBE REQUIRED but missing '' @ [CHR 0xE2, CHR 0x80, CHR 0x94] @ '' '' @ item @ '': ''
          @ reason @ '' (LIGHTR_CRI_REQUIRE_PROBES=1)'')
      else SkipNote (''SKIP '' @ item @ '': '' @ reason @ '' (probe-truthful; see build-spec-r0 ''
          @ [CHR 0xC2, CHR 0xA7] @ ''7)''))"

definition skip_by_design :: "string \<Rightarrow> string \<Rightarrow> string \<Rightarrow> SkipOutcome" where
  "skip_by_design item reason covered_by =
     SkipNote (''SKIP-BY-DESIGN '' @ item @ '': '' @ reason @ '' (covered by: '' @ covered_by @ '')'')"

text \<open>\<open>u64::from_str_radix(_, 16)\<close>.\<close>

definition hex_digit :: "char \<Rightarrow> nat option" where
  "hex_digit c =
     (let n = of_char c :: nat
      in if 48 \<le> n \<and> n \<le> 57 then Some (n - 48)
         else if 97 \<le> n \<and> n \<le> 102 then Some (n - 87)
         else if 65 \<le> n \<and> n \<le> 70 then Some (n - 55)
         else None)"

fun hex_val :: "nat \<Rightarrow> string \<Rightarrow> nat option" where
  "hex_val acc [] = Some acc"
| "hex_val acc (c # cs) = (case hex_digit c of None \<Rightarrow> None | Some d \<Rightarrow> hex_val (16 * acc + d) cs)"

definition parse_hex_u64 :: "string \<Rightarrow> u64 option" where
  "parse_hex_u64 s =
     (let ds = (case s of [] \<Rightarrow> [] | c # cs \<Rightarrow> if c = CHR ''+'' then cs else c # cs)
      in if ds = [] then None
         else (case hex_val 0 ds of
                 None \<Rightarrow> None
               | Some n \<Rightarrow> if n < 2 ^ 64 then Some (of_nat n) else None))"

text \<open>Both \<open>CAP_SYS_ADMIN\<close> (21) and \<open>CAP_NET_ADMIN\<close> (12); the first line that parses decides.\<close>

fun cap_scan :: "string list \<Rightarrow> bool" where
  "cap_scan [] = False"
| "cap_scan (line # ls) =
     (case strip_prefix (''CapEff:'' @ [CHR 0x09]) line of
        None \<Rightarrow> cap_scan ls
      | Some hex \<Rightarrow>
          (case parse_hex_u64 (trim hex) of
             None \<Rightarrow> cap_scan ls
           | Some bits \<Rightarrow> drop_bit 21 bits AND 1 = 1 \<and> drop_bit 12 bits AND 1 = 1))"

definition have_cap_sys_admin :: "string list option \<Rightarrow> bool" where
  "have_cap_sys_admin status = (case status of None \<Rightarrow> False | Some ls \<Rightarrow> cap_scan ls)"

section \<open>Finding the server\<close>

text \<open>A directory is the list of its components; \<open>ups\<close> are it and its parents, the root last.\<close>

fun ups :: "string list \<Rightarrow> string list list" where
  "ups [] = [[]]"
| "ups ds = ds # ups (butlast ds)"

definition dir_path :: "string list \<Rightarrow> string" where
  "dir_path ds = ''/'' @ join ''/'' ds"

fun find_up :: "(string \<Rightarrow> bool) \<Rightarrow> string list list \<Rightarrow> string option" where
  "find_up present [] = None"
| "find_up present (d # ds) =
     (let release = path_join (dir_path d) ''target/release/lightr-cri'';
          debug = path_join (dir_path d) ''target/debug/lightr-cri''
      in if present release then Some release
         else if present debug then Some debug
         else find_up present ds)"

definition find_server_bin :: "(string \<Rightarrow> bool) \<Rightarrow> string option \<Rightarrow> string list \<Rightarrow> string option" where
  "find_server_bin present bin_var start =
     (case bin_var of
        Some p \<Rightarrow> if present p then Some p else find_up present (ups start)
      | None \<Rightarrow> find_up present (ups start))"

section \<open>The server handle\<close>

record ServerHandle =
  hs_socket :: string
  hs_state_dir :: string
  hs_tmpdir :: string
  hs_keep_tmpdir :: bool

datatype HarnessStep =
    MakeDirs string | RemoveFile string | SpawnServer "string list" | KillServer | WaitServer | RemoveTree string

text \<open>\<open>polls\<close>: whether the socket was there at each look before the five seconds were over.\<close>

definition spawn_inner :: "string option \<Rightarrow> bool list \<Rightarrow> string \<Rightarrow> string \<Rightarrow> string \<Rightarrow> bool
    \<Rightarrow> (string + ServerHandle) \<times> HarnessStep list" where
  "spawn_inner spawn polls socket state_dir tmpdir keep =
     (let cmd = SpawnServer [''--socket'', socket, ''--state'', state_dir]
      in case spawn of
           Some e \<Rightarrow> (Inl e, [cmd])
         | None \<Rightarrow>
             if True \<in> set polls then
               (Inr \<lparr>hs_socket = socket, hs_state_dir = state_dir, hs_tmpdir = tmpdir, hs_keep_tmpdir = keep\<rparr>, [cmd])
             else (Inl ''server socket did not appear within 5 s'', [cmd, KillServer, WaitServer]))"

definition spawn_server :: "(string \<Rightarrow> string option) \<Rightarrow> string option \<Rightarrow> bool list \<Rightarrow> string \<Rightarrow> nat
    \<Rightarrow> (string + ServerHandle) \<times> HarnessStep list" where
  "spawn_server mkdir spawn polls temp_dir nanos =
     (let tmpdir = path_join temp_dir (''lightr-cri-test-'' @ nat_str nanos);
          socket = path_join tmpdir ''cri.sock''; state_dir = path_join tmpdir ''state''
      in case mkdir tmpdir of
           Some e \<Rightarrow> (Inl e, [MakeDirs tmpdir])
         | None \<Rightarrow>
             (case mkdir state_dir of
                Some e \<Rightarrow> (Inl e, [MakeDirs tmpdir, MakeDirs state_dir])
              | None \<Rightarrow>
                  (let (r, steps) = spawn_inner spawn polls socket state_dir tmpdir False
                   in (r, [MakeDirs tmpdir, MakeDirs state_dir] @ steps))))"

definition restart_server :: "string option \<Rightarrow> bool list \<Rightarrow> string \<Rightarrow> string \<Rightarrow> string
    \<Rightarrow> (string + ServerHandle) \<times> HarnessStep list" where
  "restart_server spawn polls socket state_dir tmpdir =
     (let (r, steps) = spawn_inner spawn polls socket state_dir tmpdir True in (r, RemoveFile socket # steps))"

definition drop_server :: "ServerHandle \<Rightarrow> HarnessStep list" where
  "drop_server h = [KillServer, WaitServer] @ (if hs_keep_tmpdir h then [] else [RemoveTree (hs_tmpdir h)])"

section \<open>Command lines\<close>

definition crictl_args :: "string \<Rightarrow> string list \<Rightarrow> string list" where
  "crictl_args sock args =
     [''--runtime-endpoint'', ''unix://'' @ sock, ''--image-endpoint'', ''unix://'' @ sock] @ args"

text \<open>The part of a line before the first space-hash, all of it if there is none.\<close>

fun before_comment :: "string \<Rightarrow> string" where
  "before_comment [] = []"
| "before_comment [c] = [c]"
| "before_comment (c # d # cs) =
     (if c = CHR '' '' \<and> d = CHR ''#'' then [] else c # before_comment (d # cs))"

definition skip_regex :: "string \<Rightarrow> string option" where
  "skip_regex line =
     (let trimmed = trim (before_comment line)
      in if trimmed = [] \<or> starts_with ''#'' trimmed then None else Some trimmed)"

definition skip_regexes :: "string option \<Rightarrow> string list" where
  "skip_regexes content =
     List.map_filter skip_regex (split_on (CHR 0x0A) (case content of None \<Rightarrow> [] | Some s \<Rightarrow> s))"

definition critest_args :: "string \<Rightarrow> string option \<Rightarrow> string list" where
  "critest_args sock content =
     [''--runtime-endpoint'', ''unix://'' @ sock]
     @ (let rs = skip_regexes content in if rs = [] then [] else [''--ginkgo.skip'', join ''|'' rs])"

section \<open>The frozen laws\<close>

text \<open>Under \<open>LIGHTR_CRI_REQUIRE_PROBES=1\<close> a missing probe is a failure and never a skip; a skip by
  design is one either way.\<close>

lemma skip_fails_closed:
  "(\<exists>m. skip (Some ''1'') item reason = SkipPanic m)"
  "require \<noteq> Some ''1'' \<Longrightarrow> \<exists>m. skip require item reason = SkipNote m"
  by (simp_all add: skip_def)

text \<open>The binary found exists, and is that of the nearest directory that has one, the release build
  before the debug build.\<close>

lemma find_up_nearest:
  "find_up present ds = Some p \<Longrightarrow>
     \<exists>as d bs. ds = as @ d # bs \<and> present p
       \<and> (\<forall>a \<in> set as. \<not> present (path_join (dir_path a) ''target/release/lightr-cri'')
            \<and> \<not> present (path_join (dir_path a) ''target/debug/lightr-cri''))
       \<and> (p = path_join (dir_path d) ''target/release/lightr-cri''
          \<or> p = path_join (dir_path d) ''target/debug/lightr-cri''
             \<and> \<not> present (path_join (dir_path d) ''target/release/lightr-cri''))"
proof (induction ds)
  case (Cons d ds)
  show ?case
  proof (cases "present (path_join (dir_path d) ''target/release/lightr-cri'')
      \<or> present (path_join (dir_path d) ''target/debug/lightr-cri'')")
    case True
    with Cons.prems show ?thesis
      by (intro exI [of _ "[]"] exI [of _ d] exI [of _ ds]) (auto simp: Let_def split: if_splits)
  next
    case False
    with Cons.prems have "find_up present ds = Some p" by (simp add: Let_def)
    from Cons.IH [OF this] obtain as e bs where as: "ds = as @ e # bs" "present p"
      "\<forall>a \<in> set as. \<not> present (path_join (dir_path a) ''target/release/lightr-cri'')
         \<and> \<not> present (path_join (dir_path a) ''target/debug/lightr-cri'')"
      "p = path_join (dir_path e) ''target/release/lightr-cri''
         \<or> p = path_join (dir_path e) ''target/debug/lightr-cri''
            \<and> \<not> present (path_join (dir_path e) ''target/release/lightr-cri'')" by blast
    with False show ?thesis
      by (intro exI [of _ "d # as"] exI [of _ e] exI [of _ bs]) auto
  qed
qed simp

text \<open>No regex is empty or a comment: an empty alternative would skip the whole suite.\<close>

lemma skip_regexes_ok: "r \<in> set (skip_regexes content) \<Longrightarrow> r \<noteq> [] \<and> \<not> starts_with ''#'' r"
  by (auto simp: skip_regexes_def List.map_filter_def skip_regex_def Let_def split: if_splits)

text \<open>A server that did not come up is not left running; its directory is.\<close>

lemma spawn_timeout_leaves_dir:
  assumes "\<And>d. mkdir d = None" and "True \<notin> set polls"
  shows "\<exists>d s. spawn_server mkdir None polls temp_dir nanos =
    (Inl ''server socket did not appear within 5 s'',
     [MakeDirs d, MakeDirs s, SpawnServer [''--socket'', path_join d ''cri.sock'', ''--state'', s], KillServer, WaitServer])"
  using assms by (auto simp: spawn_server_def spawn_inner_def Let_def)

end
