(* ===== verification/Civil_Date.thy ===== *)
theory Civil_Date
  imports Cri_Prelude
begin

text \<open>
  \<open>epoch_to_ymd_hms\<close> of \<open>crates/lightr-cri-fake/src/lib.rs\<close>: the branch-free conversion of
  seconds since the epoch to a UTC date and time, and the calendar it computes: from the first
  of January 1970, one \<open>next_day\<close> per day.  The 400-year cycle is checked year by year and day
  by day on integers (\<open>year_table\<close>, \<open>month_table\<close>); the rest is linear arithmetic.

  Sums stay below \<open>2 ^ 64\<close> for every \<open>u64\<close> of seconds, so the divisions are those of the
  naturals; the year is cut to 32 bits as the cast does.
\<close>

section \<open>The conversion\<close>

definition year_of_era :: "nat \<Rightarrow> nat" where
  "year_of_era doe = (doe - doe div 1460 + doe div 36524 - doe div 146096) div 365"

definition day_of_year :: "nat \<Rightarrow> nat" where
  "day_of_year doe = (let yoe = year_of_era doe in doe - (365 * yoe + yoe div 4 - yoe div 100))"

definition month_day :: "nat \<Rightarrow> nat \<times> nat" where
  "month_day doy =
     (let mp = (5 * doy + 2) div 153; d = doy - (153 * mp + 2) div 5 + 1
      in (if mp < 10 then mp + 3 else mp - 9, d))"

definition civil_date :: "nat \<Rightarrow> nat \<times> nat \<times> nat" where
  "civil_date days =
     (let z = days + 719468; era = z div 146097; doe = z mod 146097;
          y = year_of_era doe + era * 400;
          (mo, d) = month_day (day_of_year doe)
      in (if mo \<le> 2 then y + 1 else y, mo, d))"

definition epoch_to_ymd_hms :: "nat \<Rightarrow> nat \<times> nat \<times> nat \<times> nat \<times> nat \<times> nat" where
  "epoch_to_ymd_hms secs =
     (let s = secs mod 60; m = (secs div 60) mod 60; h = (secs div 3600) mod 24;
          (y, mo, d) = civil_date (secs div 86400)
      in (y mod 2 ^ 32, mo, d, h, m, s))"

section \<open>The calendar\<close>

definition leap :: "nat \<Rightarrow> bool" where
  "leap y \<longleftrightarrow> (if y mod 100 = 0 then y mod 400 = 0 else y mod 4 = 0)"

definition month_length :: "nat \<Rightarrow> nat \<Rightarrow> nat" where
  "month_length y m =
     (if m = 2 then (if leap y then 29 else 28) else if m \<in> {4, 6, 9, 11} then 30 else 31)"

fun next_day :: "nat \<times> nat \<times> nat \<Rightarrow> nat \<times> nat \<times> nat" where
  "next_day (y, m, d) =
     (if d < month_length y m then (y, m, d + 1)
      else if m < 12 then (y, m + 1, 1)
      else (y + 1, 1, 1))"

section \<open>The tables\<close>

text \<open>Years of the cycle start in March: year \<open>y\<close> starts on day \<open>year_start y\<close>.\<close>

definition year_start :: "nat \<Rightarrow> nat" where
  "year_start y = 365 * y + y div 4 - y div 100"

definition year_end :: "nat \<Rightarrow> nat" where
  "year_end y = (if y = 399 then 146097 else year_start (y + 1))"

definition shifted :: "int \<Rightarrow> int" where
  "shifted doe = doe - doe div 1460 + doe div 36524 - doe div 146096"

lemma year_table:
  "list_all (\<lambda>y. 365 * y \<le> shifted (365 * y + y div 4 - y div 100) \<and>
     shifted ((if y = 399 then 146097 else 365 * (y + 1) + (y + 1) div 4 - (y + 1) div 100) - 1)
       < 365 * (y + 1)) [0..399]"
  by code_simp

definition month_day_int :: "int \<Rightarrow> int \<times> int" where
  "month_day_int doy =
     (let mp = (5 * doy + 2) div 153; d = doy - (153 * mp + 2) div 5 + 1
      in (if mp < 10 then mp + 3 else mp - 9, d))"

definition month_length_int :: "int \<Rightarrow> int" where
  "month_length_int m =
     (if m = 2 then 29 else if m = 4 \<or> m = 6 \<or> m = 9 \<or> m = 11 then 30 else 31)"

lemma month_table:
  "list_all (\<lambda>doy. case month_day_int doy of (m, d) \<Rightarrow>
     1 \<le> m \<and> m \<le> 12 \<and> 1 \<le> d \<and> d \<le> month_length_int m \<and>
     (doy = 365 \<or> month_day_int (doy + 1) =
       (if d < month_length_int m then (m, d + 1) else if m < 12 then (m + 1, 1) else (1, 1))) \<and>
     (m \<noteq> 2 \<or> d < 28 \<or> doy = d + 336) \<and> (doy < 364 \<or> m = 2 \<and> doy = d + 336)) [0..365]"
  by code_simp

section \<open>Years\<close>

lemma shifted_mono1:
  assumes "0 \<le> a" and "a + 1 \<le> 146096"
  shows "shifted a \<le> shifted (a + 1)"
proof (cases "a + 1 = 146096")
  case True
  then have "a = 146095" by simp
  then show ?thesis by (simp add: shifted_def)
next
  case False
  with assms have "a div 146096 = 0" "(a + 1) div 146096 = 0" by (auto intro: div_pos_pos_trivial)
  moreover have "(a + 1) div 1460 \<le> (a + 1460) div 1460" "a div 36524 \<le> (a + 1) div 36524"
    by (rule zdiv_mono1; simp)+
  moreover have "(a + 1460) div 1460 = a div 1460 + 1" by simp
  ultimately show ?thesis unfolding shifted_def by linarith
qed

lemma shifted_mono:
  assumes "0 \<le> a" and "a \<le> b" and "b \<le> 146096"
  shows "shifted a \<le> shifted b"
  using assms(2,3)
proof (induction rule: int_ge_induct)
  case (step i)
  then show ?case using shifted_mono1 [of i] assms(1) by simp
qed simp

lemma year_start_int: "int (year_start y) = 365 * int y + int y div 4 - int y div 100"
  by (simp add: year_start_def of_nat_diff zdiv_int)

lemma year_of_era_int: "doe \<le> 146096 \<Longrightarrow> int (year_of_era doe) = shifted (int doe) div 365"
  by (simp add: year_of_era_def shifted_def of_nat_diff zdiv_int)

lemma year_of_era_eq:
  assumes "y < 400" and "year_start y \<le> doe" and "doe < year_end y"
  shows "year_of_era doe = y"
proof -
  have t: "365 * int y \<le> shifted (int (year_start y))" "shifted (int (year_end y) - 1) < 365 * (int y + 1)"
    using year_table assms(1) unfolding list_all_iff year_start_int
    by (auto simp: year_end_def year_start_int add.commute dest!: bspec [of _ _ "int y"])
  have "year_end y \<le> 146097"
    using assms(1) by (auto simp: year_end_def year_start_def)
  then have "shifted (int (year_start y)) \<le> shifted (int doe)" "shifted (int doe) \<le> shifted (int (year_end y) - 1)"
    using assms(2,3) by (auto intro: shifted_mono)
  with t have "365 * int y \<le> shifted (int doe)" "shifted (int doe) < 365 * (int y + 1)"
    by linarith+
  then have "shifted (int doe) div 365 = int y"
    by (intro int_div_pos_eq [where r = "shifted (int doe) - 365 * int y"]) simp_all
  moreover have "doe \<le> 146096" using assms(3) \<open>year_end y \<le> 146097\<close> by simp
  ultimately show ?thesis using year_of_era_int by (metis of_nat_eq_iff)
qed

lemma year_end_step: "y < 399 \<Longrightarrow> year_end y = year_start (y + 1)"
  by (simp add: year_end_def)

lemma year_length:
  assumes "y < 400"
  shows "year_end y = year_start y + (if leap (y + 1 + 400 * e) then 366 else 365)"
proof -
  have "(y + 1 + 400 * e) mod k = (y + 1) mod k" if "k dvd 400" for k
    using that by (metis dvd_mult2 mod_add_right_eq mod_0_imp_dvd dvd_imp_mod_0 add_0_right)
  then have "leap (y + 1 + 400 * e) \<longleftrightarrow> leap (y + 1)"
    by (simp add: leap_def)
  moreover have "year_end y = year_start y + (if leap (y + 1) then 366 else 365)"
  proof (cases "y = 399")
    case True
    then show ?thesis by (simp add: year_end_def year_start_def leap_def)
  next
    case False
    have "Suc y mod 400 \<noteq> 0" using assms False by simp
    moreover have "Suc y mod 4 = 0" if "Suc y mod 100 = 0"
      using that by (metis dvd_imp_mod_0 dvd_trans mod_0_imp_dvd dvd_triv_left [of 4 25] numeral_times_numeral Num.arith_simps)
    moreover have "y div 100 \<le> y div 4" by (simp add: div_le_mono2)
    ultimately show ?thesis using False
      by (simp add: year_end_def year_start_def leap_def div_Suc algebra_simps)
  qed
  ultimately show ?thesis by simp
qed

lemma year_exists: "doe < 146097 \<Longrightarrow> \<exists>y < 400. year_start y \<le> doe \<and> doe < year_end y"
proof (induction doe)
  case 0
  then show ?case by (intro exI [of _ 0]) (simp add: year_start_def year_end_def)
next
  case (Suc doe)
  then obtain y where y: "y < 400" "year_start y \<le> doe" "doe < year_end y" by auto
  show ?case
  proof (cases "Suc doe < year_end y")
    case True
    with y show ?thesis by (intro exI [of _ y]) simp
  next
    case False
    with y have e: "Suc doe = year_end y" by simp
    with Suc.prems have "y \<noteq> 399" by (auto simp: year_end_def)
    with y(1) have "y + 1 < 400" "Suc doe = year_start (y + 1)"
      using e year_end_step by auto
    moreover have "year_start (y + 1) < year_end (y + 1)"
      using year_length [of "y + 1" 0] \<open>y + 1 < 400\<close> by simp
    ultimately show ?thesis by (intro exI [of _ "y + 1"]) simp
  qed
qed

section \<open>Months\<close>

lemma month_day_int:
  "month_day doy = (m, d) \<Longrightarrow> month_day_int (int doy) = (int m, int d)"
proof -
  assume a: "month_day doy = (m, d)"
  let ?mp = "(5 * doy + 2) div 153"
  have "153 * ?mp + 2 \<le> 5 * doy + 4"
    using times_div_less_eq_dividend [of 153 "5 * doy + 2"] by simp
  then have "(153 * ?mp + 2) div 5 \<le> (5 * doy + 4) div 5" by (rule div_le_mono)
  then have "(153 * ?mp + 2) div 5 \<le> doy" by simp
  then have d: "int (doy - (153 * ?mp + 2) div 5 + 1) = int doy - (153 * int ?mp + 2) div 5 + 1"
    by (simp only: of_nat_add of_nat_diff of_nat_mult zdiv_int of_nat_numeral of_nat_1)
  have mp: "int ?mp = (5 * int doy + 2) div 153"
    by (simp only: of_nat_add of_nat_mult zdiv_int of_nat_numeral)
  have m: "m = (if ?mp < 10 then ?mp + 3 else ?mp - 9)" "d = doy - (153 * ?mp + 2) div 5 + 1"
    using a by (simp_all only: month_day_def Let_def prod.inject)
  have "int m = (if int ?mp < 10 then int ?mp + 3 else int ?mp - 9)"
    unfolding m by (simp add: of_nat_diff)
  with d m(2) show ?thesis
    by (simp only: month_day_int_def Let_def mp [symmetric])
qed

definition month_length_29 :: "nat \<Rightarrow> nat" where
  "month_length_29 m = (if m = 2 then 29 else month_length 1 m)"

lemma month_length_int [simp]: "month_length_int (int m) = int (month_length_29 m)"
  by (simp add: month_length_int_def month_length_29_def month_length_def)

lemma month_day_props:
  assumes "month_day doy = (m, d)" and "doy \<le> 365"
  shows "1 \<le> m" "m \<le> 12" "1 \<le> d" "d \<le> month_length_29 m"
    and "doy < 365 \<Longrightarrow> month_day (doy + 1) =
      (if d < month_length_29 m then (m, d + 1) else if m < 12 then (m + 1, 1) else (1, 1))"
    and "m = 2 \<Longrightarrow> 28 \<le> d \<Longrightarrow> doy = d + 336" and "364 \<le> doy \<Longrightarrow> m = 2 \<and> doy = d + 336"
proof -
  let ?P = "\<lambda>doy. case month_day_int doy of (m, d) \<Rightarrow>
     1 \<le> m \<and> m \<le> 12 \<and> 1 \<le> d \<and> d \<le> month_length_int m \<and>
     (doy = 365 \<or> month_day_int (doy + 1) =
       (if d < month_length_int m then (m, d + 1) else if m < 12 then (m + 1, 1) else (1, 1))) \<and>
     (m \<noteq> 2 \<or> d < 28 \<or> doy = d + 336) \<and> (doy < 364 \<or> m = 2 \<and> doy = d + 336)"
  have "?P (int doy)"
    using month_table assms(2) unfolding list_all_iff by (elim bspec) simp
  note t = this [unfolded month_day_int [OF assms(1)], simplified]
  show "1 \<le> m" "m \<le> 12" "1 \<le> d" "d \<le> month_length_29 m" "m = 2 \<Longrightarrow> 28 \<le> d \<Longrightarrow> doy = d + 336"
    "364 \<le> doy \<Longrightarrow> m = 2 \<and> doy = d + 336"
    using t by auto
  obtain m' d' where n: "month_day (doy + 1) = (m', d')" by force
  show "month_day (doy + 1) =
      (if d < month_length_29 m then (m, d + 1) else if m < 12 then (m + 1, 1) else (1, 1))"
    if "doy < 365"
    using t that month_day_int [OF n] n by (auto simp: add.commute split: if_splits)
qed

section \<open>One day after the other\<close>

text \<open>The date of day \<open>doy\<close> of year \<open>y\<close> of cycle \<open>e\<close>.\<close>

definition cycle_date :: "nat \<Rightarrow> nat \<Rightarrow> nat \<Rightarrow> nat \<times> nat \<times> nat" where
  "cycle_date e y doy =
     (let (m, d) = month_day doy in (if m \<le> 2 then y + e * 400 + 1 else y + e * 400, m, d))"

lemma civil_date_at:
  assumes "n + 719468 = 146097 * e + doe" and "doe < 146097" and "y < 400"
    and "year_start y \<le> doe" and "doe < year_end y"
  shows "civil_date n = cycle_date e y (doe - year_start y)"
proof -
  have "(n + 719468) div 146097 = e" "(n + 719468) mod 146097 = doe"
    using assms(1,2) by simp_all
  moreover have "year_of_era doe = y" using assms(3-5) by (rule year_of_era_eq)
  ultimately show ?thesis
    by (simp only: civil_date_def cycle_date_def day_of_year_def year_start_def Let_def)
qed

lemma cycle_date_step:
  assumes "y < 400" and "doy + 1 < year_end y - year_start y"
  shows "cycle_date e y (doy + 1) = next_day (cycle_date e y doy)"
proof -
  obtain m d where md: "month_day doy = (m, d)" by force
  note len = year_length [OF assms(1), of e]
  with assms(2) have "doy < 365" by (auto split: if_splits)
  note p = month_day_props [OF md]
  have "m \<noteq> 2 \<or> d < 28 \<or> leap (y + 1 + 400 * e)"
    using p(6) assms(2) len \<open>doy < 365\<close> by (cases "m = 2 \<and> 28 \<le> d") (auto split: if_splits)
  moreover have "d < 29" if "m = 2"
    using p(6) that \<open>doy < 365\<close> by force
  ultimately show ?thesis
    using p(1,2,5) \<open>doy < 365\<close> md
    by (auto simp: cycle_date_def month_length_29_def month_length_def add.commute mult.commute)
qed

lemma cycle_date_last:
  assumes "y < 400" and "doy + 1 = year_end y - year_start y"
  shows "next_day (cycle_date e y doy) = (y + 1 + e * 400, 3, 1)"
proof -
  obtain m d where md: "month_day doy = (m, d)" by force
  note len = year_length [OF assms(1), of e]
  with assms(2) have "doy \<le> 365" "364 \<le> doy" by (auto split: if_splits)
  with month_day_props(7) [OF md] have "m = 2" "doy = d + 336" by auto
  with md len assms(2) show ?thesis
    by (auto simp: cycle_date_def month_length_def add.commute mult.commute split: if_splits)
qed

lemma cycle_date_first: "cycle_date e y 0 = (y + e * 400, 3, 1)"
  by (simp add: cycle_date_def month_day_def)

lemma civil_date_Suc: "civil_date (Suc n) = next_day (civil_date n)"
proof -
  obtain e doe where z: "n + 719468 = 146097 * e + doe" and lt: "doe < 146097"
    using mult_div_mod_eq [of 146097 "n + 719468"] mod_less_divisor [of 146097 "n + 719468"] by (metis zero_less_numeral)
  obtain y where y: "y < 400" "year_start y \<le> doe" "doe < year_end y"
    using year_exists [OF lt] by blast
  note now = civil_date_at [OF z lt y]
  have "doe + 1 < year_end y \<or> doe + 1 = year_end y" using y(3) by linarith
  then consider (same) "doe + 1 < year_end y" | (later) "doe + 1 = year_end y" "y < 399"
    | (cycle) "doe + 1 = 146097" "y = 399"
    using y(1) by (cases "y = 399") (auto simp: year_end_def)
  then show ?thesis
  proof cases
    case same
    have "year_end y \<le> 146097" using y(1) by (auto simp: year_end_def year_start_def)
    with same have "civil_date (Suc n) = cycle_date e y (doe + 1 - year_start y)"
      using z y by (intro civil_date_at) simp_all
    also have "doe + 1 - year_start y = (doe - year_start y) + 1" using y(2) by simp
    finally show ?thesis
      using cycle_date_step [OF y(1), of "doe - year_start y" e] same y(2) now by simp
  next
    case later
    then have s: "doe + 1 = year_start (y + 1)" by (simp add: year_end_step)
    have z': "Suc n + 719468 = 146097 * e + (doe + 1)" using z by linarith
    have "year_start (y + 1) \<le> 365 * (y + 1) + (y + 1)"
      by (simp add: year_start_def le_diff_conv)
    moreover have "366 * (y + 1) \<le> 366 * 399" using later by (intro mult_le_mono) simp_all
    ultimately have lt': "doe + 1 < 146097" unfolding s by simp
    have "y + 1 < 400" using later by simp
    then have "civil_date (Suc n) = cycle_date e (y + 1) (doe + 1 - year_start (y + 1))"
      using year_length [of "y + 1" 0] s by (intro civil_date_at [OF z' lt']) simp_all
    then have "civil_date (Suc n) = (y + 1 + e * 400, 3, 1)"
      unfolding s by (simp add: cycle_date_first)
    moreover have "next_day (civil_date n) = (y + 1 + e * 400, 3, 1)"
      unfolding now using y later by (intro cycle_date_last) simp_all
    ultimately show ?thesis by simp
  next
    case cycle
    have "civil_date (Suc n) = cycle_date (e + 1) 0 (0 - year_start 0)"
    proof (rule civil_date_at)
      show "Suc n + 719468 = 146097 * (e + 1) + 0" using z cycle(1) by simp
    qed (simp_all add: year_start_def year_end_def)
    then have "civil_date (Suc n) = (400 + e * 400, 3, 1)"
      by (simp add: cycle_date_first)
    moreover have "next_day (civil_date n) = (y + 1 + e * 400, 3, 1)"
      unfolding now using y cycle by (intro cycle_date_last) (simp_all add: year_end_def)
    ultimately show ?thesis using cycle by simp
  qed
qed

lemma civil_date_calendar: "civil_date n = (next_day ^^ n) (1970, 1, 1)"
proof (induction n)
  case 0
  have "civil_date 0 = cycle_date 4 369 (135080 - year_start 369)"
    by (rule civil_date_at) (simp_all add: year_start_def year_end_def)
  then show ?case by (simp add: year_start_def cycle_date_def month_day_def)
next
  case (Suc n)
  then show ?case by (simp add: civil_date_Suc)
qed

text \<open>A date of the calendar is a date.\<close>

lemma month_length_pos: "28 \<le> month_length y m" "month_length y m \<le> 31"
  by (auto simp: month_length_def)

lemma civil_date_valid:
  assumes "civil_date n = (y, m, d)"
  shows "1970 \<le> y" "1 \<le> m" "m \<le> 12" "1 \<le> d" "d \<le> month_length y m"
proof -
  let ?ok = "\<lambda>(y, m, d). 1970 \<le> y \<and> 1 \<le> m \<and> m \<le> 12 \<and> 1 \<le> d \<and> d \<le> month_length y (m :: nat)"
  have "?ok (civil_date n)"
  proof (induction n)
    case 0
    show ?case by (simp add: civil_date_calendar month_length_def)
  next
    case (Suc n)
    then show ?case
      using order_trans [OF _ month_length_pos(1), of "Suc 0"] by (auto simp: civil_date_Suc split: prod.splits)
  qed
  with assms show "1970 \<le> y" "1 \<le> m" "m \<le> 12" "1 \<le> d" "d \<le> month_length y m" by auto
qed

end
