(* ===== verification/Cri_Log.thy ===== *)
theory Cri_Log
  imports Civil_Date
begin

text \<open>
  Container logs of the fake backend: \<open>cri_log_line\<close>, the tee thread that is the only reader of a
  container's output (\<open>spawn_tee_thread\<close>) with its fan-out to attached clients
  (\<open>FanOut::broadcast\<close>), and the line check of \<open>crates/lightr-cri-vectors/src/lib.rs\<close>.

  The tee is a fold over what happens to it: a read of a chunk, with which attached pipes accept
  it, or the registration of a pipe by an attach.  The end of the list is the end of the
  output.  \<open>clock\<close> gives the seconds and nanoseconds of each reading of the time.
\<close>

section \<open>One line\<close>

definition timestamp :: "nat \<times> nat \<Rightarrow> string" where
  "timestamp now =
     (let (secs, nanos) = now; (y, mo, d, h, mi, s) = epoch_to_ymd_hms secs
      in pad0 4 y @ ''-'' @ pad0 2 mo @ ''-'' @ pad0 2 d @ ''T'' @ pad0 2 h @ '':'' @ pad0 2 mi
         @ '':'' @ pad0 2 s @ ''.'' @ pad0 9 nanos @ ''Z'')"

definition ends_with_nl :: "bytes \<Rightarrow> bool" where
  "ends_with_nl data \<longleftrightarrow> data \<noteq> [] \<and> List.last data = 10"

definition cri_log_line :: "nat \<times> nat \<Rightarrow> string \<Rightarrow> bytes \<Rightarrow> bytes" where
  "cri_log_line now stream data =
     as_bytes (timestamp now @ '' '' @ stream @ '' '' @ (if ends_with_nl data then ''F'' else ''P'') @ '' '')
     @ data @ (if ends_with_nl data then [] else [10])"

section \<open>The tee\<close>

text \<open>\<open>drain(..=pos)\<close> up to the first newline, and the loop that takes every complete line.\<close>

fun split_line :: "bytes \<Rightarrow> (bytes \<times> bytes) option" where
  "split_line [] = None"
| "split_line (b # bs) =
     (if b = 10 then Some ([b], bs) else map_option (\<lambda>(l, r). (b # l, r)) (split_line bs))"

lemma split_line_length: "split_line p = Some (l, r) \<Longrightarrow> length r < length p"
  by (induction p arbitrary: l) (auto split: if_splits)

record TeeState =
  te_pending :: bytes
  te_records :: "bytes list"
  te_reads :: nat
  te_sinks :: "nat list"
  te_sent :: "(nat \<times> bytes) list"

datatype TeeEvent = TeeChunk bytes "nat \<Rightarrow> bool" | TeeAttach nat

definition write_record :: "(nat \<Rightarrow> nat \<times> nat) \<Rightarrow> string \<Rightarrow> bool \<Rightarrow> bytes \<Rightarrow> TeeState \<Rightarrow> TeeState" where
  "write_record clock stream log_open line st =
     st\<lparr>te_reads := Suc (te_reads st),
        te_records := te_records st
          @ (if log_open then [cri_log_line (clock (te_reads st)) stream line] else [])\<rparr>"

function write_lines :: "(nat \<Rightarrow> nat \<times> nat) \<Rightarrow> string \<Rightarrow> bool \<Rightarrow> TeeState \<Rightarrow> TeeState" where
  "write_lines clock stream log_open st =
     (case split_line (te_pending st) of
        None \<Rightarrow> st
      | Some (line, rest) \<Rightarrow>
          write_lines clock stream log_open
            (write_record clock stream log_open line (st\<lparr>te_pending := rest\<rparr>)))"
  by pat_completeness auto
termination
  by (relation "measure (\<lambda>(_, _, _, st). length (te_pending st))")
     (auto simp: write_record_def dest: split_line_length)

declare write_lines.simps [simp del]

definition broadcast :: "(nat \<Rightarrow> bool) \<Rightarrow> bytes \<Rightarrow> TeeState \<Rightarrow> TeeState" where
  "broadcast accepts data st =
     st\<lparr>te_sinks := filter accepts (te_sinks st),
        te_sent := te_sent st @ map (\<lambda>i. (i, data)) (filter accepts (te_sinks st))\<rparr>"

definition tee_chunk :: "(nat \<Rightarrow> nat \<times> nat) \<Rightarrow> string \<Rightarrow> bool \<Rightarrow> bytes \<Rightarrow> (nat \<Rightarrow> bool) \<Rightarrow> TeeState \<Rightarrow> TeeState" where
  "tee_chunk clock stream log_open chunk accepts st =
     (let st = broadcast accepts chunk st
      in write_lines clock stream log_open (st\<lparr>te_pending := te_pending st @ chunk\<rparr>))"

fun tee_loop :: "(nat \<Rightarrow> nat \<times> nat) \<Rightarrow> string \<Rightarrow> bool \<Rightarrow> TeeEvent list \<Rightarrow> TeeState \<Rightarrow> TeeState" where
  "tee_loop clock stream log_open [] st =
     (if te_pending st = [] then st
      else write_record clock stream log_open (te_pending st) st)"
| "tee_loop clock stream log_open (TeeChunk chunk accepts # evs) st =
     tee_loop clock stream log_open evs (tee_chunk clock stream log_open chunk accepts st)"
| "tee_loop clock stream log_open (TeeAttach i # evs) st =
     tee_loop clock stream log_open evs (st\<lparr>te_sinks := te_sinks st @ [i]\<rparr>)"

definition tee_start :: TeeState where
  "tee_start = \<lparr>te_pending = [], te_records = [], te_reads = 0, te_sinks = [], te_sent = []\<rparr>"

section \<open>The line check of the vectors\<close>

fun split_ws :: "string \<Rightarrow> (string \<times> string) option" where
  "split_ws [] = None"
| "split_ws (c # cs) = (if is_ws c then Some ([], cs) else map_option (\<lambda>(a, b). (c # a, b)) (split_ws cs))"

fun splitn_ws :: "nat \<Rightarrow> string \<Rightarrow> string list" where
  "splitn_ws 0 s = []"
| "splitn_ws (Suc 0) s = [s]"
| "splitn_ws (Suc (Suc n)) s =
     (case split_ws s of None \<Rightarrow> [s] | Some (a, b) \<Rightarrow> a # splitn_ws (Suc n) b)"

definition part :: "string list \<Rightarrow> nat \<Rightarrow> string" where
  "part ps i = (if i < length ps then ps ! i else [])"

definition sign_at :: "nat \<Rightarrow> string \<Rightarrow> bool" where
  "sign_at i ts = (i < length ts \<and> rev ts ! i \<in> {CHR ''+'', CHR ''-''})"

definition quoted :: "string \<Rightarrow> string" where
  "quoted s = CHR 0x27 # s @ [CHR 0x27]"

definition validate_cri_log_line :: "string \<Rightarrow> string + unit" where
  "validate_cri_log_line line =
     (let parts = splitn_ws 4 line; ts = part parts 0; stream = part parts 1; tag = part parts 2
      in if ts = [] then Inl (''missing timestamp in line: '' @ debug_str line)
         else if CHR ''T'' \<notin> set ts then
           Inl (''timestamp '' @ debug_str ts @ '' does not look like RFC3339 (missing '' @ quoted ''T'' @ '')'')
         else if \<not> (List.last ts = CHR ''Z'' \<or> List.last ts = CHR ''z'' \<or> sign_at 5 ts \<or> sign_at 2 ts) then
           Inl (''timestamp '' @ debug_str ts @ '' does not end with '' @ quoted ''Z'' @ '' or UTC offset'')
         else if stream \<noteq> ''stdout'' \<and> stream \<noteq> ''stderr'' then
           Inl (''stream '' @ debug_str stream @ '' must be '' @ quoted ''stdout'' @ '' or '' @ quoted ''stderr'')
         else if tag \<noteq> ''F'' \<and> tag \<noteq> ''P'' then
           Inl (''tag '' @ debug_str tag @ '' must be '' @ quoted ''F'' @ '' or '' @ quoted ''P'')
         else Inr ())"

section \<open>Lines, whatever the chunks\<close>

text \<open>The complete lines of some bytes and what is left, and all lines of a finished output.\<close>

function drain :: "bytes \<Rightarrow> bytes list \<times> bytes" where
  "drain p =
     (case split_line p of
        None \<Rightarrow> ([], p)
      | Some (l, r) \<Rightarrow> let (ls, q) = drain r in (l # ls, q))"
  by pat_completeness auto
termination
  by (relation "measure length") (auto dest: split_line_length)

declare drain.simps [simp del]

definition lines_of :: "bytes \<Rightarrow> bytes list" where
  "lines_of p = (let (ls, q) = drain p in ls @ (if q = [] then [] else [q]))"

lemma drain_None: "split_line p = None \<Longrightarrow> drain p = ([], p)"
  by (simp add: drain.simps)

lemma drain_Some: "split_line p = Some (l, r) \<Longrightarrow> drain p = (l # fst (drain r), snd (drain r))"
  by (simp add: drain.simps [of p] case_prod_unfold Let_def)

lemma split_line_append: "split_line p = Some (l, r) \<Longrightarrow> split_line (p @ q) = Some (l, r @ q)"
  by (induction p arbitrary: l) (auto split: if_splits)

lemma split_line_eq: "split_line p = Some (l, r) \<Longrightarrow> p = l @ r \<and> l \<noteq> [] \<and> List.last l = 10 \<and> 10 \<notin> set (butlast l)"
  by (induction p arbitrary: l) (fastforce split: if_splits)+

lemma split_line_None: "split_line p = None \<longleftrightarrow> 10 \<notin> set p"
  by (induction p) auto

lemma split_line_nl: "10 \<notin> set l \<Longrightarrow> split_line (l @ 10 # r) = Some (l @ [10], r)"
  by (induction l) auto

lemma drain_append: "drain (p @ q) =
    (fst (drain p) @ fst (drain (snd (drain p) @ q)), snd (drain (snd (drain p) @ q)))"
proof (induction p rule: drain.induct)
  case (1 p)
  show ?case
  proof (cases "split_line p")
    case (Some x)
    obtain l r where x: "x = (l, r)" by force
    with Some 1 show ?thesis
      by (simp add: drain_Some [of "p @ q" l "r @ q"] drain_Some [of p l r] split_line_append)
  qed (simp add: drain_None)
qed

lemma drain_left: "split_line (snd (drain p)) = None"
proof (induction p rule: drain.induct)
  case (1 p)
  then show ?case
    by (cases "split_line p") (auto simp: drain_None drain_Some)
qed

lemma lines_of_append: "lines_of (p @ q) = fst (drain p) @ lines_of (snd (drain p) @ q)"
  by (simp add: lines_of_def drain_append [of p q] case_prod_unfold Let_def)

lemma concat_lines_of: "concat (lines_of p) = p"
proof (induction p rule: drain.induct)
  case (1 p)
  then show ?case
    by (cases "split_line p")
       (fastforce simp: lines_of_def drain_None drain_Some case_prod_unfold Let_def dest: split_line_eq)+
qed

lemma line_shape:
  "l \<in> set (lines_of p) \<Longrightarrow> l \<noteq> [] \<and> 10 \<notin> set (butlast l)"
proof (induction p rule: drain.induct)
  case (1 p)
  show ?case
  proof (cases "split_line p")
    case None
    with 1 show ?thesis
      by (auto simp: lines_of_def drain_None split_line_None dest: in_set_butlastD split: if_splits)
  next
    case (Some x)
    obtain l' r where x: "x = (l', r)" by force
    with Some have "lines_of p = l' # lines_of r"
      by (simp add: lines_of_def drain_Some case_prod_unfold Let_def)
    with 1 Some x show ?thesis by (auto dest: split_line_eq)
  qed
qed

section \<open>What the tee writes\<close>

definition records :: "(nat \<Rightarrow> nat \<times> nat) \<Rightarrow> string \<Rightarrow> nat \<Rightarrow> bytes list \<Rightarrow> bytes list" where
  "records clock stream n ls = map (\<lambda>(i, l). cri_log_line (clock i) stream l) (enumerate n ls)"

lemma records_append:
  "records clock stream n (ls @ ls') = records clock stream n ls @ records clock stream (n + length ls) ls'"
  by (simp add: records_def enumerate_append_eq)

lemma write_lines_eq:
  "write_lines clock stream True st = st\<lparr>te_pending := snd (drain (te_pending st)),
     te_records := te_records st @ records clock stream (te_reads st) (fst (drain (te_pending st))),
     te_reads := te_reads st + length (fst (drain (te_pending st)))\<rparr>"
proof (induction clock stream True st rule: write_lines.induct)
  case (1 clock stream st)
  show ?case
  proof (cases "split_line (te_pending st)")
    case None
    then show ?thesis
      by (simp add: write_lines.simps [of _ _ _ st] drain_None records_def)
  next
    case (Some x)
    obtain l r where x: "x = (l, r)" by force
    let ?st = "write_record clock stream True l (st\<lparr>te_pending := r\<rparr>)"
    have "write_lines clock stream True st = write_lines clock stream True ?st"
      using Some x by (simp add: write_lines.simps [of _ _ _ st])
    also have "\<dots> = ?st\<lparr>te_pending := snd (drain r),
        te_records := te_records ?st @ records clock stream (te_reads ?st) (fst (drain r)),
        te_reads := te_reads ?st + length (fst (drain r))\<rparr>"
      using 1 Some x by (simp add: write_record_def)
    finally show ?thesis
      using Some x by (simp add: drain_Some write_record_def records_def)
  qed
qed

fun output_of :: "TeeEvent list \<Rightarrow> bytes" where
  "output_of [] = []"
| "output_of (TeeChunk c a # evs) = c @ output_of evs"
| "output_of (TeeAttach i # evs) = output_of evs"

lemma tee_loop_records:
  assumes "split_line (te_pending st) = None"
  shows "te_records (tee_loop clock stream True evs st) =
    te_records st @ records clock stream (te_reads st) (lines_of (te_pending st @ output_of evs))"
  using assms
proof (induction clock stream True evs st rule: tee_loop.induct)
  case (1 clock stream st)
  then show ?case
    by (simp add: lines_of_def drain_None write_record_def records_def)
next
  case (2 clock stream chunk accepts evs st)
  let ?p = "te_pending st @ chunk"
  let ?st = "tee_chunk clock stream True chunk accepts st"
  have st: "te_pending ?st = snd (drain ?p)" "te_reads ?st = te_reads st + length (fst (drain ?p))"
    "te_records ?st = te_records st @ records clock stream (te_reads st) (fst (drain ?p))"
    by (simp_all add: tee_chunk_def Let_def write_lines_eq broadcast_def)
  have "split_line (te_pending ?st) = None" by (simp add: st drain_left)
  from 2(1) [OF this] show ?case
    using lines_of_append [of ?p "output_of evs"] by (simp add: st records_append)
next
  case (3 clock stream i evs st)
  then show ?case by simp
qed

end
