(* ===== verification/Log_Props.thy ===== *)
theory Log_Props
  imports Cri_Log
begin

text \<open>
  The properties of container logs: the timestamps follow the calendar, the log holds the output
  line by line whatever the chunks it was read in, and an attached client gets every byte from
  its attach on.
\<close>

section \<open>Timestamps\<close>

text \<open>C16: The conversion of the epoch seconds is the calendar: the date is the day reached from
  1970-01-01 by as many steps of the Gregorian calendar as whole days have passed (the year cut
  to 32 bits), and the time of day is the rest of the seconds.\<close>

theorem epoch_is_calendar:
  "case epoch_to_ymd_hms secs of (y, mo, d, h, mi, s) \<Rightarrow>
     (case (next_day ^^ (secs div 86400)) (1970, 1, 1) of (y', mo', d') \<Rightarrow>
        y = y' mod 2 ^ 32 \<and> mo = mo' \<and> d = d' \<and> mo \<in> {1..12} \<and> d \<in> {1..month_length y' mo})
     \<and> h < 24 \<and> mi < 60 \<and> s < 60 \<and> 3600 * h + 60 * mi + s = secs mod 86400"
proof -
  obtain y mo d where c: "civil_date (secs div 86400) = (y, mo, d)"
    by (cases "civil_date (secs div 86400)") auto
  have hm: "3600 * ((secs div 3600) mod 24) + 60 * ((secs div 60) mod 60) + secs mod 60 = secs mod 86400"
  proof -
    have "secs mod 86400 = 60 * ((secs div 60) mod 1440) + secs mod 60"
      using mod_mult2_eq [of secs 60 1440] by simp
    moreover have "(secs div 60) mod 1440 = 60 * ((secs div 60 div 60) mod 24) + (secs div 60) mod 60"
      using mod_mult2_eq [of "secs div 60" 60 24] by simp
    ultimately show ?thesis by (simp add: div_mult2_eq [symmetric])
  qed
  show ?thesis
    using civil_date_valid [OF c] c hm civil_date_calendar [of "secs div 86400"]
    by (simp add: epoch_to_ymd_hms_def)
qed

section \<open>The shape of a record\<close>

lemma timestamp_chars:
  "c \<in> set (timestamp now) \<Longrightarrow> is_digit c \<or> c \<in> {CHR ''-'', CHR ''T'', CHR '':'', CHR ''.'', CHR ''Z''}"
  by (auto simp: timestamp_def Let_def dest: pad0_digits split: prod.splits)

lemma timestamp_no_ws: "c \<in> set (timestamp now) \<Longrightarrow> \<not> is_ws c \<and> c \<noteq> CHR 0x0A \<and> c \<noteq> CHR '' ''"
  by (auto simp: is_ws_def is_digit_def dest!: timestamp_chars)

lemma timestamp_T: "CHR ''T'' \<in> set (timestamp now)" and timestamp_Z: "List.last (timestamp now) = CHR ''Z''"
  and timestamp_nonempty: "timestamp now \<noteq> []"
  by (simp_all add: timestamp_def Let_def case_prod_unfold)

text \<open>The three fields before the content.\<close>

definition log_header :: "nat \<times> nat \<Rightarrow> string \<Rightarrow> bool \<Rightarrow> string" where
  "log_header now stream full = timestamp now @ '' '' @ stream @ '' '' @ (if full then ''F'' else ''P'') @ '' ''"

lemma cri_log_line_header:
  "cri_log_line now stream data =
     as_bytes (log_header now stream (ends_with_nl data)) @ data @ (if ends_with_nl data then [] else [10])"
  by (simp add: cri_log_line_def log_header_def)

lemma as_bytes_nl: "10 \<in> set (as_bytes s) \<longleftrightarrow> CHR 0x0A \<in> set s"
proof -
  have "(10 :: u8) = of_char (CHR 0x0A)" by simp
  then show ?thesis by (auto simp: as_bytes_def simp del: of_char_Char)
qed

lemma log_header_nl:
  "stream \<in> {''stdout'', ''stderr''} \<Longrightarrow> 10 \<notin> set (as_bytes (log_header now stream full))"
  by (auto simp: as_bytes_nl log_header_def dest: timestamp_no_ws)

lemma record_line:
  assumes "stream \<in> {''stdout'', ''stderr''}" and "data \<noteq> []" and "10 \<notin> set (butlast data)"
  shows "\<exists>l. cri_log_line now stream data = l @ [10] \<and> 10 \<notin> set l
    \<and> (\<exists>c. l = as_bytes (log_header now stream (ends_with_nl data)) @ c)"
proof -
  note h = log_header_nl [OF assms(1), of now "ends_with_nl data"]
  show ?thesis
  proof (cases "ends_with_nl data")
    case True
    then have "data = butlast data @ [10]"
      using append_butlast_last_id [OF assms(2)] by (simp add: ends_with_nl_def)
    then show ?thesis
      using True h assms(3) by (intro exI [of _ "as_bytes (log_header now stream True) @ butlast data"])
        (simp add: cri_log_line_header)
  next
    case False
    have "10 \<notin> set data"
      using assms(2,3) False append_butlast_last_id [OF assms(2)]
      by (metis UnE ends_with_nl_def list.set(1,2) set_append singletonD)
    then show ?thesis
      using False h by (intro exI [of _ "as_bytes (log_header now stream False) @ data"])
        (simp add: cri_log_line_header)
  qed
qed

section \<open>Reading a log\<close>

text \<open>A reader of the log takes what follows the third space: with its newline where the tag is
  \<open>F\<close>, without where it is \<open>P\<close>.\<close>

definition skip_field :: "bytes \<Rightarrow> bytes" where
  "skip_field bs = tl (dropWhile (\<lambda>b. b \<noteq> 32) bs)"

definition log_content :: "bytes \<Rightarrow> bytes" where
  "log_content line =
     (let rest = skip_field (skip_field line)
      in if hd rest = 70 then skip_field rest else butlast (skip_field rest))"

lemma skip_field_append: "CHR '' '' \<notin> set f \<Longrightarrow> skip_field (as_bytes f @ 32 # bs) = bs"
proof -
  assume f: "CHR '' '' \<notin> set f"
  have "of_char (CHR '' '') = (32 :: u8)" by simp
  with f have "\<forall>b \<in> set (as_bytes f). b \<noteq> 32"
    unfolding as_bytes_def by (auto simp del: of_char_Char) (metis of_char_inject_u8)
  then show ?thesis by (simp add: skip_field_def dropWhile_append)
qed

lemma log_content_record:
  assumes "stream \<in> {''stdout'', ''stderr''}"
  shows "log_content (cri_log_line now stream data) = data"
proof -
  have sp: "CHR '' '' \<notin> set (timestamp now)" "CHR '' '' \<notin> set stream"
    using timestamp_no_ws [of "CHR '' ''" now] assms by auto
  have bytes: "as_bytes (log_header now stream full) =
      as_bytes (timestamp now) @ 32 # as_bytes stream @ 32 # (if full then 70 else 80) # [32]" for full
    by (simp add: log_header_def as_bytes_def)
  have tag: "skip_field (x # 32 # bs) = bs" if "x \<noteq> 32" for x :: u8 and bs
    using that by (simp add: skip_field_def)
  show ?thesis
    by (simp add: log_content_def cri_log_line_header bytes skip_field_append sp tag)
qed

lemma lines_of_concat:
  assumes "list_all (\<lambda>r. \<exists>l. r = l @ [10] \<and> 10 \<notin> set l) rs"
  shows "lines_of (concat rs) = rs"
  using assms
proof (induction rs)
  case Nil
  show ?case by (simp add: lines_of_def drain_None)
next
  case (Cons r rs)
  then obtain l where l: "r = l @ [10]" "10 \<notin> set l" by auto
  have "split_line (concat (r # rs)) = Some (r, concat rs)"
    using split_line_nl [OF l(2), of "concat rs"] l(1) by simp
  with Cons show ?case
    by (simp add: lines_of_def drain_Some [of "r @ concat rs"] case_prod_unfold Let_def split: if_splits)
qed

text \<open>The check of the vectors passes.\<close>

lemma split_ws_append: "(\<And>c. c \<in> set a \<Longrightarrow> \<not> is_ws c) \<Longrightarrow> split_ws (a @ CHR '' '' # b) = Some (a, b)"
  by (induction a) (auto simp: is_ws_def)

lemma validate_header:
  assumes "stream \<in> {''stdout'', ''stderr''}"
  shows "validate_cri_log_line (log_header now stream full @ c) = Inr ()"
proof -
  have no_ws: "\<And>c. c \<in> set stream \<Longrightarrow> \<not> is_ws c" using assms by (auto simp: is_ws_def)
  have "splitn_ws 4 (log_header now stream full @ c) = [timestamp now, stream, if full then ''F'' else ''P'', c]"
    using split_ws_append [of "timestamp now"] timestamp_no_ws [of _ now] split_ws_append [of stream] no_ws
    by (simp add: log_header_def eval_nat_numeral is_ws_def)
  then show ?thesis
    using assms timestamp_T timestamp_Z timestamp_nonempty
    by (auto simp: validate_cri_log_line_def part_def)
qed

text \<open>C15: The tee writes the output line by line: one record per line of the whole output, however
  the reads cut it into chunks, with the clock read once per line.  Reading the log gives the
  output back byte for byte, and every record but its final newline passes the line check of
  the conformance vectors.\<close>

theorem tee_log_complete:
  assumes "stream \<in> {''stdout'', ''stderr''}"
  shows "let recs = te_records (tee_loop clock stream True evs tee_start) in
      recs = map (\<lambda>(i, l). cri_log_line (clock i) stream l) (enumerate 0 (lines_of (output_of evs)))
    \<and> concat (map log_content (lines_of (concat recs))) = output_of evs
    \<and> list_all (\<lambda>r. \<exists>line. r = line @ [10] \<and> validate_cri_log_line (of_bytes line) = Inr ()) recs"
proof -
  let ?ls = "lines_of (output_of evs)"
  have recs: "te_records (tee_loop clock stream True evs tee_start) = records clock stream 0 ?ls"
    using tee_loop_records [of tee_start clock stream evs] by (simp add: tee_start_def)
  have shape: "\<exists>l. r = l @ [10] \<and> 10 \<notin> set l \<and> (\<exists>now full c. l = as_bytes (log_header now stream full) @ c)"
    if "r \<in> set (records clock stream 0 ?ls)" for r
  proof -
    obtain i l where r: "r = cri_log_line (clock i) stream l" "l \<in> set ?ls"
      using \<open>r \<in> _\<close> by (auto simp: records_def in_set_enumerate_eq)
    from record_line [OF assms, of l "clock i"] line_shape [OF r(2)] show ?thesis
      unfolding r(1) by blast
  qed
  have "lines_of (concat (records clock stream 0 ?ls)) = records clock stream 0 ?ls"
    using shape by (intro lines_of_concat) (auto simp: list_all_iff)
  moreover have "map log_content (records clock stream 0 ?ls) = ?ls"
    by (simp add: records_def comp_def case_prod_unfold log_content_record [OF assms])
  moreover have "\<exists>line. r = line @ [10] \<and> validate_cri_log_line (of_bytes line) = Inr ()"
    if "r \<in> set (records clock stream 0 ?ls)" for r
  proof -
    from shape [OF that] obtain l now full c where l: "r = l @ [10]" "l = as_bytes (log_header now stream full) @ c"
      by blast
    have "of_bytes l = log_header now stream full @ of_bytes c"
      unfolding l(2) by (simp add: of_bytes_def as_bytes_def comp_def)
    with l(1) validate_header [OF assms, of now full "of_bytes c"] show ?thesis by auto
  qed
  ultimately show ?thesis
    by (simp add: recs concat_lines_of list_all_iff) (simp add: records_def)
qed

theorem tee_log_complete_witness:
  "concat (map log_content (lines_of (concat (te_records (tee_loop (\<lambda>i. (i, 5)) ''stdout'' True
      [TeeChunk [104] (\<lambda>_. True), TeeChunk [105, 10, 120] (\<lambda>_. True)] tee_start))))) = [104, 105, 10, 120]"
proof -
  have "''stdout'' \<in> {''stdout'', ''stderr''}" by simp
  from tee_log_complete [OF this, of "\<lambda>i. (i, 5)" "[TeeChunk [104] (\<lambda>_. True), TeeChunk [105, 10, 120] (\<lambda>_. True)]",
      unfolded Let_def] show ?thesis
    by (elim conjE) (simp only: output_of.simps append.simps)
qed

section \<open>Attached clients\<close>

text \<open>What a client is due from its attach on: every chunk up to the first its pipe refuses.\<close>

fun due :: "nat \<Rightarrow> TeeEvent list \<Rightarrow> bytes" where
  "due i [] = []"
| "due i (TeeChunk c accepts # evs) = (if accepts i then c @ due i evs else [])"
| "due i (TeeAttach j # evs) = due i evs"

definition sent_to :: "nat \<Rightarrow> TeeState \<Rightarrow> bytes" where
  "sent_to i st = concat (map snd (filter (\<lambda>(j, _). j = i) (te_sent st)))"

lemma write_lines_sinks:
  "te_sinks (write_lines clock stream b st) = te_sinks st \<and> te_sent (write_lines clock stream b st) = te_sent st"
proof (induction clock stream b st rule: write_lines.induct)
  case (1 clock stream b st)
  then show ?case
    by (subst (1 2) write_lines.simps) (auto simp: write_record_def split: option.splits)
qed

lemma sent_to_copies:
  "concat (map snd (filter (\<lambda>(j, _). j = i) (map (\<lambda>i. (i, c)) xs))) = concat (replicate (count_list xs i) c)"
  by (induction xs) auto

fun gets :: "nat \<Rightarrow> bool \<Rightarrow> TeeEvent list \<Rightarrow> bytes" where
  "gets i here [] = []"
| "gets i here (TeeChunk c accepts # evs) =
     (if here \<and> accepts i then c @ gets i True evs else gets i False evs)"
| "gets i here (TeeAttach j # evs) = gets i (here \<or> j = i) evs"

lemma count_filter: "count_list (filter P xs) i = (if P i then count_list xs i else 0)"
  by (induction xs) auto

lemma tee_loop_sent:
  assumes "count_list (te_sinks st) i + count_list evs (TeeAttach i) \<le> 1"
  shows "sent_to i (tee_loop clock stream b evs st) = sent_to i st @ gets i (i \<in> set (te_sinks st)) evs"
  using assms
proof (induction clock stream b evs st rule: tee_loop.induct)
  case (1 clock stream b st)
  then show ?case by (simp add: sent_to_def write_record_def)
next
  case (2 clock stream b chunk accepts evs st)
  let ?st = "tee_chunk clock stream b chunk accepts st"
  have st: "te_sinks ?st = filter accepts (te_sinks st)"
    "te_sent ?st = te_sent st @ map (\<lambda>i. (i, chunk)) (filter accepts (te_sinks st))"
    by (simp_all add: tee_chunk_def Let_def write_lines_sinks broadcast_def)
  have "count_list (te_sinks st) i = 1" if "i \<in> set (te_sinks st)"
    using that 2(2) count_list_0_iff [of "te_sinks st" i] by (cases "count_list (te_sinks st) i") auto
  then have "sent_to i ?st = sent_to i st @ (if i \<in> set (te_sinks ?st) then chunk else [])"
    using sent_to_copies [of i chunk "filter accepts (te_sinks st)"]
    by (auto simp: sent_to_def st count_filter)
  moreover have "count_list (te_sinks ?st) i + count_list evs (TeeAttach i) \<le> 1"
    using 2(2) by (simp add: st count_filter)
  ultimately show ?case using 2(1) by (auto simp: st)
next
  case (3 clock stream b j evs st)
  then show ?case by (cases "j = i") (simp_all add: sent_to_def)
qed

lemma gets_after: "TeeAttach i \<notin> set evs \<Longrightarrow> gets i here evs = (if here then due i evs else [])"
  by (induction i here evs rule: gets.induct) auto

lemma gets_append: "TeeAttach i \<notin> set evs \<Longrightarrow> gets i False (evs @ evs') = gets i False evs'"
proof (induction evs)
  case (Cons ev evs)
  then show ?case by (cases ev) auto
qed simp

text \<open>A client that attaches gets, on its own pipe, every byte of output read after its attach,
  in order, without waiting for line ends, until its pipe refuses a chunk; then it is dropped.
  Neither the log nor other clients change that.\<close>

lemma attach_receives:
  assumes "TeeAttach i \<notin> set earlier" and "TeeAttach i \<notin> set later"
  shows "sent_to i (tee_loop clock stream log_open (earlier @ TeeAttach i # later) tee_start) = due i later"
proof -
  have "count_list (earlier @ TeeAttach i # later) (TeeAttach i) = 1"
    using assms by (simp add: count_notin)
  then show ?thesis
    using tee_loop_sent [of tee_start i "earlier @ TeeAttach i # later" clock stream log_open] assms
    by (simp add: tee_start_def sent_to_def gets_append gets_after)
qed

end
