(* ===== verification/Spdy_Conn.thy ===== *)
theory Spdy_Conn
  imports Ws_Session Spdy_Frame Spdy_Headers
begin

text \<open>
  The SPDY driver of exec and attach (\<open>spdy/conn.rs\<close>: \<open>read_frame\<close>, \<open>run_exec\<close>,
  \<open>spawn_output\<close>).  Four kinds of task run at once: the read loop over the client's frames,
  one output pump per output stream, the reaper, and the completion path.  A step of any of
  them is an \<open>ExecEvent\<close>; \<open>exec_step\<close> is \<open>None\<close> where the event can not happen, and a run is a
  list of events, so every interleaving is a run.

  The read loop handles a SYN_STREAM in two steps, as the code does under two locks: the role is
  entered (and the completion path may look), then the pump is registered.  The completion
  path is a \<open>Phase\<close>: it arms the detach signal, waits for the client's streams (\<open>Barrier\<close>), for
  the pumps (\<open>Gate\<close>), for the reaper, the drain or a detach (\<open>Select\<close>), drains, waits for the
  exit code, sends the terminal frames and leaves a grace period.

  The header compressor is zlib's, a C library: \<open>Zlib\<close> holds its two state transitions.
\<close>

section \<open>Reading a frame\<close>

datatype ReadResult = GotFrame Frame | GotEof | GotError string

text \<open>\<open>chunks\<close> is what the successive reads return; their end is the end of the stream, as is a
  read of nothing.\<close>

fun read_frame :: "bytes list \<Rightarrow> bytes \<Rightarrow> ReadResult \<times> bytes list \<times> bytes" where
  "read_frame chunks buf =
     (case parse_frame buf of
        ParsedFrame f n \<Rightarrow> (GotFrame f, chunks, drop n buf)
      | ParseError e \<Rightarrow> (GotError e, chunks, buf)
      | NeedMore \<Rightarrow>
          (case chunks of
             [] \<Rightarrow> (GotEof, [], buf)
           | c # cs \<Rightarrow> if c = [] then (GotEof, cs, buf) else read_frame cs (buf @ c)))"

declare read_frame.simps [simp del]

section \<open>The connection\<close>

record ('c, 'd) Zlib =
  z_compress :: "'c \<Rightarrow> bytes \<Rightarrow> bytes \<times> 'c"
  z_decompress :: "'d \<Rightarrow> bytes \<Rightarrow> (string + bytes) \<times> 'd"
  z_new_compressor :: 'c
  z_new_decompressor :: 'd

text \<open>An output pump: its source, its stream, whether it still runs.\<close>

record Pump =
  pu_source :: u8
  pu_stream :: u32
  pu_running :: bool

datatype Phase = Starting | Barrier | Gate | Select | Draining | AwaitExit | Grace | Closed

record ('c, 'd) ExecConn =
  xc_comp :: 'c
  xc_decomp :: 'd
  xc_roles :: "(u32, u8) btree"
  xc_by_role :: "(u8, u32) btree"
  xc_stdin :: bool
  xc_pty :: bool
  xc_stdout_raw :: bool
  xc_stderr_raw :: bool
  xc_registering :: "(u8 \<times> u32) option"
  xc_pumps :: "Pump list"
  xc_reading :: bool
  xc_detached :: bool
  xc_exited :: "i32 option option"
  xc_reaped :: "i32 option"
  xc_drain :: "u8 list"
  xc_phase :: Phase
  xc_sent :: "Frame list"
  xc_stdin_writes :: "bytes list"
  xc_resizes :: "TerminalSize list"

datatype ExecEvent =
    InFrame Frame
  | InEnd
  | Register
  | PumpRead u8 "bytes option" bool
  | ReaperDone "i32 option"
  | Complete
  | Detach
  | TimedOut

definition xsend :: "Frame \<Rightarrow> ('c, 'd) ExecConn \<Rightarrow> ('c, 'd) ExecConn" where
  "xsend f x = x\<lparr>xc_sent := xc_sent x @ [f]\<rparr>"

definition syn_reply :: "('c, 'd) Zlib \<Rightarrow> u32 \<Rightarrow> ('c, 'd) ExecConn \<Rightarrow> ('c, 'd) ExecConn" where
  "syn_reply z sid x =
     (let (compressed, c) = z_compress z (xc_comp x) (serialize_headers [])
      in xsend (SynReply sid 0 compressed) (x\<lparr>xc_comp := c\<rparr>))"

definition read_headers :: "('c, 'd) Zlib \<Rightarrow> bytes \<Rightarrow> 'd \<Rightarrow> header_list \<times> 'd" where
  "read_headers z block d =
     (let (r, d) = z_decompress z d block
      in (case r of
            Inl e \<Rightarrow> []
          | Inr b \<Rightarrow> (case deserialize_headers b of None \<Rightarrow> [] | Some hs \<Rightarrow> hs), d))"

definition stream_role :: "header_list \<Rightarrow> u8" where
  "stream_role hdr =
     (case header_get hdr ''streamType'' of
        None \<Rightarrow> 0xff
      | Some t \<Rightarrow>
          if t = ''stdin'' then STDIN
          else if t = ''stdout'' then STDOUT
          else if t = ''stderr'' then STDERR
          else if t = ''error'' then ERROR_CH
          else if t = ''resize'' then RESIZE
          else 0xff)"

section \<open>The read loop\<close>

definition open_stream :: "('c, 'd) Zlib \<Rightarrow> u32 \<Rightarrow> bytes \<Rightarrow> ('c, 'd) ExecConn \<Rightarrow> ('c, 'd) ExecConn" where
  "open_stream z sid block x =
     (let (hdr, d) = read_headers z block (xc_decomp x);
          role = stream_role hdr;
          x = syn_reply z sid (x\<lparr>xc_decomp := d\<rparr>)
      in x\<lparr>xc_roles := bt_insert sid role (xc_roles x),
           xc_by_role := bt_insert role sid (xc_by_role x),
           xc_registering := Some (role, sid)\<rparr>)"

text \<open>Taking the output file of the role, if it is still there, starts its pump.\<close>

definition register_pump :: "u8 \<Rightarrow> u32 \<Rightarrow> ('c, 'd) ExecConn \<Rightarrow> ('c, 'd) ExecConn" where
  "register_pump role sid x =
     (if role = STDOUT \<and> xc_stdout_raw x then
        x\<lparr>xc_stdout_raw := False,
          xc_pumps := xc_pumps x @ [\<lparr>pu_source = STDOUT, pu_stream = sid, pu_running = True\<rparr>]\<rparr>
      else if role = STDERR \<and> xc_stderr_raw x then
        x\<lparr>xc_stderr_raw := False,
          xc_pumps := xc_pumps x @ [\<lparr>pu_source = STDERR, pu_stream = sid, pu_running = True\<rparr>]\<rparr>
      else x)"

definition client_closed :: "('c, 'd) ExecConn \<Rightarrow> ('c, 'd) ExecConn" where
  "client_closed x = (if xc_phase x = Starting then x else x\<lparr>xc_detached := True\<rparr>)"

text \<open>\<open>notify_waiters\<close> wakes only a waiter that is registered: before the completion path has
  armed the detach signal, the notification is lost.\<close>

definition in_data :: "(bytes \<Rightarrow> TerminalSize option list) \<Rightarrow> bool \<Rightarrow> u32 \<Rightarrow> u8 \<Rightarrow> bytes
    \<Rightarrow> ('c, 'd) ExecConn \<Rightarrow> ('c, 'd) ExecConn" where
  "in_data de is_attach sid fl bs x =
     (let role = map_of (xc_roles x) sid;
          x = (if role = Some STDIN then
                 (if xc_stdin x then x\<lparr>xc_stdin_writes := xc_stdin_writes x @ [bs]\<rparr> else x)
               else if role = Some RESIZE then
                 (case parse_resize de bs of
                    Some sz \<Rightarrow> if xc_pty x then x\<lparr>xc_resizes := xc_resizes x @ [sz]\<rparr> else x
                  | None \<Rightarrow> x)
               else x)
      in if fl AND FLAG_FIN \<noteq> 0 then
           (let x = (if role = Some STDIN then x\<lparr>xc_stdin := False\<rparr> else x)
            in if is_attach then client_closed x else x)
         else x)"

definition end_reading :: "('c, 'd) ExecConn \<Rightarrow> ('c, 'd) ExecConn" where
  "end_reading x = client_closed (x\<lparr>xc_reading := False\<rparr>)"

fun in_frame :: "('c, 'd) Zlib \<Rightarrow> (bytes \<Rightarrow> TerminalSize option list) \<Rightarrow> bool \<Rightarrow> Frame
    \<Rightarrow> ('c, 'd) ExecConn \<Rightarrow> ('c, 'd) ExecConn" where
  "in_frame z de is_attach (SynStream sid a p fl block) x = open_stream z sid block x"
| "in_frame z de is_attach (Data sid fl bs) x = in_data de is_attach sid fl bs x"
| "in_frame z de is_attach (Frame.Ping i) x = xsend (Frame.Ping i) x"
| "in_frame z de is_attach (RstStream sid s) x = end_reading x"
| "in_frame z de is_attach (GoAway sid s) x = end_reading x"
| "in_frame z de is_attach (Settings p) x = x"
| "in_frame z de is_attach (WindowUpdate sid d) x = x"
| "in_frame z de is_attach (Headers sid fl b) x = x"
| "in_frame z de is_attach (SynReply sid fl b) x = x"

section \<open>The output pumps\<close>

definition pump_running :: "u8 \<Rightarrow> ('c, 'd) ExecConn \<Rightarrow> Pump option" where
  "pump_running src x = List.find (\<lambda>p. pu_source p = src \<and> pu_running p) (xc_pumps x)"

definition stop_pump :: "u8 \<Rightarrow> ('c, 'd) ExecConn \<Rightarrow> ('c, 'd) ExecConn" where
  "stop_pump src x =
     x\<lparr>xc_pumps := map (\<lambda>p. if pu_source p = src then p\<lparr>pu_running := False\<rparr> else p) (xc_pumps x)\<rparr>"

definition pump_read :: "u8 \<Rightarrow> bytes option \<Rightarrow> bool \<Rightarrow> ('c, 'd) ExecConn \<Rightarrow> ('c, 'd) ExecConn option" where
  "pump_read src r write_ok x =
     (case pump_running src x of
        None \<Rightarrow> None
      | Some p \<Rightarrow>
          (case r of
             Some (b # bs) \<Rightarrow>
               Some (if write_ok then xsend (Data (pu_stream p) 0 (b # bs)) x else stop_pump src x)
           | _ \<Rightarrow> Some (stop_pump src x)))"

section \<open>Completion\<close>

definition expected_roles :: "StreamParams \<Rightarrow> u8 list" where
  "expected_roles params =
     [ERROR_CH, STDOUT] @ (if sp_stdin params then [STDIN] else [])
       @ (if sp_tty params then [] else [STDERR])"

definition expected_pumps :: "StreamParams \<Rightarrow> StreamSession \<Rightarrow> nat" where
  "expected_pumps params ses =
     (if ses_stdout ses then 1 else 0) + (if \<not> sp_tty params \<and> ses_stderr ses then 1 else 0)"

definition send_if :: "u32 option \<Rightarrow> (u32 \<Rightarrow> Frame) \<Rightarrow> ('c, 'd) ExecConn \<Rightarrow> ('c, 'd) ExecConn" where
  "send_if sid f x = (case sid of None \<Rightarrow> x | Some i \<Rightarrow> xsend (f i) x)"

text \<open>The terminal frames: both output streams closed, then the status on the error stream.\<close>

definition finish_exec :: "(json \<Rightarrow> bytes) \<Rightarrow> i32 \<Rightarrow> ('c, 'd) ExecConn \<Rightarrow> ('c, 'd) ExecConn" where
  "finish_exec to_vec code x =
     (send_if (map_of (xc_by_role x) ERROR_CH) (\<lambda>i. Data i FLAG_FIN (exit_status_json to_vec code))
       (send_if (map_of (xc_by_role x) STDERR) (\<lambda>i. Data i FLAG_FIN [])
         (send_if (map_of (xc_by_role x) STDOUT) (\<lambda>i. Data i FLAG_FIN []) x)))
     \<lparr>xc_phase := Grace\<rparr>"

definition exit_code :: "i32 option \<Rightarrow> i32" where
  "exit_code r = (case r of Some c \<Rightarrow> c | None \<Rightarrow> -1)"

text \<open>The pumps \<open>drain\<close> awaits are those registered when the select is reached.\<close>

definition enter_select :: "('c, 'd) ExecConn \<Rightarrow> ('c, 'd) ExecConn" where
  "enter_select x = x\<lparr>xc_phase := Select, xc_drain := map pu_source (xc_pumps x)\<rparr>"

definition drained :: "('c, 'd) ExecConn \<Rightarrow> bool" where
  "drained x \<longleftrightarrow> list_all (\<lambda>p. pu_source p \<in> set (xc_drain x) \<longrightarrow> \<not> pu_running p) (xc_pumps x)"

text \<open>One step of the completion path that does not take its detach arm.\<close>

definition complete :: "(json \<Rightarrow> bytes) \<Rightarrow> bool \<Rightarrow> StreamParams \<Rightarrow> StreamSession \<Rightarrow> ('c, 'd) ExecConn
    \<Rightarrow> ('c, 'd) ExecConn option" where
  "complete to_vec is_attach params ses x =
     (case xc_phase x of
        Starting \<Rightarrow> Some (x\<lparr>xc_phase := Barrier\<rparr>)
      | Barrier \<Rightarrow>
          if list_all (\<lambda>r. map_of (xc_by_role x) r \<noteq> None) (expected_roles params)
          then Some (x\<lparr>xc_phase := Gate\<rparr>) else None
      | Gate \<Rightarrow>
          if expected_pumps params ses \<le> length (xc_pumps x) then Some (enter_select x) else None
      | Select \<Rightarrow>
          if is_attach then (if drained x then Some (finish_exec to_vec 0 x) else None)
          else
            (case xc_exited x of
               Some r \<Rightarrow> Some (x\<lparr>xc_reaped := Some (exit_code r), xc_phase := Draining\<rparr>)
             | None \<Rightarrow> if drained x then Some (x\<lparr>xc_phase := AwaitExit\<rparr>) else None)
      | Draining \<Rightarrow>
          if drained x then
            (case xc_reaped x of
               Some c \<Rightarrow> Some (finish_exec to_vec c x)
             | None \<Rightarrow> Some (x\<lparr>xc_phase := AwaitExit\<rparr>))
          else None
      | AwaitExit \<Rightarrow>
          (case xc_exited x of
             Some r \<Rightarrow> Some (finish_exec to_vec (exit_code r) x)
           | None \<Rightarrow> None)
      | Grace \<Rightarrow> if xc_reading x then None else Some (x\<lparr>xc_phase := Closed\<rparr>)
      | Closed \<Rightarrow> None)"

text \<open>The detach arm of the phase's select, and its timeout.\<close>

definition detach :: "(json \<Rightarrow> bytes) \<Rightarrow> bool \<Rightarrow> ('c, 'd) ExecConn \<Rightarrow> ('c, 'd) ExecConn option" where
  "detach to_vec is_attach x =
     (if \<not> xc_detached x then None
      else if is_attach then
        (if xc_phase x \<in> {Barrier, Gate, Select} then Some (finish_exec to_vec 0 x) else None)
      else if xc_phase x = Select then Some (x\<lparr>xc_phase := Draining\<rparr>) else None)"

definition timed_out :: "('c, 'd) ExecConn \<Rightarrow> ('c, 'd) ExecConn option" where
  "timed_out x =
     (case xc_phase x of
        Barrier \<Rightarrow> Some (x\<lparr>xc_phase := Gate\<rparr>)
      | Gate \<Rightarrow> Some (enter_select x)
      | Grace \<Rightarrow> Some (x\<lparr>xc_phase := Closed\<rparr>)
      | _ \<Rightarrow> None)"

section \<open>A run\<close>

fun exec_step :: "('c, 'd) Zlib \<Rightarrow> (json \<Rightarrow> bytes) \<Rightarrow> (bytes \<Rightarrow> TerminalSize option list) \<Rightarrow> StreamVerb
    \<Rightarrow> StreamParams \<Rightarrow> StreamSession \<Rightarrow> ExecEvent \<Rightarrow> ('c, 'd) ExecConn \<Rightarrow> ('c, 'd) ExecConn option" where
  "exec_step z to_vec de verb params ses (InFrame f) x =
     (if xc_phase x \<noteq> Closed \<and> xc_reading x \<and> xc_registering x = None
      then Some (in_frame z de (verb = Attach) f x) else None)"
| "exec_step z to_vec de verb params ses InEnd x =
     (if xc_phase x \<noteq> Closed \<and> xc_reading x \<and> xc_registering x = None
      then Some (end_reading x) else None)"
| "exec_step z to_vec de verb params ses Register x =
     (case xc_registering x of
        Some (role, sid) \<Rightarrow>
          if xc_phase x \<noteq> Closed then Some (register_pump role sid (x\<lparr>xc_registering := None\<rparr>)) else None
      | None \<Rightarrow> None)"
| "exec_step z to_vec de verb params ses (PumpRead src r write_ok) x =
     (if xc_phase x \<noteq> Closed then pump_read src r write_ok x else None)"
| "exec_step z to_vec de verb params ses (ReaperDone r) x =
     (if xc_exited x = None then Some (x\<lparr>xc_exited := Some r\<rparr>) else None)"
| "exec_step z to_vec de verb params ses Complete x = complete to_vec (verb = Attach) params ses x"
| "exec_step z to_vec de verb params ses Detach x = detach to_vec (verb = Attach) x"
| "exec_step z to_vec de verb params ses TimedOut x = timed_out x"

fun exec_run :: "('c, 'd) Zlib \<Rightarrow> (json \<Rightarrow> bytes) \<Rightarrow> (bytes \<Rightarrow> TerminalSize option list) \<Rightarrow> StreamVerb
    \<Rightarrow> StreamParams \<Rightarrow> StreamSession \<Rightarrow> ExecEvent list \<Rightarrow> ('c, 'd) ExecConn \<Rightarrow> ('c, 'd) ExecConn option" where
  "exec_run z to_vec de verb params ses [] x = Some x"
| "exec_run z to_vec de verb params ses (ev # evs) x =
     (case exec_step z to_vec de verb params ses ev x of
        None \<Rightarrow> None
      | Some x' \<Rightarrow> exec_run z to_vec de verb params ses evs x')"

text \<open>A session that could not be opened has no output, no input and no waiter: the connection
  goes straight to the grace period.\<close>

definition no_session :: StreamSession where
  "no_session = \<lparr>ses_stdin = False, ses_stdout = False, ses_stderr = False, ses_pty_master = False,
     ses_exit = None\<rparr>"

definition exec_start :: "('c, 'd) Zlib \<Rightarrow> StreamSession \<Rightarrow> Phase \<Rightarrow> ('c, 'd) ExecConn" where
  "exec_start z ses ph =
     \<lparr>xc_comp = z_new_compressor z, xc_decomp = z_new_decompressor z, xc_roles = [], xc_by_role = [],
      xc_stdin = ses_stdin ses, xc_pty = ses_pty_master ses, xc_stdout_raw = ses_stdout ses,
      xc_stderr_raw = ses_stderr ses, xc_registering = None, xc_pumps = [], xc_reading = True,
      xc_detached = False, xc_exited = None, xc_reaped = None, xc_drain = [], xc_phase = ph,
      xc_sent = [], xc_stdin_writes = [], xc_resizes = []\<rparr>"

definition run_exec :: "('c, 'd) Zlib \<Rightarrow> (json \<Rightarrow> bytes) \<Rightarrow> (bytes \<Rightarrow> TerminalSize option list) \<Rightarrow> StreamVerb
    \<Rightarrow> StreamParams \<Rightarrow> OpenResult \<Rightarrow> ExecEvent list \<Rightarrow> ('c, 'd) ExecConn option" where
  "run_exec z to_vec de verb params opened evs =
     (case opened of
        Opened ses \<Rightarrow> exec_run z to_vec de verb params ses evs (exec_start z ses Starting)
      | _ \<Rightarrow> exec_run z to_vec de verb params no_session evs (exec_start z no_session Grace))"

end
