(* ===== verification/Spdy_Zlib.thy ===== *)
theory Spdy_Zlib
  imports Spdy_Conn
begin

text \<open>
  The header-block codecs of \<open>spdy/zlib.rs\<close> and the preset dictionary of \<open>spdy/dict.rs\<close>.  The
  deflate and inflate streams are those of the crate \<open>flate2\<close>, which the repository only calls:
  \<open>Flate\<close> holds the calls the code makes, and \<open>flate_laws\<close> is what zlib documents of them.  The two
  drain loops around them are the program's: a loop that never stops is \<open>None\<close>, a panic is the value
  \<open>Panicked\<close>.
\<close>

section \<open>The dictionary\<close>

text \<open>The names and values that open the dictionary each carry their length as four bytes; the rest
  of it is plain text.\<close>

definition dict_words :: "string list" where
  "dict_words =
     [''options'', ''head'', ''post'', ''put'', ''delete'', ''trace'', ''accept'',
      ''accept-charset'', ''accept-encoding'', ''accept-language'', ''accept-ranges'',
      ''age'', ''allow'', ''authorization'', ''cache-control'', ''connection'',
      ''content-base'', ''content-encoding'', ''content-language'', ''content-length'',
      ''content-location'', ''content-md5'', ''content-range'', ''content-type'', ''date'',
      ''etag'', ''expect'', ''expires'', ''from'', ''host'', ''if-match'',
      ''if-modified-since'', ''if-none-match'', ''if-range'', ''if-unmodified-since'',
      ''last-modified'', ''location'', ''max-forwards'', ''pragma'', ''proxy-authenticate'',
      ''proxy-authorization'', ''range'', ''referer'', ''retry-after'', ''server'', ''te'',
      ''trailer'', ''transfer-encoding'', ''upgrade'', ''user-agent'', ''vary'', ''via'',
      ''warning'', ''www-authenticate'', ''method'', ''get'', ''status'', ''200 OK'',
      ''version'', ''HTTP/1.1'', ''url'', ''public'', ''set-cookie'', ''keep-alive'',
      ''origin'']"

definition dict_text :: string where
  "dict_text =
     ''10010120120220520630030230330430530630740240540640740840941041141241341441541641''
     @ ''7502504505203 Non-Authoritative Information204 No Content301 Moved Permanently40''
     @ ''0 Bad Request401 Unauthorized403 Forbidden404 Not Found500 Internal Server Error''
     @ ''501 Not Implemented503 Service UnavailableJan Feb Mar Apr May Jun Jul Aug Sept O''
     @ ''ct Nov Dec 00:00:00 Mon, Tue, Wed, Thu, Fri, Sat, Sun, GMTchunked,text/html,imag''
     @ ''e/png,image/jpg,image/gif,application/xml,application/xhtml+xml,text/plain,text/''
     @ ''javascript,publicprivatemax-age=gzip,deflate,sdchcharset=utf-8charset=iso-8859-1''
     @ '',utf-,*,enq=0.''"

definition SPDY_DICTIONARY_LEN :: nat where
  "SPDY_DICTIONARY_LEN = 1423"

definition SPDY_DICTIONARY :: bytes where
  "SPDY_DICTIONARY =
     concat (map (\<lambda>w. be32 (of_nat (length w)) @ as_bytes w) dict_words) @ as_bytes dict_text"

text \<open>The compile-time assertion of the source.\<close>

lemma length_dictionary: "length SPDY_DICTIONARY = SPDY_DICTIONARY_LEN"
  by (simp add: SPDY_DICTIONARY_def SPDY_DICTIONARY_LEN_def dict_words_def dict_text_def)

section \<open>The streams of the library\<close>

text \<open>One call: the error, how much of the input it took, what it left in the buffer.\<close>

record Flated =
  fr_error :: "string option"
  fr_read :: nat
  fr_wrote :: bytes

record ('c, 'd) Flate =
  fl_new_compress :: 'c
  fl_new_decompress :: 'd
  fl_compress :: "bytes \<Rightarrow> nat \<Rightarrow> 'c \<Rightarrow> Flated \<times> 'c"
  fl_decompress :: "bytes \<Rightarrow> nat \<Rightarrow> 'd \<Rightarrow> Flated \<times> 'd"
  fl_compress_dict :: "bytes \<Rightarrow> 'c \<Rightarrow> string option \<times> 'c"
  fl_decompress_dict :: "bytes \<Rightarrow> 'd \<Rightarrow> string option \<times> 'd"

datatype 'a zrun = Returned 'a | Panicked string

definition ZBUF :: nat where "ZBUF = 4096"

section \<open>The compressor\<close>

definition HeaderCompressor_new :: "('c, 'd) Flate \<Rightarrow> 'c zrun" where
  "HeaderCompressor_new fl =
     (case fl_compress_dict fl SPDY_DICTIONARY (fl_new_compress fl) of
        (None, z) \<Rightarrow> Returned z
      | (Some e, z) \<Rightarrow> Panicked (''install SPDY dictionary on compressor: '' @ e))"

text \<open>The slice of the input panics past its end.  The loop ends once the input is used up and the
  buffer came back short, or when a call did nothing.\<close>

partial_function (option) compress_loop ::
    "('c, 'd) Flate \<Rightarrow> bytes \<Rightarrow> nat \<Rightarrow> bytes \<Rightarrow> 'c \<Rightarrow> (bytes zrun \<times> 'c) option" where
  "compress_loop fl input consumed out z =
     (if length input < consumed then Some (Panicked ''range start index out of range'', z)
      else
        case fl_compress fl (drop consumed input) ZBUF z of (r, z') \<Rightarrow>
          (case fr_error r of
             Some e \<Rightarrow> Some (Panicked (''spdy header compress: '' @ e), z')
           | None \<Rightarrow>
               if length input \<le> consumed + fr_read r \<and> length (fr_wrote r) < ZBUF
               then Some (Returned (out @ fr_wrote r), z')
               else if fr_read r = 0 \<and> length (fr_wrote r) = 0
               then Some (Returned (out @ fr_wrote r), z')
               else compress_loop fl input (consumed + fr_read r) (out @ fr_wrote r) z'))"

definition compress :: "('c, 'd) Flate \<Rightarrow> bytes \<Rightarrow> 'c \<Rightarrow> (bytes zrun \<times> 'c) option" where
  "compress fl input z = compress_loop fl input 0 [] z"

section \<open>The decompressor\<close>

record 'd HeaderDecompressor =
  hd_z :: 'd
  hd_dict_installed :: bool

definition HeaderDecompressor_new :: "('c, 'd) Flate \<Rightarrow> 'd HeaderDecompressor" where
  "HeaderDecompressor_new fl = \<lparr>hd_z = fl_new_decompress fl, hd_dict_installed = False\<rparr>"

text \<open>The first error before the dictionary is there installs it and tries again from where the
  library stopped; any other error is the call's.\<close>

partial_function (option) decompress_loop ::
    "('c, 'd) Flate \<Rightarrow> bytes \<Rightarrow> nat \<Rightarrow> bytes \<Rightarrow> 'd HeaderDecompressor
       \<Rightarrow> ((string + bytes) zrun \<times> 'd HeaderDecompressor) option" where
  "decompress_loop fl input consumed out h =
     (if length input < consumed then Some (Panicked ''range start index out of range'', h)
      else
        case fl_decompress fl (drop consumed input) ZBUF (hd_z h) of (r, z') \<Rightarrow>
          (case fr_error r of
             Some e \<Rightarrow>
               if \<not> hd_dict_installed h then
                 (case fl_decompress_dict fl SPDY_DICTIONARY z' of
                    (Some e', z'') \<Rightarrow>
                      Some (Returned (Inl (''set spdy dict: '' @ e')), h\<lparr>hd_z := z''\<rparr>)
                  | (None, z'') \<Rightarrow>
                      decompress_loop fl input (consumed + fr_read r) out
                        (h\<lparr>hd_z := z'', hd_dict_installed := True\<rparr>))
               else Some (Returned (Inl (''spdy header decompress: '' @ e)), h\<lparr>hd_z := z'\<rparr>)
           | None \<Rightarrow>
               if length input \<le> consumed + fr_read r \<and> length (fr_wrote r) < ZBUF
               then Some (Returned (Inr (out @ fr_wrote r)), h\<lparr>hd_z := z'\<rparr>)
               else if fr_read r = 0 \<and> length (fr_wrote r) = 0
               then Some (Returned (Inr (out @ fr_wrote r)), h\<lparr>hd_z := z'\<rparr>)
               else decompress_loop fl input (consumed + fr_read r) (out @ fr_wrote r) (h\<lparr>hd_z := z'\<rparr>)))"

definition decompress :: "('c, 'd) Flate \<Rightarrow> bytes \<Rightarrow> 'd HeaderDecompressor
    \<Rightarrow> ((string + bytes) zrun \<times> 'd HeaderDecompressor) option" where
  "decompress fl input h = decompress_loop fl input 0 [] h"

section \<open>What zlib documents\<close>

text \<open>
  A compressor and the decompressor at the other end, both with dictionary \<open>dict\<close>, are in step
  (\<open>step dict p q c d\<close>) when \<open>q\<close> is what the first emitted and the second has not taken yet, and \<open>p\<close>
  what the first took and the second has not given out yet.  The laws are those of \<open>zlib.h\<close>: a call
  takes input from the front and fills at most the buffer; a call that comes back short has used
  the input up, and with a sync flush (\<open>flushed\<close>) everything so far can be decoded; an inflate call
  that has input makes progress, and one that comes back short has given out what it had; the
  output still to come is bounded (\<open>room\<close>); an inflate error in step means the dictionary is asked
  for (\<open>needs\<close>), and only then.
\<close>

definition deflate_laws where
  "deflate_laws fl step flushed room \<longleftrightarrow>
     (\<forall>dict. \<exists>c. fl_compress_dict fl dict (fl_new_compress fl) = (None, c)
        \<and> step dict [] [] c (fl_new_decompress fl) \<and> flushed c) \<and>
     (\<forall>dict p q c d inp n r c'. step dict p q c d \<longrightarrow> fl_compress fl inp n c = (r, c') \<longrightarrow> 6 < n \<longrightarrow>
        fr_error r = None \<and> fr_read r \<le> length inp \<and> length (fr_wrote r) \<le> n
        \<and> step dict (p @ take (fr_read r) inp) (q @ fr_wrote r) c' d
        \<and> (length (fr_wrote r) < n \<longrightarrow> fr_read r = length inp \<and> flushed c')
        \<and> room c' (drop (fr_read r) inp) + fr_read r + length (fr_wrote r) \<le> (room c inp :: nat))"

definition inflate_laws where
  "inflate_laws fl step flushed needs \<longleftrightarrow>
     (\<forall>dict p bs q c d n r d'. step dict p (bs @ q) c d \<longrightarrow> fl_decompress fl bs n d = (r, d') \<longrightarrow> 6 < n \<longrightarrow>
        fr_read r \<le> length bs \<and>
        (case fr_error r of
           Some e \<Rightarrow> needs d \<and>
             (\<exists>d''. fl_decompress_dict fl dict d' = (None, d'') \<and> \<not> needs d''
                \<and> step dict p (drop (fr_read r) bs @ q) c d'')
         | None \<Rightarrow>
             length (fr_wrote r) \<le> n \<and> (needs d' \<longrightarrow> needs d) \<and>
             (\<exists>p'. p = fr_wrote r @ p' \<and> step dict p' (drop (fr_read r) bs @ q) c d'
                \<and> (length (fr_wrote r) < n \<and> fr_read r = length bs \<and> q = [] \<and> flushed c \<longrightarrow> p' = []))
             \<and> (bs \<noteq> [] \<longrightarrow> 0 < fr_read r \<or> fr_wrote r \<noteq> [])))"

definition flate_laws where
  "flate_laws fl step flushed room needs \<longleftrightarrow>
     deflate_laws fl step flushed room \<and> inflate_laws fl step flushed needs"

lemma deflate_call:
  assumes "deflate_laws fl step flushed room" "step dict p q c d" "fl_compress fl inp n c = (r, c')" "6 < n"
  shows "fr_error r = None" "fr_read r \<le> length inp" "length (fr_wrote r) \<le> n"
    "step dict (p @ take (fr_read r) inp) (q @ fr_wrote r) c' d"
    "length (fr_wrote r) < n \<Longrightarrow> fr_read r = length inp \<and> flushed c'"
    "room c' (drop (fr_read r) inp) + fr_read r + length (fr_wrote r) \<le> room c inp"
  using assms unfolding deflate_laws_def by blast+

lemma inflate_read:
  assumes "inflate_laws fl step flushed needs" "step dict p (bs @ q) c d"
    "fl_decompress fl bs n d = (r, d')" "6 < n"
  shows "fr_read r \<le> length bs"
  using assms unfolding inflate_laws_def by blast

lemma inflate_error:
  assumes "inflate_laws fl step flushed needs" "step dict p (bs @ q) c d"
    "fl_decompress fl bs n d = (r, d')" "6 < n" "fr_error r = Some e"
  shows "needs d \<and> (\<exists>d''. fl_decompress_dict fl dict d' = (None, d'') \<and> \<not> needs d''
    \<and> step dict p (drop (fr_read r) bs @ q) c d'')"
proof -
  have "case fr_error r of Some e \<Rightarrow> needs d \<and>
      (\<exists>d''. fl_decompress_dict fl dict d' = (None, d'') \<and> \<not> needs d''
         \<and> step dict p (drop (fr_read r) bs @ q) c d'') | None \<Rightarrow> True"
    using assms(1-4) unfolding inflate_laws_def by (fastforce split: option.splits)
  with assms(5) show ?thesis by simp
qed

lemma inflate_fine:
  assumes "inflate_laws fl step flushed needs" "step dict p (bs @ q) c d"
    "fl_decompress fl bs n d = (r, d')" "6 < n" "fr_error r = None"
  shows "length (fr_wrote r) \<le> n \<and> (needs d' \<longrightarrow> needs d) \<and>
    (\<exists>p'. p = fr_wrote r @ p' \<and> step dict p' (drop (fr_read r) bs @ q) c d'
       \<and> (length (fr_wrote r) < n \<and> fr_read r = length bs \<and> q = [] \<and> flushed c \<longrightarrow> p' = []))
    \<and> (bs \<noteq> [] \<longrightarrow> 0 < fr_read r \<or> fr_wrote r \<noteq> [])"
proof -
  from assms(1) [unfolded inflate_laws_def, rule_format, OF assms(2-4)] assms(5)
  show ?thesis by simp
qed

section \<open>The two loops\<close>

text \<open>The compressor's loop ends; it has used up the block, and what it emitted can be decoded.\<close>

lemma compress_loop_done:
  assumes laws: "deflate_laws fl step flushed room"
  shows "step dict p q c d \<Longrightarrow> k \<le> length inp \<Longrightarrow>
    \<exists>w c'. compress_loop fl inp k out c = Some (Returned (out @ w), c')
      \<and> step dict (p @ drop k inp) (q @ w) c' d \<and> flushed c'"
proof (induction "room c (drop k inp)" arbitrary: p q c k out rule: less_induct)
  case less
  obtain r c' where call: "fl_compress fl (drop k inp) ZBUF c = (r, c')" by force
  note law = deflate_call [OF laws less.prems(1) call]
  have z: "6 < ZBUF" by (simp add: ZBUF_def)
  let ?w = "fr_wrote r" and ?k = "k + fr_read r"
  have read: "?k \<le> length inp" using law(2) [OF z] less.prems(2) by simp
  have split: "take (fr_read r) (drop k inp) @ drop ?k inp = drop k inp"
    by (metis append_take_drop_id drop_drop add.commute)
  show ?case
  proof (cases "length ?w < ZBUF")
    case True
    with law(5) [OF z] have all: "fr_read r = length (drop k inp)" "flushed c'" by auto
    then have "length inp \<le> ?k" by simp
    with True law(1) [OF z] call less.prems(2)
    have "compress_loop fl inp k out c = Some (Returned (out @ ?w), c')"
      by (subst compress_loop.simps) simp
    then show ?thesis using law(4) [OF z] all by auto
  next
    case False
    with z have "?w \<noteq> []" by auto
    then have "room c' (drop ?k inp) < room c (drop k inp)"
      using law(6) [OF z] by (cases ?w) (auto simp: add.commute)
    from less.hyps [OF this law(4) [OF z] read, of "out @ ?w"]
    obtain w c'' where rest: "compress_loop fl inp ?k (out @ ?w) c' = Some (Returned ((out @ ?w) @ w), c'')"
      "step dict ((p @ take (fr_read r) (drop k inp)) @ drop ?k inp) ((q @ ?w) @ w) c'' d" "flushed c''"
      by blast
    have "compress_loop fl inp k out c = compress_loop fl inp ?k (out @ ?w) c'"
      using False law(1) [OF z] call less.prems(2) \<open>?w \<noteq> []\<close>
      by (subst compress_loop.simps) simp
    with rest split show ?thesis by (metis append.assoc)
  qed
qed

text \<open>The decompressor's loop ends as well, without an error, and gives out all that is due.\<close>

definition dict_ok :: "('d \<Rightarrow> bool) \<Rightarrow> 'd HeaderDecompressor \<Rightarrow> bool" where
  "dict_ok needs h \<longleftrightarrow> (hd_dict_installed h \<longrightarrow> \<not> needs (hd_z h))"

lemma decompress_retry:
  assumes laws: "inflate_laws fl step flushed needs"
    and st: "step SPDY_DICTIONARY p (drop k inp) c (hd_z h)" and k: "k \<le> length inp" and ok: "dict_ok needs h"
    and call: "fl_decompress fl (drop k inp) ZBUF (hd_z h) = (r, d)" and err: "fr_error r = Some e"
  shows "\<exists>d'. \<not> hd_dict_installed h \<and> k + fr_read r \<le> length inp \<and> \<not> needs d'
    \<and> step SPDY_DICTIONARY p (drop (k + fr_read r) inp) c d'
    \<and> decompress_loop fl inp k out h =
        decompress_loop fl inp (k + fr_read r) out \<lparr>hd_z = d', hd_dict_installed = True\<rparr>"
proof -
  have z: "6 < ZBUF" by (simp add: ZBUF_def)
  have st': "step SPDY_DICTIONARY p (drop k inp @ []) c (hd_z h)" using st by simp
  from inflate_error [OF laws st' call z err] obtain d' where
    d: "needs (hd_z h)" "fl_decompress_dict fl SPDY_DICTIONARY d = (None, d')" "\<not> needs d'"
      "step SPDY_DICTIONARY p (drop (fr_read r) (drop k inp) @ []) c d'" by blast
  have fresh: "\<not> hd_dict_installed h" using ok d(1) by (simp add: dict_ok_def)
  have "decompress_loop fl inp k out h =
      decompress_loop fl inp (k + fr_read r) out \<lparr>hd_z = d', hd_dict_installed = True\<rparr>"
    using k call err fresh d(2) by (subst decompress_loop.simps) (cases h, simp)
  moreover have "k + fr_read r \<le> length inp" using inflate_read [OF laws st' call z] k by simp
  ultimately show ?thesis using fresh d(3,4) by (auto simp: add.commute)
qed

lemma decompress_loop_done:
  assumes laws: "inflate_laws fl step flushed needs" and flushed: "flushed c"
  shows "step SPDY_DICTIONARY p (drop k inp) c (hd_z h) \<Longrightarrow> k \<le> length inp \<Longrightarrow> dict_ok needs h \<Longrightarrow>
    \<exists>h'. decompress_loop fl inp k out h = Some (Returned (Inr (out @ p)), h')
      \<and> step SPDY_DICTIONARY [] [] c (hd_z h') \<and> dict_ok needs h'"
proof (induction "length (drop k inp) + length p + (if hd_dict_installed h then 0 else 1)"
    arbitrary: p k out h rule: less_induct)
  case less
  obtain r d where call: "fl_decompress fl (drop k inp) ZBUF (hd_z h) = (r, d)" by force
  have z: "6 < ZBUF" by (simp add: ZBUF_def)
  have st: "step SPDY_DICTIONARY p (drop k inp @ []) c (hd_z h)" using less.prems(1) by simp
  have read: "k + fr_read r \<le> length inp" using inflate_read [OF laws st call z] less.prems(2) by simp
  show ?case
  proof (cases "fr_error r")
    case (Some e)
    from decompress_retry [OF laws less.prems(1,2,3) call Some, of out] obtain d' where
      d: "\<not> hd_dict_installed h" "\<not> needs d'" "step SPDY_DICTIONARY p (drop (k + fr_read r) inp) c d'"
        "decompress_loop fl inp k out h =
          decompress_loop fl inp (k + fr_read r) out \<lparr>hd_z = d', hd_dict_installed = True\<rparr>" by blast
    show ?thesis
      unfolding d(4) by (rule less.hyps) (use d read in \<open>simp_all add: dict_ok_def\<close>)
  next
    case None
    let ?w = "fr_wrote r" and ?k = "k + fr_read r" and ?h = "h\<lparr>hd_z := d\<rparr>"
    from inflate_fine [OF laws st call z None] obtain p' where
      p: "p = ?w @ p'" "step SPDY_DICTIONARY p' (drop (fr_read r) (drop k inp) @ []) c d"
        "length ?w < ZBUF \<and> fr_read r = length (drop k inp) \<and> flushed c \<longrightarrow> p' = []"
      and l: "needs d \<longrightarrow> needs (hd_z h)" "drop k inp \<noteq> [] \<longrightarrow> 0 < fr_read r \<or> ?w \<noteq> []" by auto
    have ok: "dict_ok needs ?h" using less.prems(3) l(1) by (auto simp: dict_ok_def)
    have st': "step SPDY_DICTIONARY p' (drop ?k inp) c (hd_z ?h)" using p(2) by (simp add: add.commute)
    show ?thesis
    proof (cases "length inp \<le> ?k \<and> length ?w < ZBUF")
      case True
      then have "p' = []" using p(3) read flushed less.prems(2) by simp
      moreover have "drop ?k inp = []" using True by simp
      moreover have "decompress_loop fl inp k out h = Some (Returned (Inr (out @ ?w)), ?h)"
        using True less.prems(2) call None by (subst decompress_loop.simps) simp
      ultimately show ?thesis using p(1) st' ok by auto
    next
      case False
      then have some: "0 < fr_read r \<or> ?w \<noteq> []" using l(2) z by fastforce
      then have more_: "decompress_loop fl inp k out h = decompress_loop fl inp ?k (out @ ?w) ?h"
        using False less.prems(2) call None by (subst decompress_loop.simps) auto
      have "length (drop ?k inp) + length p' < length (drop k inp) + length p"
        using some read p(1) by (cases ?w) auto
      then have "\<exists>h'. decompress_loop fl inp ?k (out @ ?w) ?h = Some (Returned (Inr ((out @ ?w) @ p')), h')
          \<and> step SPDY_DICTIONARY [] [] c (hd_z h') \<and> dict_ok needs h'"
        by (intro less.hyps [OF _ st' read ok]) simp
      then show ?thesis unfolding more_ p(1) by simp
    qed
  qed
qed

section \<open>A connection's header blocks\<close>

lemma compress_done:
  assumes "flate_laws fl step flushed room needs" "step dict p q c d"
  shows "\<exists>w c'. compress fl inp c = Some (Returned w, c') \<and> step dict (p @ inp) (q @ w) c' d \<and> flushed c'"
  using compress_loop_done [of fl step flushed room dict p q c d 0 inp "[]"] assms
  by (simp add: flate_laws_def compress_def)

lemma decompress_done:
  assumes "flate_laws fl step flushed room needs" "flushed c" "step SPDY_DICTIONARY p w c (hd_z h)" "dict_ok needs h"
  shows "\<exists>h'. decompress fl w h = Some (Returned (Inr p), h')
    \<and> step SPDY_DICTIONARY [] [] c (hd_z h') \<and> dict_ok needs h'"
  using decompress_loop_done [of fl step flushed needs c p 0 w h "[]"] assms
  by (simp add: flate_laws_def decompress_def)

text \<open>The blocks of a connection, in order: one compressor for what is sent, one decompressor at the
  other end, each kept from block to block.\<close>

fun send_blocks :: "('c, 'd) Flate \<Rightarrow> header_list list \<Rightarrow> 'c \<Rightarrow> bytes list option" where
  "send_blocks fl [] c = Some []"
| "send_blocks fl (hs # hss) c =
     (case compress fl (serialize_headers hs) c of
        Some (Returned w, c') \<Rightarrow> map_option ((#) w) (send_blocks fl hss c')
      | _ \<Rightarrow> None)"

fun receive_blocks :: "('c, 'd) Flate \<Rightarrow> bytes list \<Rightarrow> 'd HeaderDecompressor \<Rightarrow> header_list list option" where
  "receive_blocks fl [] h = Some []"
| "receive_blocks fl (w # ws) h =
     (case decompress fl w h of
        Some (Returned (Inr block), h') \<Rightarrow>
          (case deserialize_headers block of
             Some hs \<Rightarrow> map_option ((#) hs) (receive_blocks fl ws h')
           | None \<Rightarrow> None)
      | _ \<Rightarrow> None)"

text \<open>What is still on its way may be received later: the blocks of one side are sent first.\<close>

lemma blocks_in_step:
  assumes laws: "flate_laws fl step flushed room needs"
  shows "step SPDY_DICTIONARY [] [] c (hd_z h) \<Longrightarrow> dict_ok needs h \<Longrightarrow> list_all headers_ok hss \<Longrightarrow>
    \<exists>ws. send_blocks fl hss c = Some ws \<and> receive_blocks fl ws h = Some hss"
proof (induction hss arbitrary: c h)
  case Nil
  then show ?case by simp
next
  case (Cons hs hss)
  obtain w c' where w: "compress fl (serialize_headers hs) c = Some (Returned w, c')"
    "step SPDY_DICTIONARY (serialize_headers hs) w c' (hd_z h)" "flushed c'"
    using compress_done [OF laws Cons.prems(1)] by fastforce
  obtain h' where h: "decompress fl w h = Some (Returned (Inr (serialize_headers hs)), h')"
    "step SPDY_DICTIONARY [] [] c' (hd_z h')" "dict_ok needs h'"
    using decompress_done [OF laws w(3,2) Cons.prems(2)] by blast
  from Cons.IH [OF h(2,3)] Cons.prems(3) obtain ws where
    "send_blocks fl hss c' = Some ws" "receive_blocks fl ws h' = Some hss" by auto
  then show ?case
    using w(1) h(1) Cons.prems(3) by (intro exI [of _ "w # ws"]) (simp add: headers.dec_enc)
qed

text \<open>The connection drivers over these codecs.  Neither loop panics or runs on under the laws, so the
  cases that stand for it are never reached.\<close>

definition zlib_of :: "('c, 'd) Flate \<Rightarrow> 'c \<Rightarrow> ('c, 'd HeaderDecompressor) Zlib" where
  "zlib_of fl c0 =
     \<lparr>z_compress = (\<lambda>c bs. case compress fl bs c of Some (Returned w, c') \<Rightarrow> (w, c') | _ \<Rightarrow> ([], c)),
      z_decompress = (\<lambda>h bs. case decompress fl bs h of Some (Returned r, h') \<Rightarrow> (r, h') | _ \<Rightarrow> (Inl [], h)),
      z_new_compressor = c0, z_new_decompressor = HeaderDecompressor_new fl\<rparr>"

lemma syn_reply_over_flate:
  assumes "flate_laws fl step flushed room needs" "step dict [] q (xc_comp x) d"
  shows "\<exists>w. xc_sent (syn_reply (zlib_of fl c0) sid x) = xc_sent x @ [SynReply sid 0 w]
    \<and> step dict (serialize_headers []) (q @ w) (xc_comp (syn_reply (zlib_of fl c0) sid x)) d"
  using compress_done [OF assms, of "serialize_headers []"]
  by (auto simp: syn_reply_def zlib_of_def xsend_def)

lemma read_headers_over_flate:
  assumes "flate_laws fl step flushed room needs" "flushed c" "headers_ok hs"
    "step SPDY_DICTIONARY (serialize_headers hs) w c (hd_z h)" "dict_ok needs h"
  shows "\<exists>h'. read_headers (zlib_of fl c0) w h = (hs, h')
    \<and> step SPDY_DICTIONARY [] [] c (hd_z h') \<and> dict_ok needs h'"
  using decompress_done [OF assms(1,2,4,5)] headers.dec_enc [OF assms(3)]
  by (auto simp: read_headers_def zlib_of_def)

text \<open>C25: Header compression never loses or garbles a block, and always ends.  With a zlib library that
  keeps its documented laws, the compressor's construction does not panic, and for any header lists
  within the format's bounds, compressing their blocks one after the other on one compressor returns
  (no panic, no endless drain loop), and a fresh decompressor fed the results one after the other
  installs the dictionary by itself and returns exactly those lists.\<close>

theorem header_stream_roundtrip:
  assumes "flate_laws fl step flushed room needs" "list_all headers_ok hss"
  shows "\<exists>c ws. HeaderCompressor_new fl = Returned c \<and> send_blocks fl hss c = Some ws
    \<and> receive_blocks fl ws (HeaderDecompressor_new fl) = Some hss"
proof -
  from assms(1) obtain c where c: "fl_compress_dict fl SPDY_DICTIONARY (fl_new_compress fl) = (None, c)"
    "step SPDY_DICTIONARY [] [] c (fl_new_decompress fl)"
    unfolding flate_laws_def deflate_laws_def by blast
  then have "HeaderCompressor_new fl = Returned c" by (simp add: HeaderCompressor_new_def)
  with blocks_in_step [OF assms(1), of c "HeaderDecompressor_new fl" hss] c(2) assms(2)
  show ?thesis by (simp add: HeaderDecompressor_new_def dict_ok_def)
qed

text \<open>A library to apply it to: it stores the bytes as they are, and asks for the dictionary first.\<close>

definition stored_flate :: "(unit, bool) Flate" where
  "stored_flate =
     \<lparr>fl_new_compress = (), fl_new_decompress = True,
      fl_compress = (\<lambda>inp n c. (\<lparr>fr_error = None, fr_read = min (length inp) n, fr_wrote = take n inp\<rparr>, c)),
      fl_decompress = (\<lambda>bs n d.
        if d \<and> bs \<noteq> [] then (\<lparr>fr_error = Some ''need dictionary'', fr_read = 0, fr_wrote = []\<rparr>, d)
        else (\<lparr>fr_error = None, fr_read = min (length bs) n, fr_wrote = take n bs\<rparr>, d)),
      fl_compress_dict = (\<lambda>_ c. (None, c)), fl_decompress_dict = (\<lambda>_ _. (None, False))\<rparr>"

lemma stored_deflate:
  "deflate_laws stored_flate (\<lambda>_ p q _ _. p = q) (\<lambda>_. True) (\<lambda>_ inp. 2 * length inp)"
  unfolding deflate_laws_def by (intro conjI allI impI) (auto simp: stored_flate_def min_def split: if_splits)

lemma stored_inflate: "inflate_laws stored_flate (\<lambda>_ p q _ _. p = q) (\<lambda>_. True) (\<lambda>d. d)"
  unfolding inflate_laws_def
proof (intro allI impI)
  fix dict p bs q c d n r d'
  assume p: "p = bs @ q" and call: "fl_decompress stored_flate bs n d = (r, d')" and n: "6 < (n::nat)"
  show "fr_read r \<le> length bs \<and>
    (case fr_error r of
       None \<Rightarrow> length (fr_wrote r) \<le> n \<and> (d' \<longrightarrow> d) \<and>
         (\<exists>p'. p = fr_wrote r @ p' \<and> p' = drop (fr_read r) bs @ q
            \<and> (length (fr_wrote r) < n \<and> fr_read r = length bs \<and> q = [] \<and> True \<longrightarrow> p' = []))
         \<and> (bs \<noteq> [] \<longrightarrow> 0 < fr_read r \<or> fr_wrote r \<noteq> [])
     | Some e \<Rightarrow> d \<and> (\<exists>d''. fl_decompress_dict stored_flate dict d' = (None, d'') \<and> \<not> d''
         \<and> p = drop (fr_read r) bs @ q))"
  proof (cases "d \<and> bs \<noteq> []")
    case True
    with p call show ?thesis by (auto simp: stored_flate_def)
  next
    case False
    with call have "r = \<lparr>fr_error = None, fr_read = min (length bs) n, fr_wrote = take n bs\<rparr>" "d' = d"
      by (auto simp: stored_flate_def)
    with p n show ?thesis by (simp add: min_def)
  qed
qed

lemma header_stream_roundtrip_witness:
  "\<exists>c ws. HeaderCompressor_new stored_flate = Returned c
    \<and> send_blocks stored_flate [[(''streamtype'', ''stdin'')], [(''streamtype'', ''stderr'')]] c = Some ws
    \<and> receive_blocks stored_flate ws (HeaderDecompressor_new stored_flate)
        = Some [[(''streamtype'', ''stdin'')], [(''streamtype'', ''stderr'')]]"
  by (rule header_stream_roundtrip [of stored_flate "\<lambda>_ p q _ _. p = q" "\<lambda>_. True" "\<lambda>_ inp. 2 * length inp" "\<lambda>d. d"])
    (simp_all add: flate_laws_def stored_deflate stored_inflate headers_ok_def rust_string_def as_bytes_def)

end
