(* ===== verification/Spdy_Conn_Laws.thy ===== *)
theory Spdy_Conn_Laws
  imports Spdy_Conn
begin

text \<open>
  What every run of the SPDY exec driver keeps: each output pump writes exactly what it has read
  on the stream the client opened for it, and the completion path has seen what its phase says.
  The client opens each stream id and each stream type at most once (\<open>fresh_open\<close>).
\<close>

section \<open>What a run has read and sent\<close>

fun reads :: "u8 \<Rightarrow> ExecEvent list \<Rightarrow> bytes" where
  "reads src [] = []"
| "reads src (PumpRead s (Some bs) ok # evs) = (if s = src then bs else []) @ reads src evs"
| "reads src (_ # evs) = reads src evs"

lemma reads_append [simp]: "reads src (evs @ evs') = reads src evs @ reads src evs'"
  by (induction src evs rule: reads.induct) auto

definition saw_eof :: "u8 \<Rightarrow> ExecEvent list \<Rightarrow> bool" where
  "saw_eof src evs \<longleftrightarrow> (\<exists>ok. PumpRead src None ok \<in> set evs \<or> PumpRead src (Some []) ok \<in> set evs)"

fun writes_ok :: "ExecEvent \<Rightarrow> bool" where
  "writes_ok (PumpRead src r ok) = ok"
| "writes_ok TimedOut = False"
| "writes_ok _ = True"

fun frame_bytes :: "u32 \<Rightarrow> Frame \<Rightarrow> bytes" where
  "frame_bytes i (Data j fl bs) = (if j = i then bs else [])"
| "frame_bytes i _ = []"

definition payload_on :: "u32 \<Rightarrow> Frame list \<Rightarrow> bytes" where
  "payload_on i fs = concat (map (frame_bytes i) fs)"

lemma payload_on_simps [simp]:
  "payload_on i [] = []" "payload_on i (fs @ gs) = payload_on i fs @ payload_on i gs"
  "payload_on i (f # fs) = frame_bytes i f @ payload_on i fs"
  by (simp_all add: payload_on_def)

section \<open>The invariant of the pumps\<close>

definition sources :: "('c, 'd) ExecConn \<Rightarrow> u8 set" where
  "sources x = pu_source ` set (xc_pumps x)"

definition streams :: "('c, 'd) ExecConn \<Rightarrow> u32 set" where
  "streams x = pu_stream ` set (xc_pumps x)"

text \<open>Each pump serves its own output and has sent on its stream exactly what it has read.\<close>

definition pump_ok :: "ExecEvent list \<Rightarrow> ('c, 'd) ExecConn \<Rightarrow> Pump \<Rightarrow> bool" where
  "pump_ok h x p \<longleftrightarrow>
     (pu_source p = STDOUT \<or> pu_source p = STDERR) \<and>
     map_of (xc_roles x) (pu_stream p) = Some (pu_source p) \<and>
     payload_on (pu_stream p) (xc_sent x) = reads (pu_source p) h \<and>
     (pu_running p \<or> saw_eof (pu_source p) h)"

definition pumps_ok :: "ExecEvent list \<Rightarrow> ('c, 'd) ExecConn \<Rightarrow> bool" where
  "pumps_ok h x \<longleftrightarrow> distinct (map pu_source (xc_pumps x)) \<and> (\<forall>p \<in> set (xc_pumps x). pump_ok h x p)"

text \<open>Nothing is read without a pump, and only the error stream carries bytes besides the pumps'.\<close>

definition silent :: "ExecEvent list \<Rightarrow> ('c, 'd) ExecConn \<Rightarrow> bool" where
  "silent h x \<longleftrightarrow>
     (\<forall>src. src \<notin> sources x \<longrightarrow> reads src h = []) \<and>
     (\<forall>i. i \<notin> streams x \<and> map_of (xc_roles x) i \<noteq> Some ERROR_CH \<longrightarrow> payload_on i (xc_sent x) = [])"

definition files_ok :: "StreamSession \<Rightarrow> ('c, 'd) ExecConn \<Rightarrow> bool" where
  "files_ok ses x \<longleftrightarrow>
     (xc_stdout_raw x \<longleftrightarrow> ses_stdout ses \<and> STDOUT \<notin> sources x) \<and>
     (xc_stderr_raw x \<longleftrightarrow> ses_stderr ses \<and> STDERR \<notin> sources x) \<and>
     (STDOUT \<in> sources x \<longrightarrow> ses_stdout ses) \<and> (STDERR \<in> sources x \<longrightarrow> ses_stderr ses)"

definition roles_ok :: "('c, 'd) ExecConn \<Rightarrow> bool" where
  "roles_ok x \<longleftrightarrow>
     (\<forall>r i. map_of (xc_roles x) i = Some r \<longleftrightarrow> map_of (xc_by_role x) r = Some i) \<and>
     (\<forall>r i. xc_registering x = Some (r, i) \<longrightarrow> map_of (xc_roles x) i = Some r)"

definition io_inv :: "StreamSession \<Rightarrow> ExecEvent list \<Rightarrow> ('c, 'd) ExecConn \<Rightarrow> bool" where
  "io_inv ses h x \<longleftrightarrow> pumps_ok h x \<and> silent h x \<and> files_ok ses x \<and> roles_ok x"

text \<open>An event that opens a stream opens a new one.\<close>

fun fresh_open :: "('c, 'd) Zlib \<Rightarrow> ExecEvent \<Rightarrow> ('c, 'd) ExecConn \<Rightarrow> bool" where
  "fresh_open z (InFrame (SynStream sid a p fl block)) x =
     (map_of (xc_roles x) sid = None \<and>
      map_of (xc_by_role x) (stream_role (fst (read_headers z block (xc_decomp x)))) = None)"
| "fresh_open z _ x = True"

lemma xsend_simps [simp]:
  "xc_sent (xsend f x) = xc_sent x @ [f]" "xc_roles (xsend f x) = xc_roles x"
  "xc_by_role (xsend f x) = xc_by_role x" "xc_pumps (xsend f x) = xc_pumps x"
  "xc_stdout_raw (xsend f x) = xc_stdout_raw x" "xc_stderr_raw (xsend f x) = xc_stderr_raw x"
  "xc_registering (xsend f x) = xc_registering x" "xc_phase (xsend f x) = xc_phase x"
  "xc_drain (xsend f x) = xc_drain x" "xc_exited (xsend f x) = xc_exited x"
  "xc_reaped (xsend f x) = xc_reaped x" "xc_reading (xsend f x) = xc_reading x"
  "xc_detached (xsend f x) = xc_detached x" "xc_decomp (xsend f x) = xc_decomp x"
  by (simp_all add: xsend_def)

lemma in_data_frame [simp]:
  "xc_sent (in_data de a sid fl bs x) = xc_sent x" "xc_roles (in_data de a sid fl bs x) = xc_roles x"
  "xc_by_role (in_data de a sid fl bs x) = xc_by_role x" "xc_pumps (in_data de a sid fl bs x) = xc_pumps x"
  "xc_stdout_raw (in_data de a sid fl bs x) = xc_stdout_raw x"
  "xc_stderr_raw (in_data de a sid fl bs x) = xc_stderr_raw x"
  "xc_registering (in_data de a sid fl bs x) = xc_registering x"
  "xc_phase (in_data de a sid fl bs x) = xc_phase x" "xc_drain (in_data de a sid fl bs x) = xc_drain x"
  "xc_exited (in_data de a sid fl bs x) = xc_exited x" "xc_reaped (in_data de a sid fl bs x) = xc_reaped x"
  by (simp_all add: in_data_def Let_def client_closed_def split: option.splits)

lemma end_reading_frame [simp]:
  "xc_sent (end_reading x) = xc_sent x" "xc_roles (end_reading x) = xc_roles x"
  "xc_by_role (end_reading x) = xc_by_role x" "xc_pumps (end_reading x) = xc_pumps x"
  "xc_stdout_raw (end_reading x) = xc_stdout_raw x" "xc_stderr_raw (end_reading x) = xc_stderr_raw x"
  "xc_registering (end_reading x) = xc_registering x" "xc_phase (end_reading x) = xc_phase x"
  "xc_drain (end_reading x) = xc_drain x" "xc_exited (end_reading x) = xc_exited x"
  "xc_reaped (end_reading x) = xc_reaped x" "xc_registering (end_reading x) = xc_registering x"
  by (simp_all add: end_reading_def client_closed_def)

lemma syn_reply_frame [simp]:
  "payload_on i (xc_sent (syn_reply z sid x)) = payload_on i (xc_sent x)"
  "xc_roles (syn_reply z sid x) = xc_roles x" "xc_by_role (syn_reply z sid x) = xc_by_role x"
  "xc_pumps (syn_reply z sid x) = xc_pumps x" "xc_stdout_raw (syn_reply z sid x) = xc_stdout_raw x"
  "xc_stderr_raw (syn_reply z sid x) = xc_stderr_raw x" "xc_phase (syn_reply z sid x) = xc_phase x"
  "xc_drain (syn_reply z sid x) = xc_drain x" "xc_exited (syn_reply z sid x) = xc_exited x"
  "xc_reaped (syn_reply z sid x) = xc_reaped x"
  by (simp_all add: syn_reply_def Let_def case_prod_unfold)

text \<open>Steps that neither send output nor touch streams and pumps keep the invariant.\<close>

lemma io_inv_cong:
  assumes "io_inv ses h x" and p: "xc_pumps x' = xc_pumps x" and r: "xc_roles x' = xc_roles x"
    and b: "xc_by_role x' = xc_by_role x"
    and s: "\<And>i. map_of (xc_roles x) i \<noteq> Some ERROR_CH \<Longrightarrow> payload_on i (xc_sent x') = payload_on i (xc_sent x)"
    and f: "xc_stdout_raw x' = xc_stdout_raw x" "xc_stderr_raw x' = xc_stderr_raw x"
    and g: "xc_registering x' = xc_registering x \<or> xc_registering x' = None"
    and h: "\<And>src. reads src h' = reads src h" "\<And>src. saw_eof src h \<Longrightarrow> saw_eof src h'"
  shows "io_inv ses h' x'"
proof -
  have so: "sources x' = sources x" and st: "streams x' = streams x"
    by (simp_all add: sources_def streams_def p)
  have "pump_ok h' x' q" if "pump_ok h x q" for q
    using that h(2) by (auto simp: pump_ok_def r h(1) s channel_defs)
  moreover have "roles_ok x'"
    using assms(1) g by (auto simp: io_inv_def roles_ok_def r b)
  ultimately show ?thesis
    using assms(1) by (simp add: io_inv_def pumps_ok_def silent_def files_ok_def p r so st s f h(1))
qed

lemma io_inv_open:
  assumes "io_inv ses h x" and n: "map_of (xc_roles x) sid = None" "map_of (xc_by_role x) r = None"
    and p: "xc_pumps x' = xc_pumps x" and ro: "xc_roles x' = bt_insert sid r (xc_roles x)"
    and b: "xc_by_role x' = bt_insert r sid (xc_by_role x)"
    and s: "\<And>i. payload_on i (xc_sent x') = payload_on i (xc_sent x)"
    and f: "xc_stdout_raw x' = xc_stdout_raw x" "xc_stderr_raw x' = xc_stderr_raw x"
    and g: "xc_registering x' = Some (r, sid)"
  shows "io_inv ses h x'"
proof -
  have so: "sources x' = sources x" and st: "streams x' = streams x"
    by (simp_all add: sources_def streams_def p)
  have "pump_ok h x' q" if "pump_ok h x q" for q
    using that n(1) by (auto simp: pump_ok_def ro s)
  moreover have "map_of (xc_by_role x) r' \<noteq> Some sid" for r'
    using assms(1) n(1) unfolding io_inv_def roles_ok_def by (metis option.distinct(1))
  then have "roles_ok x'"
    using assms(1) n by (auto simp: io_inv_def roles_ok_def ro b g)
  moreover have "silent h x'"
    using assms(1) n(1) by (auto simp: io_inv_def silent_def so st s ro)
  ultimately show ?thesis
    using assms(1) by (simp add: io_inv_def pumps_ok_def files_ok_def p so f)
qed

lemma register_pump_eq:
  "register_pump role sid x =
    (if (role = STDOUT \<and> xc_stdout_raw x) \<or> (role = STDERR \<and> xc_stderr_raw x) then
       x\<lparr>xc_stdout_raw := xc_stdout_raw x \<and> role \<noteq> STDOUT, xc_stderr_raw := xc_stderr_raw x \<and> role \<noteq> STDERR,
         xc_pumps := xc_pumps x @ [\<lparr>pu_source = role, pu_stream = sid, pu_running = True\<rparr>]\<rparr>
     else x)"
  by (auto simp: register_pump_def channel_defs)

text \<open>Starting the pump of an output: it has read and sent nothing yet.\<close>

lemma io_inv_add_pump:
  assumes I: "io_inv ses h x" and r: "role = STDOUT \<or> role = STDERR" and n: "role \<notin> sources x"
    and m: "map_of (xc_roles x) sid = Some role"
  shows "pumps_ok h (x\<lparr>xc_pumps := xc_pumps x @ [\<lparr>pu_source = role, pu_stream = sid, pu_running = True\<rparr>]\<rparr>)"
    and "silent h (x\<lparr>xc_pumps := xc_pumps x @ [\<lparr>pu_source = role, pu_stream = sid, pu_running = True\<rparr>]\<rparr>)"
proof -
  have si: "silent h x" and po: "pumps_ok h x" and ro: "roles_ok x"
    using I by (simp_all add: io_inv_def)
  have "sid \<notin> streams x"
  proof
    assume "sid \<in> streams x"
    then obtain p where "p \<in> set (xc_pumps x)" "pu_stream p = sid"
      by (auto simp: streams_def)
    then have "pu_source p = role" "p \<in> set (xc_pumps x)"
      using po m by (auto simp: pumps_ok_def pump_ok_def)
    then show False
      using n by (auto simp: sources_def)
  qed
  then have "payload_on sid (xc_sent x) = []"
    using si m r by (auto simp: silent_def channel_defs)
  moreover have "reads role h = []"
    using si n by (simp add: silent_def)
  ultimately show "pumps_ok h (x\<lparr>xc_pumps := xc_pumps x @ [\<lparr>pu_source = role, pu_stream = sid, pu_running = True\<rparr>]\<rparr>)"
    using po n r m by (auto simp: pumps_ok_def pump_ok_def sources_def)
  show "silent h (x\<lparr>xc_pumps := xc_pumps x @ [\<lparr>pu_source = role, pu_stream = sid, pu_running = True\<rparr>]\<rparr>)"
    using si by (auto simp: silent_def sources_def streams_def)
qed

lemma io_inv_register:
  assumes I: "io_inv ses h x" and g: "xc_registering x = Some (role, sid)"
  shows "io_inv ses h (register_pump role sid (x\<lparr>xc_registering := None\<rparr>))"
proof -
  let ?y = "x\<lparr>xc_registering := None\<rparr>"
  have I': "io_inv ses h ?y"
    by (rule io_inv_cong [OF I]) auto
  have m: "map_of (xc_roles ?y) sid = Some role"
    using I g by (auto simp: io_inv_def roles_ok_def)
  show ?thesis
  proof (cases "(role = STDOUT \<and> xc_stdout_raw ?y) \<or> (role = STDERR \<and> xc_stderr_raw ?y)")
    case True
    then have n: "role = STDOUT \<or> role = STDERR" "role \<notin> sources ?y"
      using I' by (auto simp: io_inv_def files_ok_def)
    let ?z = "?y\<lparr>xc_pumps := xc_pumps ?y @ [\<lparr>pu_source = role, pu_stream = sid, pu_running = True\<rparr>]\<rparr>"
    let ?w = "register_pump role sid ?y"
    have w: "?w = ?z\<lparr>xc_stdout_raw := xc_stdout_raw x \<and> role \<noteq> STDOUT,
        xc_stderr_raw := xc_stderr_raw x \<and> role \<noteq> STDERR\<rparr>"
      using True by (simp add: register_pump_eq)
    have "pumps_ok h ?w" and "silent h ?w"
      using io_inv_add_pump [OF I' n m]
      by (simp_all add: w pumps_ok_def pump_ok_def silent_def sources_def streams_def)
    moreover have "files_ok ses ?w"
      using I' True by (auto simp: w io_inv_def files_ok_def sources_def channel_defs)
    moreover have "roles_ok ?w"
      using I' by (simp add: w io_inv_def roles_ok_def)
    ultimately show ?thesis
      by (simp add: io_inv_def)
  next
    case False
    then show ?thesis
      using I' by (auto simp: register_pump_eq)
  qed
qed

text \<open>A pump that reads bytes and sends them.\<close>

lemma pump_runningD:
  assumes "pump_running src x = Some p"
  shows "p \<in> set (xc_pumps x)" "pu_source p = src" "pu_running p"
  using assms by (auto simp: pump_running_def find_Some_iff)

lemma io_inv_pump_sends:
  assumes I: "io_inv ses h x" and q: "q \<in> set (xc_pumps x)" "pu_source q = src"
  shows "io_inv ses (h @ [PumpRead src (Some bs) True]) (xsend (Data (pu_stream q) 0 bs) x)"
proof -
  let ?x = "xsend (Data (pu_stream q) 0 bs) x" and ?h = "h @ [PumpRead src (Some bs) True]"
  have po: "pumps_ok h x" and si: "silent h x" and fi: "files_ok ses x" and ro: "roles_ok x"
    using I by (simp_all add: io_inv_def)
  have same: "sources ?x = sources x" "streams ?x = streams x"
    by (simp_all add: sources_def streams_def)
  have eof: "saw_eof s h \<Longrightarrow> saw_eof s ?h" for s
    by (auto simp: saw_eof_def)
  have "pump_ok ?h ?x p" if p: "p \<in> set (xc_pumps x)" for p
  proof -
    have ok: "pump_ok h x p" "pump_ok h x q" and d: "distinct (map pu_source (xc_pumps x))"
      using po p q by (auto simp: pumps_ok_def)
    have "pu_stream q = pu_stream p \<longleftrightarrow> pu_source p = src"
      using ok d p q by (metis (no_types, lifting) distinct_map inj_onD pump_ok_def option.inject)
    then show ?thesis
      using ok eof by (auto simp: pump_ok_def)
  qed
  then have "pumps_ok ?h ?x"
    using po by (simp add: pumps_ok_def)
  moreover have "src \<in> sources x" "pu_stream q \<in> streams x"
    using q by (auto simp: sources_def streams_def)
  then have "silent ?h ?x"
    using si by (auto simp: silent_def same)
  ultimately show ?thesis
    using fi ro by (simp add: io_inv_def files_ok_def roles_ok_def same)
qed

text \<open>A pump that ends.\<close>

lemma stop_pump_maps [simp]:
  "map pu_source (xc_pumps (stop_pump src x)) = map pu_source (xc_pumps x)"
  "map pu_stream (xc_pumps (stop_pump src x)) = map pu_stream (xc_pumps x)"
  by (auto simp: stop_pump_def)

lemma stop_pump_simps [simp]:
  "xc_sent (stop_pump src x) = xc_sent x" "xc_roles (stop_pump src x) = xc_roles x"
  "xc_by_role (stop_pump src x) = xc_by_role x" "xc_stdout_raw (stop_pump src x) = xc_stdout_raw x"
  "xc_stderr_raw (stop_pump src x) = xc_stderr_raw x"
  "xc_registering (stop_pump src x) = xc_registering x" "xc_phase (stop_pump src x) = xc_phase x"
  "xc_drain (stop_pump src x) = xc_drain x" "xc_exited (stop_pump src x) = xc_exited x"
  "xc_reaped (stop_pump src x) = xc_reaped x" "sources (stop_pump src x) = sources x"
  "streams (stop_pump src x) = streams x"
  by (simp_all add: stop_pump_def sources_def streams_def image_image if_distrib
      cong: if_cong del: if_image_distrib)

lemma io_inv_pump_ends:
  assumes I: "io_inv ses h x" and e: "r = None \<or> r = Some []"
  shows "io_inv ses (h @ [PumpRead src r ok]) (stop_pump src x)"
proof -
  let ?x = "stop_pump src x" and ?h = "h @ [PumpRead src r ok]"
  have rd: "reads s [PumpRead src r ok] = []" for s
    using e by auto
  have eof: "saw_eof s h \<or> s = src \<Longrightarrow> saw_eof s ?h" for s
    using e by (auto simp: saw_eof_def)
  have "pump_ok ?h ?x p'" if "p' \<in> set (xc_pumps ?x)" for p'
  proof -
    have "p' \<in> (\<lambda>p. if pu_source p = src then p\<lparr>pu_running := False\<rparr> else p) ` set (xc_pumps x)"
      using that by (simp add: stop_pump_def del: if_image_distrib)
    then obtain p where p: "p \<in> set (xc_pumps x)"
        "p' = (if pu_source p = src then p\<lparr>pu_running := False\<rparr> else p)"
      by (rule imageE)
    then have "pump_ok h x p"
      using I by (simp add: io_inv_def pumps_ok_def)
    then show ?thesis
      using p(2) eof by (auto simp: pump_ok_def rd)
  qed
  then have "pumps_ok ?h ?x"
    using I by (simp add: io_inv_def pumps_ok_def)
  then show ?thesis
    using I by (simp add: io_inv_def silent_def files_ok_def roles_ok_def rd)
qed

section \<open>Every step keeps the invariant\<close>

lemma open_stream_simps [simp]:
  "payload_on i (xc_sent (open_stream z sid b x)) = payload_on i (xc_sent x)"
  "xc_roles (open_stream z sid b x)
     = bt_insert sid (stream_role (fst (read_headers z b (xc_decomp x)))) (xc_roles x)"
  "xc_by_role (open_stream z sid b x)
     = bt_insert (stream_role (fst (read_headers z b (xc_decomp x)))) sid (xc_by_role x)"
  "xc_registering (open_stream z sid b x) = Some (stream_role (fst (read_headers z b (xc_decomp x))), sid)"
  "xc_pumps (open_stream z sid b x) = xc_pumps x"
  "xc_stdout_raw (open_stream z sid b x) = xc_stdout_raw x"
  "xc_stderr_raw (open_stream z sid b x) = xc_stderr_raw x" "xc_phase (open_stream z sid b x) = xc_phase x"
  "xc_drain (open_stream z sid b x) = xc_drain x" "xc_exited (open_stream z sid b x) = xc_exited x"
  "xc_reaped (open_stream z sid b x) = xc_reaped x"
  by (simp_all add: open_stream_def Let_def case_prod_unfold)

lemma io_inv_in_frame:
  assumes I: "io_inv ses h x" and g: "xc_registering x = None" and f: "fresh_open z (InFrame f) x"
  shows "io_inv ses (h @ [InFrame f]) (in_frame z de a f x)"
proof -
  have J: "io_inv ses (h @ [InFrame f]) x"
    by (rule io_inv_cong [OF I]) (auto simp: saw_eof_def)
  show ?thesis
  proof (cases f)
    case (SynStream sid a p fl block)
    let ?r = "stream_role (fst (read_headers z block (xc_decomp x)))"
    show ?thesis
      using f by (intro io_inv_open [OF J, of sid ?r]) (simp_all add: SynStream)
  qed (use g J in \<open>auto intro!: io_inv_cong [OF J]\<close>)
qed

lemma send_if_simps [simp]:
  "xc_roles (send_if s f x) = xc_roles x" "xc_by_role (send_if s f x) = xc_by_role x"
  "xc_pumps (send_if s f x) = xc_pumps x" "xc_stdout_raw (send_if s f x) = xc_stdout_raw x"
  "xc_stderr_raw (send_if s f x) = xc_stderr_raw x" "xc_registering (send_if s f x) = xc_registering x"
  "xc_exited (send_if s f x) = xc_exited x" "xc_reaped (send_if s f x) = xc_reaped x"
  "xc_drain (send_if s f x) = xc_drain x"
  by (simp_all add: send_if_def split: option.split)

lemma payload_on_send_if:
  "payload_on i (xc_sent (send_if s (\<lambda>j. Data j fl bs) x))
     = payload_on i (xc_sent x) @ (if s = Some i then bs else [])"
  by (auto simp: send_if_def split: option.split)

lemma finish_exec_simps [simp]:
  "xc_roles (finish_exec to_vec c x) = xc_roles x" "xc_by_role (finish_exec to_vec c x) = xc_by_role x"
  "xc_pumps (finish_exec to_vec c x) = xc_pumps x" "xc_stdout_raw (finish_exec to_vec c x) = xc_stdout_raw x"
  "xc_stderr_raw (finish_exec to_vec c x) = xc_stderr_raw x"
  "xc_registering (finish_exec to_vec c x) = xc_registering x"
  "xc_exited (finish_exec to_vec c x) = xc_exited x" "xc_reaped (finish_exec to_vec c x) = xc_reaped x"
  "xc_phase (finish_exec to_vec c x) = Grace" "xc_drain (finish_exec to_vec c x) = xc_drain x"
  by (simp_all add: finish_exec_def)

lemma io_inv_finish:
  assumes I: "io_inv ses h x"
  shows "io_inv ses h (finish_exec to_vec c x)"
proof -
  have "map_of (xc_by_role x) ERROR_CH \<noteq> Some i" if "map_of (xc_roles x) i \<noteq> Some ERROR_CH" for i
    using I that by (simp add: io_inv_def roles_ok_def)
  then show ?thesis
    by (intro io_inv_cong [OF I]) (auto simp: finish_exec_def payload_on_send_if)
qed

definition same_io :: "('c, 'd) ExecConn \<Rightarrow> ('c, 'd) ExecConn \<Rightarrow> bool" where
  "same_io x x' \<longleftrightarrow>
     xc_pumps x' = xc_pumps x \<and> xc_roles x' = xc_roles x \<and> xc_by_role x' = xc_by_role x \<and>
     xc_sent x' = xc_sent x \<and> xc_stdout_raw x' = xc_stdout_raw x \<and>
     xc_stderr_raw x' = xc_stderr_raw x \<and> xc_registering x' = xc_registering x \<and>
     xc_exited x' = xc_exited x"

lemma io_inv_same:
  assumes "io_inv ses h x" and "same_io x x'" and "\<And>src. reads src h' = reads src h"
    and "\<And>src. saw_eof src h \<Longrightarrow> saw_eof src h'"
  shows "io_inv ses h' x'"
  by (rule io_inv_cong [OF assms(1)]) (use assms in \<open>auto simp: same_io_def\<close>)

lemma complete_cases:
  assumes "complete to_vec a params ses x = Some x'"
  obtains c where "x' = finish_exec to_vec c x" | "same_io x x'"
  using assms
  by (auto simp: complete_def same_io_def enter_select_def
      split: Phase.splits if_splits option.splits)

lemma detach_cases:
  assumes "detach to_vec a x = Some x'"
  obtains c where "x' = finish_exec to_vec c x" | "same_io x x'"
  using assms by (auto simp: detach_def same_io_def split: if_splits)

lemma io_inv_step:
  assumes I: "io_inv ses h x" and st: "exec_step z to_vec de verb params ses ev x = Some x'"
    and w: "writes_ok ev" and f: "fresh_open z ev x"
  shows "io_inv ses (h @ [ev]) x'"
proof (cases ev)
  case (InFrame fr)
  then show ?thesis
    using st f io_inv_in_frame [OF I] by (auto split: if_splits)
next
  case InEnd
  then have "x' = end_reading x"
    using st by (simp split: if_splits)
  then show ?thesis
    by (auto intro!: io_inv_cong [OF I] simp: InEnd saw_eof_def)
next
  case Register
  then obtain role sid where g: "xc_registering x = Some (role, sid)"
      and x': "x' = register_pump role sid (x\<lparr>xc_registering := None\<rparr>)"
    using st by (auto split: option.splits if_splits)
  show ?thesis
    unfolding x' by (rule io_inv_cong [OF io_inv_register [OF I g]]) (auto simp: Register saw_eof_def)
next
  case (PumpRead src r ok)
  then obtain q where q: "pump_running src x = Some q" and ok
    using st w by (auto simp: pump_read_def split: if_splits option.splits)
  show ?thesis
  proof (cases "r = None \<or> r = Some []")
    case True
    then have "x' = stop_pump src x"
      using st PumpRead q by (auto simp: pump_read_def split: if_splits)
    then show ?thesis
      using io_inv_pump_ends [OF I True] by (simp add: PumpRead)
  next
    case False
    then obtain b bs where r: "r = Some (b # bs)"
      by (metis neq_Nil_conv not_None_eq)
    then have "x' = xsend (Data (pu_stream q) 0 (b # bs)) x"
      using st PumpRead q \<open>ok\<close> by (auto simp: pump_read_def split: if_splits)
    then show ?thesis
      using io_inv_pump_sends [OF I pump_runningD(1, 2) [OF q]] \<open>ok\<close> by (simp add: PumpRead r)
  qed
next
  case (ReaperDone r)
  then show ?thesis
    using st by (auto intro!: io_inv_cong [OF I] simp: saw_eof_def split: if_splits)
next
  case Complete
  have J: "io_inv ses (h @ [ev]) x"
    by (rule io_inv_cong [OF I]) (auto simp: Complete saw_eof_def)
  show ?thesis
    using st unfolding Complete exec_step.simps
    by (rule complete_cases) (use io_inv_finish [OF J] io_inv_same [OF J] in \<open>auto simp: Complete\<close>)
next
  case Detach
  have J: "io_inv ses (h @ [ev]) x"
    by (rule io_inv_cong [OF I]) (auto simp: Detach saw_eof_def)
  show ?thesis
    using st unfolding Detach exec_step.simps
    by (rule detach_cases) (use io_inv_finish [OF J] io_inv_same [OF J] in \<open>auto simp: Detach\<close>)
qed (use w in simp)

end
