(* ===== verification/Spdy_Exec_Props.thy ===== *)
theory Spdy_Exec_Props
  imports Spdy_Conn_Laws
begin

text \<open>
  The properties of the SPDY exec driver: what the phases of the completion path have seen,
  and from it that an exec session hands over all output and the exit code, in that order, under
  every interleaving of the read loop, the pumps, the reaper and the completion path.
\<close>

section \<open>What the phases have seen\<close>

definition outputs :: "StreamSession \<Rightarrow> u8 list" where
  "outputs ses = (if ses_stdout ses then [STDOUT] else []) @ (if ses_stderr ses then [STDERR] else [])"

definition roles_seen :: "StreamParams \<Rightarrow> ('c, 'd) ExecConn \<Rightarrow> bool" where
  "roles_seen params x \<longleftrightarrow>
     (xc_phase x \<in> {Gate, Select, Draining, AwaitExit} \<longrightarrow>
        (\<forall>r \<in> set (expected_roles params). map_of (xc_by_role x) r \<noteq> None))"

definition drain_seen :: "StreamSession \<Rightarrow> ('c, 'd) ExecConn \<Rightarrow> bool" where
  "drain_seen ses x \<longleftrightarrow>
     (xc_phase x \<in> {Select, Draining, AwaitExit} \<longrightarrow>
        set (outputs ses) \<subseteq> set (xc_drain x) \<and> set (xc_drain x) \<subseteq> sources x) \<and>
     (xc_phase x = AwaitExit \<longrightarrow> drained x)"

definition exit_seen :: "ExecEvent list \<Rightarrow> ('c, 'd) ExecConn \<Rightarrow> bool" where
  "exit_seen h x \<longleftrightarrow>
     (\<forall>r. xc_exited x = Some r \<longrightarrow> ReaperDone r \<in> set h) \<and>
     (\<forall>c. xc_reaped x = Some c \<longrightarrow> (\<exists>r. ReaperDone r \<in> set h \<and> c = exit_code r))"

definition phase_inv :: "StreamParams \<Rightarrow> StreamSession \<Rightarrow> ExecEvent list \<Rightarrow> ('c, 'd) ExecConn \<Rightarrow> bool" where
  "phase_inv params ses h x \<longleftrightarrow> roles_seen params x \<and> drain_seen ses x \<and> exit_seen h x"

text \<open>A step that leaves the phase alone and at most opens streams and moves pumps on.\<close>

definition grows :: "('c, 'd) ExecConn \<Rightarrow> ('c, 'd) ExecConn \<Rightarrow> bool" where
  "grows x x' \<longleftrightarrow>
     xc_phase x' = xc_phase x \<and> xc_drain x' = xc_drain x \<and> xc_reaped x' = xc_reaped x \<and>
     (\<forall>r. map_of (xc_by_role x) r \<noteq> None \<longrightarrow> map_of (xc_by_role x') r \<noteq> None) \<and>
     sources x \<subseteq> sources x' \<and>
     (\<forall>p' \<in> set (xc_pumps x'). pu_running p' \<longrightarrow>
        (\<exists>p \<in> set (xc_pumps x). pu_source p = pu_source p' \<and> pu_running p) \<or> pu_source p' \<notin> sources x)"

lemma phase_inv_grows:
  assumes "phase_inv params ses h x" and g: "grows x x'"
    and "\<And>r. xc_exited x' = Some r \<Longrightarrow> xc_exited x = Some r \<or> ReaperDone r = ev"
  shows "phase_inv params ses (h @ [ev]) x'"
proof -
  have "drained x'" if "drained x" "set (xc_drain x) \<subseteq> sources x"
  proof -
    have "\<not> pu_running p'" if p': "p' \<in> set (xc_pumps x')" "pu_source p' \<in> set (xc_drain x)" for p'
    proof
      assume "pu_running p'"
      then have "\<exists>p \<in> set (xc_pumps x). pu_source p = pu_source p' \<and> pu_running p"
        using g p' \<open>set (xc_drain x) \<subseteq> sources x\<close> unfolding grows_def by blast
      then show False
        using \<open>drained x\<close> p'(2) by (auto simp: drained_def list_all_iff)
    qed
    then show ?thesis
      using g by (simp add: drained_def list_all_iff grows_def)
  qed
  then have "drain_seen ses x'"
    using assms(1) g by (auto simp: phase_inv_def drain_seen_def grows_def)
  moreover have "exit_seen (h @ [ev]) x'"
    using assms by (auto simp: phase_inv_def exit_seen_def grows_def)
  moreover have "roles_seen params x'"
    using assms(1) g by (simp add: phase_inv_def roles_seen_def grows_def)
  ultimately show ?thesis
    by (simp add: phase_inv_def)
qed

lemma in_frame_exited [simp]: "xc_exited (in_frame z de a f x) = xc_exited x"
  by (cases f) simp_all

lemma pump_read_exited: "pump_read src r ok x = Some x' \<Longrightarrow> xc_exited x' = xc_exited x"
  by (auto simp: pump_read_def split: option.splits list.splits if_splits)

lemma grows_frame: "grows x (in_frame z de a f x)"
  by (cases f) (auto simp: grows_def sources_def)

lemma grows_end: "grows x (end_reading x)"
  by (auto simp: grows_def sources_def)

lemma grows_register:
  assumes "io_inv ses h x" and "xc_registering x = Some (role, sid)"
  shows "grows x (register_pump role sid (x\<lparr>xc_registering := None\<rparr>))"
  using assms by (auto simp: grows_def register_pump_eq io_inv_def files_ok_def sources_def)

lemma grows_stop: "grows x (stop_pump src x)"
  by (auto simp: grows_def) (auto simp: stop_pump_def)

lemma grows_send: "grows x (xsend f x)"
  by (auto simp: grows_def sources_def)

lemma grows_pump:
  assumes "pump_read src r ok x = Some x'"
  shows "grows x x'"
proof -
  have "x' = stop_pump src x \<or> (\<exists>f. x' = xsend f x)"
    using assms by (auto simp: pump_read_def split: option.splits list.splits if_splits)
  then show ?thesis
    using grows_stop grows_send by metis
qed

text \<open>Behind the gate every output file of the session has its pump.\<close>

lemma all_pumps:
  assumes I: "io_inv ses h x" and n: "expected_pumps params ses \<le> length (xc_pumps x)"
    and e: "\<not> (sp_tty params \<and> ses_stderr ses)"
  shows "set (outputs ses) = sources x"
proof -
  have "s = STDOUT \<or> s = STDERR" if "s \<in> sources x" for s
    using that I by (auto simp: io_inv_def pumps_ok_def pump_ok_def sources_def)
  moreover have "STDOUT \<in> sources x \<longrightarrow> ses_stdout ses" "STDERR \<in> sources x \<longrightarrow> ses_stderr ses"
    using I by (auto simp: io_inv_def files_ok_def)
  ultimately have "sources x \<subseteq> set (outputs ses)"
    by (auto simp: outputs_def)
  moreover have "card (sources x) = length (xc_pumps x)"
    using I distinct_card [of "map pu_source (xc_pumps x)"]
    by (simp add: io_inv_def pumps_ok_def sources_def)
  moreover have "card (set (outputs ses)) = expected_pumps params ses"
    using e by (simp add: outputs_def expected_pumps_def channel_defs)
  ultimately show ?thesis
    using n by (metis card_seteq finite_set)
qed

lemma phase_inv_complete:
  assumes P: "phase_inv params ses h x" and I: "io_inv ses h x"
    and e: "\<not> (sp_tty params \<and> ses_stderr ses)"
    and c: "complete to_vec False params ses x = Some x'"
  shows "phase_inv params ses (h @ [Complete]) x'"
proof -
  have ex: "exit_seen (h @ [Complete]) x"
    using P by (auto simp: phase_inv_def exit_seen_def)
  show ?thesis
  proof (cases "xc_phase x")
    case Gate
    then have x': "x' = enter_select x" and n: "expected_pumps params ses \<le> length (xc_pumps x)"
      using c by (auto simp: complete_def split: if_splits)
    show ?thesis
      using P ex all_pumps [OF I n e] Gate
      by (simp add: x' enter_select_def phase_inv_def roles_seen_def drain_seen_def exit_seen_def
          sources_def)
  qed (use P ex c in \<open>auto simp: complete_def phase_inv_def roles_seen_def drain_seen_def
      exit_seen_def sources_def list_all_iff drained_def finish_exec_def split: if_splits option.splits\<close>)
qed

lemma phase_inv_detach:
  assumes P: "phase_inv params ses h x" and d: "detach to_vec False x = Some x'"
  shows "phase_inv params ses (h @ [Detach]) x'"
  using assms by (auto simp: detach_def phase_inv_def roles_seen_def drain_seen_def exit_seen_def
      sources_def split: if_splits)

section \<open>Runs\<close>

text \<open>The hypothesis on a run: the socket takes every write, no backstop timeout fires, and the
  client opens each stream id and each stream type once.\<close>

fun run_ok :: "('c, 'd) Zlib \<Rightarrow> (json \<Rightarrow> bytes) \<Rightarrow> (bytes \<Rightarrow> TerminalSize option list) \<Rightarrow> StreamVerb
    \<Rightarrow> StreamParams \<Rightarrow> StreamSession \<Rightarrow> ExecEvent list \<Rightarrow> ('c, 'd) ExecConn \<Rightarrow> bool" where
  "run_ok z to_vec de verb params ses [] x = True"
| "run_ok z to_vec de verb params ses (ev # evs) x =
     (writes_ok ev \<and> fresh_open z ev x \<and>
      (case exec_step z to_vec de verb params ses ev x of
         None \<Rightarrow> True
       | Some x' \<Rightarrow> run_ok z to_vec de verb params ses evs x'))"

lemma phase_inv_step:
  assumes P: "phase_inv params ses h x" and I: "io_inv ses h x" and v: "verb \<noteq> Attach"
    and e: "\<not> (sp_tty params \<and> ses_stderr ses)"
    and st: "exec_step z to_vec de verb params ses ev x = Some x'" and w: "writes_ok ev"
  shows "phase_inv params ses (h @ [ev]) x'"
proof (cases ev)
  case (InFrame fr)
  then show ?thesis
    using st grows_frame
    by (intro phase_inv_grows [OF P, of x' ev])
       (auto split: if_splits)
next
  case InEnd
  then show ?thesis
    using st grows_end by (intro phase_inv_grows [OF P, of x' ev]) (auto split: if_splits)
next
  case Register
  then show ?thesis
    using st grows_register [OF I]
    by (intro phase_inv_grows [OF P, of x' ev])
       (auto simp: register_pump_eq split: if_splits option.splits)
next
  case (PumpRead src r ok)
  then have "pump_read src r ok x = Some x'"
    using st by (simp split: if_splits)
  then show ?thesis
    using grows_pump by (intro phase_inv_grows [OF P, of x' ev]) (auto simp: pump_read_exited)
next
  case (ReaperDone r)
  then show ?thesis
    using st by (intro phase_inv_grows [OF P, of x' ev]) (auto simp: grows_def sources_def split: if_splits)
qed (use st v w phase_inv_complete [OF P I e] phase_inv_detach [OF P] in auto)

lemma exec_run_inv:
  assumes "io_inv ses h x" and "phase_inv params ses h x" and "verb \<noteq> Attach"
    and "\<not> (sp_tty params \<and> ses_stderr ses)"
    and "run_ok z to_vec de verb params ses evs x"
    and "exec_run z to_vec de verb params ses evs x = Some y"
  shows "io_inv ses (h @ evs) y \<and> phase_inv params ses (h @ evs) y"
  using assms
proof (induction evs arbitrary: h x)
  case (Cons ev evs)
  then obtain x' where st: "exec_step z to_vec de verb params ses ev x = Some x'"
    by (auto split: option.splits)
  show ?case
    using Cons.IH [of "h @ [ev]" x'] Cons.prems st io_inv_step [OF Cons.prems(1) st]
      phase_inv_step [OF Cons.prems(2,1,3,4) st] by simp
qed simp

lemma exec_start_inv:
  "io_inv ses [] (exec_start z ses Starting)" "phase_inv params ses [] (exec_start z ses Starting)"
  by (simp_all add: exec_start_def io_inv_def pumps_ok_def silent_def files_ok_def roles_ok_def
      sources_def streams_def phase_inv_def roles_seen_def drain_seen_def exit_seen_def)

text \<open>Where the completion path sends the terminal frames, the pumps have ended and the code is
  the reaper's.\<close>

lemma complete_finishes:
  assumes P: "phase_inv params ses h x" and c: "complete to_vec False params ses x = Some x'"
    and g: "xc_phase x' = Grace"
  obtains r where "ReaperDone r \<in> set h" "x' = finish_exec to_vec (exit_code r) x" "drained x"
    "xc_phase x \<in> {Draining, AwaitExit}"
  using assms
  by (auto simp: complete_def enter_select_def phase_inv_def exit_seen_def drain_seen_def
      split: Phase.splits if_splits option.splits)

lemma payload_on_finish:
  assumes "roles_ok x" and "map_of (xc_roles x) i \<noteq> Some ERROR_CH"
  shows "payload_on i (xc_sent (finish_exec to_vec c x)) = payload_on i (xc_sent x)"
  using assms by (auto simp: finish_exec_def payload_on_send_if roles_ok_def)

definition delivered :: "StreamSession \<Rightarrow> ExecEvent list \<Rightarrow> ('c, 'd) ExecConn \<Rightarrow> bool" where
  "delivered ses evs x \<longleftrightarrow>
     list_all (\<lambda>src. saw_eof src evs \<and>
       (case map_of (xc_by_role x) src of
          None \<Rightarrow> False
        | Some i \<Rightarrow> payload_on i (xc_sent x) = reads src evs)) (outputs ses)"

lemma finish_delivered:
  assumes I: "io_inv ses h x" and P: "phase_inv params ses h x" and d: "drained x"
    and ph: "xc_phase x \<in> {Draining, AwaitExit}"
  shows "delivered ses h (finish_exec to_vec c x)"
proof -
  have "saw_eof src h \<and> (\<exists>i. map_of (xc_by_role x) src = Some i \<and>
      payload_on i (xc_sent (finish_exec to_vec c x)) = reads src h)" if "src \<in> set (outputs ses)" for src
  proof -
    have "src \<in> set (xc_drain x)" "src \<in> sources x"
      using that P ph by (auto simp: phase_inv_def drain_seen_def)
    then obtain p where p: "p \<in> set (xc_pumps x)" "pu_source p = src" "\<not> pu_running p"
      using d by (auto simp: sources_def drained_def list_all_iff)
    then have ok: "pump_ok h x p" and ro: "roles_ok x"
      using I by (auto simp: io_inv_def pumps_ok_def)
    then have "map_of (xc_by_role x) src = Some (pu_stream p)" "map_of (xc_roles x) (pu_stream p) = Some src"
      using p(2) by (auto simp: pump_ok_def roles_ok_def)
    moreover have "src \<noteq> ERROR_CH"
      using that by (auto simp: outputs_def channel_defs split: if_splits)
    ultimately show ?thesis
      using ok p payload_on_finish [OF ro] by (simp add: pump_ok_def)
  qed
  then show ?thesis
    by (fastforce simp: delivered_def list_all_iff split: option.splits)
qed

lemma finish_status_last:
  assumes "roles_seen params x" and "xc_phase x \<in> {Draining, AwaitExit}"
  shows "\<exists>e. map_of (xc_by_role x) ERROR_CH = Some e \<and>
    last (xc_sent (finish_exec to_vec c x)) = Data e FLAG_FIN (exit_status_json to_vec c)"
proof -
  obtain e where "map_of (xc_by_role x) ERROR_CH = Some e"
    using assms by (auto simp: roles_seen_def expected_roles_def)
  then show ?thesis
    by (simp add: finish_exec_def send_if_def)
qed

section \<open>Properties\<close>

text \<open>
  C21: over every interleaving of the tasks of a SPDY exec session (no timeout, the socket takes
  the writes, every stream opened once), when the completion path sends the terminal frames,
  each output file of the session has been read to its end and the client has received on its
  stream exactly the bytes read, and the last frame is the status with the exit code that the
  reaper delivered, closing the error stream.
\<close>

theorem exec_delivers:
  assumes "verb \<noteq> Attach" and "\<not> (sp_tty params \<and> ses_stderr ses)"
    and "run_ok z to_vec de verb params ses evs (exec_start z ses Starting)"
    and "run_exec z to_vec de verb params (Opened ses) evs = Some x"
    and "exec_step z to_vec de verb params ses Complete x = Some x'" and "xc_phase x' = Grace"
  shows "delivered ses evs x' \<and>
    (\<exists>r e. ReaperDone r \<in> set evs \<and> map_of (xc_by_role x') ERROR_CH = Some e \<and>
       last (xc_sent x') = Data e FLAG_FIN (exit_status_json to_vec (exit_code r)))"
proof -
  have I: "io_inv ses evs x" and P: "phase_inv params ses evs x"
    using exec_run_inv [OF exec_start_inv assms(1-3)] assms(4) by (simp_all add: run_exec_def)
  have "complete to_vec False params ses x = Some x'"
    using assms(1,5) by simp
  then obtain r where r: "ReaperDone r \<in> set evs" "x' = finish_exec to_vec (exit_code r) x" "drained x"
      "xc_phase x \<in> {Draining, AwaitExit}"
    using assms(6) by (rule complete_finishes [OF P])
  then show ?thesis
    using finish_delivered [OF I P r(3,4)] finish_status_last [OF _ r(4)] P
    by (auto simp: phase_inv_def)
qed

text \<open>A run to apply it to: a terminal session whose client opens the error stream 1 and the
  output stream 3, and whose process writes "hi" in two pieces and ends with code 7, the reaper
  before the pump.  The compressor of the example copies.\<close>

definition copy_zlib :: "(unit, unit) Zlib" where
  "copy_zlib = \<lparr>z_compress = (\<lambda>c bs. (bs, c)), z_decompress = (\<lambda>d bs. (Inr bs, d)),
     z_new_compressor = (), z_new_decompressor = ()\<rparr>"

definition tty_params :: StreamParams where
  "tty_params = \<lparr>sp_container = Some ''c1'', sp_sandbox = None, sp_cmd = [''sh''], sp_tty = True,
     sp_stdin = False, sp_ports = [], sp_dial_target = None, sp_netns_path = None\<rparr>"

definition tty_session :: StreamSession where
  "tty_session = no_session\<lparr>ses_stdout := True, ses_pty_master := True\<rparr>"

definition syn :: "u32 \<Rightarrow> string \<Rightarrow> ExecEvent" where
  "syn sid t = InFrame (SynStream sid 0 0 0 (serialize_headers [(''streamType'', t)]))"

definition tty_run :: "ExecEvent list" where
  "tty_run = [syn 1 ''error'', Register, syn 3 ''stdout'', Complete, Complete, Register,
     Complete, PumpRead STDOUT (Some [104]) True, ReaperDone (Some 7), Complete,
     PumpRead STDOUT (Some [105]) True, PumpRead STDOUT None True]"

definition tty_end :: "(unit, unit) ExecConn" where
  "tty_end = the (run_exec copy_zlib (\<lambda>_. [123]) (\<lambda>_. []) Exec tty_params (Opened tty_session) tty_run)"

definition tty_done :: "(unit, unit) ExecConn" where
  "tty_done = the (exec_step copy_zlib (\<lambda>_. [123]) (\<lambda>_. []) Exec tty_params tty_session Complete tty_end)"

lemma syn_headers:
  "t \<in> {''error'', ''stdout''} \<Longrightarrow>
     read_headers copy_zlib (serialize_headers [(''streamType'', t)]) d = ([(''streamType'', t)], d)"
  by (elim insertE emptyE; simp; code_simp)

lemma syn_roles:
  "stream_role [(''streamType'', ''error'')] = ERROR_CH"
  "stream_role [(''streamType'', ''stdout'')] = STDOUT"
  by code_simp+

lemma copy_zlib_simps:
  "z_compress copy_zlib c bs = (bs, c)" "z_new_compressor copy_zlib = ()"
  by (simp_all add: copy_zlib_def)

lemma serialize_no_headers: "serialize_headers [] = [0, 0, 0, 0]"
  by code_simp

lemmas run_evals = run_exec_def syn_def exec_start_def open_stream_def syn_headers syn_roles
  syn_reply_def xsend_def copy_zlib_simps serialize_no_headers Let_def register_pump_def channel_defs
  tty_session_def no_session_def complete_def expected_roles_def expected_pumps_def enter_select_def
  pump_read_def pump_running_def stop_pump_def drained_def tty_params_def exit_code_def
  finish_exec_def send_if_def exit_status_json_def

theorem exec_delivers_witness:
  "delivered tty_session tty_run tty_done \<and> reads STDOUT tty_run = [104, 105] \<and>
   xc_sent tty_done = [SynReply 1 0 [0, 0, 0, 0], SynReply 3 0 [0, 0, 0, 0], Data 3 0 [104],
     Data 3 0 [105], Data 3 FLAG_FIN [], Data 1 FLAG_FIN [123]]"
proof -
  let ?tv = "\<lambda>_ :: json. [123 :: u8]" and ?de = "\<lambda>_ :: bytes. [] :: TerminalSize option list"
  have run: "run_exec copy_zlib ?tv ?de Exec tty_params (Opened tty_session) tty_run = Some tty_end"
    by (simp add: tty_end_def tty_run_def run_evals)
  have done_: "exec_step copy_zlib ?tv ?de Exec tty_params tty_session Complete tty_end = Some tty_done"
    "xc_phase tty_done = Grace" "xc_sent tty_done = [SynReply 1 0 [0, 0, 0, 0], SynReply 3 0 [0, 0, 0, 0],
     Data 3 0 [104], Data 3 0 [105], Data 3 FLAG_FIN [], Data 1 FLAG_FIN [123]]"
    by (simp_all add: tty_done_def tty_end_def tty_run_def run_evals)
  have ok: "run_ok copy_zlib ?tv ?de Exec tty_params tty_session tty_run (exec_start copy_zlib tty_session Starting)"
    by (simp add: tty_run_def run_evals)
  have "delivered tty_session tty_run tty_done \<and>
    (\<exists>r e. ReaperDone r \<in> set tty_run \<and> map_of (xc_by_role tty_done) ERROR_CH = Some e \<and>
       last (xc_sent tty_done) = Data e FLAG_FIN (exit_status_json ?tv (exit_code r)))"
    by (rule exec_delivers [OF _ _ ok run done_(1,2)]) (simp_all add: run_evals)
  then show ?thesis
    using done_(3) by (simp add: tty_run_def syn_def channel_defs)
qed

text \<open>
  C22: completion does not wait for the client: once the client's streams are open, every output
  file has its pump, the pumps have ended and the reaper has the code, five steps of the
  completion path alone send the terminal frames, with the reaper's code in the last one.
\<close>

theorem exec_completes:
  assumes "xc_phase x = Starting" and "verb \<noteq> Attach"
    and "list_all (\<lambda>r. map_of (xc_by_role x) r \<noteq> None) (expected_roles params)"
    and "expected_pumps params ses \<le> length (xc_pumps x)"
    and "list_all (\<lambda>p. \<not> pu_running p) (xc_pumps x)" and "xc_exited x = Some r"
  shows "\<exists>x' e. exec_run z to_vec de verb params ses (replicate 5 Complete) x = Some x' \<and>
    xc_phase x' = Grace \<and> map_of (xc_by_role x) ERROR_CH = Some e \<and>
    last (xc_sent x') = Data e FLAG_FIN (exit_status_json to_vec (exit_code r))"
proof -
  obtain e where "map_of (xc_by_role x) ERROR_CH = Some e"
    using assms(3) by (auto simp: expected_roles_def)
  then show ?thesis
    using assms by (simp add: complete_def eval_nat_numeral enter_select_def drained_def list_all_iff
        finish_exec_def send_if_def)
qed

definition tty_ready :: "(unit, unit) ExecConn" where
  "tty_ready = (exec_start copy_zlib tty_session Starting)
     \<lparr>xc_by_role := [(STDOUT, 3), (ERROR_CH, 1)], xc_exited := Some (Some 7), xc_stdout_raw := False,
      xc_pumps := [\<lparr>pu_source = STDOUT, pu_stream = 3, pu_running = False\<rparr>]\<rparr>"

theorem exec_completes_witness:
  "\<exists>x'. exec_run copy_zlib (\<lambda>_. [123]) (\<lambda>_. []) Exec tty_params tty_session (replicate 5 Complete) tty_ready
     = Some x' \<and> xc_phase x' = Grace \<and> last (xc_sent x') = Data 1 FLAG_FIN [123]"
proof -
  have "\<exists>x' e. exec_run copy_zlib (\<lambda>_. [123]) (\<lambda>_. []) Exec tty_params tty_session (replicate 5 Complete) tty_ready
      = Some x' \<and> xc_phase x' = Grace \<and> map_of (xc_by_role tty_ready) ERROR_CH = Some e \<and>
      last (xc_sent x') = Data e FLAG_FIN (exit_status_json (\<lambda>_. [123]) (exit_code (Some 7)))"
    by (rule exec_completes) (simp_all add: tty_ready_def run_evals)
  then show ?thesis
    by (auto simp: tty_ready_def exit_status_json_def channel_defs)
qed

text \<open>
  A client that half-closes any stream of an attach session once the detach signal is armed
  ends the session with Success, whatever the pumps and the container do.
\<close>

lemma attach_detaches:
  assumes "xc_phase x \<in> {Barrier, Gate, Select}" and "xc_reading x" and "xc_registering x = None"
    and "fl AND FLAG_FIN \<noteq> 0" and "map_of (xc_by_role x) ERROR_CH = Some e"
  shows "\<exists>x'. exec_run z to_vec de Attach params ses [InFrame (Data sid fl bs), Detach] x = Some x' \<and>
    xc_phase x' = Grace \<and> last (xc_sent x') = Data e FLAG_FIN (exit_status_json to_vec 0)"
proof -
  let ?y = "in_data de True sid fl bs x"
  have "xc_detached ?y"
    using assms(1,4) by (auto simp: in_data_def Let_def client_closed_def split: option.splits)
  then show ?thesis
    using assms by (auto simp: detach_def finish_exec_def send_if_def)
qed

lemma finish_exec_reading [simp]:
  "xc_reading (finish_exec to_vec c x) = xc_reading x" "xc_detached (finish_exec to_vec c x) = xc_detached x"
  by (simp_all add: finish_exec_def send_if_def split: option.split)

lemma complete_reading:
  assumes "complete to_vec a params ses x = Some x'"
  shows "xc_reading x' = xc_reading x \<and> xc_detached x' = xc_detached x"
  using assms by (cases "xc_phase x") (auto simp: complete_def enter_select_def split: if_splits option.splits)

lemma pump_read_reading:
  assumes "pump_read src r ok x = Some x'"
  shows "xc_reading x' = xc_reading x \<and> xc_detached x' = xc_detached x"
  using assms by (auto simp: pump_read_def stop_pump_def xsend_def split: option.splits list.splits if_splits)

lemma timed_out_reading:
  assumes "timed_out x = Some x'"
  shows "xc_reading x' = xc_reading x \<and> xc_detached x' = xc_detached x"
  using assms by (cases "xc_phase x") (auto simp: timed_out_def enter_select_def)

lemma no_detach_step:
  assumes n: "\<not> xc_detached x" "\<not> xc_reading x"
    and st: "exec_step z to_vec de verb params ses ev x = Some x'"
  shows "\<not> xc_detached x' \<and> \<not> xc_reading x' \<and> ev \<noteq> Detach"
proof (cases ev)
  case (PumpRead src r ok)
  then show ?thesis
    using n st pump_read_reading [of src r ok x x'] by (simp split: if_splits)
next
  case Complete
  then show ?thesis
    using n st complete_reading [of to_vec _ params ses x x'] by simp
next
  case TimedOut
  then show ?thesis
    using n st timed_out_reading [of x x'] by simp
next
  case Register
  then show ?thesis
    using n st by (auto simp: register_pump_eq split: option.splits if_splits)
qed (use n st in \<open>auto simp: detach_def split: if_splits\<close>)

lemma no_detach_run:
  assumes "\<not> xc_detached x" and "\<not> xc_reading x"
    and "exec_run z to_vec de verb params ses evs x = Some x'"
  shows "Detach \<notin> set evs"
  using assms
proof (induction evs arbitrary: x)
  case (Cons ev evs)
  then obtain y where y: "exec_step z to_vec de verb params ses ev x = Some y"
      "exec_run z to_vec de verb params ses evs y = Some x'"
    by (auto split: option.splits)
  show ?case
    using no_detach_step [OF Cons.prems(1,2) y(1)] Cons.IH [OF _ _ y(2)] by auto
qed simp

text \<open>
  A client that closes before the completion path has armed the detach signal is never
  noticed: whatever happens afterwards, the detach arm is not taken.
\<close>

lemma early_close_lost:
  assumes "xc_phase x = Starting" and "\<not> xc_detached x"
    and "exec_run z to_vec de Attach params ses (InEnd # evs) x = Some x'"
  shows "Detach \<notin> set evs"
proof -
  have "exec_run z to_vec de Attach params ses evs (end_reading x) = Some x'"
    using assms(3) by (simp split: if_splits)
  then show ?thesis
    by (rule no_detach_run [rotated 2]) (use assms in \<open>simp_all add: end_reading_def client_closed_def\<close>)
qed

definition attach_early :: "(unit, unit) ExecConn" where
  "attach_early = the (exec_run copy_zlib (\<lambda>_. [123]) (\<lambda>_. []) Attach tty_params tty_session
     [syn 1 ''error'', Register, syn 3 ''stdout'', Register]
     (exec_start copy_zlib tty_session Starting))"

fun ack_frame :: "Frame \<Rightarrow> bool" where
  "ack_frame (SynReply i fl b) = True"
| "ack_frame (Frame.Ping i) = True"
| "ack_frame _ = False"

definition mute :: "('c, 'd) ExecConn \<Rightarrow> bool" where
  "mute x \<longleftrightarrow> list_all ack_frame (xc_sent x) \<and> xc_pumps x = [] \<and> xc_phase x \<in> {Grace, Closed} \<and>
     \<not> xc_stdout_raw x \<and> \<not> xc_stderr_raw x"

lemma mute_step:
  assumes m: "mute x" and st: "exec_step z to_vec de verb params ses ev x = Some x'"
  shows "mute x'"
proof (cases ev)
  case (InFrame f)
  then have x': "x' = in_frame z de (verb = Attach) f x"
    using st by (simp split: if_splits)
  show ?thesis
    using m unfolding x'
    by (cases f) (simp_all add: mute_def open_stream_def syn_reply_def xsend_def Let_def case_prod_unfold)
next
  case Complete
  then show ?thesis
    using m st by (auto simp: mute_def complete_def split: if_splits)
next
  case Register
  then show ?thesis
    using m st by (auto simp: mute_def register_pump_eq split: option.splits if_splits)
next
  case (PumpRead src r ok)
  then show ?thesis
    using m st by (simp add: mute_def pump_read_def pump_running_def split: if_splits)
qed (use m st in \<open>auto simp: mute_def detach_def timed_out_def split: if_splits\<close>)

text \<open>
  When the session could not be opened, the client of a SPDY stream is told nothing: over
  every run only acknowledgements of its own streams and pings are sent.
\<close>

lemma open_error_silent:
  assumes "opened = OpenErr e \<or> opened = OpenPanicked" and "run_exec z to_vec de verb params opened evs = Some x"
  shows "list_all ack_frame (xc_sent x)"
proof -
  have "mute x" if "mute y" "exec_run z to_vec de verb params no_session evs y = Some x" for y
    using that by (induction evs arbitrary: y) (auto split: option.splits intro: mute_step)
  moreover have "mute (exec_start z no_session Grace)"
    by (simp add: mute_def exec_start_def no_session_def)
  moreover have "exec_run z to_vec de verb params no_session evs (exec_start z no_session Grace) = Some x"
    using assms by (auto simp: run_exec_def)
  ultimately show ?thesis
    by (auto simp: mute_def)
qed

end
