(* ===== verification/Spdy_Forward.thy ===== *)
theory Spdy_Forward
  imports Spdy_Conn Port_Forward
begin

text \<open>
  Port forwarding over SPDY (\<open>spdy/conn.rs\<close>: \<open>run_portforward\<close>, \<open>dial_pf\<close>,
  \<open>spawn_tcp_to_spdy\<close>).  The client opens a data and an error stream per connection, paired by
  their \<open>requestID\<close> header; opening the data stream dials.  The read loop, one pump per dialled
  socket and the final bounded drain run at once: a step of any of them is a \<open>FwEvent\<close>.

  A dial takes time during which the pumps go on, so a SYN_STREAM of a data stream is two
  steps: the stream is entered, then the dial returns (\<open>FwDialed\<close>); the read loop does nothing
  in between.  A socket is its number in the order of the successful dials; what is done to it
  is an effect.  The write half of a socket that is replaced in its pair is dropped, which
  shuts it down.
\<close>

section \<open>State\<close>

record FwPair =
  fp_port :: u16
  fp_data :: "u32 option"
  fp_error :: "u32 option"
  fp_tcp :: "nat option"

record FwPump =
  fk_stream :: u32
  fk_running :: bool

datatype FwEffect = FwDial DialTarget | FwWrite nat bytes | FwShutdown nat

datatype FwPhase = FwLoop | FwDrain | FwDone

record ('c, 'd) Forward =
  fw_comp :: 'c
  fw_decomp :: 'd
  fw_pairs :: "(string, FwPair) btree"
  fw_route :: "(u32, string) btree"
  fw_dialing :: "(u32 \<times> string) option"
  fw_pumps :: "FwPump list"
  fw_phase :: FwPhase
  fw_sent :: "Frame list"
  fw_effects :: "FwEffect list"

datatype FwEvent =
    FwFrame Frame
  | FwEnd
  | FwDialed bool
  | FwRead nat "bytes option" bool
  | FwDrained
  | FwDeadline

definition fsend :: "Frame \<Rightarrow> ('c, 'd) Forward \<Rightarrow> ('c, 'd) Forward" where
  "fsend f x = x\<lparr>fw_sent := fw_sent x @ [f]\<rparr>"

definition femit :: "FwEffect list \<Rightarrow> ('c, 'd) Forward \<Rightarrow> ('c, 'd) Forward" where
  "femit es x = x\<lparr>fw_effects := fw_effects x @ es\<rparr>"

definition fsyn_reply :: "('c, 'd) Zlib \<Rightarrow> u32 \<Rightarrow> ('c, 'd) Forward \<Rightarrow> ('c, 'd) Forward" where
  "fsyn_reply z sid x =
     (let (compressed, c) = z_compress z (fw_comp x) (serialize_headers [])
      in fsend (SynReply sid 0 compressed) (x\<lparr>fw_comp := c\<rparr>))"

section \<open>Opening a stream\<close>

definition header_port :: "header_list \<Rightarrow> u16" where
  "header_port hdr =
     (case header_get hdr ''port'' of
        None \<Rightarrow> 0
      | Some p \<Rightarrow> (case parse_uint 65536 p of None \<Rightarrow> 0 | Some n \<Rightarrow> of_nat n))"

definition request_id :: "header_list \<Rightarrow> string" where
  "request_id hdr =
     (case header_get hdr ''requestID'' of
        Some s \<Rightarrow> s
      | None \<Rightarrow> ''port-'' @ nat_str (unat (header_port hdr)))"

definition is_error_stream :: "header_list \<Rightarrow> bool" where
  "is_error_stream hdr \<longleftrightarrow> header_get hdr ''streamType'' = Some ''error''"

definition pair_for :: "header_list \<Rightarrow> ('c, 'd) Forward \<Rightarrow> FwPair" where
  "pair_for hdr x =
     (let entry = (case map_of (fw_pairs x) (request_id hdr) of
                     Some p \<Rightarrow> p
                   | None \<Rightarrow> \<lparr>fp_port = header_port hdr, fp_data = None, fp_error = None, fp_tcp = None\<rparr>)
      in if fp_port entry = 0 then entry\<lparr>fp_port := header_port hdr\<rparr> else entry)"

text \<open>\<open>dial_pf\<close>: on the host, or on a thread inside the sandbox's network namespace.\<close>

definition dial_pf :: "string \<Rightarrow> u16 \<Rightarrow> string option \<Rightarrow> DialTarget" where
  "dial_pf host port netns_path =
     (case netns_path of None \<Rightarrow> HostDial host port | Some ns \<Rightarrow> NetnsDial ns host port)"

definition fw_open :: "('c, 'd) Zlib \<Rightarrow> string \<Rightarrow> string option \<Rightarrow> u32 \<Rightarrow> bytes
    \<Rightarrow> ('c, 'd) Forward \<Rightarrow> ('c, 'd) Forward" where
  "fw_open z dial_host netns_path sid block x =
     (let (hdr, d) = read_headers z block (fw_decomp x);
          req = request_id hdr;
          entry = pair_for hdr x;
          x = fsyn_reply z sid (x\<lparr>fw_decomp := d\<rparr>)
      in if is_error_stream hdr
         then x\<lparr>fw_pairs := bt_insert req (entry\<lparr>fp_error := Some sid\<rparr>) (fw_pairs x)\<rparr>
         else femit [FwDial (dial_pf dial_host (fp_port entry) netns_path)]
           (x\<lparr>fw_pairs := bt_insert req (entry\<lparr>fp_data := Some sid\<rparr>) (fw_pairs x),
              fw_route := bt_insert sid req (fw_route x), fw_dialing := Some (sid, req)\<rparr>))"

text \<open>The dial returned: a pump for the new socket, or the failure frames in one go.\<close>

definition fw_dialed :: "bool \<Rightarrow> u32 \<Rightarrow> string \<Rightarrow> ('c, 'd) Forward \<Rightarrow> ('c, 'd) Forward" where
  "fw_dialed ok sid req x =
     (let x = x\<lparr>fw_dialing := None\<rparr>
      in case map_of (fw_pairs x) req of
        None \<Rightarrow> x
      | Some entry \<Rightarrow>
          if ok then
            femit (case fp_tcp entry of Some k \<Rightarrow> [FwShutdown k] | None \<Rightarrow> [])
             (x\<lparr>fw_pairs := bt_insert req (entry\<lparr>fp_tcp := Some (length (fw_pumps x))\<rparr>) (fw_pairs x),
                fw_pumps := fw_pumps x @ [\<lparr>fk_stream = sid, fk_running = True\<rparr>]\<rparr>)
          else
            (case fp_error entry of
               None \<Rightarrow> fsend (RstStream sid RST_REFUSED_STREAM) x
             | Some eid \<Rightarrow>
                 fsend (RstStream eid RST_REFUSED_STREAM)
                   (fsend (RstStream sid RST_REFUSED_STREAM)
                     (fsend (Data eid FLAG_FIN (as_bytes ''dial failed'')) x))))"

section \<open>The read loop and the pumps\<close>

definition fw_data :: "u32 \<Rightarrow> u8 \<Rightarrow> bytes \<Rightarrow> ('c, 'd) Forward \<Rightarrow> ('c, 'd) Forward" where
  "fw_data sid fl bs x =
     (case Option.bind (map_of (fw_route x) sid)
            (\<lambda>req. Option.bind (map_of (fw_pairs x) req) fp_tcp) of
        None \<Rightarrow> x
      | Some k \<Rightarrow> femit (FwWrite k bs # (if fl AND FLAG_FIN \<noteq> 0 then [FwShutdown k] else [])) x)"

fun fw_frame :: "('c, 'd) Zlib \<Rightarrow> string \<Rightarrow> string option \<Rightarrow> Frame
    \<Rightarrow> ('c, 'd) Forward \<Rightarrow> ('c, 'd) Forward" where
  "fw_frame z host ns (SynStream sid a p fl block) x = fw_open z host ns sid block x"
| "fw_frame z host ns (Data sid fl bs) x = fw_data sid fl bs x"
| "fw_frame z host ns (Frame.Ping i) x = fsend (Frame.Ping i) x"
| "fw_frame z host ns (RstStream sid s) x = x\<lparr>fw_phase := FwDrain\<rparr>"
| "fw_frame z host ns (GoAway sid s) x = x\<lparr>fw_phase := FwDrain\<rparr>"
| "fw_frame z host ns f x = x"

definition fw_stop_pump :: "nat \<Rightarrow> ('c, 'd) Forward \<Rightarrow> ('c, 'd) Forward" where
  "fw_stop_pump k x = x\<lparr>fw_pumps := (fw_pumps x)[k := (fw_pumps x ! k)\<lparr>fk_running := False\<rparr>]\<rparr>"

text \<open>\<open>spawn_tcp_to_spdy\<close>: a read of socket \<open>k\<close>, with whether the frame can be written.\<close>

definition fw_pump_read :: "nat \<Rightarrow> bytes option \<Rightarrow> bool \<Rightarrow> ('c, 'd) Forward \<Rightarrow> ('c, 'd) Forward option" where
  "fw_pump_read k r write_ok x =
     (if k < length (fw_pumps x) \<and> fk_running (fw_pumps x ! k) then
        (let sid = fk_stream (fw_pumps x ! k) in
         case r of
           Some (b # bs) \<Rightarrow>
             Some (if write_ok then fsend (Data sid 0 (b # bs)) x else fw_stop_pump k x)
         | _ \<Rightarrow> Some (fw_stop_pump k (if write_ok then fsend (Data sid FLAG_FIN []) x else x)))
      else None)"

section \<open>A run\<close>

fun fw_step :: "('c, 'd) Zlib \<Rightarrow> string \<Rightarrow> string option \<Rightarrow> FwEvent
    \<Rightarrow> ('c, 'd) Forward \<Rightarrow> ('c, 'd) Forward option" where
  "fw_step z host ns (FwFrame f) x =
     (if fw_phase x = FwLoop \<and> fw_dialing x = None then Some (fw_frame z host ns f x) else None)"
| "fw_step z host ns FwEnd x =
     (if fw_phase x = FwLoop \<and> fw_dialing x = None then Some (x\<lparr>fw_phase := FwDrain\<rparr>) else None)"
| "fw_step z host ns (FwDialed ok) x =
     (case fw_dialing x of
        Some (sid, req) \<Rightarrow> Some (fw_dialed ok sid req x)
      | None \<Rightarrow> None)"
| "fw_step z host ns (FwRead k r write_ok) x =
     (if fw_phase x \<noteq> FwDone then fw_pump_read k r write_ok x else None)"
| "fw_step z host ns FwDrained x =
     (if fw_phase x = FwDrain \<and> list_all (\<lambda>p. \<not> fk_running p) (fw_pumps x)
      then Some (x\<lparr>fw_phase := FwDone\<rparr>) else None)"
| "fw_step z host ns FwDeadline x =
     (if fw_phase x = FwDrain then Some (x\<lparr>fw_phase := FwDone\<rparr>) else None)"

fun fw_run :: "('c, 'd) Zlib \<Rightarrow> string \<Rightarrow> string option \<Rightarrow> FwEvent list
    \<Rightarrow> ('c, 'd) Forward \<Rightarrow> ('c, 'd) Forward option" where
  "fw_run z host ns [] x = Some x"
| "fw_run z host ns (ev # evs) x =
     (case fw_step z host ns ev x of None \<Rightarrow> None | Some x' \<Rightarrow> fw_run z host ns evs x')"

definition fw_init :: "('c, 'd) Zlib \<Rightarrow> ('c, 'd) Forward" where
  "fw_init z = \<lparr>fw_comp = z_new_compressor z, fw_decomp = z_new_decompressor z, fw_pairs = [],
     fw_route = [], fw_dialing = None, fw_pumps = [], fw_phase = FwLoop, fw_sent = [], fw_effects = []\<rparr>"

definition run_portforward :: "('c, 'd) Zlib \<Rightarrow> string \<Rightarrow> string option \<Rightarrow> FwEvent list
    \<Rightarrow> ('c, 'd) Forward option" where
  "run_portforward z dial_host netns_path evs = fw_run z dial_host netns_path evs (fw_init z)"

end
