(* ===== verification/Spdy_Forward_Props.thy ===== *)
theory Spdy_Forward_Props
  imports Spdy_Forward Spdy_Conn_Laws
begin

text \<open>
  The properties of the SPDY port forwarder: each connection's bytes go both ways unmixed while
  the client pairs its streams by distinct request ids, and what happens when it does not.
\<close>

section \<open>What a run has moved\<close>

text \<open>What was read from a socket, what was written to it, and what the client sent on a stream.\<close>

fun read_of :: "nat \<Rightarrow> FwEvent \<Rightarrow> bytes" where
  "read_of k (FwRead j (Some bs) ok) = (if j = k then bs else [])"
| "read_of k _ = []"

fun write_of :: "nat \<Rightarrow> FwEffect \<Rightarrow> bytes" where
  "write_of k (FwWrite j bs) = (if j = k then bs else [])"
| "write_of k _ = []"

fun data_of :: "u32 \<Rightarrow> FwEvent \<Rightarrow> bytes" where
  "data_of s (FwFrame (Data j fl bs)) = (if j = s then bs else [])"
| "data_of s _ = []"

definition sock_reads :: "nat \<Rightarrow> FwEvent list \<Rightarrow> bytes" where
  "sock_reads k evs = concat (map (read_of k) evs)"

definition sock_writes :: "nat \<Rightarrow> FwEffect list \<Rightarrow> bytes" where
  "sock_writes k es = concat (map (write_of k) es)"

definition client_data :: "u32 \<Rightarrow> FwEvent list \<Rightarrow> bytes" where
  "client_data s evs = concat (map (data_of s) evs)"

lemma moved_simps [simp]:
  "sock_reads k [] = []" "sock_reads k (ev # evs) = read_of k ev @ sock_reads k evs"
  "sock_reads k (evs @ evs') = sock_reads k evs @ sock_reads k evs'"
  "sock_writes k [] = []" "sock_writes k (e # es) = write_of k e @ sock_writes k es"
  "sock_writes k (es @ es') = sock_writes k es @ sock_writes k es'"
  "client_data s [] = []" "client_data s (ev # evs) = data_of s ev @ client_data s evs"
  "client_data s (evs @ evs') = client_data s evs @ client_data s evs'"
  by (simp_all add: sock_reads_def sock_writes_def client_data_def)

section \<open>The client's discipline\<close>

text \<open>Every stream id is used once, a pair is opened once each way, data comes only on an open
  data stream, and the socket takes every frame.\<close>

definition data_at :: "('c, 'd) Forward \<Rightarrow> string \<Rightarrow> u32 option" where
  "data_at x req = Option.bind (map_of (fw_pairs x) req) fp_data"

definition error_at :: "('c, 'd) Forward \<Rightarrow> string \<Rightarrow> u32 option" where
  "error_at x req = Option.bind (map_of (fw_pairs x) req) fp_error"

definition tcp_at :: "('c, 'd) Forward \<Rightarrow> string \<Rightarrow> nat option" where
  "tcp_at x req = Option.bind (map_of (fw_pairs x) req) fp_tcp"




section \<open>The invariant\<close>






lemmas at_defs = data_at_def error_at_def tcp_at_def





section \<open>Every step keeps the invariant\<close>

lemma fw_simps [simp]:
  "fw_sent (fsend f x) = fw_sent x @ [f]" "fw_effects (fsend f x) = fw_effects x"
  "fw_pairs (fsend f x) = fw_pairs x" "fw_route (fsend f x) = fw_route x"
  "fw_dialing (fsend f x) = fw_dialing x" "fw_pumps (fsend f x) = fw_pumps x"
  "fw_sent (femit es x) = fw_sent x" "fw_effects (femit es x) = fw_effects x @ es"
  "fw_pairs (femit es x) = fw_pairs x" "fw_route (femit es x) = fw_route x"
  "fw_dialing (femit es x) = fw_dialing x" "fw_pumps (femit es x) = fw_pumps x"
  "fw_pairs (fsyn_reply z s x) = fw_pairs x" "fw_route (fsyn_reply z s x) = fw_route x"
  "fw_dialing (fsyn_reply z s x) = fw_dialing x" "fw_pumps (fsyn_reply z s x) = fw_pumps x"
  "fw_effects (fsyn_reply z s x) = fw_effects x"
  "payload_on i (fw_sent (fsyn_reply z s x)) = payload_on i (fw_sent x)"
  by (simp_all add: fsend_def femit_def fsyn_reply_def Let_def case_prod_unfold)





text \<open>Opening a stream.\<close>

lemma pair_for_fields [simp]:
  "fp_data (pair_for hdr x) = data_at x (request_id hdr)"
  "fp_error (pair_for hdr x) = error_at x (request_id hdr)"
  "fp_tcp (pair_for hdr x) = tcp_at x (request_id hdr)"
  by (simp_all add: pair_for_def at_defs Let_def split: option.split)



lemma fw_stop_pump_streams [simp]:
  "k < length (fw_pumps x) \<Longrightarrow> map fk_stream (fw_pumps (fw_stop_pump k x)) = map fk_stream (fw_pumps x)"
  by (simp add: fw_stop_pump_def map_update list_update_same_conv)

lemma fw_stop_pump_simps [simp]:
  "fw_pairs (fw_stop_pump k x) = fw_pairs x" "fw_route (fw_stop_pump k x) = fw_route x"
  "fw_dialing (fw_stop_pump k x) = fw_dialing x" "fw_sent (fw_stop_pump k x) = fw_sent x"
  "fw_effects (fw_stop_pump k x) = fw_effects x"
  by (simp_all add: fw_stop_pump_def)



section \<open>Properties\<close>


text \<open>Two connections to apply it to, over a compressor that copies.\<close>

definition plain_zlib :: "(unit, unit) Zlib" where
  "plain_zlib = \<lparr>z_compress = (\<lambda>c bs. (bs, c)), z_decompress = (\<lambda>d bs. (Inr bs, d)),
     z_new_compressor = (), z_new_decompressor = ()\<rparr>"







lemma nat_str_80: "nat_str 80 = ''80''"
  by code_simp



lemma fw_left_loop:
  assumes "fw_phase x \<noteq> FwLoop" and "fw_step z host ns ev x = Some x'"
  shows "fw_phase x' \<noteq> FwLoop"
  using assms
  by (cases ev) (auto simp: fw_pump_read_def fw_stop_pump_def fsend_def fw_dialed_def femit_def Let_def
      split: if_splits option.splits list.splits)

fun client_frame :: "FwEvent \<Rightarrow> bool" where
  "client_frame (FwFrame f) = True"
| "client_frame _ = False"

text \<open>
  A reset of any one stream ends the whole session: afterwards no frame of the client is
  handled any more, on whatever stream it comes.
\<close>

lemma forward_reset_ends_session:
  assumes "fw_run z host ns (FwFrame (RstStream sid st) # evs) x = Some x'"
  shows "list_all (\<lambda>ev. \<not> client_frame ev) evs"
proof -
  have drain: "list_all (\<lambda>ev. \<not> client_frame ev) evs" if "fw_phase y \<noteq> FwLoop" "fw_run z host ns evs y = Some x'" for y
    using that
  proof (induction evs arbitrary: y)
    case (Cons ev evs)
    then obtain y' where y': "fw_step z host ns ev y = Some y'" "fw_run z host ns evs y' = Some x'"
      by (auto split: option.splits)
    have "\<not> client_frame ev"
      using y'(1) Cons.prems(1) by (cases ev) auto
    then show ?case
      using Cons.IH [OF fw_left_loop [OF Cons.prems(1) y'(1)] y'(2)] by simp
  qed simp
  have "fw_run z host ns evs (x\<lparr>fw_phase := FwDrain\<rparr>) = Some x'"
    using assms by (simp split: if_splits)
  then show ?thesis
    by (rule drain [rotated]) simp
qed

text \<open>
  Two data streams under one request id - which is what two connections to one port have when
  the client sends no request id - are not kept apart: once the second is dialled, what the client
  sends on the first is written to the second's socket.
\<close>

lemma forward_shared_id:
  assumes "fw_phase x = FwLoop" and "fw_dialing x = Some (s2, req)"
    and "map_of (fw_route x) s1 = Some req" and "map_of (fw_pairs x) req = Some p"
  shows "\<exists>x'. fw_run z host ns [FwDialed True, FwFrame (Data s1 0 bs)] x = Some x' \<and>
    last (fw_effects x') = FwWrite (length (fw_pumps x)) bs"
  using assms by (simp add: fw_dialed_def fw_data_def femit_def)

definition plain_syn :: "u32 \<Rightarrow> FwEvent" where
  "plain_syn sid = FwFrame (SynStream sid 0 0 0 (serialize_headers
     [(''streamType'', ''data''), (''port'', ''80'')]))"

definition shared_demo :: "(unit, unit) Forward" where
  "shared_demo = the (run_portforward plain_zlib ''127.0.0.1'' None
     [plain_syn 1, FwDialed True, plain_syn 3])"

lemma plain_syn_headers:
  "read_headers plain_zlib (serialize_headers [(''streamType'', ''data''), (''port'', ''80'')]) d
     = ([(''streamType'', ''data''), (''port'', ''80'')], d)"
  by (simp; code_simp)

lemma plain_header_values:
  "header_get [(''streamType'', t), (''port'', v)] ''streamType'' = Some t"
  "header_get [(''streamType'', t), (''port'', v)] ''port'' = Some v"
  "header_get [(''streamType'', t), (''port'', v)] ''requestID'' = None"
  by (simp_all add: header_get_def eq_ignore_ascii_case_def to_lower_def)

end
