(* ===== verification/Shell_Laws.thy ===== *)
theory Shell_Laws
  imports Shell_Image Fake_Backend
begin

text \<open>
  What the shell promises over any backend that keeps the laws of the seam, proved once in the
  context of \<open>cri_backend\<close>, and the facts about the handlers that need no law.
\<close>

section \<open>Handlers\<close>

lemma bindR_ok:
  assumes "bindR m k sh = (Inr y, sh2)"
  obtains x sh1 where "m sh = (Inr x, sh1)" "k x sh1 = (Inr y, sh2)"
  using assms by (auto simp: bindR_def split: prod.splits sum.splits)

lemma blocking_ok:
  "blocking f sh = (Inr x, sh') \<longleftrightarrow>
     (\<exists>s. f (sh_backend sh) = (Inr x, s) \<and> sh' = sh\<lparr>sh_backend := s\<rparr>)"
  by (auto simp: blocking_def Let_def split: prod.splits sum.splits)

lemma blocking_err:
  "f (sh_backend sh) = (Inl e, s) \<Longrightarrow> blocking f sh = (Inl (map_err e), sh\<lparr>sh_backend := s\<rparr>)"
  by (simp add: blocking_def)

lemma required_ok: "required w v sh = (Inr x, sh') \<longleftrightarrow> v = Some x \<and> sh' = sh"
  by (auto simp: required_def refuse_def respond_def split: option.splits)

lemma respond_ok [simp]: "respond x sh = (Inr y, sh') \<longleftrightarrow> y = x \<and> sh' = sh"
  by (auto simp: respond_def)

text \<open>A backend call that only reads leaves the shell as it was.\<close>

lemma blocking_read:
  assumes "fst (f (sh_backend sh)) = Inr x" and "snd (f (sh_backend sh)) = sh_backend sh"
  shows "blocking f sh = (Inr x, sh)"
  using assms by (cases "f (sh_backend sh)") (simp add: blocking_def)

lemma mint_url_ok:
  assumes "mint_url now rnd verb params sh = (Inr url, sh')"
  obtains token reg where "mint now rnd verb params (sh_registry sh) = (Some token, reg)"
    "sh' = sh\<lparr>sh_registry := reg\<rparr>" "url = sh_base_url sh @ ''/'' @ verb_path verb @ ''/'' @ token"
  using assms by (auto simp: mint_url_def refuse_def Let_def split: prod.splits option.splits)

text \<open>The list of containers and the status of each are two views of one state.\<close>

definition same_view :: "ProtoContainer \<Rightarrow> ProtoContainerStatus \<Rightarrow> bool" where
  "same_view c st \<longleftrightarrow>
     pct_id c = pcs_id st \<and> pct_metadata c = pcs_metadata st \<and> pct_state c = pcs_state st \<and>
     pct_created_at c = pcs_created_at st \<and> pct_image c = pcs_image st \<and>
     pct_image_ref c = pcs_image_ref st \<and> pct_labels c = pcs_labels st \<and>
     pct_annotations c = pcs_annotations st"

definition state_filter :: "ContainerState option \<Rightarrow> ProtoContainerFilter" where
  "state_filter q = \<lparr>pcf_id = [], pcf_pod_sandbox_id = [], pcf_state = map_option map_container_state q,
     pcf_label_selector = []\<rparr>"

lemma same_view_build: "same_view (build_container ct) (build_container_status ct)"
  by (simp add: same_view_def build_container_def build_container_status_def)

lemma map_container_state_inject: "map_container_state s = map_container_state s' \<longleftrightarrow> s = s'"
  by (cases s; cases s') (simp_all add: enum_defs)

lemma decode_container_state:
  "(if map_container_state s = ContainerCreated then Created
    else if map_container_state s = ContainerRunning then Running
    else if map_container_state s = ContainerExited then Exited else Unknown) = s"
  by (cases s) (simp_all add: enum_defs)

section \<open>Over any backend that keeps the laws\<close>

context cri_backend
begin

lemma run_then_status:
  assumes "run_pod_sandbox be (Some pc) sh = (Inr i, sh')"
  shows "\<exists>st. pod_sandbox_status be i sh' = (Inr st, sh') \<and> pss_id st = i \<and>
    pss_metadata st = pc_metadata pc \<and> pss_state st = SandboxReady \<and>
    pss_labels st = pc_labels pc \<and> pss_annotations st = pc_annotations pc"
proof -
  obtain meta where m: "pc_metadata pc = Some meta"
    and r: "\<exists>x s. be_run_sandbox be (sandbox_config pc meta) (sh_backend sh) = (Inr x, s) \<and>
      sh' = sh\<lparr>sh_backend := s\<rparr> \<and> i = sid_0 x"
    using assms unfolding run_pod_sandbox_def
    by (elim bindR_ok) (auto simp: required_ok blocking_ok)
  then obtain x s where x: "be_run_sandbox be (sandbox_config pc meta) (sh_backend sh) = (Inr x, s)"
      "sh' = sh\<lparr>sh_backend := s\<rparr>" "i = sid_0 x"
    by blast
  obtain st where st: "fst (be_sandbox_status be x s) = Inr st" "ss_id st = x"
      "ss_config st = sandbox_config pc meta" "ss_state st = Ready"
    using sandbox_run [OF x(1)] by blast
  have "blocking (be_sandbox_status be (SandboxId i)) sh' = (Inr st, sh')"
    using st(1) x by (intro blocking_read) (simp_all add: status_reads)
  then show ?thesis
    using st m x(3)
    by (simp add: pod_sandbox_status_def bindR_def respond_def build_sandbox_status_def
        sandbox_metadata_def sandbox_config_def)
qed

lemma create_then_status:
  assumes "rpc_create_container be sb (Some pcc) sh = (Inr c, sh')"
  shows "(\<exists>ss. pod_sandbox_status be sb sh = (Inr ss, sh) \<and> pss_state ss = SandboxReady) \<and>
    (\<exists>st. rpc_container_status be c sh' = (Inr st, sh') \<and> pcs_id st = c \<and>
      pcs_metadata st = pcc_metadata pcc \<and> pcs_state st = ContainerCreated \<and>
      pcs_image st = Some (case pcc_image pcc of None \<Rightarrow> [] | Some i \<Rightarrow> i) \<and>
      pcs_mounts st = pcc_mounts pcc \<and> pcs_labels st = pcc_labels pcc \<and>
      pcs_annotations st = pcc_annotations pcc)"
proof -
  obtain meta where m: "pcc_metadata pcc = Some meta"
    and r: "\<exists>x s. be_create_container be (SandboxId sb) (container_config pcc meta) (sh_backend sh)
      = (Inr x, s) \<and> sh' = sh\<lparr>sh_backend := s\<rparr> \<and> c = cid_0 x"
    using assms unfolding rpc_create_container_def
    by (elim bindR_ok) (auto simp: required_ok blocking_ok)
  then obtain x s where x: "be_create_container be (SandboxId sb) (container_config pcc meta) (sh_backend sh)
      = (Inr x, s)" "sh' = sh\<lparr>sh_backend := s\<rparr>" "c = cid_0 x"
    by blast
  obtain ss where ss: "fst (be_sandbox_status be (SandboxId sb) (sh_backend sh)) = Inr ss" "ss_state ss = Ready"
    using create_ready [OF x(1)] by blast
  have "blocking (be_sandbox_status be (SandboxId sb)) sh = (Inr ss, sh)"
    using ss(1) by (intro blocking_read) (simp_all add: status_reads)
  then have 1: "pod_sandbox_status be sb sh = (Inr (build_sandbox_status ss), sh) \<and>
      pss_state (build_sandbox_status ss) = SandboxReady"
    using ss(2) by (simp add: pod_sandbox_status_def bindR_def respond_def build_sandbox_status_def)
  obtain st where st: "fst (be_container_status be x s) = Inr st" "cs_id st = x" "cs_state st = Created"
      "cs_config st\<lparr>cc_log_path := cc_log_path (container_config pcc meta)\<rparr> = container_config pcc meta"
    using container_created [OF x(1)] by blast
  have cfg: "cc_name (cs_config st) = cm_name meta" "cc_attempt (cs_config st) = cm_attempt meta"
    "cc_image_ref (cs_config st) = cc_image_ref (container_config pcc meta)"
    "cc_mounts (cs_config st) = cc_mounts (container_config pcc meta)"
    "cc_labels (cs_config st) = pcc_labels pcc" "cc_annotations (cs_config st) = pcc_annotations pcc"
    using st(4) by (auto simp: container_config_def dest: arg_cong [where f = cc_name]
        arg_cong [where f = cc_attempt] arg_cong [where f = cc_image_ref] arg_cong [where f = cc_mounts]
        arg_cong [where f = cc_labels] arg_cong [where f = cc_annotations])
  have mounts: "build_mount \<circ> (\<lambda>m. \<lparr>mt_container_path = pmt_container_path m,
      mt_host_path = pmt_host_path m, mt_readonly = pmt_readonly m\<rparr>) = id"
    by (simp add: fun_eq_iff build_mount_def)
  have "blocking (be_container_status be (ContainerId c)) sh' = (Inr st, sh')"
    using st(1) x by (intro blocking_read) (simp_all add: status_reads)
  then have "rpc_container_status be c sh' = (Inr (build_container_status st), sh')"
    by (simp add: rpc_container_status_def bindR_def respond_def)
  then show ?thesis
    using 1 st cfg m x(3) mounts
    by (simp add: build_container_status_def container_metadata_def container_config_def)
qed

lemma removed_not_found:
  assumes "ok (sh_backend sh)" and "remove_pod_sandbox be i sh = (Inr (), sh')"
  shows "\<exists>m. pod_sandbox_status be i sh' = (Inl (GrpcStatus NotFoundCode m), sh')"
proof -
  obtain s where s: "be_remove_sandbox be (SandboxId i) (sh_backend sh) = (Inr (), s)"
      "sh' = sh\<lparr>sh_backend := s\<rparr>"
    using assms(2) by (auto simp: remove_pod_sandbox_def blocking_ok)
  obtain m where "fst (be_sandbox_status be (SandboxId i) s) = Inl (NotFound m)"
    using sandbox_removed [OF assms(1) s(1)] by blast
  moreover have "snd (be_sandbox_status be (SandboxId i) s) = s"
    by (rule status_reads)
  ultimately show ?thesis
    using s(2) by (cases "be_sandbox_status be (SandboxId i) s")
      (simp add: pod_sandbox_status_def bindR_def blocking_def)
qed

lemma status_listed:
  assumes "ok (sh_backend sh)"
  shows "\<exists>cs. rpc_list_containers be (Some (state_filter q)) sh = (Inr cs, sh) \<and>
    (\<forall>i st. rpc_container_status be i sh = (Inr st, sh) \<longrightarrow>
       ((\<exists>c \<in> set cs. same_view c st) \<longleftrightarrow> (\<forall>s. q = Some s \<longrightarrow> pcs_state st = map_container_state s))) \<and>
    (\<forall>c \<in> set cs. \<exists>st. rpc_container_status be (pct_id c) sh = (Inr st, sh) \<and> same_view c st)"
proof -
  let ?s = "sh_backend sh" and ?f = "proto_container_filter (Some (state_filter q))"
  have f: "cf_id ?f = None" "cf_sandbox ?f = None" "cf_state ?f = q" "cf_label_selector ?f = []"
    using decode_container_state
    by (simp_all add: proto_container_filter_def state_filter_def option.map_comp comp_def option.map_ident)
  obtain cts where cts: "fst (be_list_containers be ?f ?s) = Inr cts"
    and ex: "\<And>ct. ct \<in> set cts \<longleftrightarrow> fst (be_container_status be (cs_id ct) ?s) = Inr ct \<and>
      (case q of None \<Rightarrow> True | Some st \<Rightarrow> cs_state ct = st)"
    using containers_listed [OF assms, of ?f] by (auto simp: f)
  have status: "rpc_container_status be i sh = (Inr st, sh) \<longleftrightarrow>
      (\<exists>ct. fst (be_container_status be (ContainerId i) ?s) = Inr ct \<and> st = build_container_status ct)" for i st
    using status_reads(2) [of "ContainerId i" ?s]
    by (cases "be_container_status be (ContainerId i) ?s")
      (auto simp: rpc_container_status_def bindR_def blocking_def respond_def split: sum.splits)
  have 1: "rpc_list_containers be (Some (state_filter q)) sh = (Inr (map build_container cts), sh)"
    using blocking_read [of "be_list_containers be ?f" sh cts] cts by (simp add: rpc_list_containers_def bindR_def respond_def status_reads)
  have 2: "(\<exists>c \<in> set (map build_container cts). same_view c st) \<longleftrightarrow>
      (\<forall>s. q = Some s \<longrightarrow> pcs_state st = map_container_state s)"
    if st: "rpc_container_status be i sh = (Inr st, sh)" for i st
  proof -
    obtain ct where ct: "fst (be_container_status be (ContainerId i) ?s) = Inr ct" "st = build_container_status ct"
      using st status by blast
    have id: "cs_id ct = ContainerId i"
      using container_id [OF assms ct(1)] .
    have state: "pcs_state st = map_container_state (cs_state ct)"
      by (simp add: ct(2) build_container_status_def)
    show ?thesis
    proof
      assume "\<exists>c \<in> set (map build_container cts). same_view c st"
      then obtain ct' where ct': "ct' \<in> set cts" "same_view (build_container ct') st"
        by auto
      then have "map_container_state (cs_state ct') = pcs_state st"
        by (simp add: same_view_def build_container_def)
      then show "\<forall>s. q = Some s \<longrightarrow> pcs_state st = map_container_state s"
        using ex [of ct'] ct'(1) by auto
    next
      assume all: "\<forall>s. q = Some s \<longrightarrow> pcs_state st = map_container_state s"
      have "case q of None \<Rightarrow> True | Some s \<Rightarrow> cs_state ct = s"
        using all state by (cases q) (simp_all add: map_container_state_inject)
      moreover have "fst (be_container_status be (cs_id ct) ?s) = Inr ct"
        using ct(1) id by simp
      ultimately have "ct \<in> set cts"
        using ex by blast
      then have "build_container ct \<in> set (map build_container cts)"
        by simp
      then show "\<exists>c \<in> set (map build_container cts). same_view c st"
        using same_view_build [of ct] unfolding ct(2) by blast
    qed
  qed
  have 3: "\<exists>st. rpc_container_status be (pct_id c) sh = (Inr st, sh) \<and> same_view c st"
    if "c \<in> set (map build_container cts)" for c
  proof -
    obtain ct where ct: "c = build_container ct" "ct \<in> set cts"
      using \<open>c \<in> set (map build_container cts)\<close> by auto
    then show ?thesis
      using ex [of ct] same_view_build [of ct] by (auto simp: status build_container_def)
  qed
  show ?thesis
    by (intro exI [of _ "map build_container cts"] conjI allI impI ballI) (rule 1, erule 2, erule 3)
qed

end

end
