(* ===== verification/Server_Root.thy ===== *)
theory Server_Root
  imports Fake_Backend Stream_Server Shell_Image
begin

text \<open>
  The composition root (\<open>lightr-cri-server\<close>): the session factory that hands a redeemed token's
  parameters to the backend, the start-up and shut-down of the two servers, and the arguments
  of the binary.
\<close>

section \<open>The session factory\<close>

text \<open>The streaming methods of the trait, over the session type of the backend.\<close>

record ('s, 'ss) StreamOps =
  so_open_exec :: "ContainerId \<Rightarrow> string list \<Rightarrow> bool \<Rightarrow> bool \<Rightarrow> 's \<Rightarrow> 'ss result \<times> 's"
  so_open_attach :: "ContainerId \<Rightarrow> 's \<Rightarrow> 'ss result \<times> 's"

definition err_to_string :: "'a result \<times> 's \<Rightarrow> (string + 'a) \<times> 's" where
  "err_to_string r = (case fst r of Inl e \<Rightarrow> Inl (error_to_string e) | Inr x \<Rightarrow> Inr x, snd r)"

fun open_session :: "('s, 'ss) StreamOps \<Rightarrow> StreamVerb \<Rightarrow> StreamParams \<Rightarrow> 's \<Rightarrow> (string + 'ss) \<times> 's" where
  "open_session so Exec params s =
     (case sp_container params of
        None \<Rightarrow> (Inl ''exec: missing container id'', s)
      | Some cid \<Rightarrow>
          err_to_string (so_open_exec so (ContainerId cid) (sp_cmd params) (sp_tty params) (sp_stdin params) s))"
| "open_session so Attach params s =
     (case sp_container params of
        None \<Rightarrow> (Inl ''attach: missing container id'', s)
      | Some cid \<Rightarrow> err_to_string (so_open_attach so (ContainerId cid) s))"
| "open_session so PortForward params s =
     (Inl ''portforward: factory should not be called (stream crate dials directly)'', s)"

definition fake_stream :: "Env \<Rightarrow> ('f Fake, BackendSession) StreamOps" where
  "fake_stream env = \<lparr>so_open_exec = open_exec env, so_open_attach = open_attach env\<rparr>"

section \<open>Starting and stopping\<close>

text \<open>What the operating system answers to the steps of \<open>serve\<close>; \<open>None\<close> is success.\<close>

record ServeEnv =
  se_stream :: "string option"
  se_socket_exists :: bool
  se_remove :: "string option"
  se_parent :: "string option"
  se_mkdir :: "string option"
  se_bind :: "string option"
  se_serve :: "string option"

datatype ServeStep =
    StartStream | RemoveStale | MakeParent | BindSocket | ServeRpc | StopStream

definition serve :: "ServeEnv \<Rightarrow> ServeStep list \<times> int" where
  "serve se =
     (if se_stream se \<noteq> None then ([StartStream], 1)
      else if se_socket_exists se \<and> se_remove se \<noteq> None then ([StartStream, RemoveStale], 1)
      else
        let log = [StartStream] @ (if se_socket_exists se then [RemoveStale] else []);
            mk = (case se_parent se of None \<Rightarrow> False | Some p \<Rightarrow> p \<noteq> [])
        in if mk \<and> se_mkdir se \<noteq> None then (log @ [MakeParent], 1)
           else
             let log = log @ (if mk then [MakeParent] else []) @ [BindSocket]
             in if se_bind se \<noteq> None then (log, 1)
                else (log @ [ServeRpc, StopStream], if se_serve se = None then 0 else 1))"

section \<open>Arguments\<close>

datatype 'a ArgResult = Parsed 'a | MissingValue | ExitUsage string

fun parse_loop :: "string list \<Rightarrow> string \<Rightarrow> string option \<Rightarrow> (string \<times> string option) ArgResult" where
  "parse_loop [] sock state = Parsed (sock, state)"
| "parse_loop (arg # args) sock state =
     (if arg = ''--socket'' then
        (case args of [] \<Rightarrow> MissingValue | v # rest \<Rightarrow> parse_loop rest v state)
      else if arg = ''--state'' then
        (case args of [] \<Rightarrow> MissingValue | v # rest \<Rightarrow> parse_loop rest sock (Some v))
      else ExitUsage arg)"

definition parse_args :: "string list \<Rightarrow> (string \<times> string option) ArgResult" where
  "parse_args argv = parse_loop (drop 1 argv) ''/run/lightr/cri.sock'' None"

definition resolve_state :: "string option \<Rightarrow> string option \<Rightarrow> string \<Rightarrow> string" where
  "resolve_state state env_var temp_dir =
     (case state of
        Some p \<Rightarrow> p
      | None \<Rightarrow>
          (case env_var of
             Some v \<Rightarrow> if v \<noteq> [] then v else path_join temp_dir ''lightr-cri-fake''
           | None \<Rightarrow> path_join temp_dir ''lightr-cri-fake''))"

end
