(* ===== verification/Shell_Props.thy ===== *)
theory Shell_Props
  imports Shell_Laws Server_Root Fake_Props
begin

text \<open>
  The properties of the runtime as the kubelet sees it: the shell over the fake backend, and
  the shell's URLs redeemed at the stream server and served by the backend's sessions.
\<close>

section \<open>A shell over the fake backend\<close>

text \<open>The shell of a run: the demonstration backend, an empty registry.\<close>

definition demo_shell :: "'f Fake \<Rightarrow> 'f Fake Shell" where
  "demo_shell st = \<lparr>sh_backend = st, sh_registry = new_registry, sh_base_url = ''http://h:1''\<rparr>"

definition demo_pod :: PodSandboxConfig where
  "demo_pod = \<lparr>pc_metadata = Some \<lparr>pmd_name = ''web'', pmd_uid = ''u1'', pmd_namespace = ''default'',
      pmd_attempt = 0\<rparr>, pc_hostname = [], pc_log_directory = ''/logs'', pc_dns_config = None,
      pc_port_mappings = [], pc_labels = [(''app'', ''web'')], pc_annotations = [],
      pc_linux = Some \<lparr>lp_security_context = Some \<lparr>ls_namespace_options =
        Some \<lparr>no_network = NamespaceNode\<rparr>\<rparr>\<rparr>\<rparr>"

lemma demo_running_status:
  "\<exists>ct. container_status (ContainerId ''ct-3-1'') demo_running = Inr ct \<and> cs_state ct = Running \<and>
     cs_id ct = ContainerId ''ct-3-1''"
proof -
  have "case container_status (ContainerId ''ct-3-1'') demo_running of
      Inl e \<Rightarrow> False | Inr ct \<Rightarrow> cs_state ct = Running \<and> cs_id ct = ContainerId ''ct-3-1''"
    by code_simp
  then show ?thesis by (auto split: sum.splits)
qed

section \<open>Running and creating\<close>

text \<open>A pod sandbox that RunPodSandbox answers with an id is reported by PodSandboxStatus
  under that id as Ready, with the metadata, labels and annotations of the request.\<close>

lemma shell_run_then_status:
  assumes "run_pod_sandbox (fake_backend env sd) (Some pc) sh = (Inr i, sh')"
  shows "\<exists>st. pod_sandbox_status (fake_backend env sd) i sh' = (Inr st, sh') \<and> pss_id st = i \<and>
    pss_metadata st = pc_metadata pc \<and> pss_state st = SandboxReady \<and>
    pss_labels st = pc_labels pc \<and> pss_annotations st = pc_annotations pc"
  by (rule fake.run_then_status [OF assms])


text \<open>A container is created only in a sandbox that PodSandboxStatus reports Ready, and
  ContainerStatus then reports it under the returned id as Created, with the request's
  metadata, image, mounts, labels and annotations.\<close>

lemma shell_create_then_status:
  assumes "rpc_create_container (fake_backend env sd) sb (Some pcc) sh = (Inr c, sh')"
  shows "(\<exists>ss. pod_sandbox_status (fake_backend env sd) sb sh = (Inr ss, sh) \<and> pss_state ss = SandboxReady) \<and>
    (\<exists>st. rpc_container_status (fake_backend env sd) c sh' = (Inr st, sh') \<and> pcs_id st = c \<and>
      pcs_metadata st = pcc_metadata pcc \<and> pcs_state st = ContainerCreated \<and>
      pcs_image st = Some (case pcc_image pcc of None \<Rightarrow> [] | Some i \<Rightarrow> i) \<and>
      pcs_mounts st = pcc_mounts pcc \<and> pcs_labels st = pcc_labels pcc \<and>
      pcs_annotations st = pcc_annotations pcc)"
  by (rule fake.create_then_status [OF assms])

definition demo_container_request :: ProtoContainerConfig where
  "demo_container_request = \<lparr>pcc_metadata = Some \<lparr>cm_name = ''c'', cm_attempt = 0\<rparr>, pcc_image = Some ''busybox'',
     pcc_command = [''sh''], pcc_args = [], pcc_working_dir = [], pcc_envs = [],
     pcc_mounts = [\<lparr>pmt_container_path = ''/d'', pmt_host_path = ''/h'', pmt_readonly = True\<rparr>],
     pcc_labels = [], pcc_annotations = [], pcc_log_path = ''c.log'', pcc_tty = False, pcc_stdin = False\<rparr>"

section \<open>Listing and removing\<close>

text \<open>C29: ListContainers and ContainerStatus agree: whatever state is asked for, a container whose
  status can be read is in the list exactly when it is in that state, with the same id,
  metadata, state, creation time, image, labels and annotations, and every listed container
  has a status.\<close>

theorem shell_status_listed:
  assumes "keys_ok (sh_backend sh)"
  shows "\<exists>cs. rpc_list_containers (fake_backend env sd) (Some (state_filter q)) sh = (Inr cs, sh) \<and>
    (\<forall>i st. rpc_container_status (fake_backend env sd) i sh = (Inr st, sh) \<longrightarrow>
       ((\<exists>c \<in> set cs. same_view c st) \<longleftrightarrow> (\<forall>s. q = Some s \<longrightarrow> pcs_state st = map_container_state s))) \<and>
    (\<forall>c \<in> set cs. \<exists>st. rpc_container_status (fake_backend env sd) (pct_id c) sh = (Inr st, sh) \<and> same_view c st)"
  by (rule fake.status_listed [OF assms])

theorem shell_status_listed_witness:
  "\<exists>cs. rpc_list_containers (fake_backend demo_env demo_serde) (Some (state_filter (Some Running)))
      (demo_shell demo_running) = (Inr cs, demo_shell demo_running) \<and> (\<exists>c \<in> set cs. pct_id c = ''ct-3-1'')"
proof -
  let ?sh = "demo_shell demo_running" and ?be = "fake_backend demo_env demo_serde"
  have "keys_ok (sh_backend ?sh)" by (simp add: demo_shell_def)
  from shell_status_listed [OF this, of demo_env demo_serde "Some Running"]
  obtain cs where cs: "rpc_list_containers ?be (Some (state_filter (Some Running))) ?sh = (Inr cs, ?sh)"
    and ex: "\<And>i st. rpc_container_status ?be i ?sh = (Inr st, ?sh) \<Longrightarrow>
      (\<exists>c \<in> set cs. same_view c st) \<longleftrightarrow> pcs_state st = map_container_state Running"
    by auto
  obtain ct where ct: "container_status (ContainerId ''ct-3-1'') demo_running = Inr ct"
      "cs_state ct = Running" "cs_id ct = ContainerId ''ct-3-1''"
    using demo_running_status by blast
  then have "rpc_container_status ?be ''ct-3-1'' ?sh = (Inr (build_container_status ct), ?sh)"
    by (simp add: rpc_container_status_def bindR_def blocking_def respond_def demo_shell_def)
  from ex [OF this] obtain c where "c \<in> set cs" "same_view c (build_container_status ct)"
    using ct(2) by (auto simp: build_container_status_def)
  then show ?thesis
    using cs ct(3) by (auto simp: same_view_def build_container_status_def)
qed

text \<open>After RemovePodSandbox has answered, PodSandboxStatus of that id is a gRPC NotFound.\<close>

lemma shell_removed_not_found:
  assumes "keys_ok (sh_backend sh)"
    and "remove_pod_sandbox (fake_backend env sd) i sh = (Inr (), sh')"
  shows "\<exists>m. pod_sandbox_status (fake_backend env sd) i sh' = (Inl (GrpcStatus NotFoundCode m), sh')"
  by (rule fake.removed_not_found [OF assms])

section \<open>From URL to session\<close>

lemma running_container:
  "validate_container_running (fake_backend env sd) c sh = (Inr u, sh') \<longleftrightarrow>
     sh' = sh \<and> (\<exists>r. map_of (containers (sh_backend sh)) c = Some r \<and> cr_state r = Running)"
  by (auto simp: validate_container_running_def bindR_def blocking_def container_status_def
      rec_to_status_def respond_def refuse_def Let_def case_prod_unfold split: option.splits)

lemma ready_sandbox:
  "validate_sandbox_ready_get_ip (fake_backend env sd) i sh = (Inr x, sh') \<longleftrightarrow>
     sh' = sh \<and> (\<exists>s. map_of (sandboxes (sh_backend sh)) i = Some s \<and> sr_state s = Ready \<and>
       x = (if sr_netns_path s \<noteq> None then ''127.0.0.1''
            else case sr_ip s of Some ip \<Rightarrow> ip | None \<Rightarrow> ''127.0.0.1'', sr_netns_path s))"
  by (auto simp: validate_sandbox_ready_get_ip_def bindR_def blocking_def sandbox_status_def
      sandbox_rec_to_status_def respond_def refuse_def split: option.splits)

text \<open>The route of a URL and its token determine the request that opens it.\<close>

definition opens :: "Request \<Rightarrow> string \<Rightarrow> StreamVerb \<Rightarrow> string \<Rightarrow> bool" where
  "opens r base verb url \<longleftrightarrow> base @ rq_path r = url \<and> rq_path r = ''/'' @ verb_path verb @ ''/'' @ rq_token r"

lemma opens_token: "opens r base verb (base @ ''/'' @ verb_path verb @ ''/'' @ tok) \<Longrightarrow> rq_token r = tok"
  by (auto simp: opens_def)

text \<open>C26: Exec answers with a URL only for a container that is Running.  A WebSocket request for that
  URL within 60 seconds starts a session whose parameters make the session factory open
  exactly the command, terminal and stdin asked for, in that container; a later one finds no
  token.\<close>

theorem exec_url_opens:
  fixes sd :: "'f Serde"
  assumes "rpc_exec (fake_backend env sd) now rnd req sh = (Inr url, sh')"
    and "registry_ok (sh_registry sh)" and "opens r (sh_base_url sh) Exec url" and "now \<le> later"
    and "rq_ws r" and "\<not> wants_spdy r"
  shows "(\<exists>rec. map_of (containers (sh_backend sh)) (ContainerId (xr_container_id req)) = Some rec \<and>
      cr_state rec = Running) \<and>
    (\<exists>params proto.
      fst (handle later r (sh_registry sh')) =
        (if later - now < 60 * 1000000000 then (ws_response proto, Some (WsExec proto Exec params))
         else (not_found, None)) \<and>
      (\<forall>st :: 'f Fake. open_session (fake_stream env) Exec params st =
        err_to_string (open_exec env (ContainerId (xr_container_id req)) (xr_cmd req) (xr_tty req)
          (xr_stdin req) st)))"
proof -
  let ?c = "ContainerId (xr_container_id req)"
  let ?p = "\<lparr>sp_container = Some (xr_container_id req), sp_sandbox = None, sp_cmd = xr_cmd req,
    sp_tty = xr_tty req, sp_stdin = xr_stdin req, sp_ports = [], sp_dial_target = None, sp_netns_path = None\<rparr>"
  obtain u where v: "validate_container_running (fake_backend env sd) ?c sh = (Inr u, sh)"
    and m: "mint_url now rnd Exec ?p sh = (Inr url, sh')"
    using assms(1) unfolding rpc_exec_def by (elim bindR_ok) (auto simp: running_container)
  obtain tok where t: "mint now rnd Exec ?p (sh_registry sh) = (Some tok, sh_registry sh')"
      "url = sh_base_url sh @ ''/'' @ verb_path Exec @ ''/'' @ tok"
    by (rule mint_url_ok [OF m]) auto
  have tok: "rq_token r = tok" and path: "rq_path r = ''/exec/'' @ tok"
    using assms(3) opens_token [of r "sh_base_url sh" Exec tok] by (auto simp: t(2) opens_def)
  have "consume later tok (sh_registry sh') =
      (if later - now < 60 * 1000000000 then Some (Exec, ?p) else None, bt_remove tok (sh_registry sh'))"
    using consume_minted [OF t(1) assms(2,4)] by blast
  then have "fst (handle later r (sh_registry sh')) =
      (if later - now < 60 * 1000000000
       then (ws_response (negotiate (rq_header r ''sec-websocket-protocol'')),
         Some (WsExec (negotiate (rq_header r ''sec-websocket-protocol'')) Exec ?p))
       else (not_found, None))"
    using assms(5,6) tok path by (simp add: handle_def exec_attach_def starts_with_def Let_def)
  moreover have "open_session (fake_stream env) Exec ?p st =
      err_to_string (open_exec env ?c (xr_cmd req) (xr_tty req) (xr_stdin req) st)" for st :: "'f Fake"
    by (simp add: fake_stream_def)
  ultimately show ?thesis
    using v unfolding running_container by blast
qed

definition demo_random :: "nat \<Rightarrow> bytes option" where
  "demo_random i = Some [of_nat i, 1, 2, 3, 4, 5]"

definition demo_exec :: ExecRequest where
  "demo_exec = \<lparr>xr_container_id = ''ct-3-1'', xr_cmd = [''ls''], xr_tty = False, xr_stdin = True\<rparr>"

definition demo_open :: "string \<Rightarrow> Request" where
  "demo_open path = \<lparr>rq_path = path @ ''AAECAwQF'', rq_token = ''AAECAwQF'', rq_query = Some ''port=80'',
     rq_ws = True, rq_header = (\<lambda>h. None)\<rparr>"

lemma demo_open_ws: "rq_ws (demo_open path)" "\<not> wants_spdy (demo_open path)"
  by (simp_all add: demo_open_def wants_spdy_def)

lemma demo_shell_registry: "registry_ok (sh_registry (demo_shell st))"
  by (simp add: demo_shell_def registry_ok_def new_registry_def)

theorem exec_url_opens_witness:
  "\<exists>sh proto params. rpc_exec (fake_backend demo_env demo_serde) 0 demo_random demo_exec (demo_shell demo_running)
      = (Inr ''http://h:1/exec/AAECAwQF'', sh)
    \<and> fst (handle 5 (demo_open ''/exec/'') (sh_registry sh))
      = (ws_response proto, Some (WsExec proto Exec params))
    \<and> fst (handle 60000000000 (demo_open ''/exec/'') (sh_registry sh)) = (not_found, None)"
proof -
  let ?x = "rpc_exec (fake_backend demo_env demo_serde) 0 demo_random demo_exec (demo_shell demo_running)"
  have "fst ?x = Inr ''http://h:1/exec/AAECAwQF''" by code_simp
  then have x: "?x = (Inr ''http://h:1/exec/AAECAwQF'', snd ?x)" by (metis prod.collapse)
  have "opens (demo_open ''/exec/'') (sh_base_url (demo_shell demo_running)) Exec ''http://h:1/exec/AAECAwQF''"
    by (simp add: opens_def demo_open_def demo_shell_def)
  note opened = exec_url_opens [OF x demo_shell_registry this le0 demo_open_ws]
  from opened [of 5] opened [of 60000000000] x show ?thesis by fastforce
qed

text \<open>C27: PortForward answers with a URL only for a sandbox that is Ready.  A WebSocket request for
  that URL within 60 seconds dials the loopback address inside the sandbox's network namespace,
  or the sandbox's address (loopback where it has none) from the host when it has no namespace
  of its own; the ports are those of the request's query; a later request finds no token.\<close>

theorem forward_url_dials:
  assumes "rpc_port_forward (fake_backend env sd) now rnd req sh = (Inr url, sh')"
    and "registry_ok (sh_registry sh)" and "opens r (sh_base_url sh) PortForward url" and "now \<le> later"
    and "rq_ws r" and "\<not> wants_spdy r"
  shows "\<exists>s ports proto. map_of (sandboxes (sh_backend sh)) (SandboxId (fr_pod_sandbox_id req)) = Some s \<and>
    sr_state s = Ready \<and>
    fst (handle later r (sh_registry sh')) =
      (if later - now < 60 * 1000000000
       then (ws_response proto, Some (WsPortforward ports
         (case sr_netns_path s of
            Some ns \<Rightarrow> ''127.0.0.1''
          | None \<Rightarrow> (case sr_ip s of Some ip \<Rightarrow> ip | None \<Rightarrow> ''127.0.0.1'')) (sr_netns_path s)))
       else (not_found, None)) \<and>
    ports = parse_ports (case rq_query r of None \<Rightarrow> [] | Some q \<Rightarrow> q)"
proof -
  let ?i = "SandboxId (fr_pod_sandbox_id req)"
  obtain s where s: "map_of (sandboxes (sh_backend sh)) ?i = Some s" "sr_state s = Ready"
    and m: "mint_url now rnd PortForward
         \<lparr>sp_container = None, sp_sandbox = Some (fr_pod_sandbox_id req), sp_cmd = [],
          sp_tty = False, sp_stdin = False, sp_ports = fr_port req,
          sp_dial_target = Some (if sr_netns_path s \<noteq> None then ''127.0.0.1''
            else case sr_ip s of Some ip \<Rightarrow> ip | None \<Rightarrow> ''127.0.0.1''),
          sp_netns_path = sr_netns_path s\<rparr> sh = (Inr url, sh')" (is "mint_url _ _ _ ?p _ = _")
    using assms(1) unfolding rpc_port_forward_def by (elim bindR_ok) (auto simp: ready_sandbox)
  obtain tok where t: "mint now rnd PortForward ?p (sh_registry sh) = (Some tok, sh_registry sh')"
      "url = sh_base_url sh @ ''/'' @ verb_path PortForward @ ''/'' @ tok"
    by (rule mint_url_ok [OF m]) auto
  have tok: "rq_token r = tok" and path: "rq_path r = ''/portforward/'' @ tok"
    using assms(3) opens_token [of r "sh_base_url sh" PortForward tok] by (auto simp: t(2) opens_def)
  have "consume later tok (sh_registry sh') =
      (if later - now < 60 * 1000000000 then Some (PortForward, ?p) else None, bt_remove tok (sh_registry sh'))"
    using consume_minted [OF t(1) assms(2,4)] by blast
  then show ?thesis
    using assms(5,6) tok path s
    by (auto simp: handle_def portforward_handler_def Let_def pf_dial_host_def split: option.splits)
qed

definition demo_forward :: PortForwardRequest where
  "demo_forward = \<lparr>fr_pod_sandbox_id = ''sb-0-0'', fr_port = [80]\<rparr>"

theorem forward_url_dials_witness:
  "\<exists>sh proto ports host. rpc_port_forward (fake_backend demo_env demo_serde) 0 demo_random demo_forward
      (demo_shell demo_running) = (Inr ''http://h:1/portforward/AAECAwQF'', sh)
    \<and> fst (handle 5 (demo_open ''/portforward/'') (sh_registry sh))
      = (ws_response proto, Some (WsPortforward ports host None))"
proof -
  let ?sh = "demo_shell demo_running"
  let ?x = "rpc_port_forward (fake_backend demo_env demo_serde) 0 demo_random demo_forward ?sh"
  have "fst ?x = Inr ''http://h:1/portforward/AAECAwQF''" by code_simp
  then have x: "?x = (Inr ''http://h:1/portforward/AAECAwQF'', snd ?x)" by (metis prod.collapse)
  have "opens (demo_open ''/portforward/'') (sh_base_url ?sh) PortForward ''http://h:1/portforward/AAECAwQF''"
    by (simp add: opens_def demo_open_def demo_shell_def)
  note opened = forward_url_dials [OF x demo_shell_registry this le0 demo_open_ws]
  have "map_option sr_netns_path (map_of (sandboxes (sh_backend ?sh)) (SandboxId (fr_pod_sandbox_id demo_forward)))
      = Some None" by code_simp
  with opened [of 5] x show ?thesis by (auto split: option.splits)
qed

section \<open>Images\<close>

lemma image_status_read:
  "rpc_image_status (fake_backend env sd) (Some ref) sh =
     (Inr (map_option record_to_proto (image_status ref (sh_backend sh))), sh)"
  by (simp add: rpc_image_status_def bindR_def blocking_def respond_def ref_of_def)

lemma list_images_read:
  assumes "needle \<noteq> []"
  shows "rpc_list_images (fake_backend env sd) (Some needle) sh =
    (Inr (map record_to_proto (filter (\<lambda>r. im_ref_name r = needle \<or> im_id r = needle \<or>
       tagged (im_ref_name r) = needle) (list_images (sh_backend sh)))), sh)"
  using assms by (simp add: rpc_list_images_def bindR_def blocking_def respond_def)

lemma find_unique:
  "x \<in> set xs \<Longrightarrow> P x \<Longrightarrow> (\<And>y. y \<in> set xs \<Longrightarrow> P y \<Longrightarrow> y = x) \<Longrightarrow> List.find P xs = Some x"
proof (induction xs)
  case (Cons a xs)
  show ?case
  proof (cases "P a")
    case True
    then have "a = x" using Cons.prems(3) [of a] by simp
    then show ?thesis using True by simp
  next
    case False
    then have "x \<in> set xs" using Cons.prems(1,2) by auto
    from Cons.IH [OF this Cons.prems(2)] Cons.prems(3) False show ?thesis by simp
  qed
qed simp

lemma image_status_listed:
  assumes "image_status ref st = Some x"
  shows "x \<in> set (list_images st)"
proof -
  obtain r where r: "List.find (\<lambda>r. ir_ref_name r = ref) (bt_values (images st)) = Some r" "x = image_record r"
    using assms by (auto simp: image_status_def)
  then have "r \<in> set (bt_values (images st))"
    by (auto simp: find_Some_iff)
  then show ?thesis
    by (simp add: list_images_def r(2))
qed

lemma pull_image_stored:
  assumes "pull_image env sd ref st = (Inr u, st')" and "prims env sd (fresh_backend root) st"
  shows "image_status ref st' = Some \<lparr>im_id = ''sha-'' @ take 16 (ev_blake3_hex env ref),
      im_ref_name = ref, im_size = of_nat (length ref)\<rparr>"
    and "pi_root_hex u = ev_blake3_hex env ref" and "ref \<noteq> []"
proof -
  let ?rec = "\<lparr>ir_id = ''sha-'' @ take 16 (ev_blake3_hex env ref), ir_ref_name = ref,
    ir_size = of_nat (length ref)\<rparr>"
  show u: "pi_root_hex u = ev_blake3_hex env ref" and "ref \<noteq> []"
    using assms(1) by (auto simp: pull_image_def bindE_def Let_def split: if_splits sum.splits prod.splits)
  have get: "map_of (images st') (ir_id ?rec) = Some ?rec"
    using assms(1) by (auto simp: pull_image_def bindE_def Let_def put_image_def split: if_splits sum.splits prod.splits)
  have "keys_ok st"
    using assms(2) by (rule prims_keys_ok) simp
  then have "prims env sd st st'"
    using call_prims [of st env sd "PullImage ref"] assms(1) by simp
  then have k: "keys_ok st'" and h: "images_hashed env st'"
    using assms(2) prims_keys_ok prims_images_hashed by (meson fresh_backend_ok(1) images_hashed_fresh)+
  have uniq: "x = ?rec" if x: "x \<in> set (bt_values (images st'))" "ir_ref_name x = ref" for x
  proof -
    obtain j where j: "map_of (images st') j = Some x"
      using x(1) k bt_values_iff [of "images st'" x] by (auto simp: keys_ok_def)
    then have "j = ir_id x" "ir_id x = ''sha-'' @ take 16 (ev_blake3_hex env (ir_ref_name x))"
      using k h by (auto simp: keys_ok_def images_hashed_def)
    then show ?thesis using j get x(2) by simp
  qed
  have mem: "?rec \<in> set (bt_values (images st'))"
    using get k bt_values_iff [of "images st'" ?rec] by (auto simp: keys_ok_def)
  have "List.find (\<lambda>r. ir_ref_name r = ref) (bt_values (images st')) = Some ?rec"
    by (rule find_unique [OF mem]) (simp, rule uniq, assumption+)
  then show "image_status ref st' = Some \<lparr>im_id = ''sha-'' @ take 16 (ev_blake3_hex env ref),
      im_ref_name = ref, im_size = of_nat (length ref)\<rparr>"
    by (simp add: image_status_def image_record_def)
qed

text \<open>C30: After PullImage of a reference has answered - with the reference's BLAKE3 digest -
  ImageStatus of that reference finds an image with the id derived from the digest and the
  reference's tag, and ListImages shows that image to a filter that names its reference, its
  tag or its id.\<close>

theorem pulled_image_found:
  assumes "sh_backend sh = run_calls env sd cs (fresh_backend root)"
    and "rpc_pull_image (fake_backend env sd) (Some ref) sh = (Inr digest, sh')"
  shows "digest = ''blake3:'' @ ev_blake3_hex env ref \<and>
    (\<exists>im. rpc_image_status (fake_backend env sd) (Some ref) sh' = (Inr (Some im), sh') \<and>
      pim_id im = ''sha-'' @ take 16 (ev_blake3_hex env ref) \<and> pim_repo_tags im = [tagged ref] \<and>
      (\<forall>needle \<in> {ref, tagged ref, pim_id im}. \<exists>ims.
        rpc_list_images (fake_backend env sd) (Some needle) sh' = (Inr ims, sh') \<and> im \<in> set ims))"
proof -
  obtain u st' where u: "pull_image env sd ref (sh_backend sh) = (Inr u, st')"
      "sh' = sh\<lparr>sh_backend := st'\<rparr>" "digest = ''blake3:'' @ pi_root_hex u"
    using assms(2) unfolding rpc_pull_image_def
    by (elim bindR_ok) (auto simp: ref_of_def blocking_ok)
  have "prims env sd (fresh_backend root) (sh_backend sh)"
    unfolding assms(1) by (rule run_calls_prims) simp
  note stored = pull_image_stored [OF u(1) this]
  let ?rec = "\<lparr>im_id = ''sha-'' @ take 16 (ev_blake3_hex env ref), im_ref_name = ref,
    im_size = of_nat (length ref)\<rparr>"
  have "?rec \<in> set (list_images st')"
    using stored(1) by (rule image_status_listed)
  moreover have "tagged ref \<noteq> []" using stored(3) by (simp add: tagged_def)
  ultimately have "\<exists>ims. rpc_list_images (fake_backend env sd) (Some needle) sh' = (Inr ims, sh') \<and>
      record_to_proto ?rec \<in> set ims" if "needle \<in> {ref, tagged ref, im_id ?rec}" for needle
    using that stored(3) u(2) by (auto simp: list_images_read)
  moreover have "pim_id (record_to_proto ?rec) = im_id ?rec" "pim_repo_tags (record_to_proto ?rec) = [tagged ref]"
    by (simp_all add: record_to_proto_def)
  ultimately show ?thesis
    using stored u by (simp add: image_status_read)
qed

definition demo_hash :: Env where
  "demo_hash = demo_env\<lparr>ev_blake3_hex := (\<lambda>s. ''0123456789abcdef'' @ s)\<rparr>"

theorem pulled_image_found_witness:
  "\<exists>sh im. rpc_pull_image (fake_backend demo_hash demo_serde) (Some ''busybox'') (demo_shell (fresh_backend ''/s''))
      = (Inr ''blake3:0123456789abcdefbusybox'', sh)
    \<and> rpc_image_status (fake_backend demo_hash demo_serde) (Some ''busybox'') sh = (Inr (Some im), sh)
    \<and> pim_repo_tags im = [''busybox:latest'']"
proof -
  let ?x = "rpc_pull_image (fake_backend demo_hash demo_serde) (Some ''busybox'') (demo_shell (fresh_backend ''/s''))"
  have "fst ?x = Inr ''blake3:0123456789abcdefbusybox''" by code_simp
  then have x: "?x = (Inr ''blake3:0123456789abcdefbusybox'', snd ?x)" by (metis prod.collapse)
  have "sh_backend (demo_shell (fresh_backend ''/s'')) = run_calls demo_hash demo_serde [] (fresh_backend ''/s'')"
    by (simp add: demo_shell_def)
  moreover have "tagged ''busybox'' = ''busybox:latest''" by code_simp
  ultimately show ?thesis
    using pulled_image_found [of "demo_shell (fresh_backend ''/s'')" demo_hash demo_serde "[]" "''/s''"] x by fastforce
qed

text \<open>C31: An image is removed and looked up by its reference only.  Given the id under which it is
  listed - the name the kubelet's garbage collector uses - RemoveImage answers success and
  leaves the image in place, and ImageStatus finds nothing, while ListImages does show it to a
  filter that names the id.\<close>

theorem remove_by_id_noop:
  assumes "im \<in> set (list_images (sh_backend sh))" and "im_id im \<noteq> []"
    and "\<forall>other \<in> set (list_images (sh_backend sh)). im_ref_name other \<noteq> im_id im"
  shows "rpc_remove_image (fake_backend env sd) (Some (im_id im)) sh = (Inr (), sh)
    \<and> rpc_image_status (fake_backend env sd) (Some (im_id im)) sh = (Inr None, sh)
    \<and> (\<exists>ims. rpc_list_images (fake_backend env sd) (Some (im_id im)) sh = (Inr ims, sh)
        \<and> record_to_proto im \<in> set ims)"
proof -
  have "List.find (\<lambda>r. ir_ref_name r = im_id im) (bt_values (images (sh_backend sh))) = None"
    using assms(3) by (auto simp: find_None_iff list_images_def image_record_def)
  then show ?thesis
    using assms(1,2)
    by (simp add: rpc_remove_image_def ref_of_def blocking_def remove_image_def image_status_read
        image_status_def list_images_read)
qed

theorem remove_by_id_noop_witness:
  "\<exists>im. im \<in> set (list_images (snd (pull_image demo_hash demo_serde ''busybox'' (fresh_backend ''/s''))))
    \<and> im_id im = ''sha-0123456789abcdef''
    \<and> fst (rpc_remove_image (fake_backend demo_hash demo_serde) (Some ''sha-0123456789abcdef'')
        (demo_shell (snd (pull_image demo_hash demo_serde ''busybox'' (fresh_backend ''/s''))))) = Inr ()"
proof -
  let ?st = "snd (pull_image demo_hash demo_serde ''busybox'' (fresh_backend ''/s''))"
  let ?im = "\<lparr>im_id = ''sha-0123456789abcdef'', im_ref_name = ''busybox'', im_size = 7\<rparr>"
  have l: "list_images (sh_backend (demo_shell ?st)) = [?im]"
    by code_simp
  from remove_by_id_noop [of ?im "demo_shell ?st" demo_hash demo_serde] l show ?thesis
    by (auto simp: demo_shell_def)
qed

end
