(* ===== verification/Cni_Chain.thy ===== *)
theory Cni_Chain
  imports Json_Value Spdy_Headers Cri_Vocab
begin

text \<open>
  The CNI driver (\<open>lightr-cri-net/src/chain.rs\<close>): the plugin chain of a network configuration list,
  run forward for ADD and backward for DEL.

  The world is a record: the file system's answer for the configuration, the JSON reader and
  writer, the environment variable and the plugins.  A plugin is a program outside the
  repository: what an execution gives may depend on everything executed before, so it is a
  function of the executions so far, and a run appends to that log.
\<close>

section \<open>Plugins\<close>

record PluginCall =
  pl_binary :: string
  pl_command :: string
  pl_container_id :: string
  pl_netns :: string
  pl_ifname :: string
  pl_path :: string
  pl_stdin :: string

text \<open>The three errors of the standard library with their messages, or the exit: whether the
  status is success, and the two outputs.\<close>

datatype PluginOutcome =
    SpawnFails string | StdinFails string | WaitFails string | PluginExit bool bytes bytes

record Cni =
  cn_read :: "string \<Rightarrow> string + string"
  cn_parse :: "string \<Rightarrow> string + json"
  cn_print :: "json \<Rightarrow> string"
  cn_path :: "string option"
  cn_utf8_error :: "bytes \<Rightarrow> string"
  cn_run :: "PluginCall list \<Rightarrow> PluginCall \<Rightarrow> PluginOutcome"

section \<open>Lossy UTF-8\<close>

text \<open>
  \<open>String::from_utf8_lossy\<close>: a maximal prefix of a sequence that is not completed becomes one
  replacement character.  \<open>utf8_step a bs\<close> is whether the sequence started by \<open>a\<close> is valid, and
  how many bytes it, or its prefix, has.
\<close>

definition byte_at :: "bytes \<Rightarrow> nat \<Rightarrow> u8" where
  "byte_at bs i = (if i < length bs then bs ! i else 0)"

definition utf8_step :: "u8 \<Rightarrow> bytes \<Rightarrow> bool \<times> nat" where
  "utf8_step a bs =
     (let b = byte_at bs 0; c = byte_at bs 1; d = byte_at bs 2
      in if a < 0x80 then (True, 1)
         else if 0xC2 \<le> a \<and> a \<le> 0xDF then (if cont b then (True, 2) else (False, 1))
         else if 0xE0 \<le> a \<and> a \<le> 0xEF then
           (if \<not> (cont b \<and> (a = 0xE0 \<longrightarrow> 0xA0 \<le> b) \<and> (a = 0xED \<longrightarrow> b \<le> 0x9F)) then (False, 1)
            else if \<not> cont c then (False, 2) else (True, 3))
         else if 0xF0 \<le> a \<and> a \<le> 0xF4 then
           (if \<not> (cont b \<and> (a = 0xF0 \<longrightarrow> 0x90 \<le> b) \<and> (a = 0xF4 \<longrightarrow> b \<le> 0x8F)) then (False, 1)
            else if \<not> cont c then (False, 2) else if \<not> cont d then (False, 3) else (True, 4))
         else (False, 1))"

function utf8_lossy :: "bytes \<Rightarrow> bytes" where
  "utf8_lossy [] = []"
| "utf8_lossy (a # bs) =
     (let (ok, n) = utf8_step a bs
      in (if ok then a # take (n - 1) bs else [0xEF, 0xBF, 0xBD]) @ utf8_lossy (drop (n - 1) bs))"
  by pat_completeness auto
termination
  by (relation "measure length") auto

definition from_utf8_lossy :: "bytes \<Rightarrow> string" where
  "from_utf8_lossy bs = of_bytes (utf8_lossy bs)"

section \<open>Reading configurations and results\<close>

definition parse_cni_error :: "Cni \<Rightarrow> string \<Rightarrow> string" where
  "parse_cni_error cn stdout =
     (case cn_parse cn stdout of
        Inl e \<Rightarrow> stdout
      | Inr v \<Rightarrow>
          (case Option.bind (json_get v ''msg'') as_str of
             Some msg \<Rightarrow> msg
           | None \<Rightarrow>
               (case Option.bind (json_get v ''details'') as_str of
                  Some msg \<Rightarrow> msg
                | None \<Rightarrow> stdout)))"

text \<open>The loop over \<open>ips\<close>: the \<open>?\<close> on an entry without an address ends it.\<close>

fun first_ipv4 :: "json list \<Rightarrow> string option" where
  "first_ipv4 [] = None"
| "first_ipv4 (entry # es) =
     (case Option.bind (json_get entry ''address'') as_str of
        None \<Rightarrow> None
      | Some addr \<Rightarrow>
          if CHR '':'' \<notin> set addr then Some (hd (split_on (CHR ''/'') addr)) else first_ipv4 es)"

definition extract_first_ipv4 :: "json \<Rightarrow> string option" where
  "extract_first_ipv4 result =
     (case Option.bind (json_get result ''ips'') as_array of None \<Rightarrow> None | Some ips \<Rightarrow> first_ipv4 ips)"

definition load_conflist :: "Cni \<Rightarrow> string \<Rightarrow> string + json" where
  "load_conflist cn path =
     (case cn_read cn path of
        Inl e \<Rightarrow> Inl (''read conflist '' @ path @ '': '' @ e)
      | Inr txt \<Rightarrow>
          (case cn_parse cn txt of
             Inl e \<Rightarrow> Inl (''parse conflist '' @ path @ '': '' @ e)
           | Inr v \<Rightarrow> Inr v))"

definition str_field :: "json \<Rightarrow> string \<Rightarrow> string \<Rightarrow> string" where
  "str_field v key dflt =
     (case Option.bind (json_get v key) as_str of Some s \<Rightarrow> s | None \<Rightarrow> dflt)"

definition conflist_version :: "json \<Rightarrow> string" where
  "conflist_version conflist = str_field conflist ''cniVersion'' ''1.0.0''"

definition conflist_name :: "json \<Rightarrow> string" where
  "conflist_name conflist = str_field conflist ''name'' []"

definition conflist_plugins :: "json \<Rightarrow> string + json list" where
  "conflist_plugins conflist =
     (case Option.bind (json_get conflist ''plugins'') as_array of
        Some arr \<Rightarrow> Inr arr
      | None \<Rightarrow> Inl (''conflist missing '' @ [CHR 0x27] @ ''plugins'' @ [CHR 0x27] @ '' array''))"

definition plugin_type :: "json \<Rightarrow> string + string" where
  "plugin_type plugin =
     (case Option.bind (json_get plugin ''type'') as_str of
        Some t \<Rightarrow> Inr t
      | None \<Rightarrow> Inl (''plugin object missing '' @ [CHR 0x27] @ ''type'' @ [CHR 0x27] @ '' field''))"

definition bin_dir_from_env :: "Cni \<Rightarrow> string" where
  "bin_dir_from_env cn = (case cn_path cn of Some p \<Rightarrow> p | None \<Rightarrow> ''/opt/cni/bin'')"

section \<open>The configuration of a plugin\<close>

fun protocol_name :: "Protocol \<Rightarrow> string" where
  "protocol_name Tcp = ''tcp''"
| "protocol_name Udp = ''udp''"
| "protocol_name Sctp = ''sctp''"

definition serialize_port_mapping :: "PortMapping \<Rightarrow> json" where
  "serialize_port_mapping pm = JObj
     [(''containerPort'', JNum (sint (pm_container_port pm))), (''hostIP'', JStr (pm_host_ip pm)),
      (''hostPort'', JNum (sint (pm_host_port pm))), (''protocol'', JStr (protocol_name (pm_protocol pm)))]"

definition has_portmappings_cap :: "json \<Rightarrow> bool" where
  "has_portmappings_cap plugin =
     (case Option.bind (Option.bind (json_get plugin ''capabilities'') (\<lambda>c. json_get c ''portMappings'')) as_bool of
        Some b \<Rightarrow> b | None \<Rightarrow> False)"

definition plugin_config :: "json \<Rightarrow> string \<Rightarrow> string \<Rightarrow> json option \<Rightarrow> PortMapping list \<Rightarrow> json" where
  "plugin_config plugin cni_version net_name prev_result port_mappings =
     (let obj = (case as_object plugin of Some m \<Rightarrow> m | None \<Rightarrow> []);
          obj = bt_insert ''cniVersion'' (JStr cni_version) obj;
          obj = bt_insert ''name'' (JStr net_name) obj;
          obj = (case prev_result of Some prev \<Rightarrow> bt_insert ''prevResult'' prev obj | None \<Rightarrow> obj);
          pm_values = map serialize_port_mapping (filter (\<lambda>pm. 0 < sint (pm_host_port pm)) port_mappings);
          obj = (if has_portmappings_cap plugin \<and> port_mappings \<noteq> [] \<and> pm_values \<noteq> []
                 then bt_insert ''runtimeConfig'' (JObj [(''portMappings'', JArr pm_values)]) obj
                 else obj)
      in JObj obj)"

text \<open>Writing a \<open>Value\<close> with string keys does not fail, so the fallback \<open>"{}"\<close> is not reached.\<close>

definition derive_plugin_config :: "Cni \<Rightarrow> json \<Rightarrow> string \<Rightarrow> string \<Rightarrow> json option \<Rightarrow> PortMapping list \<Rightarrow> string" where
  "derive_plugin_config cn plugin cni_version net_name prev_result port_mappings =
     cn_print cn (plugin_config plugin cni_version net_name prev_result port_mappings)"

section \<open>Running the chain\<close>

definition plugin_call :: "string \<Rightarrow> string \<Rightarrow> string \<Rightarrow> string \<Rightarrow> string \<Rightarrow> string \<Rightarrow> PluginCall" where
  "plugin_call bin_dir ptype command container_id netns stdin_json =
     \<lparr>pl_binary = path_join bin_dir ptype, pl_command = command, pl_container_id = container_id,
      pl_netns = netns, pl_ifname = ''eth0'', pl_path = bin_dir, pl_stdin = stdin_json\<rparr>"

definition plugin_output :: "Cni \<Rightarrow> string \<Rightarrow> string \<Rightarrow> PluginOutcome \<Rightarrow> string + string" where
  "plugin_output cn binary ptype outcome =
     (case outcome of
        SpawnFails e \<Rightarrow> Inl (''spawn '' @ binary @ '': '' @ e)
      | StdinFails e \<Rightarrow> Inl (''write stdin to '' @ ptype @ '': '' @ e)
      | WaitFails e \<Rightarrow> Inl (''wait for '' @ ptype @ '': '' @ e)
      | PluginExit success out err \<Rightarrow>
          if success then
            (case from_utf8 out of
               Some s \<Rightarrow> Inr s
             | None \<Rightarrow> Inl (''non-utf8 stdout from '' @ ptype @ '': '' @ cn_utf8_error cn out))
          else
            let stdout = from_utf8_lossy out
            in Inl (ptype @ '': '' @ (if stdout \<noteq> [] then parse_cni_error cn stdout else from_utf8_lossy err)))"

definition exec_plugin :: "Cni \<Rightarrow> string \<Rightarrow> string \<Rightarrow> string \<Rightarrow> string \<Rightarrow> string \<Rightarrow> string \<Rightarrow> PluginCall list
    \<Rightarrow> (string + string) \<times> PluginCall list" where
  "exec_plugin cn bin_dir ptype command container_id netns stdin_json log =
     (let c = plugin_call bin_dir ptype command container_id netns stdin_json
      in (plugin_output cn (pl_binary c) ptype (cn_run cn log c), log @ [c]))"

text \<open>What both commands fix once: directory, version, network, container, namespace, mappings.\<close>

record ChainArgs =
  cg_bin_dir :: string
  cg_version :: string
  cg_name :: string
  cg_container :: string
  cg_netns :: string
  cg_ports :: "PortMapping list"

fun add_loop :: "Cni \<Rightarrow> ChainArgs \<Rightarrow> json option \<Rightarrow> json list \<Rightarrow> PluginCall list
    \<Rightarrow> (string + json option) \<times> PluginCall list" where
  "add_loop cn ca prev_result [] log = (Inr prev_result, log)"
| "add_loop cn ca prev_result (plugin # ps) log =
     (case plugin_type plugin of
        Inl e \<Rightarrow> (Inl e, log)
      | Inr ptype \<Rightarrow>
          (case exec_plugin cn (cg_bin_dir ca) ptype ''ADD'' (cg_container ca) (cg_netns ca)
                  (derive_plugin_config cn plugin (cg_version ca) (cg_name ca) prev_result (cg_ports ca)) log of
             (Inl e, log) \<Rightarrow> (Inl e, log)
           | (Inr stdout, log) \<Rightarrow>
               (case cn_parse cn stdout of
                  Inl e \<Rightarrow> (Inl (''parse result from '' @ ptype @ '': '' @ e), log)
                | Inr result \<Rightarrow> add_loop cn ca (Some result) ps log)))"

fun del_loop :: "Cni \<Rightarrow> ChainArgs \<Rightarrow> string option \<Rightarrow> json list \<Rightarrow> PluginCall list
    \<Rightarrow> string option \<times> PluginCall list" where
  "del_loop cn ca last_err [] log = (last_err, log)"
| "del_loop cn ca last_err (plugin # ps) log =
     (case plugin_type plugin of
        Inl e \<Rightarrow> del_loop cn ca last_err ps log
      | Inr ptype \<Rightarrow>
          (case exec_plugin cn (cg_bin_dir ca) ptype ''DEL'' (cg_container ca) (cg_netns ca)
                  (derive_plugin_config cn plugin (cg_version ca) (cg_name ca) None (cg_ports ca)) log of
             (Inl e, log) \<Rightarrow> del_loop cn ca (Some e) ps log
           | (Inr _, log) \<Rightarrow> del_loop cn ca last_err ps log))"

definition chain_args :: "Cni \<Rightarrow> json \<Rightarrow> string \<Rightarrow> string \<Rightarrow> PortMapping list \<Rightarrow> ChainArgs" where
  "chain_args cn conflist container_id netns_path port_mappings =
     \<lparr>cg_bin_dir = bin_dir_from_env cn, cg_version = conflist_version conflist,
      cg_name = conflist_name conflist, cg_container = container_id, cg_netns = netns_path,
      cg_ports = port_mappings\<rparr>"

definition cni_add :: "Cni \<Rightarrow> string \<Rightarrow> string \<Rightarrow> string \<Rightarrow> PortMapping list \<Rightarrow> PluginCall list
    \<Rightarrow> (string + string option) \<times> PluginCall list" where
  "cni_add cn conflist_path container_id netns_path port_mappings log =
     (case load_conflist cn conflist_path of
        Inl e \<Rightarrow> (Inl e, log)
      | Inr conflist \<Rightarrow>
          (case conflist_plugins conflist of
             Inl e \<Rightarrow> (Inl e, log)
           | Inr plugins \<Rightarrow>
               (case add_loop cn (chain_args cn conflist container_id netns_path port_mappings) None plugins log of
                  (Inl e, log) \<Rightarrow> (Inl e, log)
                | (Inr prev_result, log) \<Rightarrow> (Inr (Option.bind prev_result extract_first_ipv4), log))))"

definition cni_del :: "Cni \<Rightarrow> string \<Rightarrow> string \<Rightarrow> string \<Rightarrow> PortMapping list \<Rightarrow> PluginCall list
    \<Rightarrow> (string + unit) \<times> PluginCall list" where
  "cni_del cn conflist_path container_id netns_path port_mappings log =
     (case load_conflist cn conflist_path of
        Inl e \<Rightarrow> (Inl e, log)
      | Inr conflist \<Rightarrow>
          (case conflist_plugins conflist of
             Inl e \<Rightarrow> (Inl e, log)
           | Inr plugins \<Rightarrow>
               (case del_loop cn (chain_args cn conflist container_id netns_path port_mappings) None
                       (rev plugins) log of
                  (Some e, log) \<Rightarrow> (Inl e, log)
                | (None, log) \<Rightarrow> (Inr (), log))))"

end
