(* ===== verification/Cni_Props.thy ===== *)
theory Cni_Props
  imports Cni_Chain Fake_Props
begin

text \<open>
  The properties of the CNI driver: what a plugin is given, how the chain threads results, how
  it ends on a failure, and which address a sandbox gets.
\<close>

section \<open>The configuration\<close>

text \<open>A plugin reads its own configuration object with the version and name of the list added,
  the result of the plugin before it where there is one, and \<open>runtimeConfig\<close> with the mappings
  that have a positive host port exactly when it declares the capability and there is such a
  mapping; nothing else is changed.\<close>

lemma plugin_config_fields:
  shows "json_get (plugin_config plugin ver name prev pms) key =
    (if key = ''runtimeConfig'' \<and> has_portmappings_cap plugin \<and> (\<exists>pm \<in> set pms. 0 < sint (pm_host_port pm))
     then Some (JObj [(''portMappings'', JArr (map serialize_port_mapping
       (filter (\<lambda>pm. 0 < sint (pm_host_port pm)) pms)))])
     else if key = ''prevResult'' \<and> prev \<noteq> None then prev
     else if key = ''name'' then Some (JStr name)
     else if key = ''cniVersion'' then Some (JStr ver)
     else json_get plugin key)"
proof -
  have m: "map_of (case as_object plugin of Some m \<Rightarrow> m | None \<Rightarrow> []) k = json_get plugin k" for k
    by (cases plugin) auto
  have f: "filter (\<lambda>pm. 0 < sint (pm_host_port pm)) pms \<noteq> [] \<longleftrightarrow> (\<exists>pm \<in> set pms. 0 < sint (pm_host_port pm))"
    by (auto simp: filter_empty_conv)
  show ?thesis
    by (cases prev) (auto simp: plugin_config_def Let_def m f)
qed

section \<open>A network\<close>

text \<open>A list of two plugins; \<open>bridge\<close> gives an address, \<open>portmap\<close> passes it on unless the list is
  the one in \<open>bad\<close>, where a plugin \<open>broken\<close> comes second.\<close>

definition demo_bridge :: json where
  "demo_bridge = JObj [(''type'', JStr ''bridge'')]"

definition demo_result :: json where
  "demo_result = JObj [(''ips'', JArr [JObj [(''address'', JStr ''10.88.0.5/16'')]])]"

definition demo_cni :: Cni where
  "demo_cni = \<lparr>cn_read = (\<lambda>path. if path = ''bad'' then Inr ''B'' else Inr ''L''),
     cn_parse = (\<lambda>s. if s = ''L'' then Inr (JObj [(''plugins'', JArr [demo_bridge, JObj [(''type'', JStr ''portmap'')]])])
        else if s = ''B'' then Inr (JObj [(''plugins'', JArr [demo_bridge, JObj [(''type'', JStr ''broken'')]])])
        else if s = ''R'' then Inr demo_result else Inl ''expected value''),
     cn_print = (\<lambda>v. []), cn_path = None, cn_utf8_error = (\<lambda>_. ''invalid utf-8 sequence''),
     cn_run = (\<lambda>log c. if pl_binary c = ''/opt/cni/bin/broken'' then PluginExit False (as_bytes ''no'') []
        else PluginExit True (as_bytes ''R'') [])\<rparr>"

section \<open>The chain\<close>


text \<open>An execution that printed the result \<open>v\<close>.\<close>

definition plugin_gives :: "Cni \<Rightarrow> PluginCall list \<Rightarrow> PluginCall \<Rightarrow> json \<Rightarrow> bool" where
  "plugin_gives cn log c v \<longleftrightarrow> (\<exists>out err txt. cn_run cn log c = PluginExit True out err \<and>
     from_utf8 out = Some txt \<and> cn_parse cn txt = Inr v)"

lemma exec_plugin_ok:
  "exec_plugin cn bin t cmd cid ns stdin log = (Inr s, log') \<longleftrightarrow>
     log' = log @ [plugin_call bin t cmd cid ns stdin] \<and>
     (\<exists>out err. cn_run cn log (plugin_call bin t cmd cid ns stdin) = PluginExit True out err \<and> from_utf8 out = Some s)"
  by (auto simp: exec_plugin_def plugin_output_def Let_def split: PluginOutcome.splits if_splits option.splits)

lemma exec_plugin_log: "snd (exec_plugin cn bin t cmd cid ns stdin log) = log @ [plugin_call bin t cmd cid ns stdin]"
  by (simp add: exec_plugin_def Let_def)




lemma add_loop_fails:
  assumes "add_loop cn ca prev ps log = (Inl e, log')"
  shows "\<exists>calls. log' = log @ calls \<and> (\<forall>c \<in> set calls. pl_command c = ''ADD'') \<and>
    (\<forall>k. Suc k < length calls \<longrightarrow> (\<exists>v. plugin_gives cn (log @ take k calls) (calls ! k) v))"
  using assms
proof (induction cn ca prev ps log rule: add_loop.induct)
  case (1 cn ca prev log)
  then show ?case by simp
next
  case (2 cn ca prev p ps log)
  show ?case
  proof (cases "plugin_type p")
    case (Inl e')
    then show ?thesis using 2(2) by auto
  next
    case t: (Inr t)
    let ?stdin = "derive_plugin_config cn p (cg_version ca) (cg_name ca) prev (cg_ports ca)"
    let ?c = "plugin_call (cg_bin_dir ca) t ''ADD'' (cg_container ca) (cg_netns ca) ?stdin"
    obtain r log1 where x: "exec_plugin cn (cg_bin_dir ca) t ''ADD'' (cg_container ca) (cg_netns ca) ?stdin log
        = (r, log1)"
      by force
    have log1: "log1 = log @ [?c]" and c: "pl_command ?c = ''ADD''"
      using x exec_plugin_log by (metis snd_conv) (simp add: plugin_call_def)
    show ?thesis
    proof (cases "\<exists>s v. r = Inr s \<and> cn_parse cn s = Inr v")
      case False
      then have "log' = log1"
        using 2(2) t x by (auto split: sum.splits)
      then show ?thesis using log1 c by auto
    next
      case True
      then obtain s v where s: "r = Inr s" "cn_parse cn s = Inr v" by blast
      then have rest: "add_loop cn ca (Some v) ps log1 = (Inl e, log')"
        using 2(2) t x by simp
      obtain calls where calls: "log' = log1 @ calls" "\<forall>c \<in> set calls. pl_command c = ''ADD''"
        "\<forall>k. Suc k < length calls \<longrightarrow> (\<exists>v. plugin_gives cn (log1 @ take k calls) (calls ! k) v)"
        using 2(1) [OF t x [symmetric] s(1) s(2) rest] by blast
      have "plugin_gives cn log ?c v"
        using x s by (auto simp: exec_plugin_ok plugin_gives_def)
      then have "\<exists>v. plugin_gives cn (log @ take k (?c # calls)) ((?c # calls) ! k) v" if "Suc k < length (?c # calls)" for k
        using that calls(3) log1 by (cases k) auto
      then show ?thesis
        using calls(1,2) log1 c by (intro exI [of _ "?c # calls"]) auto
    qed
  qed
qed

text \<open>A failed ADD stops at the plugin that failed: every execution but the last succeeded, none
  comes after it, and nothing is undone - no DEL is run for the plugins that had succeeded.\<close>

lemma cni_add_stops:
  assumes "cni_add cn path cid ns pms log = (Inl e, log')"
  shows "\<exists>calls. log' = log @ calls \<and> (\<forall>c \<in> set calls. pl_command c = ''ADD'') \<and>
    (\<forall>k. Suc k < length calls \<longrightarrow> (\<exists>v. plugin_gives cn (log @ take k calls) (calls ! k) v))"
proof (cases "\<exists>conf ps. load_conflist cn path = Inr conf \<and> conflist_plugins conf = Inr ps")
  case False
  then have "log' = log"
    using assms by (auto simp: cni_add_def split: sum.splits)
  then show ?thesis by auto
next
  case True
  then obtain conf ps where "load_conflist cn path = Inr conf" "conflist_plugins conf = Inr ps" by blast
  then have "add_loop cn (chain_args cn conf cid ns pms) None ps log = (Inl e, log')"
    using assms by (auto simp: cni_add_def split: sum.splits prod.splits)
  then show ?thesis by (rule add_loop_fails)
qed

section \<open>Tearing down\<close>

definition has_type :: "json \<Rightarrow> bool" where
  "has_type p = (case plugin_type p of Inl _ \<Rightarrow> False | Inr _ \<Rightarrow> True)"

definition del_call :: "Cni \<Rightarrow> ChainArgs \<Rightarrow> json \<Rightarrow> PluginCall" where
  "del_call cn ca p = plugin_call (cg_bin_dir ca) (projr (plugin_type p)) ''DEL'' (cg_container ca) (cg_netns ca)
     (derive_plugin_config cn p (cg_version ca) (cg_name ca) None (cg_ports ca))"

definition plugin_succeeds :: "Cni \<Rightarrow> PluginCall list \<Rightarrow> PluginCall \<Rightarrow> bool" where
  "plugin_succeeds cn log c \<longleftrightarrow> (\<exists>out err. cn_run cn log c = PluginExit True out err \<and> valid_utf8 out)"

definition del_calls :: "Cni \<Rightarrow> ChainArgs \<Rightarrow> json list \<Rightarrow> PluginCall list" where
  "del_calls cn ca ps = map (del_call cn ca) (filter has_type ps)"

lemma plugin_output_ok:
  "(\<exists>s. plugin_output cn b t x = Inr s) \<longleftrightarrow> (\<exists>out err. x = PluginExit True out err \<and> valid_utf8 out)"
  by (cases x) (auto simp: plugin_output_def from_utf8_def Let_def split: if_splits)

lemma exec_plugin_del:
  assumes "plugin_type p = Inr t"
    and "exec_plugin cn (cg_bin_dir ca) t ''DEL'' (cg_container ca) (cg_netns ca)
      (derive_plugin_config cn p (cg_version ca) (cg_name ca) None (cg_ports ca)) log = (r, log1)"
  shows "log1 = log @ [del_call cn ca p]" and "(\<exists>s. r = Inr s) \<longleftrightarrow> plugin_succeeds cn log (del_call cn ca p)"
proof -
  have call: "del_call cn ca p = plugin_call (cg_bin_dir ca) t ''DEL'' (cg_container ca) (cg_netns ca)
      (derive_plugin_config cn p (cg_version ca) (cg_name ca) None (cg_ports ca))"
    using assms(1) by (simp add: del_call_def)
  show "log1 = log @ [del_call cn ca p]"
    using assms(2) by (auto simp: exec_plugin_def call Let_def)
  have r: "r = plugin_output cn (pl_binary (del_call cn ca p)) t (cn_run cn log (del_call cn ca p))"
    using assms(2) by (auto simp: exec_plugin_def call Let_def)
  show "(\<exists>s. r = Inr s) \<longleftrightarrow> plugin_succeeds cn log (del_call cn ca p)"
    unfolding r plugin_succeeds_def by (rule plugin_output_ok)
qed

lemma del_loop_all:
  assumes "del_loop cn ca e ps log = (r, log')"
  shows "log' = log @ del_calls cn ca ps"
    and "r = None \<longleftrightarrow> e = None \<and> (\<forall>k < length (del_calls cn ca ps).
      plugin_succeeds cn (log @ take k (del_calls cn ca ps)) (del_calls cn ca ps ! k))"
proof -
  have "log' = log @ del_calls cn ca ps \<and> (r = None \<longleftrightarrow> e = None \<and> (\<forall>k < length (del_calls cn ca ps).
      plugin_succeeds cn (log @ take k (del_calls cn ca ps)) (del_calls cn ca ps ! k)))"
    using assms
  proof (induction ps arbitrary: e log)
    case Nil
    then show ?case by (simp add: del_calls_def)
  next
    case (Cons p ps)
    show ?case
    proof (cases "plugin_type p")
      case (Inl x)
      then show ?thesis using Cons by (simp add: del_calls_def has_type_def)
    next
      case t: (Inr t)
      obtain s log1 where x: "exec_plugin cn (cg_bin_dir ca) t ''DEL'' (cg_container ca) (cg_netns ca)
          (derive_plugin_config cn p (cg_version ca) (cg_name ca) None (cg_ports ca)) log = (s, log1)"
        by force
      note c = exec_plugin_del [OF t x]
      have d: "del_calls cn ca (p # ps) = del_call cn ca p # del_calls cn ca ps"
        using t by (simp add: del_calls_def has_type_def)
      have rest: "del_loop cn ca (case s of Inl m \<Rightarrow> Some m | Inr _ \<Rightarrow> e) ps log1 = (r, log')"
        using Cons.prems t x by (auto split: sum.splits)
      have all: "(\<forall>k < Suc n. P k) \<longleftrightarrow> P 0 \<and> (\<forall>k < n. P (Suc k))" for P n
        by (metis less_Suc_eq_0_disj)
      show ?thesis
        using Cons.IH [OF rest] c unfolding d
        by (cases s) (auto simp: all)
    qed
  qed
  then show "log' = log @ del_calls cn ca ps"
    and "r = None \<longleftrightarrow> e = None \<and> (\<forall>k < length (del_calls cn ca ps).
      plugin_succeeds cn (log @ take k (del_calls cn ca ps)) (del_calls cn ca ps ! k))"
    by simp_all
qed

text \<open>C33: DEL executes every plugin that has a type, in reverse order and whatever the others give,
  and succeeds exactly when each of them exited with success and UTF-8 output.\<close>

theorem cni_del_attempts_all:
  assumes "load_conflist cn path = Inr conf" and "conflist_plugins conf = Inr ps"
  shows "let calls = del_calls cn (chain_args cn conf cid ns pms) (rev ps); r = cni_del cn path cid ns pms log
    in snd r = log @ calls \<and>
      (fst r = Inr () \<longleftrightarrow> (\<forall>k < length calls. plugin_succeeds cn (log @ take k calls) (calls ! k)))"
proof -
  obtain e log' where r: "del_loop cn (chain_args cn conf cid ns pms) None (rev ps) log = (e, log')"
    by force
  show ?thesis
    using assms r del_loop_all [OF r] by (cases e) (auto simp: cni_del_def Let_def)
qed

theorem cni_del_attempts_all_witness:
  "map (\<lambda>c. (pl_binary c, pl_command c)) (snd (cni_del demo_cni ''bad'' ''sb'' ''/run/netns/n'' [] [])) =
     [(''/opt/cni/bin/broken'', ''DEL''), (''/opt/cni/bin/bridge'', ''DEL'')] \<and>
   fst (cni_del demo_cni ''bad'' ''sb'' ''/run/netns/n'' [] []) \<noteq> Inr ()"
proof -
  let ?conf = "JObj [(''plugins'', JArr [demo_bridge, JObj [(''type'', JStr ''broken'')]])]"
  let ?ca = "chain_args demo_cni ?conf ''sb'' ''/run/netns/n'' []"
  have l: "load_conflist demo_cni ''bad'' = Inr ?conf"
    by (simp add: load_conflist_def demo_cni_def)
  have p: "conflist_plugins ?conf = Inr [demo_bridge, JObj [(''type'', JStr ''broken'')]]"
    by (simp add: conflist_plugins_def)
  have c: "map (\<lambda>c. (pl_binary c, pl_command c)) (del_calls demo_cni ?ca (rev [demo_bridge, JObj [(''type'', JStr ''broken'')]]))
      = [(''/opt/cni/bin/broken'', ''DEL''), (''/opt/cni/bin/bridge'', ''DEL'')]"
    by code_simp
  have "fst (cni_del demo_cni ''bad'' ''sb'' ''/run/netns/n'' [] []) = Inl ''broken: no''"
    by code_simp
  then show ?thesis
    using cni_del_attempts_all [OF l p, of "''sb''" "''/run/netns/n''" "[]" "[]"] c by (simp add: Let_def)
qed

section \<open>The address\<close>

lemma hd_split_on: "hd (split_on c s) = takeWhile (\<lambda>x. x \<noteq> c) s"
  by (induction s) (auto split: list.splits)

lemma first_ipv4_Some:
  "first_ipv4 es = Some ip \<longleftrightarrow> (\<exists>pre e post addr. es = pre @ e # post \<and>
     (\<forall>p \<in> set pre. \<exists>a. json_get p ''address'' = Some (JStr a) \<and> CHR '':'' \<in> set a) \<and>
     json_get e ''address'' = Some (JStr addr) \<and> CHR '':'' \<notin> set addr \<and>
     ip = takeWhile (\<lambda>x. x \<noteq> CHR ''/'') addr)"
  (is "_ \<longleftrightarrow> ?chosen es")
proof (induction es)
  case Nil
  then show ?case by simp
next
  case (Cons x es)
  have str: "Option.bind (json_get x ''address'') as_str = Some a \<longleftrightarrow> json_get x ''address'' = Some (JStr a)" for a
    by (cases "json_get x ''address''"; cases "the (json_get x ''address'')") auto
  have split: "?chosen (x # es) \<longleftrightarrow>
      (\<exists>a. json_get x ''address'' = Some (JStr a) \<and> CHR '':'' \<notin> set a \<and> ip = takeWhile (\<lambda>x. x \<noteq> CHR ''/'') a) \<or>
      (\<exists>a. json_get x ''address'' = Some (JStr a) \<and> CHR '':'' \<in> set a) \<and> ?chosen es"
    (is "_ \<longleftrightarrow> ?now \<or> ?later")
  proof
    assume "?chosen (x # es)"
    then obtain pre e post addr where c: "x # es = pre @ e # post"
      "\<forall>p \<in> set pre. \<exists>a. json_get p ''address'' = Some (JStr a) \<and> CHR '':'' \<in> set a"
      "json_get e ''address'' = Some (JStr addr)" "CHR '':'' \<notin> set addr" "ip = takeWhile (\<lambda>x. x \<noteq> CHR ''/'') addr"
      by blast
    show "?now \<or> ?later"
    proof (cases pre)
      case Nil
      then show ?thesis using c by auto
    next
      case (Cons y ys)
      then have "?chosen es"
        using c by (intro exI [of _ ys] exI [of _ e] exI [of _ post] exI [of _ addr]) simp
      then show ?thesis using c(1,2) Cons by simp
    qed
  next
    assume "?now \<or> ?later"
    then show "?chosen (x # es)"
    proof
      assume ?now
      then show ?thesis by - (rule exI [of _ "[]"], rule exI [of _ x], rule exI [of _ es], auto)
    next
      assume ?later
      then obtain pre e post addr where "es = pre @ e # post"
        "\<forall>p \<in> set (x # pre). \<exists>a. json_get p ''address'' = Some (JStr a) \<and> CHR '':'' \<in> set a"
        "json_get e ''address'' = Some (JStr addr)" "CHR '':'' \<notin> set addr" "ip = takeWhile (\<lambda>x. x \<noteq> CHR ''/'') addr"
        by auto
      then show ?thesis
        by (intro exI [of _ "x # pre"] exI [of _ e] exI [of _ post] exI [of _ addr]) simp
    qed
  qed
  show ?case
  proof (cases "Option.bind (json_get x ''address'') as_str")
    case None
    then have "json_get x ''address'' \<noteq> Some (JStr a)" for a
      using str [of a] by simp
    then show ?thesis
      unfolding split by (simp add: None)
  next
    case (Some a)
    then have "json_get x ''address'' = Some (JStr a)"
      by (simp only: str)
    then show ?thesis
      unfolding split by (auto simp: Some hd_split_on Cons.IH)
  qed
qed

text \<open>The address of a result is that of the first entry of \<open>ips\<close> whose address has no colon, up
  to the slash, provided every entry before it has an address that is a string.\<close>

lemma first_ipv4_address:
  "extract_first_ipv4 result = Some ip \<longleftrightarrow> (\<exists>pre e post addr.
     json_get result ''ips'' = Some (JArr (pre @ e # post)) \<and>
     (\<forall>p \<in> set pre. \<exists>a. json_get p ''address'' = Some (JStr a) \<and> CHR '':'' \<in> set a) \<and>
     json_get e ''address'' = Some (JStr addr) \<and> CHR '':'' \<notin> set addr \<and>
     ip = takeWhile (\<lambda>x. x \<noteq> CHR ''/'') addr)"
proof -
  have "Option.bind (json_get result ''ips'') as_array = Some es \<longleftrightarrow> json_get result ''ips'' = Some (JArr es)" for es
    by (cases "json_get result ''ips''"; cases "the (json_get result ''ips'')") auto
  then show ?thesis
    by (cases "Option.bind (json_get result ''ips'') as_array")
      (auto simp: extract_first_ipv4_def first_ipv4_Some)
qed

section \<open>The network of a sandbox\<close>

text \<open>The backend's environment with the chain as its ADD, after the executions \<open>log\<close>.\<close>

definition with_chain :: "Cni \<Rightarrow> PluginCall list \<Rightarrow> Env \<Rightarrow> Env" where
  "with_chain cn log env = env\<lparr>ev_cni_add := (\<lambda>_ cl cid ns pms. fst (cni_add cn cl cid ns pms log))\<rparr>"

lemma cni_setup_ok:
  assumes "cni_setup env i dir pms st = (Inr (ip, ns), st')"
  shows "\<exists>t t' cl. ev_netns_create env t (ns_name i) = Inr ns \<and> ev_cni_add env t' cl (sid_0 i) ns pms = Inr ip"
  using assms by (auto simp: cni_setup_def ask_def Let_def split: sum.splits prod.splits option.splits)

text \<open>C34: A sandbox that was run with its own network has the namespace created for its id and the
  address that the plugin chain gave for exactly that namespace, that id and the port mappings
  of its configuration.\<close>

theorem sandbox_network_chain:
  assumes "run_sandbox (with_chain cn log env) sd cfg st = (Inr i, st')"
    and "\<not> sc_host_network cfg" and "\<forall>t. ev_cni_available env t = Some dir"
  shows "\<exists>t cl ns ip log' ss. ev_netns_create env t (ns_name i) = Inr ns \<and>
    cni_add cn cl (sid_0 i) ns (sc_port_mappings cfg) log = (Inr ip, log') \<and>
    sandbox_status i st' = Inr ss \<and> ss_ip ss = ip \<and> ss_netns_path ss = Some ns"
proof -
  let ?env = "with_chain cn log env"
  obtain name st1 where n: "new_id ?env ''sb-'' st = (name, st1)" by force
  obtain ip np st2 where net: "sandbox_network ?env (SandboxId name) cfg st1 = (Inr (ip, np), st2)"
    and rest: "i = SandboxId name" "\<exists>ss. sandbox_status i st' = Inr ss \<and> ss_ip ss = ip \<and> ss_netns_path ss = np"
    using assms(1) n
    by (auto simp: run_sandbox_def bindE_def sandbox_status_def sandbox_rec_to_status_def put_sandbox_def
        Let_def split: prod.splits sum.splits)
  have avail: "ask (ev_cni_available ?env) st1 = (Some dir, snd (ask (ev_cni_available ?env) st1))"
    using assms(3) by (simp add: ask_def with_chain_def)
  obtain st3 where "cni_setup ?env (SandboxId name) dir (sc_port_mappings cfg) st3 = (Inr (ip, the np), st2)" "np \<noteq> None"
    using net assms(2) avail by (auto simp: sandbox_network_def split: prod.splits sum.splits)
  then obtain t cl ns where a: "ev_netns_create ?env t (ns_name i) = Inr ns" "np = Some ns"
      "fst (cni_add cn cl (sid_0 i) ns (sc_port_mappings cfg) log) = Inr ip"
    using cni_setup_ok [of ?env i dir "sc_port_mappings cfg" st3 ip "the np" st2] rest(1)
    by (auto simp: with_chain_def)
  then have "ev_netns_create env t (ns_name i) = Inr ns"
    by (simp add: with_chain_def)
  moreover have "cni_add cn cl (sid_0 i) ns (sc_port_mappings cfg) log =
      (Inr ip, snd (cni_add cn cl (sid_0 i) ns (sc_port_mappings cfg) log))"
    using a(3) by (metis prod.collapse)
  ultimately show ?thesis
    using rest(2) a(2) by blast
qed

definition demo_network :: SandboxConfig where
  "demo_network = demo_sandbox_config\<lparr>sc_host_network := False\<rparr>"

definition demo_net_env :: Env where
  "demo_net_env = demo_env\<lparr>ev_cni_available := (\<lambda>_. Some ''/etc/cni/net.d''),
     ev_read_dir := (\<lambda>_ _. Some [''10-lightr.conflist''])\<rparr>"

theorem sandbox_network_chain_witness:
  "\<exists>ss. sandbox_status (SandboxId ''sb-0-0'')
      (snd (run_sandbox (with_chain demo_cni [] demo_net_env) demo_serde demo_network (fresh_backend ''/s''))) = Inr ss
    \<and> ss_netns_path ss = Some ''lightr-sb-0-0''"
proof -
  let ?r = "run_sandbox (with_chain demo_cni [] demo_net_env) demo_serde demo_network (fresh_backend ''/s'')"
  have "fst ?r = Inr (SandboxId ''sb-0-0'')" by code_simp
  then have "?r = (Inr (SandboxId ''sb-0-0''), snd ?r)" by (metis prod.collapse)
  from sandbox_network_chain [OF this] show ?thesis
    by (auto simp: demo_network_def demo_net_env_def demo_env_def ns_name_def)
qed

lemma cni_setup_fails:
  assumes "cni_setup env i dir pms st = (Inl e, st')" and "\<forall>t n. ev_netns_create env t n = Inr (path n)"
  shows "fk_effects st' = fk_effects st @ [NetnsCreated (path (ns_name i))] \<and> sandboxes st' = sandboxes st"
  using assms
  by (auto simp: cni_setup_def first_conflist_def ask_def emit_def Let_def split: sum.splits prod.splits option.splits)

lemma cni_setup_effects:
  assumes "cni_setup env i dir pms st = (Inr r, st')" and "\<forall>t n. ev_netns_create env t n = Inr (path n)"
  shows "fk_effects st' = fk_effects st @ [NetnsCreated (path (ns_name i))] \<and> sandboxes st' = sandboxes st"
  using assms
  by (auto simp: cni_setup_def first_conflist_def ask_def emit_def Let_def split: sum.splits prod.splits option.splits)

text \<open>C35: A run that fails once the namespace was created - no configuration list, a failed ADD, a
  failed write of the record - leaves the namespace behind: its creation is the only effect,
  nothing tears it down, and no sandbox is recorded under which it could be removed later.\<close>

theorem failed_run_leaks_netns:
  assumes "run_sandbox env sd cfg st = (Inl e, st')" and "\<not> sc_host_network cfg"
    and "\<forall>t. ev_cni_available env t = Some dir" and "\<forall>t n. ev_netns_create env t n = Inr (path n)"
  shows "\<exists>i. fk_effects st' = fk_effects st @ [NetnsCreated (path (ns_name i))] \<and> sandboxes st' = sandboxes st"
proof -
  obtain name st1 where n: "new_id env ''sb-'' st = (name, st1)" by force
  have 1: "fk_effects st1 = fk_effects st" "sandboxes st1 = sandboxes st"
    using n by (auto simp: new_id_def ask_def Let_def)
  let ?i = "SandboxId name"
  obtain st2 where avail: "ask (ev_cni_available env) st1 = (Some dir, st2)"
    using assms(3) by (simp add: ask_def)
  have 2: "fk_effects st2 = fk_effects st" "sandboxes st2 = sandboxes st"
    using 1 avail by (auto simp: ask_def)
  obtain r st3 where r: "cni_setup env ?i dir (sc_port_mappings cfg) st2 = (r, st3)" by force
  have 3: "fk_effects st3 = fk_effects st @ [NetnsCreated (path (ns_name ?i))]" "sandboxes st3 = sandboxes st"
    using r 2 cni_setup_fails [OF _ assms(4)] cni_setup_effects [OF _ assms(4)] by (cases r; fastforce)+
  have "fk_effects st' = fk_effects st3 \<and> sandboxes st' = sandboxes st3"
  proof (cases r)
    case (Inl x)
    then show ?thesis
      using assms(1,2) n avail r by (auto simp: run_sandbox_def bindE_def sandbox_network_def Let_def)
  next
    case (Inr x)
    then obtain ip ns where x: "r = Inr (ip, ns)" by (cases x) auto
    obtain now st4 where now: "ask (ev_now env) st3 = (now, st4)" by force
    let ?rec = "\<lparr>sr_id = ?i, sr_config = cfg, sr_state = Ready, sr_created_at = now,
      sr_ip = ip, sr_netns_path = Some ns\<rparr>"
    have net: "sandbox_network env ?i cfg st1 = (Inr (ip, Some ns), st3)"
      using assms(2) avail r x by (simp add: sandbox_network_def)
    have "bindE (persist_sandbox env sd ?rec) (\<lambda>_ st. (Inr ?i, put_sandbox ?rec st)) st4 = (Inl e, st')"
      using assms(1) by (simp add: run_sandbox_def n net bindE_def [of "sandbox_network env ?i cfg"] now Let_def)
    then have "st' = snd (persist_sandbox env sd ?rec st4)"
      by (auto simp: bindE_def split: prod.splits sum.splits)
    then show ?thesis using now by (auto simp: ask_def)
  qed
  with 3 show ?thesis by auto
qed

theorem failed_run_leaks_netns_witness:
  "fk_effects (snd (run_sandbox (demo_net_env\<lparr>ev_cni_add := (\<lambda>_ _ _ _ _. Inl ''broken: no'')\<rparr>) demo_serde
     demo_network (fresh_backend ''/s''))) \<noteq> []"
proof -
  let ?env = "demo_net_env\<lparr>ev_cni_add := (\<lambda>_ _ _ _ _. Inl ''broken: no'')\<rparr>"
  let ?r = "run_sandbox ?env demo_serde demo_network (fresh_backend ''/s'')"
  have "fst ?r = Inl (Internal ''CNI setup for sandbox sb-0-0: CNI ADD: broken: no'')" by code_simp
  then have r: "?r = (Inl (Internal ''CNI setup for sandbox sb-0-0: CNI ADD: broken: no''), snd ?r)"
    by (metis prod.collapse)
  have "\<not> sc_host_network demo_network" by (simp add: demo_network_def)
  moreover have "\<forall>t. ev_cni_available ?env t = Some ''/etc/cni/net.d''"
    "\<forall>t n. ev_netns_create ?env t n = Inr (id n)"
    by (simp_all add: demo_net_env_def demo_env_def)
  ultimately show ?thesis
    using failed_run_leaks_netns [OF r] by fastforce
qed

end
