(* ===== verification/Netns.thy ===== *)
theory Netns
  imports Cri_Vocab
begin

text \<open>
  Network namespaces (\<open>lightr-cri-net/src/netns.rs\<close>) and the probe of \<open>lib.rs\<close>.  The kernel and the
  file system are a record of their answers; an operation gives its result and the steps it
  took, in order.  The Linux branches are the ones modelled.
\<close>

section \<open>The operating system\<close>

datatype Umount = Umounted | NotMounted | UmountError string

record NetnsOs =
  no_mkdir :: "string option"
  no_touch :: "string \<Rightarrow> string option"
  no_unshare :: "string option"
  no_mount :: "string \<Rightarrow> string option"
  no_umount :: "string \<Rightarrow> Umount"
  no_unlink :: "string \<Rightarrow> string option"
  no_open :: "string \<Rightarrow> string option"
  no_setns :: "string \<Rightarrow> string option"
  no_connect :: "string option \<Rightarrow> string \<Rightarrow> u16 \<Rightarrow> string option"
  no_is_file :: "string \<Rightarrow> bool"

datatype NsStep =
    MakeDir string | TouchFile string | Unshare | BindMount string | LoopbackUp
  | UmountDetach string | Unlink string

definition NETNS_DIR :: string where "NETNS_DIR = ''/run/netns''"

section \<open>Creating\<close>

text \<open>The body of the dedicated thread; setting the loopback device up is best effort.\<close>

definition create_on_thread :: "NetnsOs \<Rightarrow> string \<Rightarrow> (string + unit) \<times> NsStep list" where
  "create_on_thread os path =
     (case no_unshare os of
        Some e \<Rightarrow> (Inl e, [Unshare])
      | None \<Rightarrow>
          (case no_mount os path of
             Some e \<Rightarrow> (Inl (''bind-mount netns: '' @ e), [Unshare, BindMount path])
           | None \<Rightarrow> (Inr (), [Unshare, BindMount path, LoopbackUp])))"

definition netns_create :: "NetnsOs \<Rightarrow> string \<Rightarrow> (string + string) \<times> NsStep list" where
  "netns_create os name =
     (case no_mkdir os of
        Some e \<Rightarrow> (Inl e, [MakeDir NETNS_DIR])
      | None \<Rightarrow>
          (let path = path_join NETNS_DIR name
           in case no_touch os path of
                Some e \<Rightarrow> (Inl e, [MakeDir NETNS_DIR, TouchFile path])
              | None \<Rightarrow>
                  (let (r, steps) = create_on_thread os path;
                       steps = [MakeDir NETNS_DIR, TouchFile path] @ steps
                   in case r of Inl e \<Rightarrow> (Inl e, steps) | Inr _ \<Rightarrow> (Inr path, steps))))"

section \<open>Tearing down\<close>

definition umount_detach :: "NetnsOs \<Rightarrow> string \<Rightarrow> string option" where
  "umount_detach os path =
     (case no_umount os path of
        Umounted \<Rightarrow> None
      | NotMounted \<Rightarrow> Some ''umount2: EINVAL: Invalid argument''
      | UmountError e \<Rightarrow> Some (''umount2: '' @ e))"

definition netns_teardown :: "NetnsOs \<Rightarrow> string \<Rightarrow> string option \<times> NsStep list" where
  "netns_teardown os path =
     (case umount_detach os path of
        Some e \<Rightarrow> (Some e, [UmountDetach path])
      | None \<Rightarrow> (no_unlink os path, [UmountDetach path, Unlink path]))"

definition sweep_one :: "NetnsOs \<Rightarrow> string \<Rightarrow> (string + bool) \<times> NsStep list" where
  "sweep_one os path =
     (case no_umount os path of
        UmountError e \<Rightarrow> (Inr False, [UmountDetach path])
      | _ \<Rightarrow> (case no_unlink os path of Some e \<Rightarrow> Inl e | None \<Rightarrow> Inr True, [UmountDetach path, Unlink path]))"

text \<open>The entries of the directory: \<open>None\<close> is one that could not be read.\<close>

fun sweep_entries :: "NetnsOs \<Rightarrow> string option list \<Rightarrow> nat \<times> NsStep list" where
  "sweep_entries os [] = (0, [])"
| "sweep_entries os (None # es) = sweep_entries os es"
| "sweep_entries os (Some path # es) =
     (if \<not> no_is_file os path then sweep_entries os es
      else let (r, steps) = sweep_one os path; (removed, steps') = sweep_entries os es
           in ((if r = Inr True then Suc removed else removed), steps @ steps'))"

definition sweep :: "NetnsOs \<Rightarrow> string + string option list \<Rightarrow> (string + nat) \<times> NsStep list" where
  "sweep os dir =
     (case dir of
        Inl e \<Rightarrow> (Inl e, [])
      | Inr es \<Rightarrow> (let (removed, steps) = sweep_entries os es in (Inr removed, steps)))"

section \<open>Dialing\<close>

definition enter_netns :: "NetnsOs \<Rightarrow> string \<Rightarrow> string option" where
  "enter_netns os path = (case no_open os path of Some e \<Rightarrow> Some e | None \<Rightarrow> no_setns os path)"

text \<open>The connection is made by the dedicated thread, inside the namespace it entered.\<close>

definition dial_in_netns :: "NetnsOs \<Rightarrow> string \<Rightarrow> string \<Rightarrow> u16 \<Rightarrow> string option" where
  "dial_in_netns os path host port =
     (case enter_netns os path of Some e \<Rightarrow> Some e | None \<Rightarrow> no_connect os (Some path) host port)"

section \<open>The probe\<close>

record CniEnv =
  ce_conf_dir :: string
  ce_bin_dir :: string

record Probe =
  pb_conf_env :: "string option"
  pb_bin_env :: "string option"
  pb_read_dir :: "string \<Rightarrow> string list option"
  pb_is_dir :: "string \<Rightarrow> bool"
  pb_unshare_ok :: bool

definition cni_available :: "Probe \<Rightarrow> CniEnv option" where
  "cni_available pb =
     (let conf_dir = (case pb_conf_env pb of Some d \<Rightarrow> d | None \<Rightarrow> ''/etc/cni/net.d'');
          bin_dir = (case pb_bin_env pb of Some d \<Rightarrow> d | None \<Rightarrow> ''/opt/cni/bin'')
      in case pb_read_dir pb conf_dir of
           None \<Rightarrow> None
         | Some names \<Rightarrow>
             if \<not> list_ex (\<lambda>n. extension n = Some ''conflist'') names then None
             else if \<not> pb_is_dir pb bin_dir then None
             else if \<not> pb_unshare_ok pb then None
             else Some \<lparr>ce_conf_dir = conf_dir, ce_bin_dir = bin_dir\<rparr>)"

section \<open>Unmount before unlink\<close>

text \<open>The law of the module: a file is unlinked only right after it was unmounted, or found not
  to be mounted.\<close>

fun unlinks_after_umount :: "NetnsOs \<Rightarrow> NsStep list \<Rightarrow> bool" where
  "unlinks_after_umount os [] \<longleftrightarrow> True"
| "unlinks_after_umount os (UmountDetach p # Unlink q # steps) \<longleftrightarrow>
     p = q \<and> no_umount os p \<in> {Umounted, NotMounted} \<and> unlinks_after_umount os steps"
| "unlinks_after_umount os (UmountDetach p # steps) \<longleftrightarrow> unlinks_after_umount os steps"
| "unlinks_after_umount os (Unlink p # steps) \<longleftrightarrow> False"
| "unlinks_after_umount os (_ # steps) \<longleftrightarrow> unlinks_after_umount os steps"

definition sweepable :: "NetnsOs \<Rightarrow> string \<Rightarrow> bool" where
  "sweepable os p \<longleftrightarrow> no_is_file os p \<and> no_umount os p \<in> {Umounted, NotMounted}"

lemma sweep_entries_Some:
  "sweep_entries os (Some p # es) =
     (if \<not> no_is_file os p then sweep_entries os es
      else if no_umount os p \<in> {Umounted, NotMounted} then
        (if no_unlink os p = None then Suc (fst (sweep_entries os es)) else fst (sweep_entries os es),
         UmountDetach p # Unlink p # snd (sweep_entries os es))
      else (fst (sweep_entries os es), UmountDetach p # snd (sweep_entries os es)))"
  by (cases "no_umount os p") (auto simp: sweep_one_def Let_def case_prod_unfold split: option.splits)

declare sweep_entries.simps(3) [simp del]

lemma sweep_steps_head:
  "snd (sweep_entries os es) = [] \<or> (\<exists>p steps. snd (sweep_entries os es) = UmountDetach p # steps)"
proof (induction es)
  case (Cons e es)
  then show ?case by (cases e) (auto simp: sweep_entries_Some)
qed simp

lemma umount_then:
  "xs = [] \<or> (\<exists>p steps. xs = UmountDetach p # steps) \<Longrightarrow>
    unlinks_after_umount os (UmountDetach q # xs) \<longleftrightarrow> unlinks_after_umount os xs"
  by auto

lemma sweep_entries_law: "unlinks_after_umount os (snd (sweep_entries os es))"
proof (induction es)
  case (Cons e es)
  then show ?case
    using umount_then [OF sweep_steps_head [of os es]] by (cases e) (auto simp: sweep_entries_Some)
qed simp

lemma sweep_entries_removed:
  "fst (sweep_entries os es) =
     length (filter (\<lambda>e. case e of None \<Rightarrow> False | Some p \<Rightarrow> sweepable os p \<and> no_unlink os p = None) es)"
proof (induction es)
  case (Cons e es)
  show ?case
  proof (cases e)
    case (Some q)
    then show ?thesis using Cons by (auto simp: sweep_entries_Some sweepable_def [of os q])
  qed (use Cons in simp)
qed simp

lemma sweep_entries_unlinks:
  "Unlink p \<in> set (snd (sweep_entries os es)) \<longleftrightarrow> Some p \<in> set es \<and> sweepable os p"
proof (induction es)
  case (Cons e es)
  show ?case
  proof (cases e)
    case (Some q)
    then show ?thesis using Cons by (auto simp: sweep_entries_Some sweepable_def [of os q])
  qed (use Cons in simp)
qed simp

text \<open>Tearing a namespace down and sweeping a directory unlink a file only right after it was
  unmounted or found not to be mounted.  A sweep unlinks exactly the regular files for which
  that is so - a busy one is left alone - and reports how many of these went.\<close>

lemma netns_unlink_law:
  "unlinks_after_umount os (snd (netns_teardown os path)) \<and>
   (\<exists>removed steps. sweep os (Inr es) = (Inr removed, steps) \<and> unlinks_after_umount os steps \<and>
     (\<forall>p. Unlink p \<in> set steps \<longleftrightarrow> Some p \<in> set es \<and> sweepable os p) \<and>
     removed = length (filter (\<lambda>e. case e of None \<Rightarrow> False
       | Some p \<Rightarrow> sweepable os p \<and> no_unlink os p = None) es))"
proof -
  have "unlinks_after_umount os (snd (netns_teardown os path))"
    by (cases "no_umount os path") (simp_all add: netns_teardown_def umount_detach_def)
  then show ?thesis
    using sweep_entries_law sweep_entries_removed sweep_entries_unlinks
    by (auto simp: sweep_def Let_def case_prod_unfold)
qed

end
