(* ===== verification/Vectors.thy ===== *)
theory Vectors
  imports Server_Root Cni_Chain Cri_Log
begin

text \<open>
  The conformance runner (\<open>lightr-cri-vectors/src/lib.rs\<close>): the steps of a vector, their execution
  against any backend, and the report.

  A \<open>Harness\<close> is what the runner is given and what surrounds it: the backend with its streaming
  methods, the factory of fresh and reopened states, the 50 ms sleep as a step of the world, the
  deadline, the log files, and the two reads of a session.
\<close>

section \<open>Vectors\<close>

datatype Step =
    RunSandboxStep SandboxConfig "string option"
  | StopSandboxStep string "string option"
  | RemoveSandboxStep string "string option"
  | SandboxStatusStep string "SandboxState option" "string option"
  | CreateContainerStep string ContainerConfig "string option"
  | StartContainerStep string "string option"
  | StopContainerStep string i64 "string option"
  | RemoveContainerStep string "string option"
  | AssertStatusStep string ContainerState "i32 option" "string option"
  | WaitExitedStep string u64 "string option"
  | ExecSyncStep string "string list" "i32 option" "string option" "string option"
  | PullImageStep string bool "string option"
  | ImageStatusStep string "bool option" "string option"
  | ListImagesStep "nat option" "string option"
  | RemoveImageStep string "string option"
  | ReopenBackendStep
  | OpenExecStep string "string list" bool bool "i32 option" "string option" "string option"
  | AssertLogExistsStep string string "string option"
  | AssertLogFormatStep string string "string option"
  | SandboxStatusIpStep string bool "string option"

record Vector =
  ve_name :: string
  ve_steps :: "Step list"

record VectorReport =
  vp_passed :: nat
  vp_failed :: "string list"

record ('s, 'ss) Harness =
  hn_backend :: "'s CriBackend"
  hn_stream :: "('s, 'ss) StreamOps"
  hn_fresh :: "nat \<Rightarrow> 's"
  hn_reopen :: "'s \<Rightarrow> 's"
  hn_sleep :: "'s \<Rightarrow> 's"
  hn_over :: "'s \<Rightarrow> bool"
  hn_exists :: "'s \<Rightarrow> string \<Rightarrow> bool"
  hn_read :: "'s \<Rightarrow> string \<Rightarrow> string + string"
  hn_stdout :: "'ss \<Rightarrow> 's \<Rightarrow> (string + bytes) \<times> 's"
  hn_wait :: "'ss \<Rightarrow> 's \<Rightarrow> i32 result \<times> 's"

section \<open>Substitution and errors\<close>

definition subst :: "string \<Rightarrow> string option list \<Rightarrow> string" where
  "subst s results =
     (case strip_prefix ''$'' s of
        None \<Rightarrow> s
      | Some rest \<Rightarrow>
          (case parse_uint (2 ^ 64) rest of
             None \<Rightarrow> s
           | Some idx \<Rightarrow>
               if idx < length results then (case results ! idx of Some val \<Rightarrow> val | None \<Rightarrow> s) else s))"

fun variant_name :: "BackendError \<Rightarrow> string" where
  "variant_name (NotFound _) = ''NotFound''"
| "variant_name (AlreadyExists _) = ''AlreadyExists''"
| "variant_name (InvalidArgument _) = ''InvalidArgument''"
| "variant_name (FailedPrecondition _) = ''FailedPrecondition''"
| "variant_name (InUse _) = ''InUse''"
| "variant_name (Internal _) = ''Internal''"
| "variant_name (Io _) = ''Io''"

datatype StepOutcome = StepOk "string option" | StepFail string

definition squote :: "string \<Rightarrow> string" where
  "squote s = [CHR 0x27] @ s @ [CHR 0x27]"

definition bool_str :: "bool \<Rightarrow> string" where
  "bool_str b = (if b then ''true'' else ''false'')"

text \<open>The two sides of an expectation, the same in every step up to the step's name.\<close>

definition mismatch :: "string \<Rightarrow> BackendError \<Rightarrow> string \<Rightarrow> StepOutcome" where
  "mismatch what e expected =
     (if variant_name e = expected then StepOk None
      else StepFail (what @ ''expected '' @ squote expected @ '', got '' @ squote (variant_name e)
        @ '': '' @ error_to_string e))"

definition err_outcome :: "string \<Rightarrow> BackendError \<Rightarrow> string option \<Rightarrow> StepOutcome" where
  "err_outcome step_name e expect_err =
     (case expect_err of
        None \<Rightarrow> StepFail (step_name @ '': unexpected error: '' @ error_to_string e)
      | Some expected \<Rightarrow>
          if variant_name e = expected then StepOk None
          else StepFail (step_name @ '': expected error '' @ squote expected @ '', got ''
            @ squote (variant_name e) @ '': '' @ error_to_string e))"

definition checked :: "string \<Rightarrow> string option \<Rightarrow> ('a \<Rightarrow> StepOutcome) \<Rightarrow> 'a result \<Rightarrow> StepOutcome" where
  "checked step_name expect_err f r =
     (case r of
        Inl e \<Rightarrow> err_outcome step_name e expect_err
      | Inr x \<Rightarrow>
          (case expect_err of
             Some expected \<Rightarrow>
               StepFail (step_name @ '': expected error '' @ squote expected @ '' but call succeeded'')
           | None \<Rightarrow> f x))"

definition check_err_expectation :: "'a result \<Rightarrow> string option \<Rightarrow> string \<Rightarrow> ('a \<Rightarrow> string option) \<Rightarrow> StepOutcome" where
  "check_err_expectation r expect_err step_name value_extractor =
     checked step_name expect_err (\<lambda>x. StepOk (value_extractor x)) r"

definition then_check :: "('r \<Rightarrow> StepOutcome) \<Rightarrow> 'r \<times> 's \<Rightarrow> StepOutcome \<times> 's" where
  "then_check f rs = (f (fst rs), snd rs)"

text \<open>The checks of the values.\<close>

definition expect_eq :: "string \<Rightarrow> ('a \<Rightarrow> string) \<Rightarrow> 'a option \<Rightarrow> 'a \<Rightarrow> StepOutcome \<Rightarrow> StepOutcome" where
  "expect_eq what shw expected actual next_check =
     (case expected of
        Some x \<Rightarrow> if actual \<noteq> x then StepFail (what @ shw x @ '', got '' @ shw actual) else next_check
      | None \<Rightarrow> next_check)"

definition trim_end_newlines :: "string \<Rightarrow> string" where
  "trim_end_newlines s = rev (dropWhile (\<lambda>c. c = CHR 0x0A) (rev s))"

text \<open>\<open>str::lines\<close>: up to each newline, less one carriage return; no line after the last newline.\<close>

definition str_lines :: "string \<Rightarrow> string list" where
  "str_lines s =
     (let ps = split_on (CHR 0x0A) s; ls = (if last ps = [] then butlast ps else ps)
      in map (\<lambda>l. if l \<noteq> [] \<and> last l = CHR 0x0D then butlast l else l) ls)"

section \<open>Steps\<close>

text \<open>\<open>n\<close> bounds the sleeps: after \<open>20 * timeout_seconds\<close> of 50 ms the deadline is over.\<close>

fun wait_exited :: "('s, 'ss) Harness \<Rightarrow> ContainerId \<Rightarrow> u64 \<Rightarrow> string option \<Rightarrow> nat \<Rightarrow> 's \<Rightarrow> StepOutcome \<times> 's" where
  "wait_exited hn cid timeout expect_err n s =
     (let (r, s) = be_container_status (hn_backend hn) cid s
      in case r of
           Inl e \<Rightarrow> (err_outcome ''wait_exited'' e expect_err, s)
         | Inr ct \<Rightarrow>
             if cs_state ct = Exited then
               (case expect_err of
                  Some expected \<Rightarrow>
                    (StepFail (''wait_exited: expected error '' @ squote expected @ '' but container exited''), s)
                | None \<Rightarrow> (StepOk None, s))
             else if hn_over hn s \<or> n = 0 then
               (StepFail (''wait_exited: timeout after '' @ nat_str (unat timeout) @ ''s '' @ em_dash
                  @ '' state was '' @ container_state_debug (cs_state ct)), s)
             else wait_exited hn cid timeout expect_err (n - 1) (hn_sleep hn s))"

declare wait_exited.simps [simp del]

definition exec_check :: "i32 option \<Rightarrow> string option \<Rightarrow> ExecResult \<Rightarrow> StepOutcome" where
  "exec_check expect_exit_code expect_stdout r =
     expect_eq ''exec_sync: expected exit_code '' (\<lambda>i. int_str (sint i)) expect_exit_code (er_exit_code r)
       (case expect_stdout of
          Some expected_out \<Rightarrow>
            let actual_out = from_utf8_lossy (er_stdout r)
            in if trim_end_newlines actual_out \<noteq> trim_end_newlines expected_out then
                 StepFail (''exec_sync: expected stdout '' @ debug_str expected_out @ '', got '' @ debug_str actual_out)
               else StepOk None
        | None \<Rightarrow> StepOk None)"

text \<open>The session of \<open>open_exec\<close>: standard output to its end, then the exit code.\<close>

definition drive_session :: "('s, 'ss) Harness \<Rightarrow> i32 option \<Rightarrow> string option \<Rightarrow> 'ss \<Rightarrow> 's \<Rightarrow> StepOutcome \<times> 's" where
  "drive_session hn expect_exit_code expect_stdout_contains session s =
     (let (out, s) = hn_stdout hn session s
      in case out of
           Inl e \<Rightarrow> (StepFail (''open_exec: read stdout: '' @ e), s)
         | Inr stdout_bytes \<Rightarrow>
             let (code, s) = hn_wait hn session s
             in case code of
                  Inl e \<Rightarrow> (StepFail (''open_exec: waiter.wait(): '' @ error_to_string e), s)
                | Inr exit_code \<Rightarrow>
                    (expect_eq ''open_exec: expected exit_code '' (\<lambda>i. int_str (sint i)) expect_exit_code exit_code
                       (case expect_stdout_contains of
                          Some needle \<Rightarrow>
                            let stdout_str = from_utf8_lossy stdout_bytes
                            in if \<not> contains needle stdout_str then
                                 StepFail (''open_exec: stdout '' @ debug_str stdout_str
                                   @ '' does not contain '' @ debug_str needle)
                               else StepOk None
                        | None \<Rightarrow> StepOk None), s))"

text \<open>Both log steps look the two records up and then check the file.\<close>

definition log_lookup :: "('s, 'ss) Harness \<Rightarrow> string \<Rightarrow> SandboxId \<Rightarrow> ContainerId \<Rightarrow> string option
    \<Rightarrow> (string \<Rightarrow> 's \<Rightarrow> StepOutcome) \<Rightarrow> 's \<Rightarrow> StepOutcome \<times> 's" where
  "log_lookup hn step_name sid cid expect_err check s =
     (let fails = (\<lambda>what e. case expect_err of
            Some expected \<Rightarrow> mismatch (step_name @ '': '' @ what @ '' error: '') e expected
          | None \<Rightarrow> StepFail (step_name @ '': '' @ what @ '' error: '' @ error_to_string e));
          (r, s) = be_sandbox_status (hn_backend hn) sid s
      in case r of
           Inl e \<Rightarrow> (fails ''sandbox_status'' e, s)
         | Inr sb \<Rightarrow>
             let (r, s) = be_container_status (hn_backend hn) cid s
             in case r of
                  Inl e \<Rightarrow> (fails ''container_status'' e, s)
                | Inr ct \<Rightarrow>
                    if expect_err \<noteq> None then
                      (StepFail (step_name @ '': expected error but lookups succeeded''), s)
                    else
                      let log_dir = sc_log_directory (ss_config sb);
                          log_path = cc_log_path (cs_config ct)
                      in if log_dir = [] \<or> log_path = [] then
                           (StepFail (step_name @ '': log_directory='' @ debug_str log_dir @ '' or log_path=''
                              @ debug_str log_path @ '' is empty''), s)
                         else (check (path_join log_dir log_path) s, s))"

definition log_exists :: "('s, 'ss) Harness \<Rightarrow> string \<Rightarrow> 's \<Rightarrow> StepOutcome" where
  "log_exists hn full_path s =
     (if \<not> hn_exists hn s full_path then
        StepFail (''assert_log_exists: log file '' @ debug_str full_path @ '' does not exist'')
      else StepOk None)"

fun check_lines :: "nat \<Rightarrow> string list \<Rightarrow> StepOutcome" where
  "check_lines no [] = StepOk None"
| "check_lines no (line # ls) =
     (if line = [] then check_lines (Suc no) ls
      else case validate_cri_log_line line of
             Inl msg \<Rightarrow> StepFail (''assert_log_format: line '' @ nat_str no @ '': '' @ msg)
           | Inr _ \<Rightarrow> check_lines (Suc no) ls)"

definition log_format :: "('s, 'ss) Harness \<Rightarrow> string \<Rightarrow> 's \<Rightarrow> StepOutcome" where
  "log_format hn full_path s =
     (case hn_read hn s full_path of
        Inl e \<Rightarrow> StepFail (''assert_log_format: read '' @ debug_str full_path @ '': '' @ e)
      | Inr content \<Rightarrow> check_lines 1 (str_lines content))"

definition option_debug :: "string option \<Rightarrow> string" where
  "option_debug x = (case x of None \<Rightarrow> ''None'' | Some s \<Rightarrow> ''Some('' @ debug_str s @ '')'')"

definition sandbox_status_step :: "('s, 'ss) Harness \<Rightarrow> string \<Rightarrow> SandboxState option \<Rightarrow> string option \<Rightarrow> 's \<Rightarrow> StepOutcome \<times> 's" where
  "sandbox_status_step hn i expect_state expect_err s =
     then_check (checked ''sandbox_status'' expect_err (\<lambda>st.
         expect_eq ''sandbox_status: expected state '' sandbox_state_debug expect_state (ss_state st) (StepOk None)))
       (be_sandbox_status (hn_backend hn) (SandboxId i) s)"

definition assert_status_step :: "('s, 'ss) Harness \<Rightarrow> string \<Rightarrow> ContainerState \<Rightarrow> i32 option \<Rightarrow> string option \<Rightarrow> 's \<Rightarrow> StepOutcome \<times> 's" where
  "assert_status_step hn i state exit_code expect_err s =
     then_check (checked ''assert_status'' expect_err (\<lambda>st.
         expect_eq ''assert_status: expected state '' container_state_debug (Some state) (cs_state st)
           (expect_eq ''assert_status: expected exit_code '' (\<lambda>c. int_str (sint c)) exit_code (cs_exit_code st)
             (StepOk None))))
       (be_container_status (hn_backend hn) (ContainerId i) s)"

definition exec_sync_step :: "('s, 'ss) Harness \<Rightarrow> string \<Rightarrow> string list \<Rightarrow> i32 option \<Rightarrow> string option \<Rightarrow> string option \<Rightarrow> 's \<Rightarrow> StepOutcome \<times> 's" where
  "exec_sync_step hn i cmd expect_exit_code expect_stdout expect_err s =
     then_check (checked ''exec_sync'' expect_err (exec_check expect_exit_code expect_stdout))
       (be_exec_sync (hn_backend hn) (ContainerId i) cmd 30 s)"

definition image_status_step :: "('s, 'ss) Harness \<Rightarrow> string \<Rightarrow> bool option \<Rightarrow> string option \<Rightarrow> 's \<Rightarrow> StepOutcome \<times> 's" where
  "image_status_step hn image_ref expect_present expect_err s =
     then_check (checked ''image_status'' expect_err (\<lambda>maybe_record.
         case expect_present of
           Some expected \<Rightarrow>
             if (maybe_record \<noteq> None) \<noteq> expected then
               StepFail (''image_status: expected present='' @ bool_str expected @ '', got present=''
                 @ bool_str (maybe_record \<noteq> None))
             else StepOk None
         | None \<Rightarrow> StepOk None))
       (be_image_status (hn_backend hn) image_ref s)"

definition list_images_step :: "('s, 'ss) Harness \<Rightarrow> nat option \<Rightarrow> string option \<Rightarrow> 's \<Rightarrow> StepOutcome \<times> 's" where
  "list_images_step hn expect_count expect_err s =
     then_check (checked ''list_images'' expect_err (\<lambda>images.
         case expect_count of
           Some expected \<Rightarrow>
             if length images \<noteq> expected then
               StepFail (''list_images: expected '' @ nat_str expected @ '' images, got '' @ nat_str (length images))
             else StepOk None
         | None \<Rightarrow> StepOk None))
       (be_list_images (hn_backend hn) s)"

definition open_exec_step :: "('s, 'ss) Harness \<Rightarrow> string \<Rightarrow> string list \<Rightarrow> bool \<Rightarrow> bool \<Rightarrow> i32 option \<Rightarrow> string option \<Rightarrow> string option \<Rightarrow> 's \<Rightarrow> StepOutcome \<times> 's" where
  "open_exec_step hn i cmd tty stdin expect_exit_code expect_stdout_contains expect_err s =
     (let (r, s) = so_open_exec (hn_stream hn) (ContainerId i) cmd tty stdin s
      in case r of
           Inl e \<Rightarrow> (err_outcome ''open_exec'' e expect_err, s)
         | Inr session \<Rightarrow>
             (case expect_err of
                Some expected \<Rightarrow>
                  (StepFail (''open_exec: expected error '' @ squote expected @ '' but call succeeded''), s)
              | None \<Rightarrow> drive_session hn expect_exit_code expect_stdout_contains session s))"

definition sandbox_status_ip_step :: "('s, 'ss) Harness \<Rightarrow> string \<Rightarrow> bool \<Rightarrow> string option \<Rightarrow> 's \<Rightarrow> StepOutcome \<times> 's" where
  "sandbox_status_ip_step hn i expect_ip_present expect_err s =
     then_check (checked ''sandbox_status_ip'' expect_err (\<lambda>st.
         if (ss_ip st \<noteq> None) \<noteq> expect_ip_present then
           StepFail (''sandbox_status_ip: expected ip_present='' @ bool_str expect_ip_present
             @ '', got ip_present='' @ bool_str (ss_ip st \<noteq> None) @ '' (ip='' @ option_debug (ss_ip st) @ '')'')
         else StepOk None))
       (be_sandbox_status (hn_backend hn) (SandboxId i) s)"

fun execute_step :: "('s, 'ss) Harness \<Rightarrow> Step \<Rightarrow> string option list \<Rightarrow> 's \<Rightarrow> StepOutcome \<times> 's" where
  "execute_step hn (RunSandboxStep cfg expect_err) results s =
     then_check (\<lambda>r. check_err_expectation r expect_err ''run_sandbox'' (\<lambda>i. Some (sid_0 i)))
       (be_run_sandbox (hn_backend hn) cfg s)"
| "execute_step hn (StopSandboxStep i expect_err) results s =
     then_check (\<lambda>r. check_err_expectation r expect_err ''stop_sandbox'' (\<lambda>_. None))
       (be_stop_sandbox (hn_backend hn) (SandboxId (subst i results)) s)"
| "execute_step hn (RemoveSandboxStep i expect_err) results s =
     then_check (\<lambda>r. check_err_expectation r expect_err ''remove_sandbox'' (\<lambda>_. None))
       (be_remove_sandbox (hn_backend hn) (SandboxId (subst i results)) s)"
| "execute_step hn (SandboxStatusStep i expect_state expect_err) results s = sandbox_status_step hn (subst i results) expect_state expect_err s"
| "execute_step hn (CreateContainerStep sandbox cfg expect_err) results s =
     then_check (\<lambda>r. check_err_expectation r expect_err ''create_container'' (\<lambda>i. Some (cid_0 i)))
       (be_create_container (hn_backend hn) (SandboxId (subst sandbox results)) cfg s)"
| "execute_step hn (StartContainerStep i expect_err) results s =
     then_check (\<lambda>r. check_err_expectation r expect_err ''start_container'' (\<lambda>_. None))
       (be_start_container (hn_backend hn) (ContainerId (subst i results)) s)"
| "execute_step hn (StopContainerStep i grace expect_err) results s =
     then_check (\<lambda>r. check_err_expectation r expect_err ''stop_container'' (\<lambda>_. None))
       (be_stop_container (hn_backend hn) (ContainerId (subst i results)) grace s)"
| "execute_step hn (RemoveContainerStep i expect_err) results s =
     then_check (\<lambda>r. check_err_expectation r expect_err ''remove_container'' (\<lambda>_. None))
       (be_remove_container (hn_backend hn) (ContainerId (subst i results)) s)"
| "execute_step hn (AssertStatusStep i state exit_code expect_err) results s = assert_status_step hn (subst i results) state exit_code expect_err s"
| "execute_step hn (WaitExitedStep i timeout expect_err) results s =
     wait_exited hn (ContainerId (subst i results)) timeout expect_err (20 * unat timeout) s"
| "execute_step hn (ExecSyncStep i cmd expect_exit_code expect_stdout expect_err) results s = exec_sync_step hn (subst i results) cmd expect_exit_code expect_stdout expect_err s"
| "execute_step hn (PullImageStep image_ref store_as_result expect_err) results s =
     then_check (\<lambda>r. check_err_expectation r expect_err ''pull_image''
         (\<lambda>pulled. if store_as_result then Some (pi_root_hex pulled) else None))
       (be_pull_image (hn_backend hn) image_ref s)"
| "execute_step hn (ImageStatusStep image_ref expect_present expect_err) results s = image_status_step hn image_ref expect_present expect_err s"
| "execute_step hn (ListImagesStep expect_count expect_err) results s = list_images_step hn expect_count expect_err s"
| "execute_step hn (RemoveImageStep image_ref expect_err) results s =
     then_check (\<lambda>r. check_err_expectation r expect_err ''remove_image'' (\<lambda>_. None))
       (be_remove_image (hn_backend hn) image_ref s)"
| "execute_step hn ReopenBackendStep results s = (StepOk None, hn_reopen hn s)"
| "execute_step hn (OpenExecStep i cmd tty stdin expect_exit_code expect_stdout_contains expect_err) results s = open_exec_step hn (subst i results) cmd tty stdin expect_exit_code expect_stdout_contains expect_err s"
| "execute_step hn (AssertLogExistsStep sandbox_id container_id expect_err) results s =
     log_lookup hn ''assert_log_exists'' (SandboxId (subst sandbox_id results))
       (ContainerId (subst container_id results)) expect_err (log_exists hn) s"
| "execute_step hn (AssertLogFormatStep sandbox_id container_id expect_err) results s =
     log_lookup hn ''assert_log_format'' (SandboxId (subst sandbox_id results))
       (ContainerId (subst container_id results)) expect_err (log_format hn) s"
| "execute_step hn (SandboxStatusIpStep i expect_ip_present expect_err) results s = sandbox_status_ip_step hn (subst i results) expect_ip_present expect_err s"

section \<open>Running\<close>

fun run_steps :: "('s, 'ss) Harness \<Rightarrow> string \<Rightarrow> nat \<Rightarrow> Step list \<Rightarrow> string option list \<Rightarrow> 's \<Rightarrow> string option" where
  "run_steps hn name step_idx [] results s = None"
| "run_steps hn name step_idx (step # steps) results s =
     (case execute_step hn step results s of
        (StepOk val, s) \<Rightarrow> run_steps hn name (Suc step_idx) steps (results @ [val]) s
      | (StepFail msg, s) \<Rightarrow>
          Some (''vector '' @ squote name @ '' step '' @ nat_str step_idx @ '': '' @ msg))"

text \<open>\<open>None\<close> is a pass; \<open>k\<close> numbers the calls of the factory's \<open>fresh\<close>.\<close>

definition run_vector :: "('s, 'ss) Harness \<Rightarrow> nat \<Rightarrow> Vector \<Rightarrow> string option" where
  "run_vector hn k v = run_steps hn (ve_name v) 0 (ve_steps v) [] (hn_fresh hn k)"

text \<open>The files of the directory in order: a path, what reading it gives, and the parsed vector.\<close>

fun run_files :: "('s, 'ss) Harness \<Rightarrow> (string \<Rightarrow> string + string) \<Rightarrow> (string \<Rightarrow> string + Vector) \<Rightarrow> nat
    \<Rightarrow> string list \<Rightarrow> VectorReport \<Rightarrow> string + VectorReport" where
  "run_files hn rd parse k [] report = Inr report"
| "run_files hn rd parse k (path # paths) report =
     (case rd path of
        Inl e \<Rightarrow> Inl e
      | Inr raw \<Rightarrow>
          (case parse raw of
             Inl e \<Rightarrow> run_files hn rd parse k paths
                 (report\<lparr>vp_failed := vp_failed report @ [''parse error in '' @ path @ '': '' @ e]\<rparr>)
           | Inr v \<Rightarrow>
               run_files hn rd parse (Suc k) paths
                 (case run_vector hn k v of
                    None \<Rightarrow> report\<lparr>vp_passed := Suc (vp_passed report)\<rparr>
                  | Some msg \<Rightarrow> report\<lparr>vp_failed := vp_failed report @ [msg]\<rparr>)))"

definition run_vectors :: "('s, 'ss) Harness \<Rightarrow> string \<Rightarrow> string + string list \<Rightarrow> (string \<Rightarrow> string + string)
    \<Rightarrow> (string \<Rightarrow> string + Vector) \<Rightarrow> string + VectorReport" where
  "run_vectors hn dir listing rd parse =
     (case listing of
        Inl e \<Rightarrow> Inl e
      | Inr names \<Rightarrow>
          run_files hn rd parse 0
            (sort (map (path_join dir) (filter (\<lambda>n. extension n = Some ''json'') names)))
            \<lparr>vp_passed = 0, vp_failed = []\<rparr>)"

end
