(* ===== verification/Vector_Props.thy ===== *)
theory Vector_Props
  imports Vectors Fake_Props
begin

text \<open>
  The properties of the conformance runner: what its verdict on a vector means, and vectors of
  the repository that hold for every backend that keeps the laws of the seam, or for the fake.
\<close>

section \<open>The verdict\<close>

lemma run_steps_pass:
  "execute_step hn step results s = (StepOk val, s') \<Longrightarrow>
    run_steps hn name k (step # steps) results s = run_steps hn name (Suc k) steps (results @ [val]) s'"
  by simp

text \<open>A prefix that passes, with its results and its final state.\<close>

inductive passes :: "('s, 'ss) Harness \<Rightarrow> Step list \<Rightarrow> string option list \<Rightarrow> 's
    \<Rightarrow> string option list \<Rightarrow> 's \<Rightarrow> bool" for hn where
  passes_nil: "passes hn [] results s results s"
| passes_step: "execute_step hn step results s = (StepOk val, s') \<Longrightarrow>
    passes hn steps (results @ [val]) s' results' s'' \<Longrightarrow> passes hn (step # steps) results s results' s''"

inductive_simps passes_simps [simp]: "passes hn [] results s results' s'"
  "passes hn (step # steps) results s results' s'"

lemma run_steps_None:
  "run_steps hn name k steps results s = None \<longleftrightarrow> (\<exists>results' s'. passes hn steps results s results' s')"
proof (induction steps arbitrary: k results s)
  case Nil
  then show ?case by simp
next
  case (Cons step steps)
  show ?case
    by (cases "execute_step hn step results s"; cases "fst (execute_step hn step results s)")
      (auto simp: Cons.IH)
qed

lemma run_steps_Some:
  "run_steps hn name k steps results s = Some msg \<longleftrightarrow>
    (\<exists>pre step post results' s' m s''. steps = pre @ step # post \<and> passes hn pre results s results' s' \<and>
      execute_step hn step results' s' = (StepFail m, s'') \<and>
      msg = ''vector '' @ squote name @ '' step '' @ nat_str (k + length pre) @ '': '' @ m)"
  (is "_ \<longleftrightarrow> ?fails k steps results s")
proof (induction steps arbitrary: k results s)
  case Nil
  then show ?case by simp
next
  case (Cons step steps)
  obtain out s1 where x: "execute_step hn step results s = (out, s1)" by force
  show ?case
  proof (cases out)
    case (StepOk val)
    have "?fails k (step # steps) results s \<longleftrightarrow> ?fails (Suc k) steps (results @ [val]) s1"
    proof
      assume "?fails k (step # steps) results s"
      then obtain pre st post results' s' m s'' where f: "step # steps = pre @ st # post"
        "passes hn pre results s results' s'" "execute_step hn st results' s' = (StepFail m, s'')"
        "msg = ''vector '' @ squote name @ '' step '' @ nat_str (k + length pre) @ '': '' @ m"
        by blast
      obtain pre' where pre: "pre = step # pre'" "steps = pre' @ st # post"
        using f(1,2,3) x StepOk by (cases pre) auto
      then have "passes hn pre' (results @ [val]) s1 results' s'"
        using f(2) x StepOk by simp
      then show "?fails (Suc k) steps (results @ [val]) s1"
        using f(3,4) pre by (intro exI [of _ pre']) auto
    next
      assume "?fails (Suc k) steps (results @ [val]) s1"
      then obtain pre st post results' s' m s'' where f: "steps = pre @ st # post"
        "passes hn pre (results @ [val]) s1 results' s'" "execute_step hn st results' s' = (StepFail m, s'')"
        "msg = ''vector '' @ squote name @ '' step '' @ nat_str (Suc k + length pre) @ '': '' @ m"
        by blast
      then have "passes hn (step # pre) results s results' s'"
        using x StepOk by simp
      then show "?fails k (step # steps) results s"
        using f by (intro exI [of _ "step # pre"]) auto
    qed
    then show ?thesis using Cons.IH [of "Suc k" "results @ [val]" s1] x StepOk by simp
  next
    case (StepFail m)
    have "?fails k (step # steps) results s \<longleftrightarrow>
        msg = ''vector '' @ squote name @ '' step '' @ nat_str k @ '': '' @ m"
    proof
      assume "?fails k (step # steps) results s"
      then obtain pre st post results' s' m' s'' where f: "step # steps = pre @ st # post"
        "passes hn pre results s results' s'" "execute_step hn st results' s' = (StepFail m', s'')"
        "msg = ''vector '' @ squote name @ '' step '' @ nat_str (k + length pre) @ '': '' @ m'"
        by blast
      then have "pre = []" using x StepFail by (cases pre) auto
      then show "msg = ''vector '' @ squote name @ '' step '' @ nat_str k @ '': '' @ m"
        using f x StepFail by auto
    next
      assume "msg = ''vector '' @ squote name @ '' step '' @ nat_str k @ '': '' @ m"
      then show "?fails k (step # steps) results s"
        using x StepFail by (intro exI [of _ "[]"]) auto
    qed
    then show ?thesis using x StepFail by auto
  qed
qed

text \<open>C38: A vector passes exactly when every step passes in turn, each seeing the results of those
  before it; otherwise the message names the vector, the index of the first step that fails
  and what was wrong with it.\<close>

theorem vector_verdict:
  "(run_vector hn k v = None \<longleftrightarrow> (\<exists>results s. passes hn (ve_steps v) [] (hn_fresh hn k) results s)) \<and>
   (run_vector hn k v = Some msg \<longleftrightarrow> (\<exists>pre step post results s m s'.
      ve_steps v = pre @ step # post \<and> passes hn pre [] (hn_fresh hn k) results s \<and>
      execute_step hn step results s = (StepFail m, s') \<and>
      msg = ''vector '' @ squote (ve_name v) @ '' step '' @ nat_str (length pre) @ '': '' @ m))"
  by (simp add: run_vector_def run_steps_None run_steps_Some)

section \<open>Vectors of the repository\<close>

lemma subst_results [simp]:
  "subst ''$0'' (Some x # rs) = x" "subst ''$1'' (r # Some x # rs) = x"
proof -
  have str: "nat_str 0 = ''0''" "nat_str 1 = ''1''"
    by code_simp+
  have "parse_uint (2 ^ 64) (nat_str 0) = Some 0" "parse_uint (2 ^ 64) (nat_str 1) = Some 1"
    by simp_all
  then have "parse_uint (2 ^ 64) ''0'' = Some 0" "parse_uint (2 ^ 64) ''1'' = Some 1"
    by (simp_all only: str)
  then show "subst ''$0'' (Some x # rs) = x" "subst ''$1'' (r # Some x # rs) = x"
    by (simp_all add: subst_def)
qed








definition demo_harness :: "(demo_file Fake, BackendSession) Harness" where
  "demo_harness = \<lparr>hn_backend = fake_backend demo_env demo_serde, hn_stream = fake_stream demo_env,
     hn_fresh = (\<lambda>k. fresh_backend ''/s''), hn_reopen = open_backend demo_env demo_serde,
     hn_sleep = id, hn_over = (\<lambda>_. True), hn_exists = (\<lambda>_ _. False), hn_read = (\<lambda>_ _. Inl ''no such file''),
     hn_stdout = (\<lambda>_ s. (Inr [], s)), hn_wait = (\<lambda>_ s. (Inr 0, s))\<rparr>"

lemma demo_no_cni [simp]: "no_cni demo_env"
  by (simp add: no_cni_def demo_env_def)

lemma demo_harness_simps [simp]:
  "hn_backend demo_harness = fake_backend demo_env demo_serde"
  "hn_fresh demo_harness k = fresh_backend ''/s''"
  "hn_reopen demo_harness = open_backend demo_env demo_serde"
  by (simp_all add: demo_harness_def)


section \<open>Recovery\<close>






end
