(* ===== verification/Spec2Isabelle.thy ===== *)
theory Spec2Isabelle
  imports Stream_Props Fake_Call_Props Fake_Wf Child_Setup Grpc_Router Acceptance Log_Props Spdy_Zlib Spdy_Exec_Props Spdy_Forward_Props Shell_Props Cni_Props Netns Vector_Props
begin

text \<open>
  A model of \<open>lightr-cri\<close>, a container runtime interface server for Kubernetes (\<open>src/crates\<close>).
  Its parts are a seam of plain data types between the RPC shell and a backend
  (\<open>lightr-cri-backend\<close>), a backend that runs containers as host processes and keeps its records as
  JSON files (\<open>lightr-cri-fake\<close>), the streaming server for exec, attach and port forwarding over
  WebSocket and SPDY (\<open>lightr-cri-stream\<close>), the CNI driver (\<open>lightr-cri-net\<close>), the RPC
  shell (\<open>lightr-cri-shell\<close>) and a conformance harness (\<open>lightr-cri-vectors\<close>).

  \<^bold>\<open>Foundations.\<close>  \<open>Cri_Prelude\<close>: bytes, strings as their UTF-8 bytes, the parts of Rust's standard
  library the code uses.  \<open>Ordered_Map\<close>: \<open>BTreeMap\<close> and \<open>HashMap\<close> as sorted association lists.
  \<open>Codec_Laws\<close>: the locales \<open>codec\<close> and \<open>framed\<close>, the contract of the byte formats, with
  reassembly from chunks proved once; interpreted by base64, the channel framing and the SPDY
  frames.  \<open>Json_Value\<close>: parsed JSON.

  \<^bold>\<open>Backend\<close> (\<open>lightr-cri-fake/src/lib.rs\<close>).  \<open>Cri_Vocab\<close>: the data types and errors of
  \<open>lightr-cri-backend\<close>.  \<open>Fake_State\<close>: the state - the cache of records, the files of the three
  directories, the in-process handles - and the environment the calls ask (clock, file system,
  processes, CNI plugins, serde) as parameters and the effects on it as a list.  An operation is a
  function of the state that returns an error or a result; a Rust \<open>?\<close> is a bind of that sum, and
  what was changed before an error stays changed.  \<open>Fake_Sandbox\<close> (sandboxes, CNI attachment,
  \<open>open\<close> with its crash recovery), \<open>Fake_Container\<close> (create, start with its persisted intent,
  the reaper as a transition of its own, stop, remove, status, statistics), \<open>Fake_Exec\<close>,
  \<open>Fake_Images\<close>.  \<open>Fake_Laws\<close>, \<open>Fake_Ops\<close> and \<open>Fake_System\<close> are the proofs: a step of any call
  is a sequence of primitive steps (\<open>prim\<close>), the invariants are shown for the primitive steps and
  lifted to runs of calls and reaper firings; \<open>Fake_Props\<close> has crash recovery and the monotone life
  cycle, \<open>Fake_Call_Props\<close> what each call promises, \<open>Fake_Wf\<close> that every reachable state is
  well-formed (and what recovery loses of that).  \<open>Child_Setup\<close> is what a child does between fork and
  exec, over a kernel each of whose calls may fail.  \<open>Civil_Date\<close> and \<open>Cri_Log\<close> are the
  log: the date conversion, the line format, the tee thread and the fan-out to attached clients;
  \<open>Log_Props\<close> has their properties.

  \<^bold>\<open>Streaming\<close> (\<open>lightr-cri-stream/src\<close>).  \<open>Token_Registry\<close> (\<open>token.rs\<close>), \<open>Base64\<close> (\<open>b64.rs\<close>),
  \<open>Channel_Framing\<close> (\<open>channel.rs\<close>), \<open>Exit_Status\<close> (\<open>status.rs\<close>), \<open>Ws_Session\<close> (\<open>ws.rs\<close>),
  \<open>Port_Forward\<close> (\<open>portforward.rs\<close>), \<open>Stream_Server\<close> (\<open>server.rs\<close>), \<open>Protocol_Negotiation\<close>
  (\<open>spdy/mod.rs\<close>), \<open>Spdy_Frame\<close> (\<open>spdy/frame.rs\<close>), \<open>Spdy_Headers\<close> (\<open>spdy/headers.rs\<close>);
  \<open>Stream_Props\<close> has their properties.  \<open>Spdy_Conn\<close> and \<open>Spdy_Forward\<close> are the two drivers of
  \<open>spdy/conn.rs\<close>.  There several tasks run at once; a step of any of them is an event, a
  run is a list of events, and a theorem over all runs is one over all interleavings.
  \<open>Spdy_Conn_Laws\<close> and \<open>Spdy_Exec_Props\<close> show what every exec run keeps and delivers,
  \<open>Spdy_Forward_Props\<close> the same for port forwarding.  \<open>Spdy_Zlib\<close> (\<open>spdy/zlib.rs\<close>, \<open>spdy/dict.rs\<close>) has
  the dictionary and the drain loops of the header codecs, over the streams of \<open>flate2\<close>, and puts
  them behind the drivers.

  \<^bold>\<open>Shell and server\<close> (\<open>lightr-cri-shell/src\<close>, \<open>lightr-cri-server/src\<close>).  \<open>Cri_Seam\<close> is the trait
  \<open>CriBackend\<close> as a record of operations over any backend state, and the locale \<open>cri_backend\<close> with
  the laws the trait documents; \<open>Fake_Backend\<close> is the fake backend as such a record and proves the
  laws.  \<open>Cri_Messages\<close> has the gRPC messages; \<open>Shell_Runtime\<close> and \<open>Shell_Image\<close> every handler, as
  a function from a request and the shell's state (backend, token registry, base URL) to a gRPC
  status or a response.  \<open>Shell_Laws\<close> shows inside the locale what the shell promises over any
  lawful backend.  \<open>Server_Root\<close> (session factory, start-up order, arguments) connects shell,
  stream server and backend; \<open>Shell_Props\<close> has the properties of the whole: what a caller of the
  RPCs reads back, and what a URL opens.  \<open>Grpc_Router\<close> is the generated dispatch in front of the
  handlers, for every path and body, over the codecs prost derives; it shows which requests can
  change anything at all.

  \<^bold>\<open>Networking\<close> (\<open>lightr-cri-net/src\<close>).  \<open>Cni_Chain\<close> is \<open>chain.rs\<close>: ADD and DEL over a list of
  plugins, whose answers may depend on every execution before; \<open>Cni_Props\<close> shows what the plugins
  are given and how a chain ends, and puts the chain behind the fake backend's \<open>run_sandbox\<close>.
  \<open>Netns\<close> is \<open>netns.rs\<close> with the probe of \<open>lib.rs\<close>: each operation as the list of its system
  calls, and the law that a file is unlinked only after it was unmounted.

  \<^bold>\<open>Conformance\<close> (\<open>lightr-cri-vectors/src/lib.rs\<close>).  \<open>Vectors\<close> is the runner: every step, its
  expectations and its messages, over any backend.  \<open>Vector_Props\<close> characterises its verdict and
  shows vectors of the repository to pass: the sandbox life cycle for every backend of the locale
  \<open>reliable_backend\<close>, the crash-recovery one for the fake in every environment with a working disk.
  \<open>Acceptance\<close> is the harness of the acceptance tests (\<open>lightr-cri-acceptance/src/lib.rs\<close>).

  \<^bold>\<open>Bounds and fuel.\<close>  Loops over input are recursions on it; a loop that waits for events is a
  recursion on the list of events, and where its end matters that is a theorem of its own.  The two
  polling loops, \<open>exec_poll\<close> and \<open>wait_until_exited\<close>, count their sleeps: after timeout / sleep of them the
  deadline is over whatever the clock says, so the bound is never what ends the loop early.  The
  drain loops of the header codecs have no bound in the code: they are partial functions, and
  \<open>Spdy_Zlib\<close> shows that they return.  Machine words keep their width: \<open>u8\<close>, \<open>u16\<close>, \<open>u32\<close>, \<open>u64\<close>, \<open>i32\<close> and \<open>i64\<close>
  are words and their arithmetic wraps.

  \<^bold>\<open>Not modelled.\<close>  The generated protobuf messages of calls the runtime refuses, and their encoding
  (derived by prost: the parameter \<open>Wire\<close>); deflate and inflate themselves (the parameter \<open>Flate\<close> with
  the laws \<open>flate_laws\<close>); the file descriptor adapters of \<open>bridge.rs\<close>; the tests, which drive a running
  server; examples.
\<close>

end
